(* ===== verification/Prelude.thy ===== *)
theory Prelude
  imports Main "HOL-Library.Word" "HOL-Library.Monad_Syntax" "HOL-Library.While_Combinator"
begin

unbundle bit_operations_syntax

text \<open>
  Shared ground of the development: the C integer types of the i386 target as words, the
  bit macro of LCF, C character arrays with the string routines of the C library that the
  program calls, decimal printing and reading, and the generic lemmas the components use.
  A write or a read past the end of an array, which C leaves undefined, is the value
  \<^const>\<open>None\<close>.
\<close>

named_theorems port_consts \<open>the port numbers, masks and commands of the device headers\<close>
named_theorems c_string \<open>the meaning of the C string routines on terminated arrays\<close>

type_synonym u8 = "8 word"
type_synonym u16 = "16 word"
type_synonym u32 = "32 word"
type_synonym i16 = "16 word"
type_synonym i32 = "32 word"

abbreviation (input) OK :: i32 where
  "OK \<equiv> 0"

section \<open>Machine words\<close>

definition BIT :: "nat \<Rightarrow> u32" where
  "BIT n = push_bit n 1"

lemma ucast_u8_u32 [simp]: "ucast (ucast (x :: u8) :: u32) = x"
  by (rule bit_word_eqI) (simp add: bit_simps)

lemma ucast_u16_small: "unat (x :: u32) < 65536 \<Longrightarrow> unat (ucast x :: u16) = unat x"
  by (simp add: unsigned_ucast_eq take_bit_nat_eq_self)

lemma u8_and_BIT: "n < 32 \<Longrightarrow> (ucast (x :: u8) AND BIT n = 0) \<longleftrightarrow> \<not> bit x n"
  by (auto simp: BIT_def push_bit_eq_mult and_exp_eq_0_iff_not_bit bit_simps dest: bit_imp_le_length)

lemma u8_and_BIT_drop: "n < 8 \<Longrightarrow> (drop_bit n (ucast (x :: u8) AND BIT n) = 0) \<longleftrightarrow> \<not> bit x n"
  unfolding bit_eq_iff [of "drop_bit n _"] 
  by (auto simp: BIT_def bit_simps dest: spec [of _ 0] intro: gr0I)

definition sdiv_int :: "int \<Rightarrow> int \<Rightarrow> int" where
  "sdiv_int a b = sgn a * sgn b * (\<bar>a\<bar> div \<bar>b\<bar>)"

lemma u8_bound: "unat (x :: u8) < 256"
proof -
  have "unat x < 2 ^ LENGTH(8)" by (rule unsigned_less)
  then show ?thesis by simp
qed

lemma u16_bound: "unat (x :: u16) < 65536"
proof -
  have "unat x < 2 ^ LENGTH(16)" by (rule unsigned_less)
  then show ?thesis by simp
qed

lemma u32_bound: "unat (x :: u32) < 4294967296"
proof -
  have "unat x < 2 ^ LENGTH(32)" by (rule unsigned_less)
  then show ?thesis by simp
qed

lemma u32_decr_le: "0 < (x :: u32) \<Longrightarrow> x \<le> b \<Longrightarrow> x - 1 \<le> b"
  by unat_arith

lemma u32_decr_unat: "0 < unat (x :: u32) \<Longrightarrow> unat (x - 1) = unat x - 1"
  by unat_arith

lemma u32_incr_unat: "(x :: u32) < y \<Longrightarrow> unat (x + 1) = unat x + 1"
  using u32_bound [of y] by (simp add: unat_word_ariths word_less_nat_alt)

lemma sint_of_nat_small: "n < 2 ^ 31 \<Longrightarrow> sint (of_nat n :: 32 word) = int n"
  by (simp add: signed_of_nat signed_take_bit_int_eq_self)

lemma sint_of_nat_u32: "unat (x :: u32) < 2 ^ 31 \<Longrightarrow> sint x = int (unat x)"
  using sint_of_nat_small [of "unat x"] by simp

section \<open>C character arrays\<close>

abbreviation NUL :: char where
  "NUL \<equiv> CHR 0x00"

definition c_str :: "char list \<Rightarrow> string" where
  "c_str a = takeWhile (\<lambda>c. c \<noteq> NUL) a"

definition c_lit :: "string \<Rightarrow> char list" where
  "c_lit s = s @ [NUL]"

definition c_terminated :: "char list \<Rightarrow> bool" where
  "c_terminated a \<longleftrightarrow> NUL \<in> set a"

definition c_memset0 :: "char list \<Rightarrow> char list" where
  "c_memset0 a = replicate (length a) NUL"

definition c_strlen :: "char list \<Rightarrow> nat option" where
  "c_strlen a = (if c_terminated a then Some (length (c_str a)) else None)"

definition c_put :: "char list \<Rightarrow> nat \<Rightarrow> string \<Rightarrow> char list option" where
  "c_put a i s = (if i + length s \<le> length a
                  then Some (take i a @ s @ drop (i + length s) a) else None)"

definition c_strcpy :: "char list \<Rightarrow> char list \<Rightarrow> char list option" where
  "c_strcpy dst src = (if c_terminated src then c_put dst 0 (c_str src @ [NUL]) else None)"

definition c_strcat :: "char list \<Rightarrow> char list \<Rightarrow> char list option" where
  "c_strcat dst src =
     (if c_terminated dst \<and> c_terminated src
      then c_put dst (length (c_str dst)) (c_str src @ [NUL]) else None)"

section \<open>Decimal numbers\<close>

definition digit :: "nat \<Rightarrow> char" where
  "digit d = char_of (48 + d)"

fun dec_nat :: "nat \<Rightarrow> string" where
  "dec_nat n = (if n < 10 then [digit n] else dec_nat (n div 10) @ [digit (n mod 10)])"

declare dec_nat.simps [simp del]

definition dec_int :: "int \<Rightarrow> string" where
  "dec_int i = (if i < 0 then CHR ''-'' # dec_nat (nat (- i)) else dec_nat (nat i))"

definition c_sprintf_d :: "char list \<Rightarrow> int \<Rightarrow> char list option" where
  "c_sprintf_d a i = c_put a 0 (dec_int i @ [NUL])"

definition is_digit :: "char \<Rightarrow> bool" where
  "is_digit c \<longleftrightarrow> 48 \<le> (of_char c :: nat) \<and> (of_char c :: nat) \<le> 57"

fun read_digits :: "nat \<Rightarrow> string \<Rightarrow> nat option" where
  "read_digits acc [] = None"
| "read_digits acc (c # cs) =
     (if is_digit c then read_digits (10 * acc + (of_char c - 48)) cs else Some acc)"

definition is_space :: "char \<Rightarrow> bool" where
  "is_space c \<longleftrightarrow> (of_char c :: nat) = 32 \<or> 9 \<le> (of_char c :: nat) \<and> (of_char c :: nat) \<le> 13"

definition c_atoi :: "char list \<Rightarrow> int option" where
  "c_atoi a =
     (case dropWhile is_space a of
        [] \<Rightarrow> None
      | c # cs \<Rightarrow>
          (if c = CHR ''-'' then map_option (\<lambda>n. - int n) (read_digits 0 cs)
           else if c = CHR ''+'' then map_option int (read_digits 0 cs)
           else map_option int (read_digits 0 (c # cs))))"


section \<open>Lemmas on character arrays\<close>

text \<open>An array of size \<open>n\<close> that holds the terminated string \<open>s\<close>.\<close>

definition c_holds :: "char list \<Rightarrow> string \<Rightarrow> nat \<Rightarrow> bool" where
  "c_holds a s n \<longleftrightarrow> length a = n \<and> c_terminated a \<and> c_str a = s"

lemma c_str_append_NUL [simp]: "NUL \<notin> set s \<Longrightarrow> c_str (s @ NUL # r) = s"
  unfolding c_str_def by (induction s) auto

lemma NUL_notin_c_str [simp]: "NUL \<notin> set (c_str a)"
  by (auto simp: c_str_def dest: set_takeWhileD)

lemma c_terminated_append [simp]:
  "c_terminated (a @ b) \<longleftrightarrow> c_terminated a \<or> c_terminated b"
  "c_terminated (x # b) \<longleftrightarrow> x = NUL \<or> c_terminated b"
  "\<not> c_terminated []"
  by (auto simp: c_terminated_def)

lemma c_str_length: "c_terminated a \<Longrightarrow> length (c_str a) < length a"
  unfolding c_terminated_def c_str_def
  by (induction a) auto

lemma c_str_split: "c_terminated a \<Longrightarrow> \<exists>r. a = c_str a @ NUL # r"
  unfolding c_terminated_def c_str_def
  by (induction a) auto

lemma take_c_str: "take (length (c_str a)) a = c_str a"
  unfolding c_str_def by (rule takeWhile_eq_take [symmetric])

lemma c_holds_length: "c_holds a s n \<Longrightarrow> length a = n"
  by (simp add: c_holds_def)

lemma c_holds_bound: "c_holds a s n \<Longrightarrow> length s < n"
  using c_str_length by (auto simp: c_holds_def)

lemma c_holds_no_NUL: "c_holds a s n \<Longrightarrow> NUL \<notin> set s"
  by (auto simp: c_holds_def)

lemma c_holds_appendI:
  "NUL \<notin> set s \<Longrightarrow> length s + 1 + length r = n \<Longrightarrow> c_holds (s @ NUL # r) s n"
  by (simp add: c_holds_def)

lemma c_holds_memset0 [simp]: "0 < length a \<Longrightarrow> c_holds (c_memset0 a) [] (length a)"
  by (cases a) (auto simp: c_holds_def c_memset0_def c_terminated_def c_str_def)

lemma c_holds_lit [simp]: "NUL \<notin> set s \<Longrightarrow> c_holds (c_lit s) s (Suc (length s))"
  by (simp add: c_holds_def c_lit_def)

lemma length_c_memset0 [simp]: "length (c_memset0 a) = length a"
  by (simp add: c_memset0_def)

lemma c_put_length: "c_put a i s = Some b \<Longrightarrow> length b = length a"
  by (auto simp: c_put_def split: if_splits)

lemma c_strcpy_length: "c_strcpy a s = Some b \<Longrightarrow> length b = length a"
  by (auto simp: c_strcpy_def split: if_splits dest: c_put_length)

lemma c_strcat_length: "c_strcat a s = Some b \<Longrightarrow> length b = length a"
  by (auto simp: c_strcat_def split: if_splits dest: c_put_length)

lemma c_put0_holds:
  assumes "NUL \<notin> set s" and "length s < length a"
  shows "c_put a 0 (s @ [NUL]) = Some (s @ NUL # drop (Suc (length s)) a)"
    and "c_holds (s @ NUL # drop (Suc (length s)) a) s (length a)"
  using assms by (auto simp: c_put_def c_holds_def)

lemma c_strcpy_holds:
  assumes "c_holds src s m" and "length s < length dst"
  shows "\<exists>r. c_strcpy dst src = Some r \<and> c_holds r s (length dst)"
  using assms c_put0_holds [of s dst] c_holds_no_NUL [OF assms(1)]
  by (auto simp: c_strcpy_def c_holds_def)

lemma c_strcat_holds:
  assumes d: "c_holds dst s n" and t: "c_holds src t m" and fit: "length s + length t < n"
  shows "\<exists>r. c_strcat dst src = Some r \<and> c_holds r (s @ t) n"
proof -
  have s: "take (length s) dst = s"
    using d take_c_str [of dst] by (simp add: c_holds_def)
  have nul: "NUL \<notin> set (s @ t)"
    using c_holds_no_NUL [OF d] c_holds_no_NUL [OF t] by simp
  have "c_strcat dst src = Some ((s @ t) @ NUL # drop (Suc (length s + length t)) dst)"
    using d t fit s by (simp add: c_strcat_def c_put_def c_holds_def)
  moreover have "c_holds ((s @ t) @ NUL # drop (Suc (length s + length t)) dst) (s @ t) n"
    using nul fit c_holds_length [OF d] by (intro c_holds_appendI) auto
  ultimately show ?thesis by blast
qed

section \<open>Lemmas on decimal numbers\<close>

lemma of_char_digit [simp]: "d < 10 \<Longrightarrow> (of_char (digit d) :: nat) = 48 + d"
  by (simp add: digit_def)

lemma is_digit_digit [simp]: "d < 10 \<Longrightarrow> is_digit (digit d)"
  by (simp add: is_digit_def)

lemma dec_nat_digits: "c \<in> set (dec_nat n) \<Longrightarrow> is_digit c"
proof (induction n rule: dec_nat.induct)
  case (1 n)
  then show ?case
    by (auto simp: dec_nat.simps [of n] split: if_splits)
qed

lemma dec_nat_not_Nil [simp]: "dec_nat n \<noteq> []"
  by (simp add: dec_nat.simps [of n])

lemma not_digit_NUL [simp]: "\<not> is_digit NUL" "\<not> is_digit CHR 0x20" "\<not> is_digit CHR ''-''"
    "\<not> is_digit CHR ''+''"
  by (simp_all add: is_digit_def)

lemma NUL_notin_dec_nat [simp]: "NUL \<notin> set (dec_nat n)"
  using dec_nat_digits not_digit_NUL(1) by blast

lemma NUL_notin_dec_int [simp]: "NUL \<notin> set (dec_int i)"
  by (simp add: dec_int_def)

lemma dec_nat_length_le: "n < 10 ^ Suc k \<Longrightarrow> length (dec_nat n) \<le> Suc k"
proof (induction k arbitrary: n)
  case 0
  then show ?case by (simp add: dec_nat.simps [of n])
next
  case (Suc k)
  show ?case
  proof (cases "n < 10")
    case True
    then show ?thesis by (simp add: dec_nat.simps [of n])
  next
    case False
    have "n div 10 < 10 ^ Suc k"
      using Suc.prems by (simp add: less_mult_imp_div_less)
    then have "length (dec_nat (n div 10)) \<le> Suc k" by (rule Suc.IH)
    with False show ?thesis by (simp add: dec_nat.simps [of n])
  qed
qed

lemma dec_nat_length_ge: "10 ^ k \<le> n \<Longrightarrow> Suc k \<le> length (dec_nat n)"
proof (induction k arbitrary: n)
  case 0
  then show ?case by (cases "dec_nat n") auto
next
  case (Suc k)
  have "10 \<le> n" using Suc.prems
    by (metis le_trans mult.right_neutral mult_le_mono2 one_le_numeral one_le_power power_Suc)
  moreover have "10 ^ k \<le> n div 10"
    using Suc.prems by (simp add: less_eq_div_iff_mult_less_eq mult.commute)
  then have "Suc k \<le> length (dec_nat (n div 10))" by (rule Suc.IH)
  ultimately show ?case by (simp add: dec_nat.simps [of n])
qed

lemma read_digits_append:
  "(\<And>c. c \<in> set ds \<Longrightarrow> is_digit c) \<Longrightarrow> \<not> is_digit e \<Longrightarrow>
   read_digits acc (ds @ e # r) = Some (foldl (\<lambda>a c. 10 * a + (of_char c - 48)) acc ds)"
  by (induction ds arbitrary: acc) auto

lemma foldl_dec_nat: "foldl (\<lambda>a c. 10 * a + (of_char c - 48)) 0 (dec_nat n) = n"
proof (induction n rule: dec_nat.induct)
  case (1 n)
  then show ?case by (simp add: dec_nat.simps [of n])
qed

lemma c_atoi_dec_nat: "\<not> is_digit e \<Longrightarrow> c_atoi (dec_nat n @ e # r) = Some (int n)"
proof -
  assume e: "\<not> is_digit e"
  obtain c cs where c: "dec_nat n = c # cs"
    using dec_nat_not_Nil by (cases "dec_nat n") blast+
  then have "is_digit c" using dec_nat_digits [of c n] by simp
  then have "\<not> is_space c" and "c \<noteq> CHR ''-''" and "c \<noteq> CHR ''+''"
    by (auto simp: is_digit_def is_space_def)
  moreover have "read_digits 0 (dec_nat n @ e # r) = Some n"
    using e dec_nat_digits by (subst read_digits_append) (auto simp: foldl_dec_nat)
  ultimately show ?thesis by (simp add: c_atoi_def c)
qed

section \<open>Handlers of events\<close>

text \<open>
  A program driven by events is a handler that takes an event and a state to the next state, or to
  \<^const>\<open>None\<close> when the code is undefined or does not return. The interface asks that a handler
  always returns on a state of the invariant and keeps it; what it gives is the same of every
  sequence of events.
\<close>

primrec run_events :: "('e \<Rightarrow> 's \<Rightarrow> 's option) \<Rightarrow> 'e list \<Rightarrow> 's \<Rightarrow> 's option" where
  "run_events handle [] s = Some s"
| "run_events handle (e # es) s = Option.bind (handle e s) (run_events handle es)"

lemma run_events_done [simp]: "s \<bind> run_events handle [] = s"
  by (cases s) simp_all

lemma run_events_append:
  "run_events handle (es @ fs) s = Option.bind (run_events handle es s) (run_events handle fs)"
proof (induction es arbitrary: s)
  case (Cons e es)
  then show ?case by (cases "handle e s") simp_all
qed simp

locale guarded_handler =
  fixes handle :: "'e \<Rightarrow> 's \<Rightarrow> 's option"
    and inv :: "'s \<Rightarrow> bool"
    and guard :: "'s \<Rightarrow> bool"
  assumes step: "inv s \<Longrightarrow> guard s \<Longrightarrow> \<exists>s'. handle e s = Some s' \<and> inv s'"
begin

lemma run_guarded:
  assumes "inv s"
  shows "(\<exists>s'. run_events handle es s = Some s' \<and> inv s') \<or>
    (\<exists>ps qs s1. es = ps @ qs \<and> run_events handle ps s = Some s1 \<and> inv s1 \<and> \<not> guard s1)"
  using assms
proof (induction es arbitrary: s)
  case (Cons e es)
  show ?case
  proof (cases "guard s")
    case True
    with Cons.prems obtain s1 where s1: "handle e s = Some s1" "inv s1" using step by blast
    from Cons.IH [OF s1(2)] show ?thesis
    proof
      assume "\<exists>ps qs s'. es = ps @ qs \<and> run_events handle ps s1 = Some s' \<and> inv s' \<and> \<not> guard s'"
      then obtain ps qs s' where "es = ps @ qs" "run_events handle ps s1 = Some s'" "inv s'" "\<not> guard s'"
        by blast
      then have "e # es = (e # ps) @ qs \<and> run_events handle (e # ps) s = Some s' \<and> inv s' \<and> \<not> guard s'"
        using s1(1) by simp
      then show ?thesis by blast
    qed (simp add: s1(1))
  next
    case False
    then have "e # es = [] @ (e # es) \<and> run_events handle [] s = Some s \<and> inv s \<and> \<not> guard s"
      using Cons.prems by simp
    then show ?thesis by blast
  qed
qed simp

end

text \<open>The case of a handler that needs no guard.\<close>

locale safe_handler =
  fixes handle :: "'e \<Rightarrow> 's \<Rightarrow> 's option"
    and inv :: "'s \<Rightarrow> bool"
  assumes safe_step: "inv s \<Longrightarrow> \<exists>s'. handle e s = Some s' \<and> inv s'"

sublocale safe_handler \<subseteq> always: guarded_handler handle inv "\<lambda>_. True"
  by unfold_locales (rule safe_step)

context safe_handler
begin

lemma run_safe: "inv s \<Longrightarrow> \<exists>s'. run_events handle es s = Some s' \<and> inv s'"
  using always.run_guarded by blast

end

end
