(* ===== verification/Minix.thy ===== *)
theory Minix
  imports Prelude
begin

text \<open>
  What the program calls and does not define: the kernel calls of Minix 3, the routines of
  the LCF library, the generator of the C library and the save file. None of it is source
  of the repository, so it is a parameter: a record of operations on a device state of
  arbitrary type \<open>'d\<close>, passed to every definition that makes such a call. An output
  parameter of a call is a component of its result.

  The record \<open>sim\<close> is one instance, a device that answers from scripts and logs what is
  written to its ports. It serves the concrete runs of the witnesses only.
\<close>

text \<open>The policies of an interrupt subscription, from \<^verbatim>\<open>minix/com.h\<close>.\<close>

definition IRQ_REENABLE :: u32 where [port_consts]: "IRQ_REENABLE = 0x001"
definition IRQ_EXCLUSIVE :: u32 where [port_consts]: "IRQ_EXCLUSIVE = 0x002"

record ipc_message =
  ipc_notify :: bool \<comment> \<open>\<^verbatim>\<open>is_ipc_notify(ipc_status)\<close>\<close>
  from_hardware :: bool \<comment> \<open>\<^verbatim>\<open>_ENDPOINT_P(msg.m_source) == HARDWARE\<close>\<close>
  interrupts :: u32 \<comment> \<open>\<^verbatim>\<open>msg.m_notify.interrupts\<close>\<close>

record vbe_mode_info =
  PhysBasePtr :: u32
  XResolution :: u16
  YResolution :: u16
  BitsPerPixel :: u8
  RedMaskSize :: u8
  RedFieldPosition :: u8
  GreenMaskSize :: u8
  GreenFieldPosition :: u8
  BlueMaskSize :: u8
  BlueFieldPosition :: u8

record reg86 =
  ax :: u16
  bx :: u16
  intno :: u8

datatype timer_init = INVAL_val | LSB_only | MSB_only | MSB_after_LSB

datatype timer_status_field = tsf_all | tsf_initial | tsf_mode | tsf_base | tsf_other

datatype timer_status_field_val =
  Val_byte u8 | Val_in_mode timer_init | Val_count_mode u8 | Val_bcd bool

record mouse_packet =
  p_bytes :: "u8 list"
  p_rb :: bool
  p_mb :: bool
  p_lb :: bool
  p_delta_x :: u16
  p_delta_y :: u16
  p_x_ov :: bool
  p_y_ov :: bool

record 'd env =
  sys_outb :: "u32 \<Rightarrow> u32 \<Rightarrow> 'd \<Rightarrow> i32 \<times> 'd"
  sys_inb :: "u32 \<Rightarrow> u32 \<Rightarrow> 'd \<Rightarrow> i32 \<times> u32 \<times> 'd"
  sys_irqsetpolicy :: "u32 \<Rightarrow> u32 \<Rightarrow> i32 \<Rightarrow> 'd \<Rightarrow> i32 \<times> i32 \<times> 'd"
  sys_irqrmpolicy :: "i32 \<Rightarrow> 'd \<Rightarrow> i32 \<times> 'd"
  driver_receive :: "'d \<Rightarrow> i32 \<times> ipc_message \<times> 'd"
  tickdelay :: "u32 \<Rightarrow> 'd \<Rightarrow> 'd"
  micros_to_ticks :: "u32 \<Rightarrow> u32"
  srand_time :: "'d \<Rightarrow> 'd"
  rand :: "'d \<Rightarrow> 31 word \<times> 'd" \<comment> \<open>\<open>0\<close> to \<open>RAND_MAX\<close>, which is \<open>0x7fffffff\<close>\<close>
  savefile :: "'d \<Rightarrow> string option" \<comment> \<open>its content, \<^const>\<open>None\<close> when it cannot be opened for reading\<close>
  savefile_create :: "'d \<Rightarrow> bool \<times> 'd" \<comment> \<open>\<^verbatim>\<open>fopen\<close> with mode \<open>w+\<close>, and whether it succeeded\<close>
  savefile_write :: "string \<Rightarrow> 'd \<Rightarrow> 'd"
  timer_print_config :: "u8 \<Rightarrow> timer_status_field \<Rightarrow> timer_status_field_val \<Rightarrow> 'd \<Rightarrow> i32 \<times> 'd"
  timer_print_elapsed_time :: "'d \<Rightarrow> 'd"
  kbd_print_scancode :: "bool \<Rightarrow> u8 \<Rightarrow> u8 list \<Rightarrow> 'd \<Rightarrow> 'd"
  kbd_print_no_sysinb :: "u32 \<Rightarrow> 'd \<Rightarrow> i32 \<times> 'd"
  mouse_print_packet :: "mouse_packet \<Rightarrow> 'd \<Rightarrow> 'd"
  lcf_mouse_enable_data_reporting :: "'d \<Rightarrow> 'd"
  vbe_get_mode_info :: "u16 \<Rightarrow> 'd \<Rightarrow> i32 \<times> vbe_mode_info \<times> 'd"
  sys_privctl_add_mem :: "u32 \<Rightarrow> u32 \<Rightarrow> 'd \<Rightarrow> i32 \<times> 'd"
  vm_map_phys :: "u32 \<Rightarrow> u32 \<Rightarrow> 'd \<Rightarrow> u8 list option \<times> 'd"
  sys_int86 :: "reg86 \<Rightarrow> 'd \<Rightarrow> i32 \<times> 'd"
  vg_exit :: "'d \<Rightarrow> i32 \<times> 'd"
  sleep :: "u8 \<Rightarrow> 'd \<Rightarrow> 'd"
  malloc_bytes :: "u32 \<Rightarrow> 'd \<Rightarrow> u8 list \<times> 'd"

text \<open>
  What the correctness of a command sequence relies on: a write to a port succeeds and is the next
  entry of the log of the device, and a read does not write.
\<close>

definition io_traced :: "'d env \<Rightarrow> ('d \<Rightarrow> (u32 \<times> u32) list) \<Rightarrow> bool" where
  "io_traced env log \<longleftrightarrow>
     (\<forall>p v d. fst (sys_outb env p v d) = OK \<and> log (snd (sys_outb env p v d)) = log d @ [(p, v)]) \<and>
     (\<forall>p v d. log (snd (snd (sys_inb env p v d))) = log d)"

lemma io_tracedD:
  assumes "io_traced env log"
  shows "fst (sys_outb env p v d) = OK" "log (snd (sys_outb env p v d)) = log d @ [(p, v)]"
    "log (snd (snd (sys_inb env p v d))) = log d"
  using assms by (simp_all add: io_traced_def)

text \<open>
  What the port reads and writes, the delays and the random generator leave alone: a part \<open>f\<close> of the
  device, such as the notifications still to come.
\<close>

definition io_keeps :: "'d env \<Rightarrow> ('d \<Rightarrow> 'a) \<Rightarrow> bool" where
  "io_keeps env f \<longleftrightarrow>
     (\<forall>p v d. f (snd (sys_outb env p v d)) = f d) \<and> (\<forall>p v d. f (snd (snd (sys_inb env p v d))) = f d) \<and>
     (\<forall>t d. f (tickdelay env t d) = f d) \<and> (\<forall>d. f (srand_time env d) = f d) \<and>
     (\<forall>d. f (snd (rand env d)) = f d)"

lemma io_keepsD:
  assumes "io_keeps env f"
  shows "f (snd (sys_outb env p v d)) = f d" "f (snd (snd (sys_inb env p v d))) = f d"
    "f (tickdelay env t d) = f d" "f (srand_time env d) = f d" "f (snd (rand env d)) = f d"
  using assms by (simp_all add: io_keeps_def)

section \<open>The scripted device of the witnesses\<close>

record sim =
  sim_in :: "u32 list" \<comment> \<open>answers to the coming \<open>sys_inb\<close> calls\<close>
  sim_log :: "(u32 \<times> u32) list" \<comment> \<open>port and value of each \<open>sys_outb\<close>, oldest first\<close>
  sim_msgs :: "u32 list" \<comment> \<open>interrupt masks of the coming notifications\<close>
  sim_rand :: "31 word list"
  sim_file :: "string option"

definition sim0 :: sim where
  "sim0 = \<lparr>sim_in = [], sim_log = [], sim_msgs = [], sim_rand = [], sim_file = None\<rparr>"

definition sim_sys_outb :: "u32 \<Rightarrow> u32 \<Rightarrow> sim \<Rightarrow> i32 \<times> sim" where
  "sim_sys_outb p v d = (OK, d\<lparr>sim_log := sim_log d @ [(p, v)]\<rparr>)"

fun sim_sys_inb :: "u32 \<Rightarrow> u32 \<Rightarrow> sim \<Rightarrow> i32 \<times> u32 \<times> sim" where
  "sim_sys_inb p v d =
     (case sim_in d of [] \<Rightarrow> (-5, v, d) | x # xs \<Rightarrow> (OK, x, d\<lparr>sim_in := xs\<rparr>))"

fun sim_receive :: "sim \<Rightarrow> i32 \<times> ipc_message \<times> sim" where
  "sim_receive d =
     (case sim_msgs d of
        [] \<Rightarrow> (-5, \<lparr>ipc_notify = False, from_hardware = False, interrupts = 0\<rparr>, d)
      | x # xs \<Rightarrow> (OK, \<lparr>ipc_notify = True, from_hardware = True, interrupts = x\<rparr>,
                   d\<lparr>sim_msgs := xs\<rparr>))"

fun sim_next_rand :: "sim \<Rightarrow> 31 word \<times> sim" where
  "sim_next_rand d = (case sim_rand d of [] \<Rightarrow> (0, d) | x # xs \<Rightarrow> (x, d\<lparr>sim_rand := xs\<rparr>))"

definition sim_mode :: vbe_mode_info where
  "sim_mode = \<lparr>PhysBasePtr = 0xE0000000, XResolution = 4, YResolution = 3, BitsPerPixel = 24,
     RedMaskSize = 8, RedFieldPosition = 16, GreenMaskSize = 8, GreenFieldPosition = 8,
     BlueMaskSize = 8, BlueFieldPosition = 0\<rparr>"

definition sim_env :: "sim env" where
  "sim_env = \<lparr>
     sys_outb = sim_sys_outb,
     sys_inb = sim_sys_inb,
     sys_irqsetpolicy = (\<lambda>irq pol hook d. (OK, hook, d)),
     sys_irqrmpolicy = (\<lambda>hook d. (OK, d)),
     driver_receive = sim_receive,
     tickdelay = (\<lambda>t d. d),
     micros_to_ticks = (\<lambda>us. us div 16667),
     srand_time = (\<lambda>d. d),
     rand = sim_next_rand,
     savefile = sim_file,
     savefile_create = (\<lambda>d. (True, d\<lparr>sim_file := Some []\<rparr>)),
     savefile_write = (\<lambda>s d. d\<lparr>sim_file := Some s\<rparr>),
     timer_print_config = (\<lambda>t f v d. (OK, d)),
     timer_print_elapsed_time = (\<lambda>d. d),
     kbd_print_scancode = (\<lambda>m n b d. d),
     kbd_print_no_sysinb = (\<lambda>n d. (OK, d)),
     mouse_print_packet = (\<lambda>p d. d),
     lcf_mouse_enable_data_reporting = (\<lambda>d. d),
     vbe_get_mode_info = (\<lambda>m d. (OK, sim_mode, d)),
     sys_privctl_add_mem = (\<lambda>b l d. (OK, d)),
     vm_map_phys = (\<lambda>b n d. (Some (replicate (unat n) 0), d)),
     sys_int86 = (\<lambda>r d. (OK, d)),
     vg_exit = (\<lambda>d. (OK, d)),
     sleep = (\<lambda>n d. d),
     malloc_bytes = (\<lambda>n d. (replicate (unat n) 0, d))\<rparr>"

lemma sim_env_simps [simp]:
  "sys_outb sim_env = sim_sys_outb"
  "sys_inb sim_env = sim_sys_inb"
  "sys_irqsetpolicy sim_env irq pol hook d = (OK, hook, d)"
  "sys_irqrmpolicy sim_env hook d = (OK, d)"
  "driver_receive sim_env = sim_receive"
  "tickdelay sim_env t d = d"
  "srand_time sim_env d = d"
  "rand sim_env = sim_next_rand"
  "savefile sim_env = sim_file"
  "savefile_create sim_env d = (True, d\<lparr>sim_file := Some []\<rparr>)"
  "savefile_write sim_env s d = d\<lparr>sim_file := Some s\<rparr>"
  by (simp_all add: sim_env_def)

lemma sim_traced: "io_traced sim_env sim_log"
  by (simp add: io_traced_def sim_sys_outb_def split: list.splits)

text \<open>
  A device given by what its ports do, with every other call succeeding without effect, and the one
  whose ports always read the same and which logs what is written to them.
\<close>

definition port_env ::
  "(u32 \<Rightarrow> u32 \<Rightarrow> 'd \<Rightarrow> i32 \<times> 'd) \<Rightarrow> (u32 \<Rightarrow> u32 \<Rightarrow> 'd \<Rightarrow> i32 \<times> u32 \<times> 'd) \<Rightarrow> 'd env" where
  "port_env outb inb = \<lparr>
     sys_outb = outb, sys_inb = inb,
     sys_irqsetpolicy = (\<lambda>irq pol hook d. (OK, hook, d)), sys_irqrmpolicy = (\<lambda>hook d. (OK, d)),
     driver_receive = (\<lambda>d. (OK, \<lparr>ipc_notify = True, from_hardware = True, interrupts = 1\<rparr>, d)),
     tickdelay = (\<lambda>t d. d), micros_to_ticks = (\<lambda>us. us div 16667), srand_time = (\<lambda>d. d),
     rand = (\<lambda>d. (0, d)), savefile = (\<lambda>d. None), savefile_create = (\<lambda>d. (True, d)),
     savefile_write = (\<lambda>s d. d), timer_print_config = (\<lambda>t f v d. (OK, d)),
     timer_print_elapsed_time = (\<lambda>d. d), kbd_print_scancode = (\<lambda>m n b d. d),
     kbd_print_no_sysinb = (\<lambda>n d. (OK, d)), mouse_print_packet = (\<lambda>p d. d),
     lcf_mouse_enable_data_reporting = (\<lambda>d. d), vbe_get_mode_info = (\<lambda>m d. (OK, sim_mode, d)),
     sys_privctl_add_mem = (\<lambda>b l d. (OK, d)), vm_map_phys = (\<lambda>b n d. (None, d)),
     sys_int86 = (\<lambda>r d. (OK, d)), vg_exit = (\<lambda>d. (OK, d)), sleep = (\<lambda>n d. d),
     malloc_bytes = (\<lambda>n d. ([], d))\<rparr>"

definition fixed_env :: "(u32 \<Rightarrow> u32) \<Rightarrow> (u32 \<times> u32) list env" where
  "fixed_env answer = port_env (\<lambda>p v d. (OK, d @ [(p, v)])) (\<lambda>p v d. (OK, answer p, d))"

lemma port_env_simps [simp]:
  "sys_outb (port_env outb inb) = outb" "sys_inb (port_env outb inb) = inb"
  "driver_receive (port_env outb inb) d =
     (OK, \<lparr>ipc_notify = True, from_hardware = True, interrupts = 1\<rparr>, d)"
  "sys_irqsetpolicy (port_env outb inb) irq pol hook d = (OK, hook, d)"
  "sys_irqrmpolicy (port_env outb inb) hook d = (OK, d)"
  "timer_print_elapsed_time (port_env outb inb) d = d"
  by (simp_all add: port_env_def)

lemma fixed_env_simps [simp]:
  "sys_outb (fixed_env a) p v d = (OK, d @ [(p, v)])" "sys_inb (fixed_env a) p v d = (OK, a p, d)"
  by (simp_all add: fixed_env_def)

lemma fixed_env_traced: "io_traced (fixed_env a) (\<lambda>d. d)"
  by (simp add: io_traced_def)

end
