(* ===== verification/Utils.thy ===== *)
theory Utils
  imports Minix
begin

text \<open>
  \<^verbatim>\<open>util/utils.c\<close>: splitting a 16-bit value into its bytes and reading a byte from an
  I/O port. The three copies of the file in the laboratory directories are the same code.
\<close>

definition util_get_LSB :: "u16 \<Rightarrow> i32 \<times> u8" where
  "util_get_LSB val = (0, ucast val)"

definition util_get_MSB :: "u16 \<Rightarrow> i32 \<times> u8" where
  "util_get_MSB val = (0, ucast (drop_bit 8 val))"

definition util_sys_inb :: "'d env \<Rightarrow> u32 \<Rightarrow> 'd \<Rightarrow> i32 \<times> u8 \<times> 'd" where
  "util_sys_inb env port d =
     (let (res, sol, d) = sys_inb env port 0 d in (res, ucast sol, d))"

lemma util_LSB_MSB_join:
  "ucast (snd (util_get_LSB v)) OR push_bit 8 (ucast (snd (util_get_MSB v))) = v"
  by (rule bit_word_eqI)
    (auto simp: util_get_LSB_def util_get_MSB_def bit_simps)

lemma util_sys_inb_log:
  "io_traced env log \<Longrightarrow> log (snd (snd (util_sys_inb env p d))) = log d"
  by (simp add: util_sys_inb_def io_tracedD split: prod.split) (metis io_tracedD(3) snd_conv)

lemma util_bytes_value:
  "unat (snd (util_get_LSB v)) + 256 * unat (snd (util_get_MSB v)) = unat v"
proof -
  have "unat v div 256 < 256" using u16_bound [of v] by simp
  then have "unat (ucast (drop_bit 8 v) :: u8) = unat v div 256"
    by (simp add: unsigned_ucast_eq drop_bit_eq_div unat_div take_bit_nat_eq_self)
  moreover have "unat (ucast v :: u8) = unat v mod 256"
    by (simp add: unsigned_ucast_eq take_bit_eq_mod)
  ultimately show ?thesis by (simp add: util_get_LSB_def util_get_MSB_def)
qed

end
