(* ===== verification/Leaderboard.thy ===== *)
theory Leaderboard
  imports Prelude "HOL-Library.Multiset"
begin

text \<open>
  \<^verbatim>\<open>leaderboard/leaderboard.c\<close> and its header: the table of the ten best scores with
  its save file. A score is a byte and a name is an array of seven characters; rank 0 is the
  lowest entry. Every copy into a fixed array goes through the routines of \<open>Prelude\<close>, so a
  write past an array is \<^const>\<open>None\<close>. The one read past an array that the code can make, that of
  \<^verbatim>\<open>addScore\<close>, is \<^const>\<open>None\<close> too, unless the byte it finds there is given.
\<close>

abbreviation NL :: char where
  "NL \<equiv> CHR 0x0A"

record leaderboard =
  names :: "char list list"
  scores :: "u8 list"

section \<open>The operations\<close>

subsection \<open>Comparison and insertion\<close>

definition compareScore :: "i32 \<Rightarrow> leaderboard \<Rightarrow> i32" where
  "compareScore score LB = (if uint (scores LB ! 0) < sint score then 1 else 0)"

text \<open>
  The guard of the loop of \<^verbatim>\<open>addScore\<close> reads \<^verbatim>\<open>LB->scores[i]\<close> before it tests
  \<open>i < 10\<close>, so with \<open>i = 10\<close> it reads the byte after the array. What that read does is the
  parameter \<open>past\<close>: \<^const>\<open>None\<close> makes it the fault that the language calls it, \<open>Some b\<close> lets it
  return the byte \<open>b\<close> that lies there in memory.
\<close>

definition score_at :: "u8 option \<Rightarrow> leaderboard \<Rightarrow> nat \<Rightarrow> u8 option" where
  "score_at past LB i = (if i < length (scores LB) then Some (scores LB ! i) else past)"

function addScore_loop ::
  "u8 option \<Rightarrow> i32 \<Rightarrow> nat \<Rightarrow> leaderboard \<Rightarrow> (nat \<times> leaderboard) option" where
  "addScore_loop past score i LB =
     (case score_at past LB i of
        None \<Rightarrow> None
      | Some b \<Rightarrow>
          if uint b < sint score \<and> i < 10 then do {
            nm \<leftarrow> c_strcpy (c_memset0 (names LB ! (i - 1))) (names LB ! i);
            addScore_loop past score (Suc i)
              (LB\<lparr>scores := (scores LB)[i - 1 := scores LB ! i],
                  names := (names LB)[i - 1 := nm]\<rparr>)
          } else Some (i, LB))"
  by pat_completeness auto
termination
  by (relation "measure (\<lambda>(past, score, i, LB). 10 - i)") auto

declare addScore_loop.simps [simp del]

definition addScore ::
  "u8 option \<Rightarrow> i32 \<Rightarrow> char list \<Rightarrow> leaderboard \<Rightarrow> leaderboard option" where
  "addScore past score name LB = do {
     (i, LB) \<leftarrow> addScore_loop past score 1 LB;
     let i = i - 1;
     nm \<leftarrow> c_strcpy (c_memset0 (names LB ! i)) name;
     Some (LB\<lparr>scores := (scores LB)[i := ucast score], names := (names LB)[i := nm]\<rparr>)
   }"

subsection \<open>The printed table\<close>

fun count_digits :: "nat \<Rightarrow> nat \<Rightarrow> nat" where
  "count_digits n c = (if n \<noteq> 0 then count_digits (n div 10) (Suc c) else c)"

declare count_digits.simps [simp del]

function strcat_zeros :: "nat \<Rightarrow> nat \<Rightarrow> char list \<Rightarrow> char list option" where
  "strcat_zeros j c str =
     (if j > c then do { str \<leftarrow> c_strcat str (c_lit ''0''); strcat_zeros (j - 1) c str }
      else Some str)"
  by pat_completeness auto
termination
  by (relation "measure (\<lambda>(j, c, str). j)") auto

declare strcat_zeros.simps [simp del]

fun getLeaderBoard_loop :: "leaderboard \<Rightarrow> nat \<Rightarrow> char list \<Rightarrow> char list option" where
  "getLeaderBoard_loop LB 0 str = Some str"
| "getLeaderBoard_loop LB (Suc i) str = do {
     sc \<leftarrow> c_sprintf_d (c_memset0 (replicate 4 NUL)) (uint (scores LB ! i));
     let c = count_digits (unat (scores LB ! i)) (0 + of_bool (scores LB ! i = 0));
     str \<leftarrow> strcat_zeros 4 c str;
     str \<leftarrow> c_strcat str sc;
     str \<leftarrow> c_strcat str (c_lit ''-'');
     str \<leftarrow> c_strcat str (names LB ! i);
     str \<leftarrow> c_strcat str (c_lit [NL]);
     getLeaderBoard_loop LB i str
   }"

definition getLeaderBoard :: "leaderboard \<Rightarrow> char list \<Rightarrow> char list option" where
  "getLeaderBoard LB str = do {
     str \<leftarrow> c_strcat (c_memset0 str) (c_lit (''LEADERBOARD'' @ [NL, NL, NL]));
     getLeaderBoard_loop LB 10 str
   }"

subsection \<open>The save file\<close>

fun fgets_take :: "nat \<Rightarrow> string \<Rightarrow> string \<times> string" where
  "fgets_take 0 s = ([], s)"
| "fgets_take (Suc n) [] = ([], [])"
| "fgets_take (Suc n) (c # cs) =
     (if c = NL then ([c], cs) else let (l, r) = fgets_take n cs in (c # l, r))"

definition c_fgets :: "char list \<Rightarrow> string \<Rightarrow> (char list \<times> string) option" where
  "c_fgets buf s =
     (if s = [] then None
      else let (l, r) = fgets_take (length buf - 1) s
           in Some (l @ NUL # drop (Suc (length l)) buf, r))"

text \<open>The two copying loops of \<^verbatim>\<open>readSaveFile\<close>, up to the separator \<open>stop\<close>.\<close>

function copy_until ::
  "char \<Rightarrow> char list \<Rightarrow> nat \<Rightarrow> char list \<Rightarrow> nat \<Rightarrow> (char list \<times> nat) option" where
  "copy_until stop line j temp_str k =
     (if j < length line then
        if line ! j = stop then Some (temp_str, j)
        else if k < length temp_str
        then copy_until stop line (Suc j) (temp_str[k := line ! j]) (Suc k)
        else None
      else None)"
  by pat_completeness auto
termination
  by (relation "measure (\<lambda>(stop, line, j, temp_str, k). length line - j)") auto

declare copy_until.simps [simp del]

definition readSaveFile_line :: "char list \<Rightarrow> (int \<times> char list) option" where
  "readSaveFile_line line = do {
     (temp_str, j) \<leftarrow> copy_until (CHR 0x20) line 0 (replicate 10 NUL) 0;
     sc \<leftarrow> c_atoi temp_str;
     (temp_str, j) \<leftarrow> copy_until (CHR ''.'') line (Suc j) (replicate 10 NUL) 0;
     Some (sc, temp_str)
   }"

fun readSaveFile_loop ::
  "nat \<Rightarrow> char list \<Rightarrow> string \<Rightarrow> leaderboard \<Rightarrow> leaderboard option" where
  "readSaveFile_loop 0 line file LB = Some LB"
| "readSaveFile_loop (Suc i) line file LB =
     (case c_fgets line file of
        None \<Rightarrow> Some LB
      | Some (line, file) \<Rightarrow> do {
          (sc, temp_str) \<leftarrow> readSaveFile_line line;
          nm \<leftarrow> c_strcpy (names LB ! i) temp_str;
          readSaveFile_loop i line file
            (LB\<lparr>scores := (scores LB)[i := word_of_int sc],
                names := (names LB)[i := nm]\<rparr>)
        })"

text \<open>
  \<open>file\<close> is the content of the save file, \<^const>\<open>None\<close> when it cannot be opened; \<open>line\<close> is
  what the uninitialised line buffer of 48 characters holds at first.
\<close>

definition readSaveFile ::
  "char list \<Rightarrow> string option \<Rightarrow> leaderboard \<Rightarrow> leaderboard option" where
  "readSaveFile line file LB =
     (let LB = LB\<lparr>names := map c_memset0 (names LB)\<rparr>
      in case file of
           None \<Rightarrow> Some (LB\<lparr>scores := map (\<lambda>_. 0) (scores LB)\<rparr>)
         | Some s \<Rightarrow> readSaveFile_loop 10 line s LB)"

definition save_line :: "leaderboard \<Rightarrow> nat \<Rightarrow> string" where
  "save_line LB i =
     dec_int (uint (scores LB ! i)) @ CHR 0x20 # c_str (names LB ! i) @ [CHR ''.'', NL]"

text \<open>
  The content of the file after the call: opening it with mode \<open>w+\<close> empties it. \<open>opened\<close> is whether
  that succeeded; the code does not test it, and the calls of \<^verbatim>\<open>fprintf\<close> and \<^verbatim>\<open>fclose\<close>
  with the null pointer are a fault.
\<close>

definition c_fclose :: "bool \<Rightarrow> unit option" where
  "c_fclose opened = (if opened then Some () else None)"

definition writeSaveFile :: "bool \<Rightarrow> leaderboard \<Rightarrow> string option" where
  "writeSaveFile opened LB = do {
     (i, out) \<leftarrow> while_option (\<lambda>(i, out). i \<le> (0::int))
       (\<lambda>(i, out). (i - 1, out @ save_line LB (nat i))) (9, []);
     c_fclose opened;
     Some out
   }"

section \<open>Well-formed tables and their entries\<close>

definition lb_wf :: "leaderboard \<Rightarrow> bool" where
  "lb_wf LB \<longleftrightarrow> length (scores LB) = 10 \<and> length (names LB) = 10 \<and>
     (\<forall>a \<in> set (names LB). length a = 7 \<and> c_terminated a)"

definition entries :: "leaderboard \<Rightarrow> (nat \<times> string) list" where
  "entries LB = zip (map unat (scores LB)) (map c_str (names LB))"

definition rank_insert :: "nat \<times> 'n \<Rightarrow> (nat \<times> 'n) list \<Rightarrow> (nat \<times> 'n) list" where
  "rank_insert e t =
     takeWhile (\<lambda>x. fst x < fst e) (tl t) @ e # dropWhile (\<lambda>x. fst x < fst e) (tl t)"

definition ranked :: "(nat \<times> 'n) list \<Rightarrow> bool" where
  "ranked t \<longleftrightarrow> sorted (map fst t)"

lemma lb_wfD:
  assumes "lb_wf LB"
  shows "length (scores LB) = 10" "length (names LB) = 10"
    "i < 10 \<Longrightarrow> length (names LB ! i) = 7" "i < 10 \<Longrightarrow> c_terminated (names LB ! i)"
  using assms by (auto simp: lb_wf_def)

lemma lb_wf_holds: "lb_wf LB \<Longrightarrow> i < 10 \<Longrightarrow> c_holds (names LB ! i) (c_str (names LB ! i)) 7"
  by (simp add: c_holds_def lb_wfD)

lemma lb_wf_update:
  assumes "lb_wf LB" "c_holds nm s 7"
  shows "lb_wf (LB\<lparr>scores := (scores LB)[i := x], names := (names LB)[j := nm]\<rparr>)"
  using assms set_update_subset_insert [of "names LB" j nm]
  by (fastforce simp: lb_wf_def c_holds_def)

lemma length_entries [simp]: "lb_wf LB \<Longrightarrow> length (entries LB) = 10"
  by (simp add: entries_def lb_wf_def)

lemma entries_nth:
  "lb_wf LB \<Longrightarrow> i < 10 \<Longrightarrow> entries LB ! i = (unat (scores LB ! i), c_str (names LB ! i))"
  by (simp add: entries_def lb_wfD)

lemma entries_update:
  "lb_wf LB \<Longrightarrow>
   entries (LB\<lparr>scores := (scores LB)[i := x], names := (names LB)[i := nm]\<rparr>) =
   (entries LB)[i := (unat x, c_str nm)]"
  by (simp add: entries_def map_update update_zip)

lemma entries_bound: "x \<in> set (entries LB) \<Longrightarrow> fst x < 256"
  by (cases x) (auto simp: entries_def u8_bound dest!: set_zip_leftD)

text \<open>In a ranked table a score is above some entry exactly when it is above the first one.\<close>

lemma ranked_first_below:
  assumes "ranked (entries LB)" "lb_wf LB"
  shows "unat (scores LB ! 0) < n \<longleftrightarrow> (\<exists>e \<in> set (entries LB). fst e < n)"
proof
  assume "unat (scores LB ! 0) < n"
  moreover have "entries LB ! 0 \<in> set (entries LB)" using assms(2) by (intro nth_mem) simp
  ultimately show "\<exists>e \<in> set (entries LB). fst e < n" using entries_nth [OF assms(2), of 0] by force
next
  assume "\<exists>e \<in> set (entries LB). fst e < n"
  then obtain i where i: "i < 10" "fst (entries LB ! i) < n"
    using assms(2) by (metis in_set_conv_nth length_entries)
  have "map fst (entries LB) ! 0 \<le> map fst (entries LB) ! i"
    using assms i(1) unfolding ranked_def by (intro sorted_nth_mono) simp_all
  then show "unat (scores LB ! 0) < n" using i entries_nth [OF assms(2), of 0] assms(2) by simp
qed

section \<open>Ranked insertion on lists\<close>

lemma takeWhile_dropWhile_sorted:
  "sorted xs \<Longrightarrow> x \<in> set (dropWhile (\<lambda>y. y < a) xs) \<Longrightarrow> a \<le> (x::'a::linorder)"
  by (induction xs) (auto split: if_splits)

lemma map_fst_rank_insert:
  "map fst (rank_insert e t) =
   takeWhile (\<lambda>x. x < fst e) (map fst (tl t)) @ fst e # dropWhile (\<lambda>x. x < fst e) (map fst (tl t))"
  by (simp add: rank_insert_def takeWhile_map dropWhile_map o_def)

lemma ranked_rank_insert:
  assumes "ranked t"
  shows "ranked (rank_insert e t)"
proof -
  let ?s = "map fst (tl t)"
  have s: "sorted ?s"
    using assms by (simp add: ranked_def map_tl sorted_tl)
  moreover have "x < fst e" if "x \<in> set (takeWhile (\<lambda>x. x < fst e) ?s)" for x
    using that by (auto dest: set_takeWhileD)
  moreover have "fst e \<le> x" if "x \<in> set (dropWhile (\<lambda>x. x < fst e) ?s)" for x
    using that s by (rule takeWhile_dropWhile_sorted [rotated])
  ultimately show ?thesis
    unfolding ranked_def map_fst_rank_insert sorted_append
    by (fastforce intro: sorted_takeWhile sorted_dropWhile)
qed

lemma mset_rank_insert: "mset (rank_insert e t) = add_mset e (mset (tl t))"
proof -
  have "mset (takeWhile (\<lambda>x. fst x < fst e) (tl t)) + mset (dropWhile (\<lambda>x. fst x < fst e) (tl t))
      = mset (tl t)"
    by (metis mset_append takeWhile_dropWhile_id)
  then show ?thesis by (simp add: rank_insert_def)
qed

lemma set_rank_insert: "set (rank_insert e t) = insert e (set (tl t))"
  using arg_cong [OF mset_rank_insert, of set_mset e t] by simp

lemma length_rank_insert: "t \<noteq> [] \<Longrightarrow> length (rank_insert e t) = length t"
  using arg_cong [OF mset_rank_insert, of size e t] by simp

text \<open>
  The loop of \<^verbatim>\<open>addScore\<close> moves the entries that the new score beats one rank down. On lists: a run
  of \<open>m\<close> entries from rank \<open>i\<close> on is copied to rank \<open>i - 1\<close>.
\<close>

definition shift_down :: "nat \<Rightarrow> nat \<Rightarrow> 'a list \<Rightarrow> 'a list" where
  "shift_down i m xs = take (i - 1) xs @ take m (drop i xs) @ drop (i - 1 + m) xs"

lemma shift_down_0 [simp]: "shift_down i 0 xs = xs"
  by (simp add: shift_down_def)

lemma shift_down_Suc:
  assumes "0 < i" "i < length xs"
  shows "shift_down i (Suc m) xs = shift_down (Suc i) m (xs[i - 1 := xs ! i])"
proof -
  have "take i (xs[i - 1 := xs ! i]) = take (i - 1) xs @ [xs ! i]"
    using assms take_Suc_conv_app_nth [of "i - 1" "xs[i - 1 := xs ! i]"] by simp
  then show ?thesis
    using assms by (simp add: shift_down_def Cons_nth_drop_Suc [symmetric])
qed

lemma shift_down_1_update:
  assumes "m < length xs"
  shows "(shift_down (Suc 0) m xs)[m := e] = take m (tl xs) @ e # drop m (tl xs)"
  using assms by (simp add: shift_down_def drop_Suc list_update_append
      flip: Cons_nth_drop_Suc)


section \<open>Insertion keeps the table ranked\<close>

text \<open>Entry \<open>i\<close> moves down by one.\<close>

lemma move_entry:
  assumes wf: "lb_wf LB" and i: "0 < i" "i < 10"
  obtains nm where "c_strcpy (c_memset0 (names LB ! (i - 1))) (names LB ! i) = Some nm"
    "lb_wf (LB\<lparr>scores := (scores LB)[i - 1 := scores LB ! i], names := (names LB)[i - 1 := nm]\<rparr>)"
    "entries (LB\<lparr>scores := (scores LB)[i - 1 := scores LB ! i], names := (names LB)[i - 1 := nm]\<rparr>) =
      (entries LB)[i - 1 := entries LB ! i]"
proof -
  let ?s = "c_str (names LB ! i)"
  have "c_holds (names LB ! i) ?s 7" using wf i lb_wf_holds by blast
  moreover have len: "length (names LB ! (i - 1)) = 7" using wf i by (intro lb_wfD(3)) auto
  moreover have "length ?s < length (c_memset0 (names LB ! (i - 1)))"
    using wf i c_str_length [of "names LB ! i"] len by (simp add: lb_wfD)
  ultimately obtain nm where nm: "c_strcpy (c_memset0 (names LB ! (i - 1))) (names LB ! i) = Some nm"
      and h: "c_holds nm ?s 7"
    using c_strcpy_holds by fastforce
  show ?thesis
    using that [OF nm lb_wf_update [OF wf h]] wf i h by (simp add: entries_update entries_nth c_holds_def)
qed

text \<open>
  The search for the rank ends inside the array: some entry above the lowest one is at least as high.
\<close>

definition stops_inside :: "i32 \<Rightarrow> leaderboard \<Rightarrow> bool" where
  "stops_inside score LB \<longleftrightarrow> (\<exists>x \<in> set (tl (entries LB)). sint score \<le> int (fst x))"

lemma addScore_loop_stop:
  assumes "score_at past LB i = Some b" "\<not> (uint b < sint score \<and> i < 10)"
  shows "addScore_loop past score i LB = Some (i, LB)"
  using assms by (subst addScore_loop.simps) auto

lemma addScore_loop_move:
  assumes "lb_wf LB" "i < 10" "uint (scores LB ! i) < sint score"
    and "c_strcpy (c_memset0 (names LB ! (i - 1))) (names LB ! i) = Some nm"
  shows "addScore_loop past score i LB = addScore_loop past score (Suc i)
    (LB\<lparr>scores := (scores LB)[i - 1 := scores LB ! i], names := (names LB)[i - 1 := nm]\<rparr>)"
  using assms by (subst addScore_loop.simps) (simp add: score_at_def lb_wfD)

lemma drop_entries: "lb_wf LB \<Longrightarrow> i < 10 \<Longrightarrow> drop i (entries LB) = entries LB ! i # drop (Suc i) (entries LB)"
  by (simp add: Cons_nth_drop_Suc)

lemma addScore_loop_spec:
  assumes "lb_wf LB" "0 < i" "i \<le> 10"
    and "past \<noteq> None \<or> (\<exists>x \<in> set (drop i (entries LB)). sint score \<le> int (fst x))"
  shows "\<exists>LB' m. addScore_loop past score i LB = Some (i + m, LB') \<and> lb_wf LB' \<and>
     m = length (takeWhile (\<lambda>x. int (fst x) < sint score) (drop i (entries LB))) \<and>
     entries LB' = shift_down i m (entries LB)"
  using assms
proof (induction "10 - i" arbitrary: i LB)
  case 0
  then obtain b where "score_at past LB i = Some b" by (auto simp: score_at_def lb_wfD)
  with 0 show ?case by (simp add: addScore_loop_stop)
next
  case (Suc n)
  then have i: "i < 10" by simp
  note d = drop_entries [OF Suc.prems(1) i] and e = entries_nth [OF Suc.prems(1) i]
  show ?case
  proof (cases "uint (scores LB ! i) < sint score")
    case False
    then have "addScore_loop past score i LB = Some (i, LB)"
      using Suc.prems i by (intro addScore_loop_stop) (auto simp: score_at_def lb_wfD)
    with False Suc.prems d e show ?thesis by simp
  next
    case True
    obtain nm where nm: "c_strcpy (c_memset0 (names LB ! (i - 1))) (names LB ! i) = Some nm"
        "lb_wf (LB\<lparr>scores := (scores LB)[i - 1 := scores LB ! i], names := (names LB)[i - 1 := nm]\<rparr>)"
        "entries (LB\<lparr>scores := (scores LB)[i - 1 := scores LB ! i], names := (names LB)[i - 1 := nm]\<rparr>) =
          (entries LB)[i - 1 := entries LB ! i]"
      using move_entry [OF Suc.prems(1,2) i] by blast
    define LB1 where "LB1 = LB\<lparr>scores := (scores LB)[i - 1 := scores LB ! i],
                               names := (names LB)[i - 1 := nm]\<rparr>"
    note wf = nm(2) [folded LB1_def] and e1 = nm(3) [folded LB1_def]
    have d1: "drop (Suc i) (entries LB1) = drop (Suc i) (entries LB)" by (simp add: e1)
    have "past \<noteq> None \<or> (\<exists>x \<in> set (drop (Suc i) (entries LB1)). sint score \<le> int (fst x))"
      using Suc.prems(4) True d e d1 by auto
    moreover have "n = 10 - Suc i" using Suc.hyps(2) by simp
    ultimately obtain LB' m where IH: "addScore_loop past score (Suc i) LB1 = Some (Suc i + m, LB')"
        "lb_wf LB'" "entries LB' = shift_down (Suc i) m (entries LB1)"
        "m = length (takeWhile (\<lambda>x. int (fst x) < sint score) (drop (Suc i) (entries LB)))"
      using Suc.hyps(1) [of "Suc i" LB1] wf i unfolding d1 by fastforce
    have "addScore_loop past score i LB = Some (i + Suc m, LB')"
      using addScore_loop_move [OF Suc.prems(1) i True nm(1)] IH(1) by (simp add: LB1_def)
    moreover have "Suc m = length (takeWhile (\<lambda>x. int (fst x) < sint score) (drop i (entries LB)))"
      using True IH(4) e by (simp add: d)
    moreover have "entries LB' = shift_down i (Suc m) (entries LB)"
      using IH(3) Suc.prems i by (simp add: e1 shift_down_Suc)
    ultimately show ?thesis using IH(2) by blast
  qed
qed

text \<open>A score above every entry from rank \<open>i\<close> on has the loop read the byte after the array.\<close>

lemma addScore_loop_overread:
  assumes "lb_wf LB" "0 < i" "i \<le> 10" "\<forall>x \<in> set (drop i (entries LB)). int (fst x) < sint score"
  shows "addScore_loop None score i LB = None"
  using assms
proof (induction "10 - i" arbitrary: i LB)
  case 0
  then show ?case by (subst addScore_loop.simps) (simp add: score_at_def lb_wfD)
next
  case (Suc n)
  then have i: "i < 10" by simp
  note d = drop_entries [OF Suc.prems(1) i] and e = entries_nth [OF Suc.prems(1) i]
  have lt: "uint (scores LB ! i) < sint score" using Suc.prems(4) d e by simp
  obtain nm where nm: "c_strcpy (c_memset0 (names LB ! (i - 1))) (names LB ! i) = Some nm"
      "lb_wf (LB\<lparr>scores := (scores LB)[i - 1 := scores LB ! i], names := (names LB)[i - 1 := nm]\<rparr>)"
      "entries (LB\<lparr>scores := (scores LB)[i - 1 := scores LB ! i], names := (names LB)[i - 1 := nm]\<rparr>) =
        (entries LB)[i - 1 := entries LB ! i]"
    using move_entry [OF Suc.prems(1,2) i] by blast
  show ?case
    unfolding addScore_loop_move [OF Suc.prems(1) i lt nm(1)]
    using Suc.hyps(2) Suc.prems(4) i d nm(2,3) by (intro Suc.hyps(1)) auto
qed

lemma takeWhile_split: "take (length (takeWhile P xs)) xs = takeWhile P xs"
    "drop (length (takeWhile P xs)) xs = dropWhile P xs"
  by (simp_all add: takeWhile_eq_take [symmetric] dropWhile_eq_drop)

lemma addScore_refines:
  assumes wf: "lb_wf LB" and nm: "c_holds name s 7" and sc: "0 \<le> sint score"
    and read: "past \<noteq> None \<or> stops_inside score LB"
  shows "\<exists>LB'. addScore past score name LB = Some LB' \<and> lb_wf LB' \<and>
    entries LB' =
      takeWhile (\<lambda>x. int (fst x) < sint score) (tl (entries LB)) @
      (unat (ucast score :: u8), s) #
      dropWhile (\<lambda>x. int (fst x) < sint score) (tl (entries LB))"
proof -
  let ?P = "\<lambda>x :: nat \<times> string. int (fst x) < sint score"
  obtain LB1 m where loop: "addScore_loop past score 1 LB = Some (1 + m, LB1)" and wf1: "lb_wf LB1"
      and m: "m = length (takeWhile ?P (drop 1 (entries LB)))"
      and e1: "entries LB1 = shift_down 1 m (entries LB)"
    using addScore_loop_spec [OF wf, of 1 past score] read by (auto simp: stops_inside_def drop_Suc)
  have "m \<le> length (drop 1 (entries LB))"
    unfolding m by (rule length_takeWhile_le)
  then have m9: "m < 10" using wf by simp
  obtain r where r: "c_strcpy (c_memset0 (names LB1 ! m)) name = Some r" "c_holds r s 7"
    using c_strcpy_holds [OF nm, of "c_memset0 (names LB1 ! m)"] c_holds_bound [OF nm] wf1 m9
    by (auto simp: lb_wfD)
  let ?LB' = "LB1\<lparr>scores := (scores LB1)[m := ucast score], names := (names LB1)[m := r]\<rparr>"
  have "addScore past score name LB = Some ?LB'"
    using loop r(1) by (simp add: addScore_def)
  moreover have "lb_wf ?LB'" using wf1 r(2) by (rule lb_wf_update)
  moreover have "entries ?LB' = (shift_down 1 m (entries LB))[m := (unat (ucast score :: u8), s)]"
    using wf1 r(2) e1 by (simp add: entries_update c_holds_def)
  then have "entries ?LB' = takeWhile ?P (tl (entries LB)) @
      (unat (ucast score :: u8), s) # dropWhile ?P (tl (entries LB))"
    using wf m9 m by (simp add: shift_down_1_update takeWhile_split drop_Suc)
  ultimately show ?thesis by blast
qed


subsection \<open>The interface of the score table\<close>

text \<open>
  What the game relies on: a table has an abstract list of entries, lowest first, and adding
  an acceptable score refines \<^const>\<open>rank_insert\<close>.
\<close>

locale score_table =
  fixes inv :: "'t \<Rightarrow> bool"
    and view :: "'t \<Rightarrow> (nat \<times> 'n) list"
    and admissible :: "nat \<times> 'n \<Rightarrow> bool"
    and add :: "nat \<times> 'n \<Rightarrow> 't \<Rightarrow> 't option"
  assumes view_not_Nil: "inv t \<Longrightarrow> view t \<noteq> []"
    and add_spec: "inv t \<Longrightarrow> admissible e \<Longrightarrow>
      \<exists>t'. add e t = Some t' \<and> inv t' \<and> view t' = rank_insert e (view t)"
begin

lemma add_ranked:
  assumes "inv t" "admissible e" "ranked (view t)"
  shows "\<exists>t'. add e t = Some t' \<and> inv t' \<and> ranked (view t') \<and>
    mset (view t') = add_mset e (mset (tl (view t))) \<and> length (view t') = length (view t)"
  using add_spec [OF assms(1,2)] assms(3) view_not_Nil [OF assms(1)]
  by (auto simp: ranked_rank_insert mset_rank_insert length_rank_insert)

lemma add_sequence_ranked:
  assumes "inv t" "ranked (view t)" "\<And>e. e \<in> set es \<Longrightarrow> admissible e"
  shows "\<exists>t'. foldl (\<lambda>b e. b \<bind> add e) (Some t) es = Some t' \<and> inv t' \<and> ranked (view t')"
  using assms
proof (induction es arbitrary: t)
  case Nil
  then show ?case by simp
next
  case (Cons e es)
  obtain t1 where "add e t = Some t1" "inv t1" "ranked (view t1)"
    using add_ranked [of t e] Cons.prems by auto
  with Cons.IH [of t1] Cons.prems(3) show ?case by auto
qed

text \<open>No entry that was in the table is lost but the lowest one.\<close>

lemma add_keeps:
  assumes "inv t" "admissible e" "add e t = Some t'"
  shows "set (tl (view t)) \<subseteq> set (view t')" and "e \<in> set (view t')"
  using add_spec [OF assms(1,2)] assms(3) by (auto simp: set_rank_insert)

end

definition lb_admissible :: "nat \<times> string \<Rightarrow> bool" where
  "lb_admissible e \<longleftrightarrow> fst e < 256 \<and> length (snd e) < 7 \<and> NUL \<notin> set (snd e)"

definition lb_name :: "string \<Rightarrow> char list" where
  "lb_name s = s @ replicate (7 - length s) NUL"

definition lb_add :: "nat \<times> string \<Rightarrow> leaderboard \<Rightarrow> leaderboard option" where
  "lb_add e LB = addScore (Some 0) (of_nat (fst e)) (lb_name (snd e)) LB"

lemma lb_name_holds: "NUL \<notin> set s \<Longrightarrow> length s < 7 \<Longrightarrow> c_holds (lb_name s) s 7"
  unfolding lb_name_def
  by (cases "7 - length s") (auto intro!: c_holds_appendI)

lemma ucast_of_nat_u8: "n < 256 \<Longrightarrow> unat (ucast (of_nat n :: 32 word) :: u8) = n"
  by (simp add: unsigned_ucast_eq unat_of_nat take_bit_nat_eq_self)

lemma addScore_rank_insert:
  assumes "lb_wf LB" "c_holds name s 7" "0 \<le> sint score" "sint score < 256"
    and "past \<noteq> None \<or> stops_inside score LB"
  shows "\<exists>LB'. addScore past score name LB = Some LB' \<and> lb_wf LB' \<and>
    entries LB' = rank_insert (nat (sint score), s) (entries LB)"
proof -
  have "score = of_nat (nat (sint score))" using assms(3) by simp
  then have u: "unat (ucast score :: u8) = nat (sint score)"
    using ucast_of_nat_u8 [of "nat (sint score)"] assms(3,4) by simp
  have "(\<lambda>x :: nat \<times> string. int (fst x) < sint score) = (\<lambda>x. fst x < nat (sint score))"
    using assms(3) by (auto simp: fun_eq_iff)
  then show ?thesis
    using addScore_refines [OF assms(1-3,5)] by (simp add: rank_insert_def u)
qed

interpretation lb: score_table lb_wf entries lb_admissible lb_add
proof unfold_locales
  fix LB :: leaderboard
  assume "lb_wf LB"
  then have "length (entries LB) = 10" by simp
  then show "entries LB \<noteq> []" by auto
next
  fix LB :: leaderboard and e :: "nat \<times> string"
  assume "lb_wf LB" and e: "lb_admissible e"
  moreover have "sint (of_nat (fst e) :: 32 word) = int (fst e)"
    using e by (intro sint_of_nat_small) (simp add: lb_admissible_def)
  ultimately show "\<exists>LB'. lb_add e LB = Some LB' \<and> lb_wf LB' \<and> entries LB' = rank_insert e (entries LB)"
    using addScore_rank_insert [of LB "lb_name (snd e)" "snd e" "of_nat (fst e)" "Some 0"] lb_name_holds
    by (auto simp: lb_admissible_def lb_add_def)
qed


section \<open>The printed table\<close>

lemma count_digits_eq: "count_digits n c = (if n = 0 then c else c + length (dec_nat n))"
proof (induction n c rule: count_digits.induct)
  case (1 n c)
  then show ?case
    by (cases "n < 10")
      (auto simp: count_digits.simps [of n c] count_digits.simps [of 0] dec_nat.simps [of n])
qed

definition pad4 :: "nat \<Rightarrow> string" where
  "pad4 n = replicate (4 - length (dec_nat n)) (CHR ''0'') @ dec_nat n"

definition lb_row :: "leaderboard \<Rightarrow> nat \<Rightarrow> string" where
  "lb_row LB i = pad4 (unat (scores LB ! i)) @ CHR ''-'' # c_str (names LB ! i) @ [NL]"

lemma dec_nat_u8_length: "length (dec_nat (unat (x :: u8))) \<le> 3"
  using u8_bound [of x] dec_nat_length_le [of "unat x" 2] by simp

lemma pad4_length: "length (pad4 (unat (x :: u8))) = 4"
  using dec_nat_u8_length [of x] by (simp add: pad4_def)

lemma lb_row_length: "lb_wf LB \<Longrightarrow> i < 10 \<Longrightarrow> length (lb_row LB i) \<le> 12"
  using c_holds_bound [OF lb_wf_holds] by (fastforce simp: lb_row_def pad4_length)

lemma strcat_zeros_holds:
  assumes "c_holds str s n" "length s + (j - c) < n"
  shows "\<exists>r. strcat_zeros j c str = Some r \<and> c_holds r (s @ replicate (j - c) (CHR ''0'')) n"
  using assms
proof (induction j c str arbitrary: s rule: strcat_zeros.induct)
  case (1 j c str)
  show ?case
  proof (cases "j > c")
    case False
    then show ?thesis using "1.prems" by (subst strcat_zeros.simps) simp
  next
    case True
    obtain r where r: "c_strcat str (c_lit ''0'') = Some r" "c_holds r (s @ ''0'') n"
      using c_strcat_holds [OF "1.prems"(1) c_holds_lit [of "''0''"]] "1.prems"(2) True by force
    obtain r' where r': "strcat_zeros (j - 1) c r = Some r'"
        "c_holds r' ((s @ ''0'') @ replicate (j - 1 - c) (CHR ''0'')) n"
      using "1.IH" [OF True r] "1.prems"(2) True by force
    have "(s @ ''0'') @ replicate (j - 1 - c) (CHR ''0'') = s @ replicate (j - c) (CHR ''0'')"
      using True by (cases "j - c") (auto simp: Suc_diff_Suc)
    with True r(1) r' show ?thesis by (subst strcat_zeros.simps) auto
  qed
qed

text \<open>One round of the loop appends one row of the table.\<close>

lemma getLeaderBoard_row:
  assumes wf: "lb_wf LB" and i: "i < 10" and str: "c_holds str s n" and fit: "length s + 12 < n"
  shows "\<exists>r. getLeaderBoard_loop LB (Suc i) str = getLeaderBoard_loop LB i r \<and>
    c_holds r (s @ lb_row LB i) n"
proof -
  let ?d = "dec_nat (unat (scores LB ! i))" and ?nm = "c_str (names LB ! i)"
  have d3: "length ?d \<le> 3" by (rule dec_nat_u8_length)
  have nm: "c_holds (names LB ! i) ?nm 7" "length ?nm < 7"
    using lb_wf_holds [OF wf i] c_holds_bound by blast+
  obtain sc where sc: "c_sprintf_d (c_memset0 (replicate 4 NUL)) (uint (scores LB ! i)) = Some sc"
      "c_holds sc ?d 4"
    using c_put0_holds [of ?d "c_memset0 (replicate 4 NUL)"] d3
    by (auto simp: c_sprintf_d_def dec_int_def)
  have c: "count_digits (unat (scores LB ! i)) (0 + of_bool (scores LB ! i = 0)) = length ?d"
    by (auto simp: count_digits_eq unat_eq_0 dec_nat.simps [of 0])
  obtain r1 where r1: "strcat_zeros 4 (length ?d) str = Some r1"
      "c_holds r1 (s @ replicate (4 - length ?d) (CHR ''0'')) n"
    using strcat_zeros_holds [OF str, of 4 "length ?d"] fit by force
  obtain r2 where r2: "c_strcat r1 sc = Some r2" "c_holds r2 (s @ pad4 (unat (scores LB ! i))) n"
    using c_strcat_holds [OF r1(2) sc(2)] fit d3 by (auto simp: pad4_def)
  obtain r3 where r3: "c_strcat r2 (c_lit ''-'') = Some r3"
      "c_holds r3 (s @ pad4 (unat (scores LB ! i)) @ ''-'') n"
    using c_strcat_holds [OF r2(2) c_holds_lit [of "''-''"]] fit by (auto simp: pad4_length)
  obtain r4 where r4: "c_strcat r3 (names LB ! i) = Some r4"
      "c_holds r4 (s @ pad4 (unat (scores LB ! i)) @ ''-'' @ ?nm) n"
    using c_strcat_holds [OF r3(2) nm(1)] fit nm(2) by (auto simp: pad4_length)
  obtain r5 where r5: "c_strcat r4 (c_lit [NL]) = Some r5" "c_holds r5 (s @ lb_row LB i) n"
    using c_strcat_holds [OF r4(2) c_holds_lit [of "[NL]"]] fit nm(2)
    by (auto simp: pad4_length lb_row_def)
  from sc(1) c r1(1) r2(1) r3(1) r4(1) r5 show ?thesis by (intro exI [of _ r5]) simp
qed

lemma getLeaderBoard_loop_holds:
  assumes wf: "lb_wf LB" and k: "k \<le> 10" and str: "c_holds str s n" and fit: "length s + 12 * k < n"
  shows "\<exists>r. getLeaderBoard_loop LB k str = Some r \<and>
    c_holds r (s @ concat (map (lb_row LB) (rev [0..<k]))) n"
  using k str fit
proof (induction k arbitrary: str s)
  case 0
  then show ?case by simp
next
  case (Suc k)
  obtain r where r: "getLeaderBoard_loop LB (Suc k) str = getLeaderBoard_loop LB k r"
      "c_holds r (s @ lb_row LB k) n"
    using getLeaderBoard_row [OF wf, of k str s n] Suc.prems by auto
  moreover have "length (s @ lb_row LB k) + 12 * k < n"
    using lb_row_length [OF wf, of k] Suc.prems by simp
  ultimately show ?case using Suc.IH [of r "s @ lb_row LB k"] Suc.prems by auto
qed

section \<open>Reading the format that the save file is written in\<close>

lemma copy_until_word:
  assumes "stop \<notin> set w" "k + length w \<le> length tmp"
  shows "copy_until stop (pre @ w @ stop # post) (length pre) tmp k =
    Some (take k tmp @ w @ drop (k + length w) tmp, length pre + length w)"
  using assms
proof (induction w arbitrary: pre k tmp)
  case Nil
  then show ?case by (subst copy_until.simps) simp
next
  case (Cons c w)
  have "copy_until stop (pre @ (c # w) @ stop # post) (length pre) tmp k =
      copy_until stop ((pre @ [c]) @ w @ stop # post) (length (pre @ [c])) (tmp[k := c]) (Suc k)"
    using Cons.prems by (subst copy_until.simps) auto
  also have "\<dots> = Some (take (Suc k) (tmp[k := c]) @ w @ drop (Suc k + length w) (tmp[k := c]),
      length (pre @ [c]) + length w)"
    using Cons.prems by (intro Cons.IH) auto
  also have "take (Suc k) (tmp[k := c]) = take k tmp @ [c]"
    using Cons.prems by (subst take_Suc_conv_app_nth) auto
  finally show ?case using Cons.prems by simp
qed

lemma fgets_take_line:
  "NL \<notin> set w \<Longrightarrow> length w < n \<Longrightarrow> fgets_take n (w @ NL # rest) = (w @ [NL], rest)"
  by (induction n "w @ NL # rest" arbitrary: w rule: fgets_take.induct)
    (auto simp: Cons_eq_append_conv)

text \<open>Names that the separators of the format cannot split.\<close>

definition plain_names :: "leaderboard \<Rightarrow> bool" where
  "plain_names LB \<longleftrightarrow> (\<forall>a \<in> set (names LB). CHR ''.'' \<notin> set (c_str a) \<and> NL \<notin> set (c_str a))"

lemma plain_namesD:
  "plain_names LB \<Longrightarrow> lb_wf LB \<Longrightarrow> i < 10 \<Longrightarrow>
   CHR ''.'' \<notin> set (c_str (names LB ! i)) \<and> NL \<notin> set (c_str (names LB ! i))"
  by (simp add: plain_names_def lb_wfD)

lemma readSaveFile_line_save_line:
  assumes wf: "lb_wf LB" and i: "i < 10" and plain: "plain_names LB"
  shows "\<exists>tmp. readSaveFile_line (save_line LB i @ post) = Some (uint (scores LB ! i), tmp) \<and>
    c_holds tmp (c_str (names LB ! i)) 10"
proof -
  let ?d = "dec_nat (unat (scores LB ! i))" and ?nm = "c_str (names LB ! i)"
  let ?rest = "?nm @ CHR ''.'' # NL # post"
  have nm: "length ?nm < 7" using c_holds_bound [OF lb_wf_holds [OF wf i]] .
  have d3: "length ?d \<le> 3" by (rule dec_nat_u8_length)
  have line: "save_line LB i @ post = [] @ ?d @ CHR 0x20 # ?rest"
    by (simp add: save_line_def dec_int_def)
  have 1: "copy_until (CHR 0x20) (save_line LB i @ post) 0 (replicate 10 NUL) 0 =
      Some (?d @ replicate (10 - length ?d) NUL, length ?d)"
    unfolding line using copy_until_word [of "CHR 0x20" ?d 0 "replicate 10 NUL" "[]" ?rest] d3
      dec_nat_digits not_digit_NUL(2) by fastforce
  have 2: "c_atoi (?d @ replicate (10 - length ?d) NUL) = Some (uint (scores LB ! i))"
    using c_atoi_dec_nat [of NUL "unat (scores LB ! i)"] d3
    by (cases "10 - length ?d") auto
  have line2: "save_line LB i @ post = (?d @ [CHR 0x20]) @ ?nm @ CHR ''.'' # NL # post"
    by (simp add: line)
  have 3: "copy_until (CHR ''.'') (save_line LB i @ post) (Suc (length ?d)) (replicate 10 NUL) 0 =
      Some (?nm @ replicate (10 - length ?nm) NUL, Suc (length ?d) + length ?nm)"
    unfolding line2
    using copy_until_word [of "CHR ''.''" ?nm 0 "replicate 10 NUL" "?d @ [CHR 0x20]" "NL # post"]
      nm plain_namesD [OF plain wf i] by simp
  have "c_holds (?nm @ replicate (10 - length ?nm) NUL) ?nm 10"
    using nm by (cases "10 - length ?nm") (auto intro!: c_holds_appendI)
  with 1 2 3 show ?thesis by (simp add: readSaveFile_line_def)
qed

lemma c_fgets_save_line:
  assumes wf: "lb_wf LB" and i: "i < 10" and plain: "plain_names LB" and buf: "length buf = 48"
  shows "\<exists>r. c_fgets buf (save_line LB i @ file) = Some (save_line LB i @ r, file) \<and>
    length (save_line LB i @ r) = 48"
proof -
  let ?w = "dec_nat (unat (scores LB ! i)) @ CHR 0x20 # c_str (names LB ! i) @ ''.''"
  have len: "length ?w < 47"
    using c_holds_bound [OF lb_wf_holds [OF wf i]] dec_nat_u8_length [of "scores LB ! i"] by simp
  have sl: "save_line LB i = ?w @ [NL]" by (simp add: save_line_def dec_int_def)
  have "NL \<notin> set ?w"
    using plain_namesD [OF plain wf i] dec_nat_digits [of NL] by (auto simp: is_digit_def)
  then have "fgets_take 47 (?w @ NL # file) = (?w @ [NL], file)"
    using len by (rule fgets_take_line)
  then show ?thesis
    using buf len by (auto simp: c_fgets_def sl)
qed

lemma word_of_int_uint_u8 [simp]: "word_of_int (uint (x :: u8)) = x"
  by simp

lemma readSaveFile_loop_roundtrip:
  assumes wf: "lb_wf LB" and plain: "plain_names LB" and k: "k \<le> 10"
    and buf: "length buf = 48" and wf0: "lb_wf LB0"
  shows "\<exists>LB'. readSaveFile_loop k buf (concat (map (save_line LB) (rev [0..<k]))) LB0 = Some LB' \<and>
    lb_wf LB' \<and> entries LB' = take k (entries LB) @ drop k (entries LB0)"
  using k buf wf0
proof (induction k arbitrary: buf LB0)
  case 0
  then show ?case by simp
next
  case (Suc k)
  let ?file = "concat (map (save_line LB) (rev [0..<k]))"
  obtain r where r: "c_fgets buf (save_line LB k @ ?file) = Some (save_line LB k @ r, ?file)"
      "length (save_line LB k @ r) = 48"
    using c_fgets_save_line [OF wf, of k buf ?file] plain Suc.prems by auto
  obtain tmp where tmp: "readSaveFile_line (save_line LB k @ r) = Some (uint (scores LB ! k), tmp)"
      "c_holds tmp (c_str (names LB ! k)) 10"
    using readSaveFile_line_save_line [OF wf _ plain, of k r] Suc.prems(1) by auto
  obtain nm where nm: "c_strcpy (names LB0 ! k) tmp = Some nm" "c_holds nm (c_str (names LB ! k)) 7"
    using c_strcpy_holds [OF tmp(2), of "names LB0 ! k"] Suc.prems(1,3)
      c_holds_bound [OF lb_wf_holds [OF wf, of k]] by (auto simp: lb_wfD)
  define LB1 where "LB1 = LB0\<lparr>scores := (scores LB0)[k := scores LB ! k], names := (names LB0)[k := nm]\<rparr>"
  have wf1: "lb_wf LB1" unfolding LB1_def using Suc.prems(3) nm(2) by (rule lb_wf_update)
  obtain LB' where LB': "readSaveFile_loop k (save_line LB k @ r) ?file LB1 = Some LB'" "lb_wf LB'"
      "entries LB' = take k (entries LB) @ drop k (entries LB1)"
    using Suc.IH [OF _ r(2) wf1] Suc.prems(1) by auto
  have "entries LB1 = (entries LB0)[k := entries LB ! k]"
    unfolding LB1_def using Suc.prems nm(2) wf by (simp add: entries_update entries_nth c_holds_def)
  then have "drop k (entries LB1) = entries LB ! k # drop (Suc k) (entries LB0)"
    using Suc.prems by (simp add: Cons_nth_drop_Suc [symmetric, of k])
  then have "entries LB' = take (Suc k) (entries LB) @ drop (Suc k) (entries LB0)"
    using LB'(3) Suc.prems(1) wf by (simp add: take_Suc_conv_app_nth)
  moreover have "readSaveFile_loop (Suc k) buf (concat (map (save_line LB) (rev [0..<Suc k]))) LB0 = Some LB'"
    using r(1) tmp(1) nm(1) LB'(1) by (simp add: LB1_def)
  ultimately show ?case using LB'(2) by blast
qed


lemma copy_until_overrun:
  assumes "length tmp < k + length w" "k \<le> length tmp" "stop \<notin> set w"
  shows "copy_until stop (pre @ w @ post) (length pre) tmp k = None"
  using assms
proof (induction w arbitrary: pre k tmp)
  case Nil
  then show ?case by simp
next
  case (Cons c w)
  show ?case
  proof (cases "k < length tmp")
    case False
    with Cons.prems show ?thesis by (subst copy_until.simps) auto
  next
    case True
    with Cons.prems have "copy_until stop (pre @ (c # w) @ post) (length pre) tmp k =
        copy_until stop ((pre @ [c]) @ w @ post) (length (pre @ [c])) (tmp[k := c]) (Suc k)"
      by (subst copy_until.simps) auto
    also have "\<dots> = None" using Cons.prems True by (intro Cons.IH) auto
    finally show ?thesis .
  qed
qed

lemma fgets_take_prefix:
  "NL \<notin> set w \<Longrightarrow> length w \<le> n \<Longrightarrow> \<exists>l r. fgets_take n (w @ rest) = (w @ l, r)"
proof (induction w arbitrary: n)
  case Nil
  obtain l r where "fgets_take n rest = (l, r)" by (cases "fgets_take n rest")
  then show ?case by simp
next
  case (Cons c w)
  then obtain m where m: "n = Suc m" by (cases n) auto
  with Cons obtain l r where "fgets_take m (w @ rest) = (w @ l, r)" by fastforce
  with Cons.prems m show ?case by auto
qed

section \<open>Properties\<close>

definition empty_board :: leaderboard where
  "empty_board = \<lparr>names = replicate 10 (replicate 7 NUL), scores = replicate 10 0\<rparr>"

lemma empty_board_wf: "lb_wf empty_board" "ranked (entries empty_board)" "plain_names empty_board"
  by (simp_all add: lb_wf_def ranked_def entries_def plain_names_def empty_board_def c_str_def
      c_terminated_def)

text \<open>C10. Inserting a score below 256 into a ranked table succeeds without a write outside any
  array, whatever byte follows the array of scores, and without a read outside it either when some
  entry above the lowest one is at least as high; the new table is the ranked insertion of the
  entry, stays ranked, and differs from the old one by the lowest entry only.\<close>

theorem addScore_ranked:
  assumes "lb_wf LB" "ranked (entries LB)" "c_holds name s 7" "0 \<le> sint score" "sint score < 256"
    and "past \<noteq> None \<or> stops_inside score LB"
  shows "\<exists>LB'. addScore past score name LB = Some LB' \<and> lb_wf LB' \<and>
    entries LB' = rank_insert (nat (sint score), s) (entries LB) \<and> ranked (entries LB') \<and>
    mset (entries LB') = add_mset (nat (sint score), s) (mset (tl (entries LB)))"
  using addScore_rank_insert [OF assms(1,3-6)] assms(2)
  by (auto simp: ranked_rank_insert mset_rank_insert)

theorem addScore_ranked_witness:
  "\<exists>LB'. addScore (Some 200) 7 (lb_name ''ANA'') empty_board = Some LB' \<and> ranked (entries LB') \<and>
    entries LB' = rank_insert (7, ''ANA'') (entries empty_board)"
  using addScore_ranked [OF empty_board_wf(1,2), of "lb_name ''ANA''" "''ANA''" 7 "Some 200"]
    lb_name_holds [of "''ANA''"] by auto

text \<open>Adding any sequence of scores below 256 with names of at most six characters keeps the table
  ranked: the interface \<open>score_table\<close> holds of the code.\<close>

theorem addScore_sequence_ranked:
  assumes "lb_wf LB" "ranked (entries LB)" "\<forall>e \<in> set es. lb_admissible e"
  shows "\<exists>LB'. foldl (\<lambda>b e. b \<bind> lb_add e) (Some LB) es = Some LB' \<and> lb_wf LB' \<and>
    ranked (entries LB')"
  using assms by (intro lb.add_sequence_ranked) auto

theorem addScore_sequence_ranked_witness:
  "\<exists>LB'. foldl (\<lambda>b e. b \<bind> lb_add e) (Some empty_board) [(7, ''ANA''), (3, ''RUI'')] = Some LB' \<and>
    ranked (entries LB')"
  using addScore_sequence_ranked [OF empty_board_wf(1,2), of "[(7, ''ANA''), (3, ''RUI'')]"]
  by (auto simp: lb_admissible_def)

text \<open>A score of 256 or more is stored modulo 256, and still at the highest rank.\<close>

theorem addScore_truncates:
  assumes "lb_wf LB" "c_holds name s 7" "256 \<le> sint score"
  shows "\<exists>LB'. addScore (Some past) score name LB = Some LB' \<and>
    entries LB' = tl (entries LB) @ [(nat (sint score) mod 256, s)]"
proof -
  have "int (fst x) < sint score" if "x \<in> set (tl (entries LB))" for x
    using entries_bound [of x LB] list.set_sel(2) [of "entries LB" x] that assms(3)
    by (cases "entries LB = []") auto
  then have "takeWhile (\<lambda>x. int (fst x) < sint score) (tl (entries LB)) = tl (entries LB)"
      "dropWhile (\<lambda>x. int (fst x) < sint score) (tl (entries LB)) = []"
    by auto
  moreover have "unat (ucast score :: u8) = nat (sint score) mod 256"
  proof -
    have "score = of_nat (nat (sint score))" using assms(3) by simp
    then have "unat (ucast score :: u8) = unat (ucast (of_nat (nat (sint score)) :: 32 word) :: u8)"
      by simp
    then show ?thesis by (simp add: unsigned_ucast_eq unat_of_nat take_bit_eq_mod mod_mod_cancel)
  qed
  ultimately show ?thesis
    using addScore_refines [OF assms(1,2), of score "Some past"] assms(3) by auto
qed


theorem addScore_truncates_witness:
  "\<exists>LB'. addScore (Some 0) 300 (lb_name ''ANA'') empty_board = Some LB' \<and>
    entries LB' = tl (entries empty_board) @ [(44, ''ANA'')]"
  using addScore_truncates [OF empty_board_wf(1), of "lb_name ''ANA''" "''ANA''" 300 0]
    lb_name_holds [of "''ANA''"] by auto

lemma tl_entries: "tl (entries LB) = drop 1 (entries LB)"
  by (simp add: drop_Suc)

text \<open>A score above all entries but the lowest, such as any score but zero in an empty table, has
  \<^verbatim>\<open>addScore\<close> read outside the array of scores.\<close>

theorem addScore_overread:
  assumes "lb_wf LB" "\<not> stops_inside score LB"
  shows "addScore None score name LB = None"
  using addScore_loop_overread [OF assms(1), of 1 score] assms(2)
  by (simp add: addScore_def stops_inside_def tl_entries not_le)

theorem addScore_overread_witness: "addScore None 1 (lb_name ''ANA'') empty_board = None"
  by (rule addScore_overread [OF empty_board_wf(1)])
    (simp add: stops_inside_def entries_def empty_board_def numeral_eq_Suc)

lemma getLeaderBoard_holds:
  assumes "lb_wf LB" "length str = 256"
  shows "\<exists>r. getLeaderBoard LB str = Some r \<and>
    c_holds r (''LEADERBOARD'' @ [NL, NL, NL] @ concat (map (lb_row LB) (rev [0..<10]))) 256"
proof -
  let ?t = "''LEADERBOARD'' @ [NL, NL, NL]"
  obtain r where r: "c_strcat (c_memset0 str) (c_lit ?t) = Some r" "c_holds r ?t 256"
    using c_strcat_holds [OF c_holds_memset0 [of str] c_holds_lit [of ?t]] assms(2) by auto
  show ?thesis
    using getLeaderBoard_loop_holds [OF assms(1) _ r(2), of 10] r(1)
    by (simp add: getLeaderBoard_def)
qed

text \<open>C20. The printed table is the title and the ten rows from the last entry to the first, which in
  a ranked table is the best score first, each score padded to four digits; it is built inside the array of 256 characters, with no overrun of the array of four
  characters that holds a printed score.\<close>

theorem getLeaderBoard_text:
  assumes "lb_wf LB" "length str = 256"
  shows "\<exists>r. getLeaderBoard LB str = Some r \<and>
    c_holds r (''LEADERBOARD'' @ [NL, NL, NL] @ concat (map (lb_row LB) (rev [0..<10]))) 256"
  using assms by (rule getLeaderBoard_holds)

theorem getLeaderBoard_text_witness:
  "\<exists>r. getLeaderBoard empty_board (replicate 256 (CHR ''x'')) = Some r \<and>
    c_holds r (''LEADERBOARD'' @ [NL, NL, NL] @ concat (map (lb_row empty_board) (rev [0..<10]))) 256"
  using getLeaderBoard_text [OF empty_board_wf(1), of "replicate 256 (CHR ''x'')"] by simp

text \<open>C21. Reading a file that holds the ten lines of the save format, from the last entry to the
  first, gives back the entries of the table they were printed from, as long as no name contains the
  full stop or the line feed that end it; the names typed in the game contain neither.\<close>

theorem readSaveFile_save_lines:
  assumes "lb_wf LB" "plain_names LB" "lb_wf LB0" "length line = 48"
  shows "\<exists>LB'. readSaveFile line (Some (concat (map (save_line LB) (rev [0..<10])))) LB0 = Some LB' \<and>
    lb_wf LB' \<and> entries LB' = entries LB"
proof -
  have "lb_wf (LB0\<lparr>names := map c_memset0 (names LB0)\<rparr>)"
    using assms(3) by (auto simp: lb_wf_def c_memset0_def c_terminated_def)
  then show ?thesis
    using readSaveFile_loop_roundtrip [OF assms(1,2), of 10 line] assms(1,4)
    unfolding readSaveFile_def by fastforce
qed

theorem readSaveFile_save_lines_witness:
  "\<exists>LB'. readSaveFile (replicate 48 NUL) (Some (concat (map (save_line empty_board) (rev [0..<10]))))
      empty_board = Some LB' \<and> entries LB' = entries empty_board"
  using readSaveFile_save_lines [OF empty_board_wf(1,3,1), of "replicate 48 NUL"] by auto

text \<open>C38. When the file can be opened, saving writes no line at all: the file is left empty, and loading it afterwards clears every
  name and keeps the scores that were in memory.\<close>

theorem writeSaveFile_loses_table:
  "writeSaveFile True LB = Some [] \<and>
   readSaveFile line (writeSaveFile True LB) LB0 = Some (LB0\<lparr>names := map c_memset0 (names LB0)\<rparr>)"
proof -
  have w: "writeSaveFile True LB = Some []"
    by (simp add: writeSaveFile_def while_option_unfold c_fclose_def)
  then show ?thesis
    by (simp add: readSaveFile_def c_fgets_def eval_nat_numeral)
qed

text \<open>When the file cannot be opened for writing, the program closes the null pointer.\<close>

theorem writeSaveFile_unopened: "writeSaveFile False LB = None"
  by (simp add: writeSaveFile_def c_fclose_def bind_eq_None_conv)

text \<open>A line of the file with no space among its first eleven characters makes the reader write past
  its array of ten characters.\<close>

theorem readSaveFile_overrun:
  assumes "length w = 11" "CHR 0x20 \<notin> set w" "NL \<notin> set w" "length line = 48"
  shows "readSaveFile line (Some (w @ rest)) LB = None"
proof -
  obtain l r where lr: "fgets_take 47 (w @ rest) = (w @ l, r)"
    using fgets_take_prefix [of w 47 rest] assms by auto
  have "w \<noteq> []" using assms(1) by auto
  with lr obtain post where "c_fgets line (w @ rest) = Some (w @ post, r)"
    using assms(4) by (simp add: c_fgets_def)
  moreover have "copy_until (CHR 0x20) (w @ post) 0 (replicate 10 NUL) 0 = None"
    using copy_until_overrun [of "replicate 10 NUL" 0 w "CHR 0x20" "[]" post] assms by simp
  ultimately show ?thesis
    by (simp add: readSaveFile_def readSaveFile_line_def eval_nat_numeral)
qed

theorem readSaveFile_overrun_witness:
  "readSaveFile (replicate 48 NUL) (Some (''12345678901'' @ '' ANA.'')) empty_board = None"
  using readSaveFile_overrun [of "''12345678901''" "replicate 48 NUL" "'' ANA.''" empty_board] by simp

end
