(* ===== verification/Game.thy ===== *)
theory Game
  imports Utils Leaderboard
begin

text \<open>
  \<^verbatim>\<open>game.h\<close> and \<^verbatim>\<open>game.c\<close>: the global variables of the game as one record and
  the operations of the game model. The row-major loops over the matrix of aliens are recursions
  over the list of its positions; the early return of \<^verbatim>\<open>game_update_alien_times\<close> is the
  branch that does not recurse.
\<close>

declare split_paired_All [simp del] split_paired_Ex [simp del]

section \<open>Data\<close>

datatype game_state = PLAYING | PAUSE | MENU | GAME_OVER | EXIT | LEADERBOARD | LB_INPUT

datatype alien_state =
  APPEARING | ALIVE | DEAD_1 | DEAD_2 | DEAD_3 | DEAD_4 | DEAD_5 | EMPTY

record alien =
  astate :: alien_state
  time :: u32

record killer_alien =
  kstate :: u32
  kx :: u32
  ky :: u32

definition GAME_WIDTH :: int where "GAME_WIDTH = 800"
definition GAME_HEIGHT :: int where "GAME_HEIGHT = 600"
definition GAME_HORIZONTAL_MARGIN :: int where "GAME_HORIZONTAL_MARGIN = 15"
definition GAME_VERTICAL_MARGIN :: int where "GAME_VERTICAL_MARGIN = 95"
definition GAME_WIDTH_MATRIX :: nat where "GAME_WIDTH_MATRIX = 11"
definition GAME_HEIGHT_MATRIX :: nat where "GAME_HEIGHT_MATRIX = 7"
definition ALIEN_WIDTH :: int where "ALIEN_WIDTH = 70"
definition ALIEN_HEIGHT :: int where "ALIEN_HEIGHT = 70"
definition ALIEN_HORIZONTAL_MARGIN :: int where "ALIEN_HORIZONTAL_MARGIN = 3"
definition ALIEN_VERTICAL_MARGIN :: int where "ALIEN_VERTICAL_MARGIN = 3"
definition CROSSHAIR_WIDTH :: i16 where "CROSSHAIR_WIDTH = 64"
definition CROSSHAIR_HEIGHT :: i16 where "CROSSHAIR_HEIGHT = 64"
definition ALIEN_INIT_SPAWN_TIME :: u32 where "ALIEN_INIT_SPAWN_TIME = 70"
definition ALIEN_SPAWN_RATE_INCREASE :: u32 where "ALIEN_SPAWN_RATE_INCREASE = 5"
definition ALIEN_RANDOM_SPAWN_ATTEMPTS :: nat where "ALIEN_RANDOM_SPAWN_ATTEMPTS = 2"
definition ALIEN_MAX_SPAWN_RATE :: u32 where "ALIEN_MAX_SPAWN_RATE = 20"
definition GAME_OVER_WAIT :: u32 where "GAME_OVER_WAIT = 120"

lemmas game_consts = GAME_WIDTH_def GAME_HEIGHT_def GAME_HORIZONTAL_MARGIN_def
  GAME_VERTICAL_MARGIN_def GAME_WIDTH_MATRIX_def GAME_HEIGHT_MATRIX_def ALIEN_WIDTH_def
  ALIEN_HEIGHT_def ALIEN_HORIZONTAL_MARGIN_def ALIEN_VERTICAL_MARGIN_def CROSSHAIR_WIDTH_def
  CROSSHAIR_HEIGHT_def ALIEN_INIT_SPAWN_TIME_def ALIEN_SPAWN_RATE_INCREASE_def
  ALIEN_RANDOM_SPAWN_ATTEMPTS_def ALIEN_MAX_SPAWN_RATE_def GAME_OVER_WAIT_def

fun alien_index :: "alien_state \<Rightarrow> nat" where
  "alien_index APPEARING = 0"
| "alien_index ALIVE = 1"
| "alien_index DEAD_1 = 2"
| "alien_index DEAD_2 = 3"
| "alien_index DEAD_3 = 4"
| "alien_index DEAD_4 = 5"
| "alien_index DEAD_5 = 6"
| "alien_index EMPTY = 7"

text \<open>
  \<^verbatim>\<open>alien->state++\<close>. Every use of it is behind the test that the state is not
  \<^const>\<open>EMPTY\<close>, so the last equation is never reached.
\<close>

fun alien_state_inc :: "alien_state \<Rightarrow> alien_state" where
  "alien_state_inc APPEARING = ALIVE"
| "alien_state_inc ALIVE = DEAD_1"
| "alien_state_inc DEAD_1 = DEAD_2"
| "alien_state_inc DEAD_2 = DEAD_3"
| "alien_state_inc DEAD_3 = DEAD_4"
| "alien_state_inc DEAD_4 = DEAD_5"
| "alien_state_inc DEAD_5 = EMPTY"
| "alien_state_inc EMPTY = EMPTY"

text \<open>The order of the enumeration, in which an alien goes through its states.\<close>

lemma alien_index_inject [simp]: "alien_index a = alien_index b \<longleftrightarrow> a = b"
  by (cases a; cases b) simp_all

instantiation alien_state :: linorder
begin

definition less_eq_alien_state :: "alien_state \<Rightarrow> alien_state \<Rightarrow> bool" where
  "less_eq_alien_state a b \<longleftrightarrow> alien_index a \<le> alien_index b"

definition less_alien_state :: "alien_state \<Rightarrow> alien_state \<Rightarrow> bool" where
  "less_alien_state a b \<longleftrightarrow> alien_index a < alien_index b"

instance
  by standard (auto simp: less_eq_alien_state_def less_alien_state_def)

end

definition alien_times :: "u32 list" where
  "alien_times = [5, 300, 2, 2, 2, 2, 2, 0]"

record game =
  game_over_counter :: u32
  killer :: killer_alien
  game_state :: game_state
  game_matrix :: "alien list list"
  points :: u32
  mouse_x :: i16
  mouse_y :: i16
  crosshair_half_width :: i16
  crosshair_half_height :: i16
  crosshair_width_border :: i16
  crosshair_height_border :: i16
  play_button_xi :: u16
  play_button_yi :: u16
  play_button_xf :: u16
  play_button_yf :: u16
  exit_button_xi :: u16
  exit_button_yi :: u16
  exit_button_xf :: u16
  exit_button_yf :: u16
  name :: "char list"
  input_message :: "char list"
  LB :: leaderboard
  minutes :: u8
  hours :: u8
  frame_counter :: u32
  random_alien_counter :: u32
  random_alien_number :: u32
  random_alien_spawn_rate_increase :: u32

section \<open>Operations\<close>

definition positions :: "(nat \<times> nat) list" where
  "positions = List.product [0..<GAME_HEIGHT_MATRIX] [0..<GAME_WIDTH_MATRIX]"

text \<open>
  An access to \<^verbatim>\<open>game_matrix[i][j]\<close>: outside the array it is \<^const>\<open>None\<close>, and so is the
  operation that makes it.
\<close>

definition cell_read :: "alien list list \<Rightarrow> nat \<times> nat \<Rightarrow> alien option" where
  "cell_read m p =
     (if fst p < length m \<and> snd p < length (m ! fst p) then Some (m ! fst p ! snd p) else None)"

definition cell_write :: "nat \<times> nat \<Rightarrow> alien \<Rightarrow> alien list list \<Rightarrow> alien list list option" where
  "cell_write p a m =
     (if fst p < length m \<and> snd p < length (m ! fst p)
      then Some (m[fst p := (m ! fst p)[snd p := a]]) else None)"

definition write_alien :: "nat \<times> nat \<Rightarrow> alien \<Rightarrow> game \<Rightarrow> game option" where
  "write_alien p a g = map_option (\<lambda>m. g\<lparr>game_matrix := m\<rparr>) (cell_write p a (game_matrix g))"

text \<open>\<^verbatim>\<open>killer_alien.x == j && killer_alien.y == i\<close>\<close>

definition is_killer :: "game \<Rightarrow> nat \<times> nat \<Rightarrow> bool" where
  "is_killer g p \<longleftrightarrow> kx (killer g) = of_nat (snd p) \<and> ky (killer g) = of_nat (fst p)"

definition game_reset :: "game \<Rightarrow> game" where
  "game_reset g =
     g\<lparr>game_matrix :=
         replicate GAME_HEIGHT_MATRIX (replicate GAME_WIDTH_MATRIX \<lparr>astate = EMPTY, time = 0\<rparr>)\<rparr>"

definition game_initialize :: "'d env \<Rightarrow> game \<Rightarrow> 'd \<Rightarrow> game \<times> 'd" where
  "game_initialize env g d =
     (let d = srand_time env d;
          g = g\<lparr>game_state := MENU, points := 0, game_over_counter := 0,
                mouse_x := word_of_int (GAME_WIDTH div 2),
                mouse_y := word_of_int (GAME_HEIGHT div 2),
                crosshair_half_width := drop_bit 1 CROSSHAIR_WIDTH,
                crosshair_half_height := drop_bit 1 CROSSHAIR_HEIGHT,
                crosshair_width_border := word_of_int GAME_WIDTH - drop_bit 1 CROSSHAIR_WIDTH,
                crosshair_height_border := word_of_int GAME_HEIGHT - drop_bit 1 CROSSHAIR_HEIGHT,
                random_alien_counter := 0,
                random_alien_number := ALIEN_INIT_SPAWN_TIME,
                random_alien_spawn_rate_increase := ALIEN_SPAWN_RATE_INCREASE\<rparr>
      in (game_reset g, d))"

fun kill_other_aliens_loop :: "(nat \<times> nat) list \<Rightarrow> game \<Rightarrow> game option" where
  "kill_other_aliens_loop [] g = Some g"
| "kill_other_aliens_loop (p # ps) g = do {
     a \<leftarrow> cell_read (game_matrix g) p;
     if astate a = EMPTY \<or> is_killer g p then kill_other_aliens_loop ps g
     else write_alien p \<lparr>astate = DEAD_1, time = 2\<rparr> g \<bind> kill_other_aliens_loop ps
   }"

definition kill_other_aliens :: "game \<Rightarrow> game option" where
  "kill_other_aliens g = kill_other_aliens_loop positions g"

fun game_update_alien_times_loop :: "(nat \<times> nat) list \<Rightarrow> game \<Rightarrow> game option" where
  "game_update_alien_times_loop [] g = Some g"
| "game_update_alien_times_loop (p # ps) g = do {
     a \<leftarrow> cell_read (game_matrix g) p;
     if astate a = EMPTY then game_update_alien_times_loop ps g
     else if game_state g = GAME_OVER then
       if is_killer g p then game_update_alien_times_loop ps g
       else if 0 < time a
       then write_alien p (a\<lparr>time := time a - 1\<rparr>) g \<bind> game_update_alien_times_loop ps
       else write_alien p \<lparr>astate = alien_state_inc (astate a), time = 2\<rparr> g
              \<bind> game_update_alien_times_loop ps
     else if astate a = ALIVE \<and> time a = 0 then
       kill_other_aliens
         (g\<lparr>game_over_counter := GAME_OVER_WAIT, game_state := GAME_OVER,
            killer := \<lparr>kstate = 0, kx = of_nat (snd p), ky = of_nat (fst p)\<rparr>\<rparr>)
     else if 0 < time a
     then write_alien p (a\<lparr>time := time a - 1\<rparr>) g \<bind> game_update_alien_times_loop ps
     else write_alien p \<lparr>astate = alien_state_inc (astate a),
                         time = alien_times ! alien_index (alien_state_inc (astate a))\<rparr> g
            \<bind> game_update_alien_times_loop ps
   }"

definition game_update_alien_times :: "game \<Rightarrow> game option" where
  "game_update_alien_times g = game_update_alien_times_loop positions g"

fun spawn_attempts :: "'d env \<Rightarrow> nat \<Rightarrow> game \<Rightarrow> 'd \<Rightarrow> (game \<times> 'd) option" where
  "spawn_attempts env 0 g d = Some (g, d)"
| "spawn_attempts env (Suc random_attemps) g d =
     (let (rx, d) = rand env d; pos_x = unat rx mod GAME_WIDTH_MATRIX;
          (ry, d) = rand env d; pos_y = unat ry mod GAME_HEIGHT_MATRIX
      in case cell_read (game_matrix g) (pos_y, pos_x) of
           None \<Rightarrow> None
         | Some a \<Rightarrow>
             if astate a = EMPTY
             then map_option (\<lambda>g. (g, d))
                    (write_alien (pos_y, pos_x)
                       \<lparr>astate = APPEARING, time = alien_times ! alien_index APPEARING\<rparr> g)
             else spawn_attempts env random_attemps g d)"

definition game_generate_new_alien :: "'d env \<Rightarrow> game \<Rightarrow> 'd \<Rightarrow> (game \<times> 'd) option" where
  "game_generate_new_alien env g d =
     (if random_alien_counter g < random_alien_number g
      then Some (g\<lparr>random_alien_counter := random_alien_counter g + 1\<rparr>, d)
      else
        let g = g\<lparr>random_alien_counter := 0\<rparr>;
            g = (if random_alien_number g < random_alien_spawn_rate_increase g
                 then g\<lparr>random_alien_number := ALIEN_MAX_SPAWN_RATE,
                        random_alien_spawn_rate_increase := 0\<rparr>
                 else g);
            g = g\<lparr>random_alien_number :=
                    random_alien_number g - random_alien_spawn_rate_increase g\<rparr>
        in spawn_attempts env ALIEN_RANDOM_SPAWN_ATTEMPTS g d)"

definition game_step :: "'d env \<Rightarrow> game \<Rightarrow> 'd \<Rightarrow> (game \<times> 'd) option" where
  "game_step env g d = do {
     g \<leftarrow> game_update_alien_times g;
     game_generate_new_alien env g d
   }"

text \<open>
  \<^verbatim>\<open>sc\<close> is an uninitialised array of four characters; what it holds before
  \<^verbatim>\<open>sprintf\<close> is never read, so the model starts it with zeros.
\<close>

definition game_leaderboard :: "game \<Rightarrow> game option" where
  "game_leaderboard g = do {
     let g = g\<lparr>name := c_memset0 (name g)\<rparr>;
     msg \<leftarrow> c_strcpy (c_memset0 (input_message g)) (c_lit ''SCORE:   '');
     sc \<leftarrow> c_sprintf_d (replicate 4 NUL) (sint (points g));
     msg \<leftarrow> c_strcat msg sc;
     if compareScore (points g) (LB g) \<noteq> 0 then do {
       msg \<leftarrow> c_strcat msg (c_lit ([NL] @ ''NAME:   '' @ [NL, NL] @ ''TYPE AND PRESS ENTER''));
       Some (g\<lparr>input_message := msg, game_state := LB_INPUT\<rparr>)
     } else Some (g\<lparr>input_message := msg, game_state := LEADERBOARD\<rparr>)
   }"

text \<open>\<open>past\<close> is what reading the byte after the array of scores gives (see \<open>Leaderboard\<close>).\<close>

definition game_save_and_display_lb :: "u8 option \<Rightarrow> game \<Rightarrow> game option" where
  "game_save_and_display_lb past g = do {
     lb' \<leftarrow> addScore past (points g) (name g) (LB g);
     Some (g\<lparr>LB := lb', game_state := LEADERBOARD\<rparr>)
   }"

definition game_ih :: "'d env \<Rightarrow> game \<Rightarrow> 'd \<Rightarrow> (game \<times> 'd) option" where
  "game_ih env g d =
     (case game_state g of
        PLAYING \<Rightarrow> game_step env g d
      | GAME_OVER \<Rightarrow> do {
          g \<leftarrow> game_update_alien_times g;
          let g = g\<lparr>game_over_counter := game_over_counter g - 1\<rparr>;
          let g = g\<lparr>killer := (killer g)\<lparr>kstate := (game_over_counter g div 5) mod 4\<rparr>\<rparr>;
          if game_over_counter g = 0 then map_option (\<lambda>g. (g, d)) (game_leaderboard g)
          else Some (g, d)
        }
      | _ \<Rightarrow> Some (g, d))"


section \<open>The same operations without the test of the bounds\<close>

text \<open>
  What the operations compute as long as every access stays inside the matrix, for the proofs: each
  result of an operation above is the one of its counterpart here, and on a matrix of the right size
  there always is a result.
\<close>

definition cell :: "alien list list \<Rightarrow> nat \<times> nat \<Rightarrow> alien" where
  "cell m p = m ! fst p ! snd p"

definition set_cell :: "nat \<times> nat \<Rightarrow> alien \<Rightarrow> alien list list \<Rightarrow> alien list list" where
  "set_cell p a m = m[fst p := (m ! fst p)[snd p := a]]"

definition put_alien :: "nat \<times> nat \<Rightarrow> alien \<Rightarrow> game \<Rightarrow> game" where
  "put_alien p a g = g\<lparr>game_matrix := set_cell p a (game_matrix g)\<rparr>"

fun pure_kill_other_aliens_loop :: "(nat \<times> nat) list \<Rightarrow> game \<Rightarrow> game" where
  "pure_kill_other_aliens_loop [] g = g"
| "pure_kill_other_aliens_loop (p # ps) g =
     (if astate (cell (game_matrix g) p) = EMPTY \<or> is_killer g p
      then pure_kill_other_aliens_loop ps g
      else pure_kill_other_aliens_loop ps (put_alien p \<lparr>astate = DEAD_1, time = 2\<rparr> g))"

definition pure_kill_other_aliens :: "game \<Rightarrow> game" where
  "pure_kill_other_aliens g = pure_kill_other_aliens_loop positions g"

fun pure_game_update_alien_times_loop :: "(nat \<times> nat) list \<Rightarrow> game \<Rightarrow> game" where
  "pure_game_update_alien_times_loop [] g = g"
| "pure_game_update_alien_times_loop (p # ps) g =
     (let a = cell (game_matrix g) p in
      if astate a = EMPTY then pure_game_update_alien_times_loop ps g
      else if game_state g = GAME_OVER then
        if is_killer g p then pure_game_update_alien_times_loop ps g
        else if 0 < time a
        then pure_game_update_alien_times_loop ps (put_alien p (a\<lparr>time := time a - 1\<rparr>) g)
        else pure_game_update_alien_times_loop ps
               (put_alien p \<lparr>astate = alien_state_inc (astate a), time = 2\<rparr> g)
      else if astate a = ALIVE \<and> time a = 0 then
        pure_kill_other_aliens
          (g\<lparr>game_over_counter := GAME_OVER_WAIT, game_state := GAME_OVER,
             killer := \<lparr>kstate = 0, kx = of_nat (snd p), ky = of_nat (fst p)\<rparr>\<rparr>)
      else if 0 < time a
      then pure_game_update_alien_times_loop ps (put_alien p (a\<lparr>time := time a - 1\<rparr>) g)
      else pure_game_update_alien_times_loop ps
             (put_alien p \<lparr>astate = alien_state_inc (astate a),
                           time = alien_times ! alien_index (alien_state_inc (astate a))\<rparr> g))"

definition pure_game_update_alien_times :: "game \<Rightarrow> game" where
  "pure_game_update_alien_times g = pure_game_update_alien_times_loop positions g"

fun pure_spawn_attempts :: "'d env \<Rightarrow> nat \<Rightarrow> game \<Rightarrow> 'd \<Rightarrow> game \<times> 'd" where
  "pure_spawn_attempts env 0 g d = (g, d)"
| "pure_spawn_attempts env (Suc random_attemps) g d =
     (let (rx, d) = rand env d; pos_x = unat rx mod GAME_WIDTH_MATRIX;
          (ry, d) = rand env d; pos_y = unat ry mod GAME_HEIGHT_MATRIX
      in if astate (cell (game_matrix g) (pos_y, pos_x)) = EMPTY
         then (put_alien (pos_y, pos_x)
                 \<lparr>astate = APPEARING, time = alien_times ! alien_index APPEARING\<rparr> g, d)
         else pure_spawn_attempts env random_attemps g d)"

definition pure_game_generate_new_alien :: "'d env \<Rightarrow> game \<Rightarrow> 'd \<Rightarrow> game \<times> 'd" where
  "pure_game_generate_new_alien env g d =
     (if random_alien_counter g < random_alien_number g
      then (g\<lparr>random_alien_counter := random_alien_counter g + 1\<rparr>, d)
      else
        let g = g\<lparr>random_alien_counter := 0\<rparr>;
            g = (if random_alien_number g < random_alien_spawn_rate_increase g
                 then g\<lparr>random_alien_number := ALIEN_MAX_SPAWN_RATE,
                        random_alien_spawn_rate_increase := 0\<rparr>
                 else g);
            g = g\<lparr>random_alien_number :=
                    random_alien_number g - random_alien_spawn_rate_increase g\<rparr>
        in pure_spawn_attempts env ALIEN_RANDOM_SPAWN_ATTEMPTS g d)"

definition pure_game_step :: "'d env \<Rightarrow> game \<Rightarrow> 'd \<Rightarrow> game \<times> 'd" where
  "pure_game_step env g d = pure_game_generate_new_alien env (pure_game_update_alien_times g) d"

definition pure_game_ih :: "'d env \<Rightarrow> game \<Rightarrow> 'd \<Rightarrow> (game \<times> 'd) option" where
  "pure_game_ih env g d =
     (case game_state g of
        PLAYING \<Rightarrow> Some (pure_game_step env g d)
      | GAME_OVER \<Rightarrow>
          (let g = pure_game_update_alien_times g;
               g = g\<lparr>game_over_counter := game_over_counter g - 1\<rparr>;
               g = g\<lparr>killer := (killer g)\<lparr>kstate := (game_over_counter g div 5) mod 4\<rparr>\<rparr>
           in if game_over_counter g = 0 then map_option (\<lambda>g. (g, d)) (game_leaderboard g)
              else Some (g, d))
      | _ \<Rightarrow> Some (g, d))"

section \<open>The matrix as a store\<close>

text \<open>
  The interface of a store with independent cells, and the rule for a loop that visits each cell at
  most once and rewrites it from its own old content.
\<close>

locale cell_store =
  fixes get :: "'m \<Rightarrow> 'p \<Rightarrow> 'a"
    and put :: "'p \<Rightarrow> 'a \<Rightarrow> 'm \<Rightarrow> 'm"
    and wf :: "'m \<Rightarrow> bool"
    and valid :: "'p \<Rightarrow> bool"
  assumes wf_put: "wf m \<Longrightarrow> wf (put p a m)"
    and get_put: "wf m \<Longrightarrow> valid p \<Longrightarrow> valid q \<Longrightarrow> get (put p a m) q = (if p = q then a else get m q)"
begin

lemma wf_fold: "wf m \<Longrightarrow> wf (fold (\<lambda>p m. put p (f p (get m p)) m) ps m)"
  by (induction ps arbitrary: m) (auto simp: wf_put)

lemma get_fold:
  assumes "wf m" "distinct ps" "\<And>p. p \<in> set ps \<Longrightarrow> valid p" "valid q"
  shows "get (fold (\<lambda>p m. put p (f p (get m p)) m) ps m) q =
    (if q \<in> set ps then f q (get m q) else get m q)"
  using assms
proof (induction ps arbitrary: m)
  case Nil
  then show ?case by simp
next
  case (Cons p ps)
  let ?m = "put p (f p (get m p)) m"
  have "get (fold (\<lambda>p m. put p (f p (get m p)) m) ps ?m) q =
      (if q \<in> set ps then f q (get ?m q) else get ?m q)"
    using Cons.prems by (intro Cons.IH) (auto simp: wf_put)
  then show ?case using Cons.prems by (auto simp: get_put)
qed

end

definition grid_wf :: "alien list list \<Rightarrow> bool" where
  "grid_wf m \<longleftrightarrow> length m = GAME_HEIGHT_MATRIX \<and> (\<forall>r \<in> set m. length r = GAME_WIDTH_MATRIX)"

definition in_grid :: "nat \<times> nat \<Rightarrow> bool" where
  "in_grid p \<longleftrightarrow> fst p < GAME_HEIGHT_MATRIX \<and> snd p < GAME_WIDTH_MATRIX"

interpretation grid: cell_store cell set_cell grid_wf in_grid
proof unfold_locales
  fix m p a
  assume "grid_wf m"
  then show "grid_wf (set_cell p a m)"
    by (cases "fst p < length m")
      (auto simp: grid_wf_def set_cell_def list_update_beyond dest!: set_update_subset_insert [THEN subsetD])
next
  fix m p q a
  assume "grid_wf m" "in_grid p" "in_grid q"
  then show "cell (set_cell p a m) q = (if p = q then a else cell m q)"
    by (cases p; cases q) (auto simp: cell_def set_cell_def in_grid_def grid_wf_def nth_list_update)
qed

lemma set_positions [simp]: "p \<in> set positions \<longleftrightarrow> in_grid p"
  by (cases p) (auto simp: positions_def in_grid_def)

lemma distinct_positions [simp]: "distinct positions"
  by (simp add: positions_def distinct_product)

lemma set_cell_same [simp]: "set_cell p (cell m p) m = m"
  by (simp add: set_cell_def cell_def)

lemma put_alien_simps [simp]:
  "game_matrix (put_alien p a g) = set_cell p a (game_matrix g)"
  "game_state (put_alien p a g) = game_state g"
  "killer (put_alien p a g) = killer g"
  "is_killer (put_alien p a g) q = is_killer g q"
  by (simp_all add: put_alien_def is_killer_def)

lemma put_alien_same: "put_alien p (cell (game_matrix g) p) g = g"
  by (simp add: put_alien_def)

subsection \<open>Results of the checked operations\<close>

lemma write_alien_Some: "write_alien p a g = Some g' \<Longrightarrow> g' = put_alien p a g"
  by (auto simp: write_alien_def cell_write_def put_alien_def set_cell_def split: if_splits)

lemma cell_read_Some: "cell_read m p = Some a \<Longrightarrow> a = cell m p"
  by (simp add: cell_read_def cell_def split: if_splits)

lemma cell_access:
  assumes "grid_wf (game_matrix g)" "in_grid p"
  shows "cell_read (game_matrix g) p = Some (cell (game_matrix g) p)"
    and "write_alien p a g = Some (put_alien p a g)"
  using assms
  by (auto simp: cell_read_def cell_def write_alien_def cell_write_def put_alien_def set_cell_def
      grid_wf_def in_grid_def)

lemma kill_loop_Some: "kill_other_aliens_loop ps g = Some g' \<Longrightarrow> g' = pure_kill_other_aliens_loop ps g"
proof (induction ps arbitrary: g)
  case (Cons p ps)
  then show ?case by (auto dest!: write_alien_Some cell_read_Some simp: bind_eq_Some_conv split: if_splits)
qed simp

lemma kill_Some: "kill_other_aliens g = Some g' \<Longrightarrow> g' = pure_kill_other_aliens g"
  unfolding kill_other_aliens_def pure_kill_other_aliens_def by (rule kill_loop_Some)

lemma kill_loop_returns:
  assumes "grid_wf (game_matrix g)" "list_all in_grid ps"
  shows "kill_other_aliens_loop ps g = Some (pure_kill_other_aliens_loop ps g)"
  using assms by (induction ps arbitrary: g) (simp_all add: cell_access grid.wf_put)

lemma kill_returns: "grid_wf (game_matrix g) \<Longrightarrow> kill_other_aliens g = Some (pure_kill_other_aliens g)"
  by (simp add: kill_other_aliens_def pure_kill_other_aliens_def kill_loop_returns list_all_iff)

lemma update_loop_Some:
  "game_update_alien_times_loop ps g = Some g' \<Longrightarrow> g' = pure_game_update_alien_times_loop ps g"
proof (induction ps arbitrary: g)
  case (Cons p ps)
  then show ?case
    by (auto dest!: write_alien_Some cell_read_Some kill_Some simp: bind_eq_Some_conv Let_def split: if_splits)
qed simp

lemma update_Some: "game_update_alien_times g = Some g' \<Longrightarrow> g' = pure_game_update_alien_times g"
  unfolding game_update_alien_times_def pure_game_update_alien_times_def by (rule update_loop_Some)

lemma update_loop_returns:
  assumes "grid_wf (game_matrix g)" "list_all in_grid ps"
  shows "game_update_alien_times_loop ps g = Some (pure_game_update_alien_times_loop ps g)"
  using assms
  by (induction ps arbitrary: g) (simp_all add: cell_access grid.wf_put kill_returns Let_def)

lemma update_returns:
  "grid_wf (game_matrix g) \<Longrightarrow> game_update_alien_times g = Some (pure_game_update_alien_times g)"
  by (simp add: game_update_alien_times_def pure_game_update_alien_times_def update_loop_returns list_all_iff)

lemma spawn_Some: "spawn_attempts env n g d = Some s \<Longrightarrow> s = pure_spawn_attempts env n g d"
proof (induction n arbitrary: d)
  case (Suc n)
  then show ?case
    by (auto dest!: write_alien_Some cell_read_Some simp: Let_def split_beta split: option.splits if_splits)
qed simp

lemma spawn_returns:
  assumes "grid_wf (game_matrix g)"
  shows "spawn_attempts env n g d = Some (pure_spawn_attempts env n g d)"
proof (induction n arbitrary: d)
  case (Suc n)
  have "in_grid (unat ry mod GAME_HEIGHT_MATRIX, unat rx mod GAME_WIDTH_MATRIX)" for rx ry :: "31 word"
    by (simp add: in_grid_def game_consts)
  with Suc.IH show ?case by (simp add: cell_access [OF assms] Let_def split_beta)
qed simp

lemma generate_Some:
  "game_generate_new_alien env g d = Some s \<Longrightarrow> s = pure_game_generate_new_alien env g d"
  by (auto simp: game_generate_new_alien_def pure_game_generate_new_alien_def Let_def
      dest: spawn_Some split: if_splits)

lemma generate_returns:
  "grid_wf (game_matrix g) \<Longrightarrow>
   game_generate_new_alien env g d = Some (pure_game_generate_new_alien env g d)"
  by (simp add: game_generate_new_alien_def pure_game_generate_new_alien_def Let_def spawn_returns)

lemma step_Some: "game_step env g d = Some s \<Longrightarrow> s = pure_game_step env g d"
  by (auto simp: game_step_def pure_game_step_def bind_eq_Some_conv dest!: update_Some generate_Some)

lemma kill_loop_wf: "grid_wf (game_matrix g) \<Longrightarrow> grid_wf (game_matrix (pure_kill_other_aliens_loop ps g))"
  by (induction ps arbitrary: g) (simp_all add: grid.wf_put)

lemma update_loop_wf:
  "grid_wf (game_matrix g) \<Longrightarrow> grid_wf (game_matrix (pure_game_update_alien_times_loop ps g))"
  by (induction ps arbitrary: g)
    (simp_all add: grid.wf_put Let_def pure_kill_other_aliens_def kill_loop_wf)

lemma step_returns:
  "grid_wf (game_matrix g) \<Longrightarrow> game_step env g d = Some (pure_game_step env g d)"
  by (simp add: game_step_def pure_game_step_def update_returns generate_returns
      pure_game_update_alien_times_def update_loop_wf)

lemma game_ih_eq: "grid_wf (game_matrix g) \<Longrightarrow> game_ih env g d = pure_game_ih env g d"
  by (simp add: game_ih_def pure_game_ih_def Let_def update_returns step_returns split: game_state.split)

lemma game_ih_Some: "game_ih env g d = Some s \<Longrightarrow> pure_game_ih env g d = Some s"
  by (auto simp: game_ih_def pure_game_ih_def Let_def bind_eq_Some_conv
      dest!: update_Some step_Some split: game_state.splits)

section \<open>What the loops compute\<close>

definition kill_cell :: "game \<Rightarrow> nat \<times> nat \<Rightarrow> alien \<Rightarrow> alien" where
  "kill_cell g p a =
     (if astate a = EMPTY \<or> is_killer g p then a else \<lparr>astate = DEAD_1, time = 2\<rparr>)"

definition over_cell :: "game \<Rightarrow> nat \<times> nat \<Rightarrow> alien \<Rightarrow> alien" where
  "over_cell g p a =
     (if astate a = EMPTY \<or> is_killer g p then a
      else if 0 < time a then a\<lparr>time := time a - 1\<rparr>
      else \<lparr>astate = alien_state_inc (astate a), time = 2\<rparr>)"

definition tick_cell :: "alien \<Rightarrow> alien" where
  "tick_cell a =
     (if astate a = EMPTY then a
      else if 0 < time a then a\<lparr>time := time a - 1\<rparr>
      else \<lparr>astate = alien_state_inc (astate a),
            time = alien_times ! alien_index (alien_state_inc (astate a))\<rparr>)"

definition kills_player :: "alien \<Rightarrow> bool" where
  "kills_player a \<longleftrightarrow> astate a = ALIVE \<and> time a = 0"

definition grid_map :: "(nat \<times> nat \<Rightarrow> alien \<Rightarrow> alien) \<Rightarrow> (nat \<times> nat) list \<Rightarrow> alien list list \<Rightarrow> alien list list" where
  "grid_map f ps m = fold (\<lambda>p m. set_cell p (f p (cell m p)) m) ps m"

lemma grid_map_wf [simp]: "grid_wf m \<Longrightarrow> grid_wf (grid_map f ps m)"
  unfolding grid_map_def by (rule grid.wf_fold)

lemma cell_grid_map:
  "grid_wf m \<Longrightarrow> distinct ps \<Longrightarrow> (\<And>p. p \<in> set ps \<Longrightarrow> in_grid p) \<Longrightarrow> in_grid q \<Longrightarrow>
   cell (grid_map f ps m) q = (if q \<in> set ps then f q (cell m q) else cell m q)"
  unfolding grid_map_def by (rule grid.get_fold)

lemma cell_grid_map_all [simp]:
  "grid_wf m \<Longrightarrow> in_grid q \<Longrightarrow> cell (grid_map f positions m) q = f q (cell m q)"
  by (subst cell_grid_map) auto

lemma kill_other_aliens_loop_eq:
  "pure_kill_other_aliens_loop ps g = g\<lparr>game_matrix := grid_map (kill_cell g) ps (game_matrix g)\<rparr>"
proof (induction ps arbitrary: g)
  case Nil
  then show ?case by (simp add: grid_map_def)
next
  case (Cons p ps)
  have "kill_cell (put_alien p a g) = kill_cell g" for a
    by (auto simp: kill_cell_def fun_eq_iff)
  then show ?case
    by (simp add: Cons.IH grid_map_def kill_cell_def [of g p]) (simp add: put_alien_def)
qed

lemma kill_other_aliens_eq:
  "pure_kill_other_aliens g = g\<lparr>game_matrix := grid_map (kill_cell g) positions (game_matrix g)\<rparr>"
  by (simp add: pure_kill_other_aliens_def kill_other_aliens_loop_eq)

lemma update_loop_over:
  "game_state g = GAME_OVER \<Longrightarrow>
   pure_game_update_alien_times_loop ps g = g\<lparr>game_matrix := grid_map (over_cell g) ps (game_matrix g)\<rparr>"
proof (induction ps arbitrary: g)
  case Nil
  then show ?case by (simp add: grid_map_def)
next
  case (Cons p ps)
  have "over_cell (put_alien p a g) = over_cell g" for a
    by (auto simp: over_cell_def fun_eq_iff)
  with Cons show ?case
    by (simp add: grid_map_def over_cell_def [of g p] Let_def) (simp add: put_alien_def)
qed

lemma update_over:
  "game_state g = GAME_OVER \<Longrightarrow>
   pure_game_update_alien_times g = g\<lparr>game_matrix := grid_map (over_cell g) positions (game_matrix g)\<rparr>"
  by (simp add: pure_game_update_alien_times_def update_loop_over)


lemma update_loop_skip:
  assumes "game_state g \<noteq> GAME_OVER" "grid_wf (game_matrix g)" "distinct qs"
    and "\<And>p. p \<in> set qs \<Longrightarrow> in_grid p \<and> \<not> kills_player (cell (game_matrix g) p)"
  shows "pure_game_update_alien_times_loop (qs @ rs) g =
    pure_game_update_alien_times_loop rs (g\<lparr>game_matrix := grid_map (\<lambda>_. tick_cell) qs (game_matrix g)\<rparr>)"
  using assms
proof (induction qs arbitrary: g)
  case Nil
  then show ?case by (simp add: grid_map_def)
next
  case (Cons p qs)
  let ?g = "put_alien p (tick_cell (cell (game_matrix g) p)) g"
  have "\<not> kills_player (cell (game_matrix g) p)" using Cons.prems(4) [of p] by simp
  then have "pure_game_update_alien_times_loop ((p # qs) @ rs) g = pure_game_update_alien_times_loop (qs @ rs) ?g"
    using Cons.prems(1) by (auto simp: Let_def tick_cell_def kills_player_def put_alien_same)
  also have "\<dots> = pure_game_update_alien_times_loop rs
      (?g\<lparr>game_matrix := grid_map (\<lambda>_. tick_cell) qs (game_matrix ?g)\<rparr>)"
    using Cons.prems by (intro Cons.IH) (auto simp: grid.get_put grid.wf_put)
  also have "?g\<lparr>game_matrix := grid_map (\<lambda>_. tick_cell) qs (game_matrix ?g)\<rparr> =
      g\<lparr>game_matrix := grid_map (\<lambda>_. tick_cell) (p # qs) (game_matrix g)\<rparr>"
    by (simp add: grid_map_def put_alien_def)
  finally show ?case .
qed

text \<open>While playing, a frame in which no alien is due ticks every alien.\<close>

lemma update_play:
  assumes "game_state g \<noteq> GAME_OVER" "grid_wf (game_matrix g)"
    and "\<And>p. in_grid p \<Longrightarrow> \<not> kills_player (cell (game_matrix g) p)"
  shows "pure_game_update_alien_times g =
    g\<lparr>game_matrix := grid_map (\<lambda>_. tick_cell) positions (game_matrix g)\<rparr>"
  using update_loop_skip [of g positions "[]"] assms by (simp add: pure_game_update_alien_times_def)

definition start_game_over :: "nat \<times> nat \<Rightarrow> game \<Rightarrow> game" where
  "start_game_over p g =
     g\<lparr>game_over_counter := GAME_OVER_WAIT, game_state := GAME_OVER,
       killer := \<lparr>kstate = 0, kx = of_nat (snd p), ky = of_nat (fst p)\<rparr>\<rparr>"

text \<open>The first alien, in the order of the rows, whose time is up ends the game.\<close>

lemma update_play_killed:
  assumes "game_state g \<noteq> GAME_OVER" "grid_wf (game_matrix g)"
    and ex: "in_grid q" "kills_player (cell (game_matrix g) q)"
  shows "\<exists>qs p rs. positions = qs @ p # rs \<and> kills_player (cell (game_matrix g) p) \<and>
    (\<forall>r \<in> set qs. \<not> kills_player (cell (game_matrix g) r)) \<and>
    pure_game_update_alien_times g =
      pure_kill_other_aliens (start_game_over p
        (g\<lparr>game_matrix := grid_map (\<lambda>_. tick_cell) qs (game_matrix g)\<rparr>))"
proof -
  let ?P = "\<lambda>p. kills_player (cell (game_matrix g) p)"
  have "\<exists>p \<in> set positions. ?P p" using ex by auto
  then obtain qs p rs where pos: "positions = qs @ p # rs" and p: "?P p"
      and qs: "\<forall>r \<in> set qs. \<not> ?P r"
    by (rule split_list_first_propE)
  let ?g = "g\<lparr>game_matrix := grid_map (\<lambda>_. tick_cell) qs (game_matrix g)\<rparr>"
  have d: "distinct (qs @ p # rs)" using distinct_positions unfolding pos .
  have grid: "in_grid r" if "r \<in> set (qs @ p # rs)" for r
    using that set_positions [of r] unfolding pos by blast
  have "pure_game_update_alien_times g = pure_game_update_alien_times_loop (p # rs) ?g"
    unfolding pure_game_update_alien_times_def pos
    using assms(1,2) d grid qs by (intro update_loop_skip) auto
  moreover have "cell (game_matrix ?g) p = cell (game_matrix g) p"
    using cell_grid_map [OF assms(2), of qs p "\<lambda>_. tick_cell"] d grid by simp
  ultimately have "pure_game_update_alien_times g = pure_kill_other_aliens (start_game_over p ?g)"
    using assms(1) p by (simp add: Let_def kills_player_def start_game_over_def)
  with pos p qs show ?thesis by blast
qed

text \<open>The order in which the loops visit the cells.\<close>

definition before :: "nat \<times> nat \<Rightarrow> nat \<times> nat \<Rightarrow> bool" where
  "before r p \<longleftrightarrow> fst r < fst p \<or> fst r = fst p \<and> snd r < snd p"

lemma product_before:
  "sorted_wrt (<) xs \<Longrightarrow> sorted_wrt (<) ys \<Longrightarrow> sorted_wrt before (List.product xs ys)"
  by (induction xs) (auto simp: sorted_wrt_append sorted_wrt_map before_def)

lemma positions_split:
  assumes "positions = qs @ p # rs" "in_grid r"
  shows "r \<in> set qs \<longleftrightarrow> before r p"
proof -
  have "sorted_wrt before (qs @ p # rs)"
    unfolding assms(1) [symmetric] positions_def by (intro product_before) simp_all
  moreover have "r \<in> set (qs @ p # rs)" using assms(2) set_positions [of r] unfolding assms(1) by simp
  moreover have "\<not> (before r p \<and> before p r)" "\<not> before p p" by (auto simp: before_def)
  ultimately show ?thesis unfolding sorted_wrt_append by auto
qed

lemma find_first: "P p \<Longrightarrow> \<forall>r \<in> set qs. \<not> P r \<Longrightarrow> find P (qs @ p # rs) = Some p"
  by (induction qs) auto

lemma tick_cell_ages: "astate a \<le> astate (tick_cell a)" "astate a \<le> astate (over_cell g p a)"
  by (cases "astate a"; simp add: tick_cell_def over_cell_def less_eq_alien_state_def)+

text \<open>What the frame makes of one cell, without the loop and its early return.\<close>

definition update_cell :: "game \<Rightarrow> nat \<times> nat \<Rightarrow> alien" where
  "update_cell g r =
     (let a = cell (game_matrix g) r
      in if game_state g = GAME_OVER then over_cell g r a
         else case find (\<lambda>p. kills_player (cell (game_matrix g) p)) positions of
           None \<Rightarrow> tick_cell a
         | Some p \<Rightarrow>
             if r = p then a
             else let a = (if before r p then tick_cell a else a)
                  in if astate a = EMPTY then a else \<lparr>astate = DEAD_1, time = 2\<rparr>)"

lemma is_killer_start:
  "in_grid p \<Longrightarrow> in_grid r \<Longrightarrow> is_killer (start_game_over p g) r \<longleftrightarrow> r = p"
  unfolding is_killer_def start_game_over_def
  by (cases p; cases r) (auto simp: in_grid_def game_consts word_eq_iff_unsigned [where ?'a = nat] unat_of_nat)

lemma kill_others_start:
  "pure_kill_other_aliens (start_game_over p g) =
     start_game_over p (g\<lparr>game_matrix := grid_map (kill_cell (start_game_over p g)) positions (game_matrix g)\<rparr>)"
  by (simp add: kill_other_aliens_eq) (simp add: start_game_over_def)

text \<open>The frame in which the player dies: the killer \<open>p\<close> and the cells afterwards.\<close>

lemma update_killed:
  assumes "game_state g \<noteq> GAME_OVER" "grid_wf (game_matrix g)"
    and "in_grid q" "kills_player (cell (game_matrix g) q)"
  obtains p m where "in_grid p" "kills_player (cell (game_matrix g) p)"
    "find (\<lambda>p. kills_player (cell (game_matrix g) p)) positions = Some p"
    "pure_game_update_alien_times g = start_game_over p (g\<lparr>game_matrix := m\<rparr>)" "grid_wf m"
    "\<And>r. in_grid r \<Longrightarrow> cell m r = update_cell g r"
proof -
  obtain qs p rs where pos: "positions = qs @ p # rs" and p: "kills_player (cell (game_matrix g) p)"
      "\<forall>r \<in> set qs. \<not> kills_player (cell (game_matrix g) r)"
    and upd: "pure_game_update_alien_times g = pure_kill_other_aliens (start_game_over p
      (g\<lparr>game_matrix := grid_map (\<lambda>_. tick_cell) qs (game_matrix g)\<rparr>))"
    using update_play_killed [OF assms] by blast
  let ?g = "g\<lparr>game_matrix := grid_map (\<lambda>_. tick_cell) qs (game_matrix g)\<rparr>"
  let ?m = "grid_map (kill_cell (start_game_over p ?g)) positions (game_matrix ?g)"
  have grid: "in_grid x" if "x \<in> set (qs @ p # rs)" for x using that set_positions [of x] unfolding pos by simp
  have "distinct qs" using distinct_positions unfolding pos by simp
  have find: "find (\<lambda>p. kills_player (cell (game_matrix g) p)) positions = Some p"
    unfolding pos by (rule find_first) (use p in auto)
  have "cell ?m r = update_cell g r" if r: "in_grid r" for r
  proof -
    have "cell (game_matrix ?g) r = (if before r p then tick_cell (cell (game_matrix g) r) else cell (game_matrix g) r)"
      using cell_grid_map [OF assms(2) \<open>distinct qs\<close>, of r "\<lambda>_. tick_cell"] grid r positions_split [OF pos r] by simp
    moreover have "\<not> before p p" by (simp add: before_def)
    ultimately show ?thesis
      using assms(1,2) r is_killer_start [OF grid [of p] r] find by (simp add: update_cell_def kill_cell_def Let_def)
  qed
  then show ?thesis
    using that [of p ?m] grid [of p] p(1) find upd assms(2) by (simp add: kill_others_start)
qed

lemma update_cell_eq:
  assumes "grid_wf (game_matrix g)" "in_grid r"
  shows "cell (game_matrix (pure_game_update_alien_times g)) r = update_cell g r"
proof -
  let ?P = "\<lambda>p. kills_player (cell (game_matrix g) p)"
  consider "game_state g = GAME_OVER" | "game_state g \<noteq> GAME_OVER" "\<forall>p. in_grid p \<longrightarrow> \<not> ?P p"
    | q where "game_state g \<noteq> GAME_OVER" "in_grid q" "?P q" by blast
  then show ?thesis
  proof cases
    case 1
    then show ?thesis using assms by (simp add: update_over update_cell_def)
  next
    case 2
    then have "find ?P positions = None" by (simp add: find_None_iff)
    with 2 assms show ?thesis by (simp add: update_play update_cell_def)
  next
    case 3
    from update_killed [OF 3(1) assms(1) 3(2,3)] obtain p m where
      "pure_game_update_alien_times g = start_game_over p (g\<lparr>game_matrix := m\<rparr>)"
      "\<And>r. in_grid r \<Longrightarrow> cell m r = update_cell g r" by metis
    with assms(2) show ?thesis by (simp add: start_game_over_def)
  qed
qed

section \<open>The invariant\<close>

definition alien_ok :: "alien \<Rightarrow> bool" where
  "alien_ok a \<longleftrightarrow> (astate a \<noteq> EMPTY \<longrightarrow> time a \<le> alien_times ! alien_index (astate a))"

definition grid_ok :: "game \<Rightarrow> bool" where
  "grid_ok g \<longleftrightarrow> grid_wf (game_matrix g) \<and> (\<forall>p. in_grid p \<longrightarrow> alien_ok (cell (game_matrix g) p))"

definition killer_pos :: "game \<Rightarrow> nat \<times> nat" where
  "killer_pos g = (unat (ky (killer g)), unat (kx (killer g)))"

text \<open>
  After the death of the player the alien that killed stays alive in its place, and every other
  alien is gone after at most \<open>over_life\<close> frames. An alien that appears in the very frame of the death
  lasts longest, 24 frames, so every one is gone when the countdown from 120 reaches 96.
\<close>

fun over_life :: "alien_state \<Rightarrow> nat \<Rightarrow> nat" where
  "over_life APPEARING t = t + 19"
| "over_life ALIVE t = t + 16"
| "over_life DEAD_1 t = t + 13"
| "over_life DEAD_2 t = t + 10"
| "over_life DEAD_3 t = t + 7"
| "over_life DEAD_4 t = t + 4"
| "over_life DEAD_5 t = t + 1"
| "over_life EMPTY t = 0"

definition cell_life :: "alien \<Rightarrow> nat" where
  "cell_life a = over_life (astate a) (unat (time a))"

definition over_ok :: "game \<Rightarrow> bool" where
  "over_ok g \<longleftrightarrow> 0 < game_over_counter g \<and> game_over_counter g \<le> GAME_OVER_WAIT \<and>
     in_grid (killer_pos g) \<and> kills_player (cell (game_matrix g) (killer_pos g)) \<and>
     (\<forall>p. in_grid p \<and> p \<noteq> killer_pos g \<longrightarrow>
        cell_life (cell (game_matrix g) p) \<le> unat (game_over_counter g) - 96)"

definition spawn_ok :: "game \<Rightarrow> bool" where
  "spawn_ok g \<longleftrightarrow> random_alien_counter g \<le> random_alien_number g \<and>
     (random_alien_spawn_rate_increase g = 5 \<and> unat (random_alien_number g) \<le> 70 \<and>
        5 dvd unat (random_alien_number g) \<or>
      random_alien_spawn_rate_increase g = 0 \<and> random_alien_number g = 20)"

definition mouse_ok :: "game \<Rightarrow> bool" where
  "mouse_ok g \<longleftrightarrow>
     crosshair_half_width g = 32 \<and> crosshair_half_height g = 32 \<and>
     crosshair_width_border g = 768 \<and> crosshair_height_border g = 568 \<and>
     32 \<le> sint (mouse_x g) \<and> sint (mouse_x g) < 768 \<and>
     32 \<le> sint (mouse_y g) \<and> sint (mouse_y g) < 568"

definition arrays_ok :: "game \<Rightarrow> bool" where
  "arrays_ok g \<longleftrightarrow> lb_wf (LB g) \<and> length (name g) = 7 \<and> c_terminated (name g) \<and>
     length (input_message g) = 100 \<and> c_terminated (input_message g) \<and> kstate (killer g) < 4"

definition game_inv :: "game \<Rightarrow> bool" where
  "game_inv g \<longleftrightarrow> grid_ok g \<and> (game_state g = GAME_OVER \<longrightarrow> over_ok g) \<and> spawn_ok g \<and>
     mouse_ok g \<and> arrays_ok g"

lemmas game_inv_defs = game_inv_def spawn_ok_def mouse_ok_def arrays_ok_def

lemma alien_ok_tick: "alien_ok a \<Longrightarrow> alien_ok (tick_cell a)"
  by (auto simp: alien_ok_def tick_cell_def intro: u32_decr_le)

lemma alien_ok_over: "alien_ok a \<Longrightarrow> alien_ok (over_cell g p a)"
  by (cases "astate a") (auto simp: alien_ok_def over_cell_def alien_times_def intro: u32_decr_le)

lemma alien_ok_kill: "alien_ok a \<Longrightarrow> alien_ok (kill_cell g p a)"
  by (auto simp: alien_ok_def kill_cell_def alien_times_def)

lemma is_killer_iff: "in_grid p \<Longrightarrow> is_killer g p \<longleftrightarrow> p = killer_pos g"
  by (cases p) (auto simp: is_killer_def killer_pos_def in_grid_def game_consts unat_of_nat)

lemma cell_life_over:
  "\<not> is_killer g p \<Longrightarrow> cell_life (over_cell g p a) = cell_life a - 1"
  by (cases "astate a") (auto simp: cell_life_def over_cell_def word_less_nat_alt u32_decr_unat)


lemma killer_pos_put [simp]: "killer_pos (put_alien p a g) = killer_pos g"
  by (simp add: killer_pos_def)

lemma killer_pos_matrix [simp]: "killer_pos (g\<lparr>game_matrix := m\<rparr>) = killer_pos g"
  by (simp add: killer_pos_def)

lemma game_inv_matrix:
  assumes "game_inv g" "grid_wf m" "\<And>p. in_grid p \<Longrightarrow> alien_ok (cell m p)"
    and "game_state g = GAME_OVER \<Longrightarrow> over_ok (g\<lparr>game_matrix := m\<rparr>)"
  shows "game_inv (g\<lparr>game_matrix := m\<rparr>)"
  using assms by (simp add: game_inv_defs grid_ok_def)

lemma over_cell_killer: "is_killer g p \<Longrightarrow> over_cell g p a = a"
  by (simp add: over_cell_def)

text \<open>A frame after the death of the player, before the countdown is decremented.\<close>

lemma over_frame:
  assumes "grid_wf (game_matrix g)" "over_ok g"
  defines "m \<equiv> grid_map (over_cell g) positions (game_matrix g)"
  shows "kills_player (cell m (killer_pos g))"
    and "in_grid p \<Longrightarrow> p \<noteq> killer_pos g \<Longrightarrow> cell_life (cell m p) \<le> unat (game_over_counter g) - 97"
proof -
  have k: "in_grid (killer_pos g)" using assms(2) by (simp add: over_ok_def)
  then show "kills_player (cell m (killer_pos g))"
    using assms by (simp add: over_ok_def over_cell_killer is_killer_iff)
  assume p: "in_grid p" "p \<noteq> killer_pos g"
  then have "cell_life (cell (game_matrix g) p) \<le> unat (game_over_counter g) - 96"
    using assms(2) by (simp add: over_ok_def)
  then show "cell_life (cell m p) \<le> unat (game_over_counter g) - 97"
    using p assms(1) by (simp add: m_def cell_life_over is_killer_iff)
qed

lemma game_update_inv:
  assumes inv: "game_inv g"
  shows "game_inv (pure_game_update_alien_times g)"
proof -
  have wf: "grid_wf (game_matrix g)" and ok: "\<And>p. in_grid p \<Longrightarrow> alien_ok (cell (game_matrix g) p)"
    using inv by (auto simp: game_inv_def grid_ok_def)
  consider (over) "game_state g = GAME_OVER"
    | (tick) "game_state g \<noteq> GAME_OVER" "\<And>p. in_grid p \<Longrightarrow> \<not> kills_player (cell (game_matrix g) p)"
    | (kill) q where "game_state g \<noteq> GAME_OVER" "in_grid q" "kills_player (cell (game_matrix g) q)"
    by blast
  then show ?thesis
  proof cases
    case over
    then have o: "over_ok g" using inv by (simp add: game_inv_def)
    have "over_ok (g\<lparr>game_matrix := grid_map (over_cell g) positions (game_matrix g)\<rparr>)"
      using o over_frame(1) [OF wf o] over_frame(2) [OF wf o, THEN order.trans]
      by (simp add: over_ok_def)
    then show ?thesis
      unfolding update_over [OF over] using inv wf ok by (intro game_inv_matrix) (auto simp: alien_ok_over)
  next
    case tick
    then have eq: "pure_game_update_alien_times g =
        g\<lparr>game_matrix := grid_map (\<lambda>_. tick_cell) positions (game_matrix g)\<rparr>"
      using wf by (intro update_play)
    show ?thesis
      unfolding eq using inv wf ok tick(1) by (intro game_inv_matrix) (auto simp: alien_ok_tick)
  next
    case kill
    from update_killed [OF kill(1) wf kill(2,3)] obtain p m where p: "in_grid p" "kills_player (cell (game_matrix g) p)"
        "find (\<lambda>p. kills_player (cell (game_matrix g) p)) positions = Some p"
      and eq: "pure_game_update_alien_times g = start_game_over p (g\<lparr>game_matrix := m\<rparr>)" "grid_wf m"
      and cell: "\<And>r. in_grid r \<Longrightarrow> cell m r = update_cell g r" by metis
    have pk: "killer_pos (start_game_over p (g\<lparr>game_matrix := m\<rparr>)) = p"
      using p(1) by (cases p) (simp add: start_game_over_def killer_pos_def in_grid_def game_consts unat_of_nat)
    have "alien_ok (cell m r) \<and> (r \<noteq> p \<longrightarrow> cell_life (cell m r) \<le> 24)" if "in_grid r" for r
      using kill(1) p(3) alien_ok_tick [OF ok [OF that]] ok [OF that] that
      by (auto simp: cell update_cell_def Let_def cell_life_def alien_ok_def alien_times_def)
    moreover have "kills_player (cell m p)" using kill(1) p by (simp add: cell update_cell_def)
    ultimately have "over_ok (start_game_over p (g\<lparr>game_matrix := m\<rparr>))" "grid_ok (g\<lparr>game_matrix := m\<rparr>)"
      using p(1) eq(2) by (auto simp: over_ok_def grid_ok_def pk) (auto simp: start_game_over_def game_consts)
    then show ?thesis
      unfolding eq(1) using inv by (simp add: game_inv_defs grid_ok_def) (simp add: start_game_over_def)
  qed
qed


lemma spawn_attempts_result:
  "pure_spawn_attempts env n g d = (g', d') \<Longrightarrow>
   g' = g \<or> (\<exists>p. in_grid p \<and> astate (cell (game_matrix g) p) = EMPTY \<and>
     g' = put_alien p \<lparr>astate = APPEARING, time = alien_times ! alien_index APPEARING\<rparr> g)"
proof (induction n arbitrary: d)
  case 0
  then show ?case by simp
next
  case (Suc n)
  obtain rx d1 ry d2 where r: "rand env d = (rx, d1)" "rand env d1 = (ry, d2)"
    by (metis surj_pair)
  let ?p = "(unat ry mod GAME_HEIGHT_MATRIX, unat rx mod GAME_WIDTH_MATRIX)"
  have grid: "in_grid ?p" by (simp add: in_grid_def game_consts)
  show ?case
  proof (cases "astate (cell (game_matrix g) ?p) = EMPTY")
    case True
    with Suc.prems r grid show ?thesis by (intro disjI2 exI [of _ ?p]) simp
  next
    case False
    with Suc.prems r show ?thesis by (intro Suc.IH [of d2]) simp
  qed
qed

lemma spawn_attempts_cases:
  assumes "pure_spawn_attempts env n g d = (g', d')"
  obtains "g' = g" | p where "in_grid p" "astate (cell (game_matrix g) p) = EMPTY"
    "g' = put_alien p \<lparr>astate = APPEARING, time = alien_times ! alien_index APPEARING\<rparr> g"
  using spawn_attempts_result [OF assms] by blast

lemma put_alien_frame [simp]:
  "spawn_ok (put_alien p a g) = spawn_ok g"
  "mouse_ok (put_alien p a g) = mouse_ok g"
  "arrays_ok (put_alien p a g) = arrays_ok g"
  "game_over_counter (put_alien p a g) = game_over_counter g"
  "points (put_alien p a g) = points g"
  by (simp_all add: spawn_ok_def mouse_ok_def arrays_ok_def put_alien_def)

lemma put_alien_inv:
  assumes inv: "game_inv g" and p: "in_grid p" and a: "alien_ok a"
    and over: "game_state g = GAME_OVER \<Longrightarrow>
      p \<noteq> killer_pos g \<and> cell_life a \<le> unat (game_over_counter g) - 96"
  shows "game_inv (put_alien p a g)"
proof -
  have wf: "grid_wf (game_matrix g)" using inv by (simp add: game_inv_def grid_ok_def)
  have "grid_ok (put_alien p a g)"
    using inv p a wf by (simp add: game_inv_def grid_ok_def grid.wf_put grid.get_put)
  moreover have "over_ok (put_alien p a g)" if "game_state g = GAME_OVER"
    using inv p over wf that by (auto simp: game_inv_def over_ok_def grid.get_put)
  ultimately show ?thesis using inv by (simp add: game_inv_def)
qed

lemma alien_ok_appearing: "alien_ok \<lparr>astate = APPEARING, time = alien_times ! alien_index APPEARING\<rparr>"
  by (simp add: alien_ok_def)

lemma spawn_attempts_inv:
  assumes inv: "game_inv g" and over: "game_state g = GAME_OVER \<Longrightarrow> game_over_counter g = GAME_OVER_WAIT"
  shows "game_inv (fst (pure_spawn_attempts env n g d))"
proof -
  obtain g' d' where s: "pure_spawn_attempts env n g d = (g', d')" by (metis surj_pair)
  from s show ?thesis
  proof (cases rule: spawn_attempts_cases)
    case 1
    with s inv show ?thesis by simp
  next
    case (2 p)
    have "p \<noteq> killer_pos g" if "game_state g = GAME_OVER"
      using inv 2(2) that by (auto simp: game_inv_def over_ok_def kills_player_def)
    then show ?thesis
      using put_alien_inv [OF inv 2(1) alien_ok_appearing] over s 2(3)
      by (auto simp: cell_life_def alien_times_def game_consts)
  qed
qed

text \<open>The waiting time before the next alien, as \<^verbatim>\<open>game_generate_new_alien\<close> changes it.\<close>

definition respawn :: "game \<Rightarrow> game" where
  "respawn g =
     (let g = g\<lparr>random_alien_counter := 0\<rparr>;
          g = (if random_alien_number g < random_alien_spawn_rate_increase g
               then g\<lparr>random_alien_number := ALIEN_MAX_SPAWN_RATE,
                      random_alien_spawn_rate_increase := 0\<rparr>
               else g)
      in g\<lparr>random_alien_number := random_alien_number g - random_alien_spawn_rate_increase g\<rparr>)"

lemma generate_eq:
  "pure_game_generate_new_alien env g d =
     (if random_alien_counter g < random_alien_number g
      then (g\<lparr>random_alien_counter := random_alien_counter g + 1\<rparr>, d)
      else pure_spawn_attempts env ALIEN_RANDOM_SPAWN_ATTEMPTS (respawn g) d)"
  by (simp add: pure_game_generate_new_alien_def respawn_def Let_def)

lemma respawn_number:
  assumes "spawn_ok g"
  shows "spawn_ok (respawn g)"
    and "unat (random_alien_number (respawn g)) =
      (if random_alien_spawn_rate_increase g = 0 \<or> random_alien_number g = 0 then 20
       else unat (random_alien_number g) - 5)"
proof -
  let ?n = "random_alien_number g"
  have zero: "?n < 5 \<longleftrightarrow> ?n = 0" if "5 dvd unat ?n"
    using that by (auto simp: word_less_nat_alt unat_eq_0 dest: dvd_imp_le)
  have sub: "unat (?n - 5) = unat ?n - 5" if "\<not> ?n < 5"
    using that by (simp add: unat_sub word_less_nat_alt not_less word_le_nat_alt)
  show "spawn_ok (respawn g)"
    using assms zero sub
    by (auto simp: spawn_ok_def respawn_def Let_def game_consts )
  show "unat (random_alien_number (respawn g)) =
      (if random_alien_spawn_rate_increase g = 0 \<or> ?n = 0 then 20 else unat ?n - 5)"
    using assms zero sub by (auto simp: spawn_ok_def respawn_def Let_def game_consts)
qed

lemma respawn_frame:
  "game_matrix (respawn g) = game_matrix g" "game_state (respawn g) = game_state g"
  "game_over_counter (respawn g) = game_over_counter g" "killer (respawn g) = killer g"
  "mouse_ok (respawn g) = mouse_ok g" "arrays_ok (respawn g) = arrays_ok g"
  "points (respawn g) = points g"
  by (simp_all add: respawn_def Let_def mouse_ok_def arrays_ok_def)

lemma respawn_inv: "game_inv g \<Longrightarrow> game_inv (respawn g)"
  using respawn_number(1)
  by (auto simp: game_inv_def grid_ok_def over_ok_def respawn_frame killer_pos_def)

lemma counter_inc_inv:
  assumes "game_inv g" "random_alien_counter g < random_alien_number g"
  shows "game_inv (g\<lparr>random_alien_counter := random_alien_counter g + 1\<rparr>)"
proof -
  have "random_alien_counter g + 1 \<le> random_alien_number g"
    using assms(2) by (rule inc_le)
  then show ?thesis
    using assms(1) by (simp add: game_inv_defs grid_ok_def over_ok_def killer_pos_def)
qed

lemma generate_inv:
  assumes "game_inv g" "game_state g = GAME_OVER \<Longrightarrow> game_over_counter g = GAME_OVER_WAIT"
  shows "game_inv (fst (pure_game_generate_new_alien env g d))"
  using assms
  by (auto simp: generate_eq counter_inc_inv respawn_frame intro!: spawn_attempts_inv respawn_inv)

lemma update_killed_over:
  assumes "game_state g \<noteq> GAME_OVER" "grid_wf (game_matrix g)"
    and "in_grid q" "kills_player (cell (game_matrix g) q)"
  shows "game_state (pure_game_update_alien_times g) = GAME_OVER"
    and "game_over_counter (pure_game_update_alien_times g) = GAME_OVER_WAIT"
proof -
  obtain p m where "pure_game_update_alien_times g =
      pure_kill_other_aliens (start_game_over p (g\<lparr>game_matrix := m\<rparr>))"
    using update_play_killed [OF assms] by blast
  then show "game_state (pure_game_update_alien_times g) = GAME_OVER"
    and "game_over_counter (pure_game_update_alien_times g) = GAME_OVER_WAIT"
    by (simp_all add: kill_other_aliens_eq start_game_over_def)
qed

lemma update_play_state:
  assumes "game_state g \<noteq> GAME_OVER" "grid_wf (game_matrix g)"
  shows "game_state (pure_game_update_alien_times g) =
    (if \<exists>q. in_grid q \<and> kills_player (cell (game_matrix g) q) then GAME_OVER else game_state g)"
proof (cases "\<exists>q. in_grid q \<and> kills_player (cell (game_matrix g) q)")
  case True
  then obtain q where "in_grid q" "kills_player (cell (game_matrix g) q)" by blast
  from update_killed_over(1) [OF assms this] True show ?thesis by simp
next
  case False
  then have "pure_game_update_alien_times g =
      g\<lparr>game_matrix := grid_map (\<lambda>_. tick_cell) positions (game_matrix g)\<rparr>"
    using assms by (intro update_play) auto
  then show ?thesis unfolding if_not_P [OF False] by simp
qed

lemma update_starts_countdown:
  assumes "game_state g = PLAYING" "grid_wf (game_matrix g)"
    and "game_state (pure_game_update_alien_times g) = GAME_OVER"
  shows "game_over_counter (pure_game_update_alien_times g) = GAME_OVER_WAIT"
proof -
  obtain q where "in_grid q" "kills_player (cell (game_matrix g) q)"
    using update_play_state [of g] assms by (auto split: if_splits)
  with assms(1,2) show ?thesis by (intro update_killed_over(2)) auto
qed

lemma game_step_inv:
  assumes "game_inv g" "game_state g = PLAYING"
  shows "game_inv (fst (pure_game_step env g d))"
  unfolding pure_game_step_def
  using assms update_starts_countdown
  by (intro generate_inv game_update_inv) (auto simp: game_inv_def grid_ok_def)


section \<open>The end of a game\<close>

text \<open>Whether the printed score fits the array \<^verbatim>\<open>sc\<close> of four characters.\<close>

definition score_fits :: "u32 \<Rightarrow> bool" where
  "score_fits n \<longleftrightarrow> unat n < 1000"

definition score_message :: "nat \<Rightarrow> bool \<Rightarrow> string" where
  "score_message n entered = ''SCORE:   '' @ dec_nat n @
     (if entered then [NL] @ ''NAME:   '' @ [NL, NL] @ ''TYPE AND PRESS ENTER'' else [])"

lemma uint_unat_less: "uint (x :: u8) < uint (y :: u32) \<longleftrightarrow> unat x < unat y"
  unfolding uint_nat by (rule of_nat_less_iff)

lemma u32_mod4_less: "(x :: u32) mod 4 < 4"
  by (simp add: word_less_nat_alt unat_mod)

lemma game_leaderboard_fits:
  assumes ok: "arrays_ok g" and fits: "score_fits (points g)"
  defines "new \<equiv> unat (scores (LB g) ! 0) < unat (points g)"
  shows "\<exists>msg. game_leaderboard g = Some (g\<lparr>name := c_memset0 (name g), input_message := msg,
      game_state := (if new then LB_INPUT else LEADERBOARD)\<rparr>) \<and>
    c_holds msg (score_message (unat (points g)) new) 100"
proof -
  let ?d = "dec_nat (unat (points g))"
    and ?rest = "[NL] @ ''NAME:   '' @ [NL, NL] @ ''TYPE AND PRESS ENTER''"
  have p: "sint (points g) = int (unat (points g))"
    using fits by (intro sint_of_nat_u32) (simp add: score_fits_def)
  have d: "length ?d \<le> 3"
    using fits dec_nat_length_le [of "unat (points g)" 2] by (simp add: score_fits_def)
  have cmp: "compareScore (points g) (LB g) \<noteq> 0 \<longleftrightarrow> new"
    by (simp add: compareScore_def p new_def uint_unat_less)
  obtain m1 where m1: "c_strcpy (c_memset0 (input_message g)) (c_lit ''SCORE:   '') = Some m1"
      "c_holds m1 ''SCORE:   '' 100"
    using c_strcpy_holds [OF c_holds_lit [of "''SCORE:   ''"], of "c_memset0 (input_message g)"] ok
    by (auto simp: arrays_ok_def)
  obtain sc where sc: "c_sprintf_d (replicate 4 NUL) (sint (points g)) = Some sc" "c_holds sc ?d 4"
    using c_put0_holds [of ?d "replicate 4 NUL"] d by (auto simp: c_sprintf_d_def p dec_int_def)
  obtain m2 where m2: "c_strcat m1 sc = Some m2" "c_holds m2 (''SCORE:   '' @ ?d) 100"
    using c_strcat_holds [OF m1(2) sc(2)] d by auto
  obtain m3 where m3: "c_strcat m2 (c_lit ?rest) = Some m3"
      "c_holds m3 ((''SCORE:   '' @ ?d) @ ?rest) 100"
    using c_strcat_holds [OF m2(2) c_holds_lit [of ?rest]] d by auto
  show ?thesis
  proof (cases new)
    case True
    then show ?thesis
      using m1(1) sc(1) m2(1) m3 cmp by (intro exI [of _ m3])
        (simp add: game_leaderboard_def score_message_def)
  next
    case False
    then show ?thesis
      using m1(1) sc(1) m2 cmp by (intro exI [of _ m2])
        (simp add: game_leaderboard_def score_message_def)
  qed
qed

lemma game_leaderboard_overrun:
  assumes "1000 \<le> unat (points g)" "unat (points g) < 2 ^ 31"
  shows "game_leaderboard g = None"
proof -
  have "4 \<le> length (dec_nat (unat (points g)))"
    using dec_nat_length_ge [of 3 "unat (points g)"] assms(1) by simp
  then have "c_sprintf_d (replicate 4 NUL) (sint (points g)) = None"
    using sint_of_nat_u32 [OF assms(2)] by (simp add: c_sprintf_d_def c_put_def dec_int_def)
  then show ?thesis by (simp add: game_leaderboard_def bind_eq_None_conv)
qed

lemma game_leaderboard_inv:
  assumes "game_leaderboard g = Some g'"
    and "grid_ok g" "spawn_ok g" "mouse_ok g" "arrays_ok g" "score_fits (points g)"
  shows "game_inv g'"
proof -
  obtain msg s where "g' = g\<lparr>name := c_memset0 (name g), input_message := msg,
      game_state := (if unat (scores (LB g) ! 0) < unat (points g) then LB_INPUT else LEADERBOARD)\<rparr>"
      "c_holds msg s 100"
    using game_leaderboard_fits [OF assms(5,6)] assms(1) by auto
  moreover have "c_holds (c_memset0 (name g)) [] 7"
    using assms(5) c_holds_memset0 [of "name g"] by (simp add: arrays_ok_def)
  ultimately show ?thesis
    using assms(2-5) by (auto simp: game_inv_defs grid_ok_def c_holds_def)
qed

lemma game_over_frame:
  assumes inv: "game_inv g" and over: "game_state g = GAME_OVER" and fits: "score_fits (points g)"
  shows "\<exists>g'. game_ih env g d = Some (g', d) \<and> game_inv g' \<and> points g' = points g \<and>
    (if game_over_counter g = 1 then game_state g' \<in> {LB_INPUT, LEADERBOARD}
     else game_state g' = GAME_OVER \<and> game_over_counter g' = game_over_counter g - 1)"
proof -
  define m where "m = grid_map (over_cell g) positions (game_matrix g)"
  define c where "c = game_over_counter g - 1"
  define g1 where "g1 = g\<lparr>game_matrix := m, game_over_counter := c,
    killer := (killer g)\<lparr>kstate := (c div 5) mod 4\<rparr>\<rparr>"
  have wf: "grid_wf (game_matrix g)" and o: "over_ok g"
    using inv over by (auto simp: game_inv_def grid_ok_def)
  have c: "unat c = unat (game_over_counter g) - 1" "c = 0 \<longleftrightarrow> game_over_counter g = 1"
    using o by (auto simp: c_def over_ok_def word_less_nat_alt u32_decr_unat)
  have le: "c \<le> GAME_OVER_WAIT"
    unfolding c_def using o by (intro u32_decr_le) (auto simp: over_ok_def)
  have kp: "killer_pos g1 = killer_pos g" by (simp add: g1_def killer_pos_def)
  have "grid_ok (pure_game_update_alien_times g)" using game_update_inv [OF inv] by (simp add: game_inv_def)
  then have grid: "grid_ok g1" by (simp add: update_over [OF over] g1_def m_def grid_ok_def)
  have rest: "spawn_ok g1" "mouse_ok g1" "arrays_ok g1" "points g1 = points g"
    using inv u32_mod4_less [of "c div 5"]
    by (auto simp: game_inv_defs g1_def)
  have ih: "game_ih env g d =
      (if c = 0 then map_option (\<lambda>g. (g, d)) (game_leaderboard g1) else Some (g1, d))"
    by (simp add: game_ih_eq [OF wf] pure_game_ih_def over update_over [OF over] Let_def g1_def m_def c_def)
  show ?thesis
  proof (cases "c = 0")
    case True
    obtain g' where "game_leaderboard g1 = Some g'" "points g' = points g"
        "game_state g' \<in> {LB_INPUT, LEADERBOARD}"
      using game_leaderboard_fits [OF rest(3)] rest(4) fits by auto
    with True ih c(2) game_leaderboard_inv [of g1 g'] grid rest fits show ?thesis by auto
  next
    case False
    have "over_ok g1"
      using o over_frame(1) [OF wf o] over_frame(2) [OF wf o] c(1) le False
      by (simp add: over_ok_def kp) (auto simp: g1_def m_def word_neq_0_conv)
    with False ih grid rest c(2) over show ?thesis
      by (auto simp: game_inv_def g1_def c_def)
  qed
qed


section \<open>Runs of frames\<close>

fun game_frames :: "'d env \<Rightarrow> nat \<Rightarrow> game \<Rightarrow> 'd \<Rightarrow> (game \<times> 'd) option" where
  "game_frames env 0 g d = Some (g, d)"
| "game_frames env (Suc n) g d = Option.bind (game_ih env g d) (\<lambda>(g, d). game_frames env n g d)"

lemma game_frames_snoc:
  "game_frames env (Suc n) g d = Option.bind (game_frames env n g d) (\<lambda>(g, d). game_ih env g d)"
proof (induction n arbitrary: g d)
  case 0
  show ?case by (cases "game_ih env g d") auto
next
  case (Suc n)
  show ?case
  proof (cases "game_ih env g d")
    case (Some s)
    then have "game_frames env (Suc (Suc n)) g d = game_frames env (Suc n) (fst s) (snd s)"
      by (simp add: split_beta)
    also have "\<dots> = Option.bind (game_frames env n (fst s) (snd s)) (\<lambda>(g, d). game_ih env g d)"
      by (rule Suc.IH)
    finally show ?thesis using Some by (cases s) simp
  qed simp
qed

lemma generate_frame:
  "game_state (fst (pure_game_generate_new_alien env g d)) = game_state g"
  "points (fst (pure_game_generate_new_alien env g d)) = points g"
  "game_over_counter (fst (pure_game_generate_new_alien env g d)) = game_over_counter g"
proof -
  let ?s = "pure_spawn_attempts env ALIEN_RANDOM_SPAWN_ATTEMPTS (respawn g) d"
  have "game_state (fst ?s) = game_state g \<and> points (fst ?s) = points g \<and>
      game_over_counter (fst ?s) = game_over_counter g"
    using spawn_attempts_result [of env ALIEN_RANDOM_SPAWN_ATTEMPTS "respawn g" d "fst ?s" "snd ?s"]
    by (auto simp: respawn_frame)
  then show "game_state (fst (pure_game_generate_new_alien env g d)) = game_state g"
    "points (fst (pure_game_generate_new_alien env g d)) = points g"
    "game_over_counter (fst (pure_game_generate_new_alien env g d)) = game_over_counter g"
    by (simp_all add: generate_eq)
qed

lemma kill_loop_points: "points (pure_kill_other_aliens g) = points g"
  by (simp add: kill_other_aliens_eq)

lemma update_loop_points: "points (pure_game_update_alien_times_loop ps g) = points g"
  by (induction ps arbitrary: g) (simp_all add: Let_def kill_loop_points)

lemma game_step_points: "points (fst (pure_game_step env g d)) = points g"
  by (simp add: pure_game_step_def generate_frame pure_game_update_alien_times_def update_loop_points)

lemma inv_grid_wf: "game_inv g \<Longrightarrow> grid_wf (game_matrix g)"
  by (simp add: game_inv_def grid_ok_def)

lemma game_ih_inv:
  assumes "game_inv g" "score_fits (points g)"
  shows "\<exists>g' d'. game_ih env g d = Some (g', d') \<and> game_inv g' \<and> points g' = points g"
proof (cases "game_state g = GAME_OVER")
  case True
  then show ?thesis using game_over_frame [OF assms(1) True assms(2), of env d] by auto
next
  case False
  then show ?thesis
    using assms game_step_inv [OF assms(1), of env d] game_step_points [of env g d]
    by (cases "game_state g"; cases "pure_game_step env g d")
      (auto simp: game_ih_eq [OF inv_grid_wf] pure_game_ih_def)
qed

lemma game_frames_inv:
  assumes "game_inv g" "score_fits (points g)"
  shows "\<exists>g' d'. game_frames env n g d = Some (g', d') \<and> game_inv g' \<and> points g' = points g"
  using assms
proof (induction n arbitrary: g d)
  case (Suc n)
  then show ?case using game_ih_inv [OF Suc.prems, of env d] by fastforce
qed simp

text \<open>The frames an alien that nobody shoots still needs before it kills the player.\<close>

fun alien_due :: "alien \<Rightarrow> nat" where
  "alien_due a = (if astate a = APPEARING then unat (time a) + 301 else unat (time a))"

definition threatens :: "alien \<Rightarrow> bool" where
  "threatens a \<longleftrightarrow> astate a = APPEARING \<or> astate a = ALIVE"

lemma tick_due:
  assumes "threatens a" "\<not> kills_player a"
  shows "threatens (tick_cell a)" "alien_due (tick_cell a) + 1 = alien_due a"
  using assms
  by (auto simp: threatens_def kills_player_def tick_cell_def alien_times_def word_less_nat_alt
      u32_decr_unat unat_eq_0)

lemma generate_cell:
  assumes "grid_wf (game_matrix g)" "in_grid p" "astate (cell (game_matrix g) p) \<noteq> EMPTY"
  shows "cell (game_matrix (fst (pure_game_generate_new_alien env g d))) p = cell (game_matrix g) p"
proof (cases "random_alien_counter g < random_alien_number g")
  case True
  then show ?thesis by (simp add: generate_eq)
next
  case False
  obtain g' d' where s: "pure_spawn_attempts env ALIEN_RANDOM_SPAWN_ATTEMPTS (respawn g) d = (g', d')"
    by (metis surj_pair)
  from s have "cell (game_matrix g') p = cell (game_matrix g) p"
    by (cases rule: spawn_attempts_cases) (use assms in \<open>auto simp: respawn_frame grid.get_put\<close>)
  with s False show ?thesis by (simp add: generate_eq)
qed

lemma game_step_due:
  assumes "game_inv g" "game_state g = PLAYING" "in_grid p" "threatens (cell (game_matrix g) p)"
    and "pure_game_step env g d = (g', d')" "game_state g' = PLAYING"
  shows "threatens (cell (game_matrix g') p)"
    and "alien_due (cell (game_matrix g') p) + 1 = alien_due (cell (game_matrix g) p)"
proof -
  let ?u = "pure_game_update_alien_times g"
  have wf: "grid_wf (game_matrix g)" using assms(1) by (simp add: game_inv_def grid_ok_def)
  have g': "g' = fst (pure_game_generate_new_alien env ?u d)" using assms(5) by (simp add: pure_game_step_def)
  then have nokill: "\<not> kills_player (cell (game_matrix g) q)" if "in_grid q" for q
    using update_play_state [of g] assms(2,6) wf that generate_frame(1) [of env ?u d]
    by (auto split: if_splits)
  then have u: "?u = g\<lparr>game_matrix := grid_map (\<lambda>_. tick_cell) positions (game_matrix g)\<rparr>"
    using assms(2) wf by (intro update_play) auto
  then have c: "cell (game_matrix ?u) p = tick_cell (cell (game_matrix g) p)"
    using wf assms(3) by simp
  have "cell (game_matrix g') p = tick_cell (cell (game_matrix g) p)"
    unfolding g' c [symmetric]
  proof (rule generate_cell)
    show "astate (cell (game_matrix ?u) p) \<noteq> EMPTY"
      unfolding c using tick_due(1) [OF assms(4) nokill [OF assms(3)]] by (auto simp: threatens_def)
  qed (use wf assms(3) u in auto)
  with tick_due [OF assms(4) nokill [OF assms(3)]]
  show "threatens (cell (game_matrix g') p)"
    "alien_due (cell (game_matrix g') p) + 1 = alien_due (cell (game_matrix g) p)" by simp_all
qed


lemma game_ih_not_playing:
  assumes "game_inv g" "score_fits (points g)" "game_state g \<noteq> PLAYING"
    and "game_ih env g d = Some (g', d')"
  shows "game_state g' \<noteq> PLAYING"
proof (cases "game_state g = GAME_OVER")
  case True
  then show ?thesis using game_over_frame [OF assms(1) True assms(2), of env d] assms(4)
    by (auto split: if_splits)
next
  case False
  then show ?thesis
    using assms(3,4) by (cases "game_state g") (auto simp: game_ih_def)
qed

lemma frames_not_playing:
  assumes "game_inv g" "score_fits (points g)" "game_state g \<noteq> PLAYING"
    and "game_frames env n g d = Some (g', d')"
  shows "game_state g' \<noteq> PLAYING"
  using assms
proof (induction n arbitrary: g d)
  case (Suc n)
  obtain g1 d1 where "game_ih env g d = Some (g1, d1)" "game_inv g1" "points g1 = points g"
    using game_ih_inv [OF Suc.prems(1,2), of env d] by blast
  with Suc.prems game_ih_not_playing [OF Suc.prems(1-3), of env d g1 d1] show ?case
    by (intro Suc.IH [of g1 d1]) auto
qed simp

lemma frames_untouched:
  assumes "game_inv g" "score_fits (points g)" "game_state g = PLAYING"
    and "in_grid p" "threatens (cell (game_matrix g) p)"
    and "game_frames env n g d = Some (g', d')" "game_state g' = PLAYING"
  shows "alien_due (cell (game_matrix g') p) + n = alien_due (cell (game_matrix g) p)"
  using assms
proof (induction n arbitrary: g d)
  case (Suc n)
  obtain g1 d1 where ih: "game_ih env g d = Some (g1, d1)" and g1: "game_inv g1" "points g1 = points g"
    using game_ih_inv [OF Suc.prems(1,2), of env d] by blast
  have run: "game_frames env n g1 d1 = Some (g', d')" using Suc.prems(6) ih by simp
  then have play: "game_state g1 = PLAYING"
    using frames_not_playing g1 Suc.prems(2,7) by metis
  have "pure_game_step env g d = (g1, d1)"
    using ih Suc.prems(3) by (simp add: game_ih_eq [OF inv_grid_wf [OF Suc.prems(1)]] pure_game_ih_def)
  note due = game_step_due [OF Suc.prems(1,3,4,5) this play]
  have "alien_due (cell (game_matrix g') p) + n = alien_due (cell (game_matrix g1) p)"
    using Suc.prems run g1 play due(1) by (intro Suc.IH) auto
  with due(2) show ?case by simp
qed simp

section \<open>Properties\<close>

text \<open>The globals before the game starts, all zero, and the state the game starts from.\<close>

definition zero_game :: game where
  "zero_game = \<lparr>game_over_counter = 0, killer = \<lparr>kstate = 0, kx = 0, ky = 0\<rparr>, game_state = PLAYING,
     game_matrix = [], points = 0, mouse_x = 0, mouse_y = 0, crosshair_half_width = 0,
     crosshair_half_height = 0, crosshair_width_border = 0, crosshair_height_border = 0,
     play_button_xi = 0, play_button_yi = 0, play_button_xf = 0, play_button_yf = 0,
     exit_button_xi = 0, exit_button_yi = 0, exit_button_xf = 0, exit_button_yf = 0,
     name = replicate 7 NUL, input_message = replicate 100 NUL, LB = empty_board, minutes = 0,
     hours = 0, frame_counter = 0, random_alien_counter = 0, random_alien_number = 0,
     random_alien_spawn_rate_increase = 0\<rparr>"

lemma zero_game_arrays: "arrays_ok zero_game"
  by (simp add: arrays_ok_def zero_game_def empty_board_wf c_terminated_def)

lemma initialize_inv:
  assumes "arrays_ok g"
  shows "game_inv (fst (game_initialize env g d))"
    and "in_grid p \<Longrightarrow> astate (cell (game_matrix (fst (game_initialize env g d))) p) = EMPTY"
  using assms
  by (auto simp: game_initialize_def game_reset_def Let_def game_inv_defs grid_ok_def grid_wf_def
      cell_def in_grid_def alien_ok_def game_consts drop_bit_eq_div)

text \<open>Starting from the zeroed globals of the program, \<^verbatim>\<open>game_initialize\<close> establishes the
  invariant of the game: an empty matrix of 7 by 11 cells, the crosshair inside the screen, the
  schedule of the spawns in range; and it shows the menu with no points.
\<close>

theorem game_initialize_inv:
  assumes "arrays_ok g"
  shows "game_inv (fst (game_initialize env g d)) \<and>
    game_state (fst (game_initialize env g d)) = MENU \<and> points (fst (game_initialize env g d)) = 0 \<and>
    (\<forall>p. in_grid p \<longrightarrow> astate (cell (game_matrix (fst (game_initialize env g d))) p) = EMPTY)"
  using initialize_inv(1) [OF assms, of env d] initialize_inv(2) [OF assms, of _ env d]
  by (simp add: game_initialize_def game_reset_def Let_def)

theorem game_initialize_inv_witness:
  "game_inv (fst (game_initialize sim_env zero_game sim0))"
  using game_initialize_inv [OF zero_game_arrays, of sim_env sim0] by simp


text \<open>A game in play with one alien that has just appeared, for the witnesses.\<close>

definition play_game :: game where
  "play_game = put_alien (3, 5) \<lparr>astate = APPEARING, time = 5\<rparr>
     ((fst (game_initialize sim_env zero_game sim0))\<lparr>game_state := PLAYING\<rparr>)"

lemma play_game_facts:
  "game_inv play_game" "game_state play_game = PLAYING" "points play_game = 0"
  "cell (game_matrix play_game) (3, 5) = \<lparr>astate = APPEARING, time = 5\<rparr>"
proof -
  let ?i = "fst (game_initialize sim_env zero_game sim0)"
  have "game_inv ?i" by (rule initialize_inv) (rule zero_game_arrays)
  then have inv: "game_inv (?i\<lparr>game_state := PLAYING\<rparr>)"
    by (simp add: game_inv_defs grid_ok_def)
  then have wf: "grid_wf (game_matrix ?i)" by (simp add: game_inv_def grid_ok_def)
  show "game_inv play_game"
    unfolding play_game_def using inv
    by (rule put_alien_inv) (simp_all add: in_grid_def game_consts alien_ok_def alien_times_def)
  show "game_state play_game = PLAYING" "points play_game = 0"
    by (simp_all add: play_game_def game_initialize_def game_reset_def Let_def)
  show "cell (game_matrix play_game) (3, 5) = \<lparr>astate = APPEARING, time = 5\<rparr>"
    using wf by (simp add: play_game_def grid.get_put in_grid_def game_consts)
qed

definition due_game :: game where
  "due_game = put_alien (3, 5) \<lparr>astate = ALIVE, time = 0\<rparr> play_game"

definition over_game :: game where
  "over_game = fst (the (game_step sim_env due_game sim0))"

lemma due_game_facts:
  "game_inv due_game" "game_state due_game = PLAYING" "points due_game = 0"
  "kills_player (cell (game_matrix due_game) (3, 5))"
proof -
  show "game_inv due_game"
    unfolding due_game_def using play_game_facts
    by (intro put_alien_inv) (simp_all add: in_grid_def game_consts alien_ok_def)
  show "kills_player (cell (game_matrix due_game) (3, 5))"
    using inv_grid_wf [OF play_game_facts(1)]
    by (simp add: due_game_def grid.get_put in_grid_def game_consts kills_player_def)
qed (simp_all add: due_game_def play_game_facts)

lemma grid_35: "in_grid (3, 5)"
  by (simp add: in_grid_def game_consts)

text \<open>The first frame after an alien is due.\<close>

lemma death_frame:
  assumes "game_inv g" "game_state g = PLAYING" "in_grid q" "kills_player (cell (game_matrix g) q)"
  shows "\<exists>g' d'. game_step env g d = Some (g', d') \<and> game_ih env g d = Some (g', d') \<and> game_inv g' \<and>
    game_state g' = GAME_OVER \<and> game_over_counter g' = GAME_OVER_WAIT \<and> points g' = points g"
proof -
  have wf: "grid_wf (game_matrix g)" using assms(1) by (rule inv_grid_wf)
  let ?s = "pure_game_step env g d"
  have "game_state (fst ?s) = GAME_OVER \<and> game_over_counter (fst ?s) = GAME_OVER_WAIT"
    using update_killed_over [OF _ wf assms(3,4)] assms(2)
    by (simp add: pure_game_step_def generate_frame)
  moreover have "game_step env g d = Some ?s" "game_ih env g d = Some ?s"
    using assms(2) step_returns [OF wf, of env d] by (simp_all add: game_ih_def)
  ultimately show ?thesis
    using game_step_inv [OF assms(1,2), of env d] game_step_points [of env g d] by (cases ?s) auto
qed

lemma over_game_facts:
  "game_inv over_game" "game_state over_game = GAME_OVER" "points over_game = 0"
  "game_over_counter over_game = GAME_OVER_WAIT"
  using death_frame [OF due_game_facts(1,2) grid_35 due_game_facts(4), of sim_env sim0] due_game_facts(3)
  by (auto simp: over_game_def)

text \<open>C7. Every call of the frame handler \<^verbatim>\<open>game_ih\<close>, in whatever state of the game, keeps
  the invariant and never runs out of the bounds of an array, neither of the matrix of aliens nor of a
  string, as long as the score fits its buffer; so does every run of frames.
\<close>

theorem frames_keep_invariant:
  assumes "game_inv g" "score_fits (points g)"
  shows "\<exists>g' d'. game_frames env n g d = Some (g', d') \<and> game_inv g' \<and> points g' = points g"
  using assms by (rule game_frames_inv)

theorem frames_keep_invariant_witness:
  "\<exists>g' d'. game_frames sim_env 400 play_game sim0 = Some (g', d') \<and> game_inv g' \<and>
     points g' = points play_game"
  by (rule frames_keep_invariant) (simp_all add: play_game_facts score_fits_def)

text \<open>C8. A frame of play ends the game exactly when some alien of the matrix is alive and its time is
  up; otherwise the game goes on.
\<close>

theorem player_dies_iff:
  assumes "game_inv g" "game_state g = PLAYING"
  shows "\<exists>g' d'. game_step env g d = Some (g', d') \<and> game_state g' =
    (if \<exists>q. in_grid q \<and> kills_player (cell (game_matrix g) q) then GAME_OVER else PLAYING)"
  using assms
  by (simp add: step_returns [OF inv_grid_wf] pure_game_step_def generate_frame update_play_state
      inv_grid_wf prod_eq_iff split_beta)

theorem player_dies_iff_witness:
  "\<exists>g' d'. game_step sim_env play_game sim0 = Some (g', d') \<and> game_state g' =
    (if \<exists>q. in_grid q \<and> kills_player (cell (game_matrix play_game) q) then GAME_OVER else PLAYING)"
  using player_dies_iff [OF play_game_facts(1,2)] .

text \<open>C9. One frame of the aliens, cell by cell. The double loop of \<^verbatim>\<open>game_update_alien_times\<close>, which returns as soon
  as an alien kills the player, gives every cell the value that the reference \<open>update_cell\<close> computes for
  it alone: the first alien whose time is up, in the order of the rows, becomes the killer and stays,
  every other one turns to \<^verbatim>\<open>DEAD_1\<close>, and those before it have aged by this frame; otherwise every
  alien ages. But for the frame in which the player dies an alien never goes back in its states.
\<close>

theorem aliens_update_cellwise:
  assumes "grid_ok g" "in_grid r"
  shows "\<exists>g'. game_update_alien_times g = Some g' \<and> cell (game_matrix g') r = update_cell g r \<and>
    (game_state g = GAME_OVER \<or> game_state g' \<noteq> GAME_OVER \<longrightarrow>
      astate (cell (game_matrix g) r) \<le> astate (cell (game_matrix g') r))"
proof -
  let ?u = "pure_game_update_alien_times g"
  have wf: "grid_wf (game_matrix g)" using assms(1) by (simp add: grid_ok_def)
  have cell: "cell (game_matrix ?u) r = update_cell g r" using wf assms(2) by (rule update_cell_eq)
  have "find (\<lambda>p. kills_player (cell (game_matrix g) p)) positions = None"
    if "game_state g \<noteq> GAME_OVER" "game_state ?u \<noteq> GAME_OVER"
    using that wf by (auto simp: update_play_state find_None_iff split: if_splits)
  then have "astate (cell (game_matrix g) r) \<le> astate (cell (game_matrix ?u) r)"
    if "game_state g = GAME_OVER \<or> game_state ?u \<noteq> GAME_OVER"
    using that unfolding cell by (auto simp: update_cell_def Let_def tick_cell_ages)
  with cell show ?thesis by (simp add: update_returns [OF wf])
qed

theorem aliens_update_cellwise_witness:
  "\<exists>g'. game_update_alien_times play_game = Some g' \<and>
     cell (game_matrix g') (3, 5) = update_cell play_game (3, 5)"
proof -
  have "grid_ok play_game" using play_game_facts(1) by (simp add: game_inv_def)
  from aliens_update_cellwise [OF this grid_35] show ?thesis by blast
qed

text \<open>C14. An alien that nobody shoots ends the game: from the frame it appears in, the game is still
  being played only for as many frames as its remaining life, 306 frames for a new one, and after
  one frame more it is over.
\<close>

theorem untouched_alien_ends_game:
  assumes "game_inv g" "score_fits (points g)" "in_grid p" "threatens (cell (game_matrix g) p)"
    and "alien_due (cell (game_matrix g) p) < n"
  shows "\<exists>g' d'. game_frames env n g d = Some (g', d') \<and> game_state g' \<noteq> PLAYING"
proof -
  obtain g' d' where run: "game_frames env n g d = Some (g', d')"
    using game_frames_inv [OF assms(1,2), of env n d] by blast
  show ?thesis
  proof (cases "game_state g = PLAYING")
    case True
    then show ?thesis using frames_untouched [OF assms(1,2) True assms(3,4) run] run assms(5) by auto
  next
    case False
    then show ?thesis using frames_not_playing [OF assms(1,2) False run] run by blast
  qed
qed

theorem untouched_alien_ends_game_witness:
  "\<exists>g' d'. game_frames sim_env 307 play_game sim0 = Some (g', d') \<and> game_state g' \<noteq> PLAYING"
  by (rule untouched_alien_ends_game [of _ "(3, 5)"])
    (simp_all add: play_game_facts score_fits_def in_grid_def game_consts threatens_def)


lemma countdown:
  assumes "game_inv g" "game_state g = GAME_OVER" "score_fits (points g)"
    and "n < unat (game_over_counter g)"
  shows "\<exists>g'. game_frames env n g d = Some (g', d) \<and> game_inv g' \<and> game_state g' = GAME_OVER \<and>
    points g' = points g \<and> unat (game_over_counter g') = unat (game_over_counter g) - n"
  using assms
proof (induction n arbitrary: g)
  case (Suc n)
  have ne: "game_over_counter g \<noteq> 1" using Suc.prems(4) by auto
  obtain g1 where ih: "game_ih env g d = Some (g1, d)" and g1: "game_inv g1" "game_state g1 = GAME_OVER"
      "points g1 = points g" and c: "game_over_counter g1 = game_over_counter g - 1"
    using game_over_frame [OF Suc.prems(1-3), of env d] ne by auto
  have "unat (game_over_counter g1) = unat (game_over_counter g) - 1"
    unfolding c using Suc.prems(4) by (intro u32_decr_unat) simp
  then show ?case using Suc.IH [of g1] Suc.prems(3,4) g1 ih by auto
qed auto

lemma countdown_ends:
  assumes "game_inv g" "game_state g = GAME_OVER" "score_fits (points g)"
  shows "\<exists>g'. game_frames env (unat (game_over_counter g)) g d = Some (g', d) \<and>
    game_state g' \<in> {LB_INPUT, LEADERBOARD}"
proof -
  obtain m where m: "unat (game_over_counter g) = Suc m"
    using assms(1,2) by (cases "unat (game_over_counter g)")
      (auto simp: game_inv_def over_ok_def word_less_nat_alt)
  obtain g' where g': "game_frames env m g d = Some (g', d)" "game_inv g'" "game_state g' = GAME_OVER"
      "points g' = points g" "unat (game_over_counter g') = 1"
    using countdown [OF assms, of m env d] unfolding m by auto
  moreover have "game_over_counter g' = 1" using g'(5) by (simp add: word_unat_eq_iff)
  ultimately obtain g'' where "game_ih env g' d = Some (g'', d)" "game_state g'' \<in> {LB_INPUT, LEADERBOARD}"
    using game_over_frame [OF g'(2,3), of env d] assms(3) by auto
  with g'(1) show ?thesis unfolding m game_frames_snoc by simp
qed

text \<open>C15. The death of the player lasts 120 frames. When an alien is alive and its time is up, the next
  frame puts the game into \<^const>\<open>GAME_OVER\<close> with \<^verbatim>\<open>game_over_counter\<close> at 120; for the frames
  after it the game stays there and the counter goes down by one each, and after exactly 120 of them
  the game asks for a name or shows the table, as long as the score fits its buffer.
\<close>

theorem game_over_lasts_counter_frames:
  assumes "game_inv g" "game_state g = PLAYING" "score_fits (points g)"
    and "in_grid q" "kills_player (cell (game_matrix g) q)"
  shows "(\<forall>n < 120. \<exists>g' d'. game_frames env (Suc n) g d = Some (g', d') \<and>
      game_state g' = GAME_OVER \<and> unat (game_over_counter g') = 120 - n) \<and>
    (\<exists>g' d'. game_frames env (Suc 120) g d = Some (g', d') \<and> game_state g' \<in> {LB_INPUT, LEADERBOARD})"
proof -
  obtain g1 d1 where ih: "game_ih env g d = Some (g1, d1)" and g1: "game_inv g1" "game_state g1 = GAME_OVER"
      "score_fits (points g1)" and c: "unat (game_over_counter g1) = 120"
    using death_frame [OF assms(1,2,4,5), of env d] assms(3) by (auto simp: game_consts)
  have "game_frames env (Suc n) g d = game_frames env n g1 d1" for n using ih by simp
  then show ?thesis
    using countdown [OF g1, of _ env d1] countdown_ends [OF g1, of env d1] unfolding c by metis
qed

theorem game_over_lasts_counter_frames_witness:
  "\<exists>g' d'. game_frames sim_env (Suc 120) due_game sim0 = Some (g', d') \<and>
      game_state g' \<in> {LB_INPUT, LEADERBOARD}"
proof -
  have "score_fits (points due_game)" by (simp add: due_game_facts score_fits_def)
  from game_over_lasts_counter_frames [OF due_game_facts(1,2) this grid_35 due_game_facts(4), of sim_env sim0]
  show ?thesis by blast
qed

lemma cell_life_empty: "cell_life a = 0 \<longleftrightarrow> astate a = EMPTY"
  by (cases "astate a") (simp_all add: cell_life_def)

text \<open>When the title of the end of the game is drawn, which happens once the counter is below 90,
  every alien but the one that killed the player has left the matrix, and that one is still there,
  so its picture is drawn over an otherwise empty field.
\<close>

theorem only_the_killer_remains:
  assumes "game_inv g" "game_state g = GAME_OVER" "game_over_counter g < 90" "in_grid p"
  shows "astate (cell (game_matrix g) p) = (if p = killer_pos g then ALIVE else EMPTY)"
  using assms
  by (auto simp: game_inv_def over_ok_def kills_player_def word_less_nat_alt simp flip: cell_life_empty)

lemma over_game_late:
  "\<exists>g'. game_frames sim_env 40 over_game sim0 = Some (g', sim0) \<and> game_inv g' \<and>
     game_state g' = GAME_OVER \<and> game_over_counter g' < 90"
proof -
  have "score_fits (points over_game)" by (simp add: over_game_facts score_fits_def)
  from countdown [OF over_game_facts(1,2) this, of 40 sim_env sim0] show ?thesis
    by (auto simp: over_game_facts game_consts word_less_nat_alt)
qed


theorem only_the_killer_remains_witness:
  "\<exists>g'. game_frames sim_env 40 over_game sim0 = Some (g', sim0) \<and>
     astate (cell (game_matrix g') (2, 3)) = (if (2, 3) = killer_pos g' then ALIVE else EMPTY)"
proof -
  obtain g' where run: "game_frames sim_env 40 over_game sim0 = Some (g', sim0)"
    and g': "game_inv g'" "game_state g' = GAME_OVER" "game_over_counter g' < 90"
    using over_game_late by blast
  have "in_grid (2, 3)" by (simp add: in_grid_def game_consts)
  from only_the_killer_remains [OF g' this] run show ?thesis by blast
qed

text \<open>The interval before the \<open>k\<close>-th alien after the start, counting from 0, as the code sets it.\<close>

definition spawn_interval :: "nat \<Rightarrow> nat" where
  "spawn_interval k = (if k \<le> 14 then 70 - 5 * k else 20)"

text \<open>The calls of \<^verbatim>\<open>game_generate_new_alien\<close> alone, one per frame.\<close>

primrec generate_calls :: "'d env \<Rightarrow> nat \<Rightarrow> game \<times> 'd \<Rightarrow> (game \<times> 'd) option" where
  "generate_calls env 0 s = Some s"
| "generate_calls env (Suc n) s = game_generate_new_alien env (fst s) (snd s) \<bind> generate_calls env n"

lemma generate_calls_add:
  "generate_calls env (m + n) s = generate_calls env m s \<bind> generate_calls env n"
proof (induction m arbitrary: s)
  case (Suc m)
  show ?case by (cases "game_generate_new_alien env (fst s) (snd s)") (simp_all add: Suc.IH)
qed simp

lemma generate_calls_stop [simp]: "s \<bind> generate_calls env 0 = s"
  by (cases s) simp_all

lemma generate_checked:
  "game_generate_new_alien env g d =
     (if random_alien_counter g < random_alien_number g
      then Some (g\<lparr>random_alien_counter := random_alien_counter g + 1\<rparr>, d)
      else spawn_attempts env ALIEN_RANDOM_SPAWN_ATTEMPTS (respawn g) d)"
  by (simp add: game_generate_new_alien_def respawn_def Let_def)

lemma generate_waits:
  assumes "unat (random_alien_counter g) + n \<le> unat (random_alien_number g)"
  shows "generate_calls env n (g, d) =
    Some (g\<lparr>random_alien_counter := random_alien_counter g + of_nat n\<rparr>, d)"
  using assms
proof (induction n arbitrary: g)
  case (Suc n)
  let ?g = "g\<lparr>random_alien_counter := random_alien_counter g + 1\<rparr>"
  have lt: "random_alien_counter g < random_alien_number g"
    using Suc.prems by (simp add: word_less_nat_alt)
  with u32_incr_unat [OF lt] Suc.prems Suc.IH [of ?g] lt show ?case
    by (simp add: generate_checked add.assoc)
qed simp


definition spawn_start :: "nat \<Rightarrow> game \<Rightarrow> bool" where
  "spawn_start k g \<longleftrightarrow> random_alien_counter g = 0 \<and>
     unat (random_alien_number g) = spawn_interval k \<and>
     random_alien_spawn_rate_increase g = (if k \<le> 14 then 5 else 0)"

lemma spawn_start_ok: "spawn_start k g \<Longrightarrow> spawn_ok g"
  by (auto simp: spawn_start_def spawn_ok_def spawn_interval_def word_unat_eq_iff [of _ 20]
      split: if_splits)

lemma respawn_start:
  assumes "spawn_start k g"
  shows "spawn_start (Suc k) (respawn (g\<lparr>random_alien_counter := c\<rparr>))"
proof -
  let ?n = "random_alien_number g"
  have r: "respawn (g\<lparr>random_alien_counter := c\<rparr>) = respawn g" by (simp add: respawn_def Let_def)
  have n: "unat ?n = spawn_interval k" using assms by (simp add: spawn_start_def)
  have "k \<le> 14 \<Longrightarrow> ?n < 5 \<longleftrightarrow> k = 14"
    unfolding word_less_nat_alt n by (auto simp: spawn_interval_def)
  then have "random_alien_spawn_rate_increase (respawn g) = (if Suc k \<le> 14 then 5 else 0)"
    using assms by (auto simp: spawn_start_def respawn_def Let_def)
  moreover have "unat (random_alien_number (respawn g)) = spawn_interval (Suc k)"
    using respawn_number(2) [OF spawn_start_ok [OF assms]] n assms
    by (auto simp: spawn_interval_def spawn_start_def unat_eq_0 [symmetric])
  ultimately show ?thesis unfolding r by (simp add: spawn_start_def) (simp add: respawn_def Let_def)
qed

lemma spawn_attempts_frame:
  assumes "pure_spawn_attempts env n g d = (g', d')" "grid_wf (game_matrix g)"
  shows "spawn_start k g' = spawn_start k g" "grid_wf (game_matrix g')"
  using spawn_attempts_result [OF assms(1)] assms(2)
  by (auto simp: spawn_start_def put_alien_def grid.wf_put)

text \<open>The call that finds the counter at its limit places an alien, on the matrix as it was.\<close>

lemma spawn_cycle_attempt:
  assumes "spawn_start k g"
  shows "\<exists>g2. game_matrix g2 = game_matrix g \<and> spawn_start (Suc k) g2 \<and>
    generate_calls env (Suc (spawn_interval k)) (g, d) =
      spawn_attempts env ALIEN_RANDOM_SPAWN_ATTEMPTS g2 d"
proof -
  let ?c = "of_nat (spawn_interval k) :: u32"
  have n: "unat (random_alien_number g) = spawn_interval k" "random_alien_counter g = 0"
    using assms by (simp_all add: spawn_start_def)
  have "?c = random_alien_number g" using n(1) by (simp flip: n(1))
  then have "generate_calls env (spawn_interval k + 1) (g, d) =
      spawn_attempts env ALIEN_RANDOM_SPAWN_ATTEMPTS (respawn (g\<lparr>random_alien_counter := ?c\<rparr>)) d"
    unfolding generate_calls_add using generate_waits [of g "spawn_interval k" env d] n
    by (simp add: generate_checked)
  with respawn_start [OF assms, of ?c] show ?thesis
    by (intro exI [of _ "respawn (g\<lparr>random_alien_counter := ?c\<rparr>)"]) (simp add: respawn_frame)
qed

lemma spawn_cycle:
  assumes "spawn_start k g" "grid_wf (game_matrix g)"
  shows "\<exists>g' d'. generate_calls env (Suc (spawn_interval k)) (g, d) = Some (g', d') \<and>
    spawn_start (Suc k) g' \<and> grid_wf (game_matrix g')"
proof -
  obtain g2 where g2: "game_matrix g2 = game_matrix g" "spawn_start (Suc k) g2"
    "generate_calls env (Suc (spawn_interval k)) (g, d) = spawn_attempts env ALIEN_RANDOM_SPAWN_ATTEMPTS g2 d"
    using spawn_cycle_attempt [OF assms(1), of env d] by blast
  have wf: "grid_wf (game_matrix g2)" using g2(1) assms(2) by simp
  obtain g' d' where s: "pure_spawn_attempts env ALIEN_RANDOM_SPAWN_ATTEMPTS g2 d = (g', d')" by (metis surj_pair)
  have "generate_calls env (Suc (spawn_interval k)) (g, d) = Some (g', d')"
    unfolding g2(3) spawn_returns [OF wf] s ..
  with spawn_attempts_frame [OF s wf] g2(2) show ?thesis by blast
qed

lemma spawn_cycles:
  assumes "spawn_start 0 g" "grid_wf (game_matrix g)"
  shows "\<exists>g' d'. generate_calls env (\<Sum>i < k. spawn_interval i + 1) (g, d) = Some (g', d') \<and>
    spawn_start k g' \<and> grid_wf (game_matrix g')"
proof (induction k)
  case 0
  then show ?case using assms by simp
next
  case (Suc k)
  then obtain g' d' where s: "generate_calls env (\<Sum>i < k. spawn_interval i + 1) (g, d) = Some (g', d')"
    "spawn_start k g'" "grid_wf (game_matrix g')" by blast
  have "generate_calls env (\<Sum>i < Suc k. spawn_interval i + 1) (g, d) =
      generate_calls env (Suc (spawn_interval k)) (g', d')"
    using generate_calls_add [of env "\<Sum>i < k. spawn_interval i + 1" "Suc (spawn_interval k)" "(g, d)"] s(1)
    by simp
  then show ?case using spawn_cycle [OF s(2,3), of env d'] by simp
qed

text \<open>C16. The aliens come faster and faster: from the start of a game \<^verbatim>\<open>game_generate_new_alien\<close>
  counts 70, 65, 60, \<open>\<dots>\<close>, 5 and 0 calls between its attempts to place an alien and 20 from then
  on for ever; between two attempts it leaves the matrix and the random generator alone, the call
  after them is an attempt, and the unsigned subtraction never wraps.
\<close>

theorem spawn_schedule:
  fixes env :: "'d env" and d :: 'd and k :: nat
  assumes "spawn_start 0 g" "grid_wf (game_matrix g)"
  defines "after \<equiv> \<lambda>n. generate_calls env ((\<Sum>i < k. spawn_interval i + 1) + n) (g, d)"
  shows "\<exists>g1 d1. after 0 = Some (g1, d1) \<and> unat (random_alien_number g1) = spawn_interval k \<and>
    random_alien_counter g1 = 0 \<and>
    (\<forall>n \<le> spawn_interval k. \<exists>g2. after n = Some (g2, d1) \<and> game_matrix g2 = game_matrix g1) \<and>
    (\<exists>g2. game_matrix g2 = game_matrix g1 \<and>
       after (Suc (spawn_interval k)) = spawn_attempts env ALIEN_RANDOM_SPAWN_ATTEMPTS g2 d1)"
proof -
  obtain g1 d1 where s: "generate_calls env (\<Sum>i < k. spawn_interval i + 1) (g, d) = Some (g1, d1)"
    "spawn_start k g1" using spawn_cycles [OF assms(1,2), of env k d] by blast
  have after: "after n = generate_calls env n (g1, d1)" for n
    unfolding after_def generate_calls_add s(1) by simp
  obtain g2 where "game_matrix g2 = game_matrix g1"
    "after (Suc (spawn_interval k)) = spawn_attempts env ALIEN_RANDOM_SPAWN_ATTEMPTS g2 d1"
    unfolding after using spawn_cycle_attempt [OF s(2), of env d1] by blast
  then show ?thesis
    using s(2) generate_waits [of g1 _ env d1]
    by (intro exI [of _ g1] exI [of _ d1]) (auto simp: after spawn_start_def simp del: generate_calls.simps(2))
qed

theorem spawn_schedule_witness:
  "\<exists>g1 d1 g2. generate_calls sim_env ((\<Sum>i < 3. spawn_interval i + 1) + 0) (play_game, sim0) = Some (g1, d1) \<and>
     unat (random_alien_number g1) = 55 \<and>
     generate_calls sim_env ((\<Sum>i < 3. spawn_interval i + 1) + 10) (play_game, sim0) = Some (g2, d1) \<and>
     game_matrix g2 = game_matrix g1"
proof -
  have "spawn_start 0 play_game"
    by (simp add: spawn_start_def spawn_interval_def play_game_def game_initialize_def game_reset_def
        Let_def put_alien_def game_consts)
  moreover have "spawn_interval 3 = 55" by (simp add: spawn_interval_def)
  moreover have "(10 :: nat) \<le> 55" by simp
  ultimately show ?thesis
    using spawn_schedule [OF _ inv_grid_wf [OF play_game_facts(1)], where k = 3 and env = sim_env and d = sim0]
    by metis
qed


lemma last_frame:
  assumes "game_state g = GAME_OVER" "game_over_counter g = 1"
  defines "g1 \<equiv> (pure_game_update_alien_times g)\<lparr>game_over_counter := 0, killer := (killer g)\<lparr>kstate := 0\<rparr>\<rparr>"
  shows "pure_game_ih env g d = map_option (\<lambda>g. (g, d)) (game_leaderboard g1)"
    and "points g1 = points g" "LB g1 = LB g" "arrays_ok g \<Longrightarrow> arrays_ok g1"
  using assms by (simp_all add: pure_game_ih_def update_over Let_def arrays_ok_def)

text \<open>C17. In the last frame of the countdown \<^verbatim>\<open>game_ih\<close> writes the score in decimal into the
  message of the screen, and asks for the name of the player exactly when the score is greater than
  the first entry of the table; as long as the table is ranked that is the lowest one, so exactly when
  the score is greater than some entry of it.
\<close>

theorem end_of_game_message:
  assumes "game_inv g" "game_state g = GAME_OVER" "game_over_counter g = 1" "score_fits (points g)"
  defines "new \<equiv> unat (scores (LB g) ! 0) < unat (points g)"
  shows "(\<exists>g'. game_ih env g d = Some (g', d) \<and>
      game_state g' = (if new then LB_INPUT else LEADERBOARD) \<and>
      c_holds (input_message g') (score_message (unat (points g)) new) 100) \<and>
    (ranked (entries (LB g)) \<longrightarrow> new = (\<exists>e \<in> set (entries (LB g)). fst e < unat (points g)))"
proof (intro conjI impI)
  define g1 where
    "g1 = (pure_game_update_alien_times g)\<lparr>game_over_counter := 0, killer := (killer g)\<lparr>kstate := 0\<rparr>\<rparr>"
  note frame = last_frame [OF assms(2,3), folded g1_def]
  have "arrays_ok g1" "score_fits (points g1)"
    using assms(1,4) by (simp_all add: frame game_inv_def)
  from game_leaderboard_fits [OF this]
  show "\<exists>g'. game_ih env g d = Some (g', d) \<and> game_state g' = (if new then LB_INPUT else LEADERBOARD) \<and>
      c_holds (input_message g') (score_message (unat (points g)) new) 100"
    by (auto simp: game_ih_eq [OF inv_grid_wf [OF assms(1)]] frame new_def)
next
  assume "ranked (entries (LB g))"
  moreover have "lb_wf (LB g)" using assms(1) by (simp add: game_inv_def arrays_ok_def)
  ultimately show "new = (\<exists>e \<in> set (entries (LB g)). fst e < unat (points g))"
    unfolding new_def by (rule ranked_first_below)
qed

definition last_game :: game where
  "last_game = fst (the (game_frames sim_env 119 over_game sim0))"

lemma last_game_facts:
  "game_inv last_game" "game_state last_game = GAME_OVER" "points last_game = 0"
  "game_over_counter last_game = 1"
proof -
  have "score_fits (points over_game)" by (simp add: over_game_facts score_fits_def)
  from countdown [OF over_game_facts(1,2) this, of 119 sim_env sim0]
  show "game_inv last_game" "game_state last_game = GAME_OVER" "points last_game = 0"
    "game_over_counter last_game = 1"
    by (auto simp: last_game_def over_game_facts game_consts word_unat_eq_iff)
qed

theorem end_of_game_message_witness:
  "\<exists>g'. game_ih sim_env (last_game\<lparr>points := 5, LB := empty_board\<rparr>) sim0 = Some (g', sim0) \<and> game_state g' = LB_INPUT \<and>
    c_holds (input_message g') (score_message 5 True) 100"
proof -
  let ?g = "last_game\<lparr>points := 5, LB := empty_board\<rparr>"
  have "game_inv ?g"
    using last_game_facts(1) empty_board_wf(1)
    by (simp add: game_inv_defs grid_ok_def over_ok_def killer_pos_def)
  moreover have "game_state ?g = GAME_OVER" "game_over_counter ?g = 1" "score_fits (points ?g)"
    by (simp_all add: last_game_facts score_fits_def)
  moreover have "scores (LB ?g) ! 0 = 0" by (simp add: empty_board_def)
  ultimately show ?thesis using end_of_game_message [of ?g sim_env sim0] by auto
qed

text \<open>A player with 1000 points or more has the program write past the four characters of the local
  array \<^verbatim>\<open>sc\<close> in the last frame of the countdown.
\<close>

theorem end_of_game_overrun:
  assumes "game_state g = GAME_OVER" "game_over_counter g = 1"
    and "1000 \<le> unat (points g)" "unat (points g) < 2 ^ 31"
  shows "game_ih env g d = None"
proof -
  have "pure_game_ih env g d = None"
    using assms(3,4) game_leaderboard_overrun
    by (simp add: last_frame(1) [OF assms(1,2)] update_over assms(1))
  then show ?thesis using game_ih_Some [of env g d] by (cases "game_ih env g d") auto
qed

theorem end_of_game_overrun_witness:
  "game_ih sim_env (last_game\<lparr>points := 1000\<rparr>) sim0 = None"
  by (rule end_of_game_overrun) (simp_all add: last_game_facts)

end
