(* ===== verification/Video.thy ===== *)
theory Video
  imports Game
begin

text \<open>
  \<^verbatim>\<open>video_card/vg_macros.h\<close>, \<^verbatim>\<open>video_card/video_card.h\<close> and
  \<^verbatim>\<open>video_card/video_card.c\<close>: the two frame buffers, the loops that copy a sprite into
  one of them, the screens of the game, and the set-up of the graphics mode and of the sprites.

  A buffer and the pixels of a sprite are lists of bytes; the pointer into the buffer is its offset
  as an unsigned 32-bit number, so that its arithmetic wraps as on the i386, and the pointer into
  the sprite is an index. An access outside a buffer or a sprite is \<^const>\<open>None\<close>. The row and
  column counters, 16-bit in the code, are natural numbers: they stay below the resolution, which
  comes from a 16-bit field. A null pointer, on which every access is undefined, is the empty list.
\<close>

section \<open>Data\<close>

definition VBE_MODE_AH :: u16 where [port_consts]: "VBE_MODE_AH = 0x4F"
definition VBE_SET_MODE_AL :: u16 where [port_consts]: "VBE_SET_MODE_AL = 0x02"
definition BIOS_SERVICE_VIDEO_CARD :: u8 where [port_consts]: "BIOS_SERVICE_VIDEO_CARD = 0x10"
definition GAME_GRAPHICS_MODE :: u16 where [port_consts]: "GAME_GRAPHICS_MODE = 0x115"
definition POINTS_WIDTH_MARGIN :: u16 where "POINTS_WIDTH_MARGIN = 700"
definition POINTS_HEIGHT_MARGIN :: u16 where "POINTS_HEIGHT_MARGIN = 32"
definition POINTS_BETWEEN_MARGIN :: u16 where "POINTS_BETWEEN_MARGIN = 5"
definition BUTTON_MARGIN_TOP :: int where "BUTTON_MARGIN_TOP = 100"
definition GAME_MARGIN_TOP :: int where "GAME_MARGIN_TOP = 150"

text \<open>The fields of \<^verbatim>\<open>xpm_image_t\<close> that the program reads are part of the sprite.\<close>

record sprite =
  ptr :: "u8 list"
  width :: u16
  height :: u16

text \<open>The state of the graphics mode, and the sprites and positions on top of it.\<close>

record card =
  video_mem :: "u8 list"
  buffer :: "u8 list"
  h_res :: u32
  v_res :: u32
  bytes_per_pixel :: u32
  red_mask_size :: u8
  green_mask_size :: u8
  blue_mask_size :: u8
  red_field_position :: u8
  green_field_position :: u8
  blue_field_position :: u8

record video = card +
  alien_sprites :: "sprite list"
  killer_alien_sprites :: "sprite list"
  numbers_sprites :: "sprite list"
  letters_sprites :: "sprite list"
  symb_sprites :: "sprite list"
  lb_corners :: "sprite list"
  crosshair :: sprite
  play_button :: "sprite list"
  exit_button :: "sprite list"
  game_over :: sprite
  game_name :: sprite
  paused :: sprite
  game_over_x :: u16
  game_over_y :: u16
  game_name_x :: u16
  game_name_y :: u16
  paused_x :: u16
  paused_y :: u16
  str :: "char list"

section \<open>Copying a sprite\<close>

fun copy_bytes :: "u8 list \<Rightarrow> nat \<Rightarrow> u8 list \<Rightarrow> nat \<Rightarrow> nat \<Rightarrow> (u8 list \<times> nat) option" where
  "copy_bytes mem off sp k 0 = Some (mem, k)"
| "copy_bytes mem off sp k (Suc n) =
     (if k < length sp \<and> off < length mem
      then copy_bytes (mem[off := sp ! k]) (Suc off) sp (Suc k) n else None)"

text \<open>
  One row of a sprite. The drawing routines for the crosshair and the alien that killed the player
  leave out the pixels whose three bytes are zero, the argument \<open>transparent\<close>.
\<close>

definition draw_pixel ::
  "bool \<Rightarrow> nat \<Rightarrow> u8 list \<Rightarrow> u8 list \<Rightarrow> u32 \<Rightarrow> nat \<Rightarrow> (u8 list \<times> nat) option" where
  "draw_pixel transparent bpp sp mem off k =
     (if transparent then
        if \<not> k + 2 < length sp then None
        else if sp ! k OR sp ! (k + 1) OR sp ! (k + 2) = 0 then Some (mem, k + 3)
        else copy_bytes mem (unat off) sp k bpp
      else copy_bytes mem (unat off) sp k bpp)"

function draw_row ::
  "bool \<Rightarrow> nat \<Rightarrow> nat \<Rightarrow> nat \<Rightarrow> u8 list \<Rightarrow> nat \<Rightarrow> u8 list \<Rightarrow> u32 \<Rightarrow> nat \<Rightarrow> (u8 list \<times> u32 \<times> nat) option" where
  "draw_row transparent hres lim bpp sp j mem off k =
     (if j < hres \<and> j < lim then do {
        (mem, k) \<leftarrow> draw_pixel transparent bpp sp mem off k;
        draw_row transparent hres lim bpp sp (Suc j) mem (off + of_nat bpp) k
      } else Some (mem, off, k))"
  by pat_completeness auto
termination
  by (relation "measure (\<lambda>(tr, hres, lim, bpp, sp, j, mem, off, k). lim - j)") auto

declare draw_row.simps [simp del]

function draw_rows ::
  "bool \<Rightarrow> nat \<Rightarrow> nat \<Rightarrow> nat \<Rightarrow> nat \<Rightarrow> nat \<Rightarrow> nat \<Rightarrow> u32 \<Rightarrow> u8 list \<Rightarrow> nat \<Rightarrow> u8 list \<Rightarrow> u32 \<Rightarrow> nat \<Rightarrow>
   u8 list option" where
  "draw_rows transparent hres vres bpp x xlim ylim row_increment sp i mem off k =
     (if i < vres \<and> i < ylim then do {
        (mem, off, k) \<leftarrow> draw_row transparent hres xlim bpp sp x mem off k;
        draw_rows transparent hres vres bpp x xlim ylim row_increment sp (Suc i) mem
          (off + row_increment) k
      } else Some mem)"
  by pat_completeness auto
termination
  by (relation "measure (\<lambda>(tr, hres, vres, bpp, x, xlim, ylim, inc, sp, i, mem, off, k). ylim - i)") auto

declare draw_rows.simps [simp del]

text \<open>
  The part that the three drawing routines share: the increment per row and the start. The
  coordinates are 16-bit in two of them and 32-bit in the third, whose counters are 16-bit all the
  same.
\<close>

definition draw_image :: "bool \<Rightarrow> video \<Rightarrow> sprite \<Rightarrow> u32 \<Rightarrow> u32 \<Rightarrow> u8 list \<Rightarrow> u8 list option" where
  "draw_image transparent v s x y mem =
     (let row_increment = (h_res v - ucast (width s)) * bytes_per_pixel v;
          off = (h_res v * y + x) * bytes_per_pixel v
      in draw_rows transparent (unat (h_res v)) (unat (v_res v)) (unat (bytes_per_pixel v))
           (unat (ucast x :: u16)) (unat (x + ucast (width s))) (unat (y + ucast (height s)))
           row_increment (ptr s) (unat (ucast y :: u16)) mem off 0)"

definition draw_to :: "bool \<Rightarrow> sprite \<Rightarrow> u32 \<Rightarrow> u32 \<Rightarrow> u8 \<Rightarrow> video \<Rightarrow> (i32 \<times> video) option" where
  "draw_to transparent s x y buffer_no v =
     (if buffer_no = 0
      then map_option (\<lambda>mem. (0, v\<lparr>video_mem := mem\<rparr>)) (draw_image transparent v s x y (video_mem v))
      else if buffer_no = 1
      then map_option (\<lambda>mem. (0, v\<lparr>buffer := mem\<rparr>)) (draw_image transparent v s x y (buffer v))
      else Some (1, v))"

definition vg_draw_sprite :: "sprite \<Rightarrow> u16 \<Rightarrow> u16 \<Rightarrow> u8 \<Rightarrow> video \<Rightarrow> (i32 \<times> video) option" where
  "vg_draw_sprite s x y buffer_no v = draw_to False s (ucast x) (ucast y) buffer_no v"

text \<open>A call of \<^verbatim>\<open>vg_draw_sprite\<close> on the second buffer whose result is ignored.\<close>

definition put_sprite :: "sprite \<Rightarrow> u16 \<Rightarrow> u16 \<Rightarrow> video \<Rightarrow> video option" where
  "put_sprite s x y v = map_option snd (vg_draw_sprite s x y 1 v)"

definition vg_draw_killer_alien :: "game \<Rightarrow> video \<Rightarrow> video option" where
  "vg_draw_killer_alien g v =
     (if \<not> unat (kstate (killer g)) < length (killer_alien_sprites v) then None else
      let s = killer_alien_sprites v ! unat (kstate (killer g));
          x = kx (killer g) * of_int ALIEN_WIDTH + of_int ALIEN_HORIZONTAL_MARGIN
                + of_int GAME_HORIZONTAL_MARGIN;
          y = ky (killer g) * of_int ALIEN_HEIGHT + of_int ALIEN_VERTICAL_MARGIN
                + of_int GAME_VERTICAL_MARGIN
      in map_option snd (draw_to True s x y 1 v))"

definition vg_draw_crosshair :: "u8 \<Rightarrow> game \<Rightarrow> video \<Rightarrow> video option" where
  "vg_draw_crosshair buffer_no g v =
     map_option snd (draw_to True (crosshair v) (ucast (mouse_x g - crosshair_half_width g))
       (ucast (mouse_y g - crosshair_half_height g)) buffer_no v)"


section \<open>Screens\<close>

fun draw_aliens_loop :: "(nat \<times> nat) list \<Rightarrow> game \<Rightarrow> video \<Rightarrow> video option" where
  "draw_aliens_loop [] g v = Some v"
| "draw_aliens_loop (p # ps) g v = do {
     a \<leftarrow> cell_read (game_matrix g) p;
     let state = astate a;
     if state = EMPTY then draw_aliens_loop ps g v
     else
       let x = of_int GAME_HORIZONTAL_MARGIN + of_nat (snd p) * of_int ALIEN_WIDTH;
           y = of_int GAME_VERTICAL_MARGIN + of_nat (fst p) * of_int ALIEN_HEIGHT
       in if \<not> alien_index state < length (alien_sprites v) then None
          else do {
            v \<leftarrow> put_sprite (alien_sprites v ! alien_index state)
                  (x + of_int ALIEN_HORIZONTAL_MARGIN) (y + of_int ALIEN_VERTICAL_MARGIN) v;
            draw_aliens_loop ps g v
          }
   }"

definition vg_draw_aliens :: "game \<Rightarrow> video \<Rightarrow> video option" where
  "vg_draw_aliens g v = draw_aliens_loop positions g v"

text \<open>The digits of a number from right to left, with the number of digits drawn.\<close>

function draw_digits :: "nat \<Rightarrow> nat \<Rightarrow> u16 \<Rightarrow> u16 \<Rightarrow> video \<Rightarrow> (nat \<times> u16 \<times> video) option" where
  "draw_digits m n x y v =
     (if m \<noteq> 0 then
        if \<not> m mod 10 < length (numbers_sprites v) then None
        else
          let s = numbers_sprites v ! (m mod 10) in do {
            v \<leftarrow> put_sprite s x y v;
            draw_digits (m div 10) (Suc n) (x - (width s + POINTS_BETWEEN_MARGIN)) y v
          }
      else Some (n, x, v))"
  by pat_completeness auto
termination
  by (relation "measure (\<lambda>(m, n, x, y, v). m)") auto

declare draw_digits.simps [simp del]

definition draw_zero :: "u16 \<Rightarrow> u16 \<Rightarrow> video \<Rightarrow> (u16 \<times> video) option" where
  "draw_zero x y v =
     (if numbers_sprites v = [] then None
      else do {
        v \<leftarrow> put_sprite (numbers_sprites v ! 0) x y v;
        Some (x - (width (numbers_sprites v ! 0) + POINTS_BETWEEN_MARGIN), v)
      })"

definition vg_draw_points :: "game \<Rightarrow> video \<Rightarrow> video option" where
  "vg_draw_points g v =
     (let x = POINTS_WIDTH_MARGIN; y = POINTS_HEIGHT_MARGIN in
      if points g = 0 then map_option snd (draw_zero x y v)
      else map_option (\<lambda>(n, x, v). v) (draw_digits (unat (points g)) 0 x y v))"

text \<open>The picture of a character and how far from the cursor it is drawn.\<close>

definition glyph :: "video \<Rightarrow> char \<Rightarrow> (sprite option \<times> int) option" where
  "glyph v c =
     (let n = (of_char c :: nat);
          pick = (\<lambda>xs i. if i < length xs then Some (xs ! i) else None)
      in if 65 \<le> n \<and> n \<le> 90 then Some (pick (letters_sprites v) (n - 65), 0)
         else if 48 \<le> n \<and> n \<le> 57 then Some (pick (numbers_sprites v) (n - 48), 0)
         else if c = CHR ''-'' then Some (pick (symb_sprites v) 0, 0)
         else if c = CHR ''/'' then Some (pick (symb_sprites v) 1, 0)
         else if c = CHR '':'' then Some (pick (symb_sprites v) 2, 8)
         else None)"

fun draw_chars :: "string \<Rightarrow> int \<Rightarrow> int \<Rightarrow> int \<Rightarrow> video \<Rightarrow> video option" where
  "draw_chars [] x0 x y v = Some v"
| "draw_chars (c # cs) x0 x y v =
     (let w = uint (width (letters_sprites v ! 0)); h = uint (height (letters_sprites v ! 0)) in
      if letters_sprites v = [] then None
      else case glyph v c of
        Some (None, e) \<Rightarrow> None
      | Some (Some s, e) \<Rightarrow> do {
          v \<leftarrow> put_sprite s (word_of_int (x + e)) (word_of_int (y + e)) v;
          draw_chars cs x0 (x + w) y v
        }
      | None \<Rightarrow>
          if c = CHR 0x20 then draw_chars cs x0 (x - (w - 20) + w) y v
          else if c = NL then draw_chars cs x0 (x0 - w + w) (y + h) v
          else draw_chars cs x0 (x + w) y v)"

definition vg_draw_str :: "char list \<Rightarrow> int \<Rightarrow> int \<Rightarrow> video \<Rightarrow> video option" where
  "vg_draw_str s x0 y0 v = (if c_terminated s then draw_chars (c_str s) x0 x0 y0 v else None)"

definition vg_draw_input_screen :: "game \<Rightarrow> video \<Rightarrow> video option" where
  "vg_draw_input_screen g v = do {
     v \<leftarrow> vg_draw_str (input_message g) 100 100 v;
     v \<leftarrow> (if name g ! 0 \<noteq> NUL
          then vg_draw_str (name g) (8 * uint (width (letters_sprites v ! 0)) + 96)
                 (uint (height (letters_sprites v ! 0)) + 100) v
          else Some v);
     vg_draw_crosshair 1 g v
   }"

definition vg_draw_leadeboard :: "game \<Rightarrow> video \<Rightarrow> video option" where
  "vg_draw_leadeboard g v =
     (if length (lb_corners v) < 4 then None else do {
        v \<leftarrow> put_sprite (lb_corners v ! 0) 1 1 v;
        v \<leftarrow> put_sprite (lb_corners v ! 1) 702 1 v;
        v \<leftarrow> put_sprite (lb_corners v ! 2) 702 502 v;
        v \<leftarrow> put_sprite (lb_corners v ! 3) 1 502 v;
        text \<leftarrow> getLeaderBoard (LB g) (str v);
        v \<leftarrow> vg_draw_str text 230 30 (v\<lparr>str := text\<rparr>);
        v \<leftarrow> vg_draw_str (c_lit ''PRESS ENTER TO CONTINUE'') 50
              (100 + 12 * uint (height (letters_sprites v ! 0))) v;
        vg_draw_crosshair 1 g v
      })"

text \<open>The digits of the hours or of the minutes, padded to two.\<close>

definition draw_two_digits :: "u8 \<Rightarrow> u16 \<Rightarrow> u16 \<Rightarrow> video \<Rightarrow> (u16 \<times> video) option" where
  "draw_two_digits val x y v = do {
     (n, x, v) \<leftarrow> draw_digits (unat val) 0 x y v;
     (x, v) \<leftarrow> (if n = 1 then draw_zero x y v else Some (x, v));
     if n = 0 then do { (x, v) \<leftarrow> draw_zero x y v; draw_zero x y v } else Some (x, v)
   }"

definition vg_draw_time_info :: "game \<Rightarrow> video \<Rightarrow> video option" where
  "vg_draw_time_info g v =
     (let x = POINTS_WIDTH_MARGIN; y = POINTS_HEIGHT_MARGIN + 8 in
      if length (symb_sprites v) < 3 \<or> length (numbers_sprites v) < 2 then None else do {
        (x, v) \<leftarrow> draw_two_digits (minutes g) x y v;
        v \<leftarrow> put_sprite (symb_sprites v ! 2) (x + 8) (y + 6 + 8) v;
        let x = x - (width (numbers_sprites v ! 1) + POINTS_BETWEEN_MARGIN);
        (x, v) \<leftarrow> draw_two_digits (hours g) x y v;
        Some v
      })"

definition vg_draw_play_button :: "game \<Rightarrow> video \<Rightarrow> video option" where
  "vg_draw_play_button g v =
     (if length (play_button v) < 2 then None
      else if sint (mouse_x g) < uint (play_button_xi g) \<or> sint (mouse_x g) > uint (play_button_xf g) \<or>
         sint (mouse_y g) < uint (play_button_yi g) \<or> sint (mouse_y g) > uint (play_button_yf g)
      then put_sprite (play_button v ! 1) (play_button_xi g) (play_button_yi g) v
      else put_sprite (play_button v ! 0) (play_button_xi g) (play_button_yi g) v)"

definition vg_draw_exit_button :: "game \<Rightarrow> video \<Rightarrow> video option" where
  "vg_draw_exit_button g v =
     (if length (exit_button v) < 2 then None
      else if sint (mouse_x g) < uint (exit_button_xi g) \<or> sint (mouse_x g) > uint (exit_button_xf g) \<or>
         sint (mouse_y g) < uint (exit_button_yi g) \<or> sint (mouse_y g) > uint (exit_button_yf g)
      then put_sprite (exit_button v ! 1) (exit_button_xi g) (exit_button_yi g) v
      else put_sprite (exit_button v ! 0) (exit_button_xi g) (exit_button_yi g) v)"

definition vg_draw_game_name :: "video \<Rightarrow> video option" where
  "vg_draw_game_name v = put_sprite (game_name v) (game_name_x v) (game_name_y v) v"

definition vg_draw_game :: "game \<Rightarrow> video \<Rightarrow> video option" where
  "vg_draw_game g v = do {
     v \<leftarrow> vg_draw_aliens g v;
     v \<leftarrow> vg_draw_points g v;
     vg_draw_crosshair 1 g v
   }"

definition vg_draw_menu :: "game \<Rightarrow> video \<Rightarrow> video option" where
  "vg_draw_menu g v = do {
     v \<leftarrow> vg_draw_game_name v;
     v \<leftarrow> vg_draw_play_button g v;
     v \<leftarrow> vg_draw_exit_button g v;
     v \<leftarrow> vg_draw_time_info g v;
     vg_draw_crosshair 1 g v
   }"

definition vg_draw_paused :: "video \<Rightarrow> video option" where
  "vg_draw_paused v = put_sprite (paused v) (paused_x v) (paused_y v) v"

definition vg_draw_game_over :: "game \<Rightarrow> video \<Rightarrow> video option" where
  "vg_draw_game_over g v = do {
     v \<leftarrow> (if game_over_counter g < GAME_OVER_WAIT - 30
          then put_sprite (game_over v) (game_over_x v) (game_over_y v) v
          else vg_draw_aliens g v);
     v \<leftarrow> vg_draw_killer_alien g v;
     vg_draw_crosshair 1 g v
   }"

definition vg_ih :: "game \<Rightarrow> video \<Rightarrow> video option" where
  "vg_ih g v =
     (let n = unat (h_res v * v_res v * bytes_per_pixel v) in
      if length (buffer v) < n then None else do {
        let v = v\<lparr>buffer := replicate n 0 @ drop n (buffer v)\<rparr>;
        v \<leftarrow> (case game_state g of
               PLAYING \<Rightarrow> vg_draw_game g v
             | MENU \<Rightarrow> vg_draw_menu g v
             | GAME_OVER \<Rightarrow> vg_draw_game_over g v
             | PAUSE \<Rightarrow> vg_draw_paused v
             | LB_INPUT \<Rightarrow> vg_draw_input_screen g v
             | LEADERBOARD \<Rightarrow> vg_draw_leadeboard g v
             | _ \<Rightarrow> Some v);
        if length (video_mem v) < n \<or> length (buffer v) < n then None
        else Some (v\<lparr>video_mem := take n (buffer v) @ drop n (video_mem v)\<rparr>)
      })"


section \<open>Set-up\<close>

text \<open>
  \<^verbatim>\<open>vg_prepareGraphics\<close>; a call of \<^verbatim>\<open>panic\<close> ends the process and is
  \<^const>\<open>None\<close>. When the mode information cannot be read the code returns \<open>1\<close>, which is true.
\<close>

definition vg_prepareGraphics :: "'d env \<Rightarrow> u16 \<Rightarrow> video \<Rightarrow> 'd \<Rightarrow> (bool \<times> video \<times> 'd) option" where
  "vg_prepareGraphics env mode v d =
     (let (r, mode_info, d) = vbe_get_mode_info env mode d in
      if r \<noteq> OK then Some (True, v, d)
      else
        let v = v\<lparr>h_res := ucast (XResolution mode_info), v_res := ucast (YResolution mode_info),
                  bytes_per_pixel := (ucast (BitsPerPixel mode_info) + 7) div 8,
                  red_mask_size := RedMaskSize mode_info,
                  green_mask_size := GreenMaskSize mode_info,
                  blue_mask_size := BlueMaskSize mode_info,
                  red_field_position := RedFieldPosition mode_info,
                  green_field_position := GreenFieldPosition mode_info,
                  blue_field_position := BlueFieldPosition mode_info\<rparr>;
            vram_base = PhysBasePtr mode_info;
            vram_size = h_res v * v_res v * bytes_per_pixel v;
            (buf, d) = malloc_bytes env vram_size d;
            v = v\<lparr>buffer := buf\<rparr>;
            (r, d) = sys_privctl_add_mem env vram_base (vram_base + vram_size) d
        in if r \<noteq> OK then None
           else
             let (mapped, d) = vm_map_phys env vram_base vram_size d
             in case mapped of
                  None \<Rightarrow> None
                | Some mem \<Rightarrow> Some (True, v\<lparr>video_mem := mem\<rparr>, d))"

definition vg_setGraphics :: "'d env \<Rightarrow> u16 \<Rightarrow> 'd \<Rightarrow> bool \<times> 'd" where
  "vg_setGraphics env mode d =
     (let r86 = \<lparr>ax = push_bit 8 VBE_MODE_AH OR VBE_SET_MODE_AL, bx = ucast (BIT 14) OR mode,
                 intno = BIOS_SERVICE_VIDEO_CARD\<rparr>;
          (r, d) = sys_int86 env r86 d
      in (r = OK, d))"

definition vg_free :: "video \<Rightarrow> bool \<times> video" where
  "vg_free v = (True, v\<lparr>buffer := []\<rparr>)"

text \<open>
  The table of the sprites. \<^verbatim>\<open>xpm_load\<close> is a routine of the LCF library and the argument
  \<open>xpm\<close>: the pixels and the size of the image of the given name.
\<close>

definition load_alien_sprites :: "(string \<Rightarrow> sprite) \<Rightarrow> video \<Rightarrow> video" where
  "load_alien_sprites xpm v =
     (let alien_alive = xpm ''xpm_alien_appearing'';
          alien_appearing = xpm ''xpm_alien_alive''
      in v\<lparr>alien_sprites :=
             [alien_alive, alien_appearing, xpm ''xpm_alien_dead_1'', xpm ''xpm_alien_dead_2'',
              xpm ''xpm_alien_dead_3'', xpm ''xpm_alien_dead_4'', xpm ''xpm_alien_dead_5''],
           killer_alien_sprites :=
             [xpm ''xpm_alien_kill_1'', xpm ''xpm_alien_kill_2'', xpm ''xpm_alien_kill_3'',
              alien_appearing],
           crosshair := xpm ''xpm_crosshair''\<rparr>)"

definition load_text_sprites :: "(string \<Rightarrow> sprite) \<Rightarrow> video \<Rightarrow> video" where
  "load_text_sprites xpm v =
     v\<lparr>numbers_sprites :=
         [xpm ''xpm_0'', xpm ''xpm_1'', xpm ''xpm_2'', xpm ''xpm_3'', xpm ''xpm_4'', xpm ''xpm_5'',
          xpm ''xpm_6'', xpm ''xpm_7'', xpm ''xpm_8'', xpm ''xpm_9''],
       letters_sprites :=
         [xpm ''xpm_A'', xpm ''xpm_B'', xpm ''xpm_C'', xpm ''xpm_D'', xpm ''xpm_E'', xpm ''xpm_F'',
          xpm ''xpm_G'', xpm ''xpm_H'', xpm ''xpm_I'', xpm ''xpm_J'', xpm ''xpm_K'', xpm ''xpm_L'',
          xpm ''xpm_M'', xpm ''xpm_N'', xpm ''xpm_O'', xpm ''xpm_P'', xpm ''xpm_Q'', xpm ''xpm_R'',
          xpm ''xpm_S'', xpm ''xpm_T'', xpm ''xpm_U'', xpm ''xpm_V'', xpm ''xpm_W'', xpm ''xpm_X'',
          xpm ''xpm_Y'', xpm ''xpm_Z''],
       symb_sprites := [xpm ''xpm_dash'', xpm ''xpm_slash'', xpm ''xpm_two_points'']\<rparr>"

definition load_screen_sprites :: "(string \<Rightarrow> sprite) \<Rightarrow> video \<Rightarrow> video" where
  "load_screen_sprites xpm v =
     v\<lparr>lb_corners := [xpm ''xpm_lbc1'', xpm ''xpm_lbc2'', xpm ''xpm_lbc3'', xpm ''xpm_lbc4''],
       play_button := [xpm ''xpm_play_button_pressed'', xpm ''xpm_play_button_unpressed''],
       exit_button := [xpm ''xpm_exit_button_pressed'', xpm ''xpm_exit_button_unpressed''],
       game_over := xpm ''xpm_game_over'',
       game_name := xpm ''xpm_game_name'',
       paused := xpm ''xpm_paused''\<rparr>"

definition half :: "u16 \<Rightarrow> int" where
  "half n = uint n div 2"

definition place_buttons :: "(string \<Rightarrow> sprite) \<Rightarrow> game \<Rightarrow> game" where
  "place_buttons xpm g =
     (let p = xpm ''xpm_play_button_pressed''; e = xpm ''xpm_exit_button_pressed''
      in g\<lparr>play_button_xi := word_of_int (GAME_WIDTH div 2 - half (width p)),
           play_button_yi := word_of_int (GAME_HEIGHT div 2 + BUTTON_MARGIN_TOP - half (height p)),
           play_button_xf := word_of_int (GAME_WIDTH div 2 + half (width p)),
           play_button_yf := word_of_int (GAME_HEIGHT div 2 + BUTTON_MARGIN_TOP + half (height p)),
           exit_button_xi := word_of_int (GAME_WIDTH div 2 - half (width e)),
           exit_button_yi := word_of_int (GAME_HEIGHT div 2 + BUTTON_MARGIN_TOP * 2 - half (height e)),
           exit_button_xf := word_of_int (GAME_WIDTH div 2 + half (width e)),
           exit_button_yf := word_of_int (GAME_HEIGHT div 2 + BUTTON_MARGIN_TOP * 2 + half (height e))\<rparr>)"

definition place_titles :: "video \<Rightarrow> video" where
  "place_titles v =
     v\<lparr>game_over_x := word_of_int (GAME_WIDTH div 2 - half (width (game_over v))),
       game_over_y := word_of_int (GAME_HEIGHT div 2 - half (height (game_over v))),
       game_name_x := word_of_int (GAME_WIDTH div 2 - half (width (game_name v))),
       game_name_y := word_of_int GAME_MARGIN_TOP,
       paused_x := word_of_int (GAME_WIDTH div 2 - half (width (paused v))),
       paused_y := word_of_int (GAME_HEIGHT div 2 - half (height (paused v)))\<rparr>"

definition vg_load_sprites :: "(string \<Rightarrow> sprite) \<Rightarrow> game \<Rightarrow> video \<Rightarrow> bool \<times> game \<times> video" where
  "vg_load_sprites xpm g v =
     (True, place_buttons xpm g,
      place_titles (load_screen_sprites xpm (load_text_sprites xpm (load_alien_sprites xpm v))))"


section \<open>What the copying loops compute\<close>

lemma copy_bytes_spec:
  assumes "k + n \<le> length sp" "off + n \<le> length mem"
  shows "\<exists>mem'. copy_bytes mem off sp k n = Some (mem', k + n) \<and> length mem' = length mem \<and>
    (\<forall>i < length mem. mem' ! i = (if off \<le> i \<and> i < off + n then sp ! (k + (i - off)) else mem ! i))"
  using assms
proof (induction n arbitrary: mem off k)
  case (Suc n)
  then obtain mem' where mem': "copy_bytes (mem[off := sp ! k]) (Suc off) sp (Suc k) n = Some (mem', Suc k + n)"
      "length mem' = length mem"
      "\<forall>i < length mem. mem' ! i = (if Suc off \<le> i \<and> i < Suc off + n then sp ! (Suc k + (i - Suc off))
         else mem[off := sp ! k] ! i)"
    using Suc.IH [of "Suc k" "Suc off" "mem[off := sp ! k]"] by auto
  have "mem' ! i = (if off \<le> i \<and> i < off + Suc n then sp ! (k + (i - off)) else mem ! i)"
    if "i < length mem" for i
    using mem'(3) that by (cases "i = off") (auto simp: Suc_diff_Suc)
  with mem' Suc.prems show ?case by simp
qed auto

text \<open>Whether a pixel is drawn: the transparent routines leave out black ones.\<close>

definition visible :: "bool \<Rightarrow> u8 list \<Rightarrow> nat \<Rightarrow> bool" where
  "visible tr sp k \<longleftrightarrow> \<not> (tr \<and> sp ! k OR sp ! (k + 1) OR sp ! (k + 2) = 0)"

lemma draw_pixel_spec:
  assumes "k + B \<le> length sp" "unat off + B \<le> length mem" "tr \<Longrightarrow> B = 3"
  shows "\<exists>mem'. draw_pixel tr B sp mem off k = Some (mem', k + B) \<and> length mem' = length mem \<and>
    (\<forall>i < length mem. mem' ! i =
      (if unat off \<le> i \<and> i < unat off + B \<and> visible tr sp k then sp ! (k + (i - unat off)) else mem ! i))"
  using copy_bytes_spec [OF assms(1,2)] assms(1,3)
  by (cases "visible tr sp k") (auto simp: draw_pixel_def visible_def)

lemma draw_row_spec:
  assumes "n = min hres lim - j" "k + n * B \<le> length sp" "ofs + n * B \<le> length mem"
    and "length mem < 2 ^ 32" "tr \<Longrightarrow> B = 3" "0 < B"
  shows "\<exists>mem'. draw_row tr hres lim B sp j mem (of_nat ofs) k = Some (mem', of_nat (ofs + n * B), k + n * B) \<and>
    length mem' = length mem \<and>
    (\<forall>i < length mem. mem' ! i =
      (if ofs \<le> i \<and> i < ofs + n * B \<and> visible tr sp (k + (i - ofs) div B * B) then sp ! (k + (i - ofs))
       else mem ! i))"
  using assms(1-4)
proof (induction n arbitrary: j mem ofs k)
  case 0
  then show ?case by (auto simp: draw_row.simps)
next
  case (Suc n)
  have "ofs < 2 ^ 32" using Suc.prems(3,4) by linarith
  then have u: "unat (of_nat ofs :: u32) = ofs" by (simp add: unat_of_nat)
  obtain m1 where m1: "draw_pixel tr B sp mem (of_nat ofs) k = Some (m1, k + B)" "length m1 = length mem"
      and c1: "\<forall>i < length mem. m1 ! i =
        (if ofs \<le> i \<and> i < ofs + B \<and> visible tr sp k then sp ! (k + (i - ofs)) else mem ! i)"
    using draw_pixel_spec [of k B sp "of_nat ofs" mem tr] Suc.prems(2,3) assms(5) unfolding u by auto
  have pre: "n = min hres lim - Suc j" "k + B + n * B \<le> length sp" "ofs + B + n * B \<le> length m1"
      "length m1 < 2 ^ 32"
    using Suc.prems(1) apply simp
    using Suc.prems(2-4) m1(2) by (simp_all add: add.assoc)
  obtain m2 where m2: "draw_row tr hres lim B sp (Suc j) m1 (of_nat (ofs + B)) (k + B) =
        Some (m2, of_nat (ofs + B + n * B), k + B + n * B)" "length m2 = length mem"
      and c2: "\<forall>i < length mem. m2 ! i =
        (if ofs + B \<le> i \<and> i < ofs + B + n * B \<and> visible tr sp (k + B + (i - (ofs + B)) div B * B)
         then sp ! (k + B + (i - (ofs + B))) else m1 ! i)"
    using Suc.IH [OF pre] unfolding m1(2) by blast
  have "j < min hres lim" using Suc.prems(1) by linarith
  then have "draw_row tr hres lim B sp j mem (of_nat ofs) k = Some (m2, of_nat (ofs + Suc n * B), k + Suc n * B)"
    using m1(1) m2(1) by (subst draw_row.simps) (simp add: algebra_simps)
  moreover have "m2 ! i = (if ofs \<le> i \<and> i < ofs + Suc n * B \<and> visible tr sp (k + (i - ofs) div B * B)
      then sp ! (k + (i - ofs)) else mem ! i)" if i: "i < length mem" for i
  proof (cases "ofs + B \<le> i")
    case True
    then have e: "i - ofs = (i - (ofs + B)) + B" by simp
    have "(i - ofs) div B = (i - (ofs + B)) div B + 1"
      unfolding e using assms(6) by (intro div_add_self2) simp
    then have vis: "k + B + (i - (ofs + B)) div B * B = k + (i - ofs) div B * B" by simp
    have idx: "k + B + (i - (ofs + B)) = k + (i - ofs)" using True by simp
    have old: "m1 ! i = mem ! i" using c1 i True by simp
    have len: "ofs + B + n * B = ofs + Suc n * B" by simp
    show ?thesis using c2 [rule_format, OF i] True unfolding vis idx old len by simp
  next
    case False
    then show ?thesis using c1 c2 i assms(6) by (auto simp: add_increasing2)
  qed
  ultimately show ?case using m2(2) by blast
qed


text \<open>
  The whole image: \<open>R\<close> rows of \<open>n\<close> pixels, row after row of the sprite, each \<open>T\<close> bytes after the one
  above.
\<close>

definition image_byte :: "bool \<Rightarrow> nat \<Rightarrow> u8 list \<Rightarrow> nat \<Rightarrow> nat \<Rightarrow> nat \<Rightarrow> nat \<Rightarrow> nat \<Rightarrow> u8 \<Rightarrow> u8" where
  "image_byte tr B sp n T R k i old =
     (if i div T < R \<and> i mod T < n * B \<and> visible tr sp (k + i div T * (n * B) + i mod T div B * B)
      then sp ! (k + i div T * (n * B) + i mod T) else old)"

lemma image_byte_first:
  "i < T \<Longrightarrow> image_byte tr B sp n T (Suc R) k i old =
     (if i < n * B \<and> visible tr sp (k + i div B * B) then sp ! (k + i) else old)"
  by (simp add: image_byte_def)

lemma image_byte_below:
  assumes "0 < T" "T \<le> i"
  shows "image_byte tr B sp n T (Suc R) k i old = image_byte tr B sp n T R (k + n * B) (i - T) old"
  using le_div_geq [OF assms] le_mod_geq [OF assms(2)] by (simp add: image_byte_def add.assoc)

lemma draw_rows_spec:
  assumes "R = min vres ylim - i" "n = min hres xlim - x" "T = n * B + inc"
    and "k + R * (n * B) \<le> length sp" "0 < R \<Longrightarrow> ofs + (R - 1) * T + n * B \<le> length mem"
    and "length mem < 2 ^ 32" "tr \<Longrightarrow> B = 3" "0 < B"
  shows "\<exists>mem'. draw_rows tr hres vres B x xlim ylim (of_nat inc) sp i mem (of_nat ofs) k = Some mem' \<and>
    length mem' = length mem \<and>
    (\<forall>p < length mem. mem' ! p =
      (if ofs \<le> p then image_byte tr B sp n T R k (p - ofs) (mem ! p) else mem ! p))"
  using assms(1,4-6)
proof (induction R arbitrary: i mem ofs k)
  case 0
  then show ?case by (auto simp: draw_rows.simps image_byte_def)
next
  case (Suc R)
  have bounds: "k + n * B \<le> length sp" "ofs + n * B \<le> length mem"
    using Suc.prems(2,3) by auto
  obtain m1 where m1: "draw_row tr hres xlim B sp x mem (of_nat ofs) k =
        Some (m1, of_nat (ofs + n * B), k + n * B)" "length m1 = length mem"
      and c1: "\<forall>p < length mem. m1 ! p =
        (if ofs \<le> p \<and> p < ofs + n * B \<and> visible tr sp (k + (p - ofs) div B * B) then sp ! (k + (p - ofs))
         else mem ! p)"
    using draw_row_spec [OF assms(2) bounds Suc.prems(4) assms(7,8)] by blast
  have next_row: "0 < R \<Longrightarrow> (ofs + T) + (R - 1) * T + n * B \<le> length m1"
    using Suc.prems(3) m1(2) by (cases R) (simp_all add: algebra_simps)
  have pre: "R = min vres ylim - Suc i" "k + n * B + R * (n * B) \<le> length sp" "length m1 < 2 ^ 32"
    using Suc.prems(1) apply simp
    using Suc.prems(2,4) m1(2) by (simp_all add: add.assoc)
  obtain m2 where m2: "draw_rows tr hres vres B x xlim ylim (of_nat inc) sp (Suc i) m1 (of_nat (ofs + T))
        (k + n * B) = Some m2" "length m2 = length mem"
      and c2: "\<forall>p < length mem. m2 ! p =
        (if ofs + T \<le> p then image_byte tr B sp n T R (k + n * B) (p - (ofs + T)) (m1 ! p) else m1 ! p)"
    using Suc.IH [OF pre(1,2) next_row pre(3)] unfolding m1(2) by blast
  have "i < min vres ylim" using Suc.prems(1) by linarith
  then have "draw_rows tr hres vres B x xlim ylim (of_nat inc) sp i mem (of_nat ofs) k = Some m2"
    using m1(1) m2(1) assms(3) by (subst draw_rows.simps) (simp add: algebra_simps)
  moreover have "m2 ! p = (if ofs \<le> p then image_byte tr B sp n T (Suc R) k (p - ofs) (mem ! p) else mem ! p)"
    if p: "p < length mem" for p
  proof -
    consider "T = 0" | "0 < T" "ofs + T \<le> p" | "0 < T" "\<not> ofs + T \<le> p" by linarith
    then show ?thesis
    proof cases
      case 1
      then show ?thesis using c1 c2 p assms(3,8) by (simp add: image_byte_def)
    next
      case 2
      then have "m1 ! p = mem ! p" using c1 p assms(3) by simp
      then show ?thesis using c2 [rule_format, OF p] 2 by (simp add: image_byte_below)
    next
      case 3
      then show ?thesis using c1 c2 p by (auto simp: image_byte_first)
    qed
  qed
  ultimately show ?case using m2(2) by blast
qed


section \<open>Drawing is safe\<close>

text \<open>A sprite as \<^verbatim>\<open>xpm_load\<close> documents it: as many bytes as its size says, no wider than the screen.\<close>

definition sprite_ok :: "video \<Rightarrow> sprite \<Rightarrow> bool" where
  "sprite_ok v s \<longleftrightarrow> unat (width s) * unat (height s) * 3 \<le> length (ptr s) \<and>
     unat (width s) \<le> unat (h_res v)"

definition screen_ok :: "video \<Rightarrow> bool" where
  "screen_ok v \<longleftrightarrow> unat (h_res v) < 65536 \<and> unat (v_res v) < 65536 \<and> bytes_per_pixel v = 3 \<and>
     unat (h_res v) * unat (v_res v) * 3 < 2 ^ 32 \<and>
     length (buffer v) = unat (h_res v) * unat (v_res v) * 3 \<and>
     length (video_mem v) = unat (h_res v) * unat (v_res v) * 3"

text \<open>Where an image starts in the buffer, the pixels of its rows that are drawn, and its rows.\<close>

definition image_start :: "video \<Rightarrow> nat \<Rightarrow> nat \<Rightarrow> nat" where
  "image_start v x y = (unat (h_res v) * y + x) * 3"

definition image_cols :: "video \<Rightarrow> sprite \<Rightarrow> nat \<Rightarrow> nat" where
  "image_cols v s x = min (unat (h_res v)) (x + unat (width s)) - x"

definition image_rows :: "video \<Rightarrow> sprite \<Rightarrow> nat \<Rightarrow> nat" where
  "image_rows v s y = min (unat (v_res v)) (y + unat (height s)) - y"

text \<open>The distance between two rows: less than a line of the screen when the image is cut off.\<close>

definition image_step :: "video \<Rightarrow> sprite \<Rightarrow> nat \<Rightarrow> nat" where
  "image_step v s x = image_cols v s x * 3 + (unat (h_res v) - unat (width s)) * 3"

lemma image_step_le: "unat (width s) \<le> unat (h_res v) \<Longrightarrow> image_step v s x \<le> unat (h_res v) * 3"
  by (simp add: image_step_def image_cols_def)

lemma image_fits:
  assumes v: "screen_ok v" and s: "sprite_ok v s" and R: "0 < image_rows v s y" and n: "0 < image_cols v s x"
  shows "image_start v x y + (image_rows v s y - 1) * image_step v s x + image_cols v s x * 3
    \<le> unat (h_res v) * unat (v_res v) * 3"
proof -
  let ?H = "unat (h_res v)" and ?R = "image_rows v s y" and ?n = "image_cols v s x"
  have rows: "y + ?R \<le> unat (v_res v)" and cols: "x + ?n \<le> ?H"
    using R n by (auto simp: image_rows_def image_cols_def)
  have "(?R - 1) * image_step v s x \<le> (?R - 1) * (?H * 3)"
    using image_step_le [of s v x] s by (intro mult_le_mono2) (simp add: sprite_ok_def)
  then have "image_start v x y + (?R - 1) * image_step v s x + ?n * 3 \<le>
      (?H * y + x) * 3 + (?R - 1) * (?H * 3) + ?n * 3"
    by (simp add: image_start_def)
  also have "\<dots> = (?H * (y + ?R - 1) + (x + ?n)) * 3"
    using R by (cases ?R) (simp_all add: algebra_simps)
  also have "\<dots> \<le> (?H * (y + ?R - 1) + ?H) * 3" using cols by simp
  also have "\<dots> = ?H * (y + ?R) * 3" using R by (cases "y + ?R") (simp_all add: algebra_simps)
  also have "\<dots> \<le> ?H * unat (v_res v) * 3" using rows by simp
  finally show ?thesis .
qed


lemma draw_rows_empty:
  "\<not> x < min hres xlim \<Longrightarrow> draw_rows tr hres vres B x xlim ylim inc sp i mem off k = Some mem"
proof (induction "ylim - i" arbitrary: i off)
  case 0
  then show ?case by (simp add: draw_rows.simps)
next
  case (Suc m)
  have "draw_row tr hres xlim B sp x mem off k = Some (mem, off, k)"
    using Suc.prems by (subst draw_row.simps) auto
  moreover have "draw_rows tr hres vres B x xlim ylim inc sp (Suc i) mem (off + inc) k = Some mem"
    using Suc.hyps(2) Suc.prems by (intro Suc.hyps(1)) auto
  ultimately show ?case by (subst draw_rows.simps) simp
qed

lemma image_words:
  assumes v: "screen_ok v" and s: "sprite_ok v s" and x: "unat x < 65536" and y: "unat y < 65536"
  shows "(h_res v - ucast (width s)) * bytes_per_pixel v = of_nat ((unat (h_res v) - unat (width s)) * 3)"
    and "(h_res v * y + x) * bytes_per_pixel v = of_nat (image_start v (unat x) (unat y))"
    and "unat (x + ucast (width s)) = unat x + unat (width s)"
    and "unat (y + ucast (height s)) = unat y + unat (height s)"
proof -
  have B: "bytes_per_pixel v = 3" using v by (simp add: screen_ok_def)
  have w: "unat (ucast (width s) :: u32) = unat (width s)" "unat (ucast (height s) :: u32) = unat (height s)"
    using u16_bound [of "width s"] u16_bound [of "height s"]
    by (simp_all add: unsigned_ucast_eq take_bit_nat_eq_self)
  have le: "(ucast (width s) :: u32) \<le> h_res v"
    using s w(1) by (simp add: sprite_ok_def word_le_nat_alt)
  have "h_res v - ucast (width s) = of_nat (unat (h_res v - ucast (width s)))" by simp
  also have "unat (h_res v - ucast (width s)) = unat (h_res v) - unat (width s)"
    using le w(1) by (simp add: unat_sub)
  finally show "(h_res v - ucast (width s)) * bytes_per_pixel v = of_nat ((unat (h_res v) - unat (width s)) * 3)"
    unfolding B by simp
  show "(h_res v * y + x) * bytes_per_pixel v = of_nat (image_start v (unat x) (unat y))"
    unfolding B by (simp add: image_start_def)
  show "unat (x + ucast (width s)) = unat x + unat (width s)"
    "unat (y + ucast (height s)) = unat y + unat (height s)"
    using x y w u16_bound [of "width s"] u16_bound [of "height s"] by (simp_all add: unat_word_ariths)
qed

lemma draw_image_spec:
  assumes v: "screen_ok v" and s: "sprite_ok v s" and mem: "length mem = unat (h_res v) * unat (v_res v) * 3"
    and x: "unat x < 65536" and y: "unat y < 65536"
  defines "R \<equiv> image_rows v s (unat y)" and "n \<equiv> image_cols v s (unat x)"
  shows "\<exists>mem'. draw_image tr v s x y mem = Some mem' \<and> length mem' = length mem \<and>
    (\<forall>p < length mem. mem' ! p =
      (if image_start v (unat x) (unat y) \<le> p \<and> 0 < n
       then image_byte tr 3 (ptr s) n (image_step v s (unat x)) R 0
         (p - image_start v (unat x) (unat y)) (mem ! p) else mem ! p))"
proof -
  let ?rows = "draw_rows tr (unat (h_res v)) (unat (v_res v)) 3 (unat x) (unat x + unat (width s))
    (unat y + unat (height s)) (of_nat ((unat (h_res v) - unat (width s)) * 3)) (ptr s) (unat y) mem
    (of_nat (image_start v (unat x) (unat y))) 0"
  have B: "unat (bytes_per_pixel v) = 3" using v by (simp add: screen_ok_def)
  have eq: "draw_image tr v s x y mem = ?rows"
    unfolding draw_image_def Let_def image_words [OF v s x y] ucast_u16_small [OF x] ucast_u16_small [OF y] B ..
  show ?thesis
  proof (cases "n = 0")
    case True
    then have "\<not> unat x < min (unat (h_res v)) (unat x + unat (width s))"
      unfolding n_def image_cols_def by linarith
    then show ?thesis using True unfolding eq by (simp add: draw_rows_empty)
  next
    case False
    have "n \<le> unat (width s)" "R \<le> unat (height s)"
      by (auto simp: n_def R_def image_cols_def image_rows_def)
    then have "R * (n * 3) \<le> unat (height s) * (unat (width s) * 3)" by (intro mult_le_mono) auto
    then have sp: "0 + R * (n * 3) \<le> length (ptr s)"
      using s by (simp add: sprite_ok_def algebra_simps)
    have fits: "0 < R \<Longrightarrow> image_start v (unat x) (unat y) + (R - 1) * image_step v s (unat x) + n * 3 \<le> length mem"
      unfolding mem R_def n_def using image_fits [OF v s] False by (simp add: n_def)
    have small: "length mem < 2 ^ 32" using v mem by (simp add: screen_ok_def)
    have "R = min (unat (v_res v)) (unat y + unat (height s)) - unat y"
      "n = min (unat (h_res v)) (unat x + unat (width s)) - unat x"
      "image_step v s (unat x) = n * 3 + (unat (h_res v) - unat (width s)) * 3"
      by (simp_all add: R_def image_rows_def n_def image_cols_def image_step_def)
    from draw_rows_spec [OF this sp fits small, of tr] False show ?thesis unfolding eq by simp
  qed
qed


definition all_sprites :: "video \<Rightarrow> sprite set" where
  "all_sprites v = set (alien_sprites v) \<union> set (killer_alien_sprites v) \<union> set (numbers_sprites v) \<union>
     set (letters_sprites v) \<union> set (symb_sprites v) \<union> set (lb_corners v) \<union> set (play_button v) \<union>
     set (exit_button v) \<union> {crosshair v, game_over v, game_name v, paused v}"

definition tables_ok :: "video \<Rightarrow> bool" where
  "tables_ok v \<longleftrightarrow> length (alien_sprites v) = 7 \<and> length (killer_alien_sprites v) = 4 \<and>
     length (numbers_sprites v) = 10 \<and> length (letters_sprites v) = 26 \<and> length (symb_sprites v) = 3 \<and>
     length (lb_corners v) = 4 \<and> length (play_button v) = 2 \<and> length (exit_button v) = 2"

definition video_ok :: "video \<Rightarrow> bool" where
  "video_ok v \<longleftrightarrow> screen_ok v \<and> (\<forall>s \<in> all_sprites v. sprite_ok v s) \<and> tables_ok v \<and> length (str v) = 256"

text \<open>What every drawing routine promises: it returns, and touches only the buffer and the text array.\<close>

definition drawn :: "video \<Rightarrow> video \<Rightarrow> bool" where
  "drawn v v' \<longleftrightarrow> (\<exists>b t. v' = v\<lparr>buffer := b, str := t\<rparr> \<and> length b = length (buffer v) \<and>
     length t = length (str v))"

definition safe_draw :: "(video \<Rightarrow> video option) \<Rightarrow> bool" where
  "safe_draw f \<longleftrightarrow> (\<forall>v. video_ok v \<longrightarrow> (\<exists>v'. f v = Some v' \<and> drawn v v'))"

lemma drawnI:
  "length b = length (buffer v) \<Longrightarrow> length t = length (str v) \<Longrightarrow> drawn v (v\<lparr>buffer := b, str := t\<rparr>)"
  unfolding drawn_def by blast

lemma drawn_refl: "drawn v v"
  using drawnI [of "buffer v" v "str v"] by simp

lemma drawn_buffer: "length b = length (buffer v) \<Longrightarrow> drawn v (v\<lparr>buffer := b\<rparr>)"
  using drawnI [of b v "str v"] by simp

lemma drawn_trans:
  assumes "drawn u v" "drawn v w"
  shows "drawn u w"
proof -
  obtain b t where v: "v = u\<lparr>buffer := b, str := t\<rparr>" "length b = length (buffer u)" "length t = length (str u)"
    using assms(1) by (auto simp: drawn_def)
  obtain b' t' where w: "w = v\<lparr>buffer := b', str := t'\<rparr>" "length b' = length (buffer v)" "length t' = length (str v)"
    using assms(2) by (auto simp: drawn_def)
  have "w = u\<lparr>buffer := b', str := t'\<rparr>" using v w by simp
  with v w show ?thesis by (simp add: drawnI)
qed

lemma drawn_fields:
  assumes "drawn v v'"
  shows "h_res v' = h_res v" "v_res v' = v_res v" "bytes_per_pixel v' = bytes_per_pixel v"
    "video_mem v' = video_mem v" "length (buffer v') = length (buffer v)" "length (str v') = length (str v)"
    "all_sprites v' = all_sprites v" "tables_ok v' = tables_ok v"
  using assms by (auto simp: drawn_def all_sprites_def tables_ok_def)

lemma video_ok_drawn: "video_ok v \<Longrightarrow> drawn v v' \<Longrightarrow> video_ok v'"
  by (simp add: video_ok_def screen_ok_def sprite_ok_def drawn_fields)

lemma safe_drawE:
  assumes "safe_draw f" "video_ok v"
  obtains v' where "f v = Some v'" "drawn v v'" "video_ok v'"
  using assms video_ok_drawn [OF assms(2)] unfolding safe_draw_def by blast

lemma safe_draw_Some: "safe_draw Some"
  by (simp add: safe_draw_def drawn_refl)

lemma safe_draw_bind:
  assumes f: "safe_draw f" and g: "safe_draw g"
  shows "safe_draw (\<lambda>v. Option.bind (f v) g)"
  unfolding safe_draw_def
proof (intro allI impI)
  fix v assume "video_ok v"
  then obtain v1 where 1: "f v = Some v1" "drawn v v1" "video_ok v1" by (rule safe_drawE [OF f])
  obtain v2 where "g v1 = Some v2" "drawn v1 v2" using 1(3) by (rule safe_drawE [OF g])
  with 1 show "\<exists>v'. Option.bind (f v) g = Some v' \<and> drawn v v'" by (auto intro: drawn_trans)
qed

lemma safe_draw_cong:
  "(\<And>v. video_ok v \<Longrightarrow> f v = g v) \<Longrightarrow> safe_draw g \<Longrightarrow> safe_draw f"
  by (simp add: safe_draw_def)

lemma safe_draw_if: "safe_draw f \<Longrightarrow> safe_draw g \<Longrightarrow> safe_draw (\<lambda>v. if c v then f v else g v)"
  by (simp add: safe_draw_def)

lemma safe_draw_to:
  assumes "\<And>v. video_ok v \<Longrightarrow> s v \<in> all_sprites v"
    and "\<And>v. video_ok v \<Longrightarrow> unat (x v) < 65536" "\<And>v. video_ok v \<Longrightarrow> unat (y v) < 65536"
  shows "safe_draw (\<lambda>v. map_option snd (draw_to tr (s v) (x v) (y v) 1 v))"
  unfolding safe_draw_def
proof (intro allI impI)
  fix v assume v: "video_ok v"
  then have ok: "screen_ok v" "sprite_ok v (s v)" "length (buffer v) = unat (h_res v) * unat (v_res v) * 3"
    using assms(1) [OF v] by (auto simp: video_ok_def screen_ok_def)
  obtain mem where "draw_image tr v (s v) (x v) (y v) (buffer v) = Some mem" "length mem = length (buffer v)"
    using draw_image_spec [OF ok assms(2,3) [OF v], of tr] by blast
  then show "\<exists>v'. map_option snd (draw_to tr (s v) (x v) (y v) 1 v) = Some v' \<and> drawn v v'"
    by (simp add: draw_to_def drawn_buffer)
qed

lemma ucast_u16_bound: "unat (ucast (x :: u16) :: u32) < 65536"
  using u16_bound [of x] by (simp add: unsigned_ucast_eq take_bit_nat_eq_self)

lemma safe_put_sprite:
  "(\<And>v. video_ok v \<Longrightarrow> s v \<in> all_sprites v) \<Longrightarrow> safe_draw (\<lambda>v. put_sprite (s v) (x v) (y v) v)"
  unfolding put_sprite_def vg_draw_sprite_def by (intro safe_draw_to ucast_u16_bound)


lemma table_sprites:
  assumes "video_ok v"
  shows "i < 7 \<Longrightarrow> alien_sprites v ! i \<in> all_sprites v" "i < 4 \<Longrightarrow> killer_alien_sprites v ! i \<in> all_sprites v"
    "i < 10 \<Longrightarrow> numbers_sprites v ! i \<in> all_sprites v" "i < 26 \<Longrightarrow> letters_sprites v ! i \<in> all_sprites v"
    "i < 3 \<Longrightarrow> symb_sprites v ! i \<in> all_sprites v" "i < 4 \<Longrightarrow> lb_corners v ! i \<in> all_sprites v"
    "i < 2 \<Longrightarrow> play_button v ! i \<in> all_sprites v" "i < 2 \<Longrightarrow> exit_button v ! i \<in> all_sprites v"
    "crosshair v \<in> all_sprites v" "game_over v \<in> all_sprites v" "game_name v \<in> all_sprites v"
    "paused v \<in> all_sprites v"
  using assms by (auto simp: video_ok_def tables_ok_def all_sprites_def)

lemma video_okD:
  assumes "video_ok v"
  shows "length (alien_sprites v) = 7" "length (killer_alien_sprites v) = 4"
    "length (numbers_sprites v) = 10" "length (letters_sprites v) = 26" "length (symb_sprites v) = 3"
    "length (lb_corners v) = 4" "length (play_button v) = 2" "length (exit_button v) = 2"
    "length (str v) = 256"
  using assms by (simp_all add: video_ok_def tables_ok_def)

lemma alien_index_bound: "st \<noteq> EMPTY \<Longrightarrow> alien_index st < 7"
  by (cases st) simp_all

lemma safe_draw_aliens:
  assumes "grid_wf (game_matrix g)"
  shows "safe_draw (vg_draw_aliens g)"
proof -
  have "safe_draw (draw_aliens_loop ps g)" if "list_all in_grid ps" for ps
    using that
  proof (induction ps)
    case Nil
    then show ?case by (simp add: safe_draw_def drawn_refl)
  next
    case (Cons p ps)
    let ?st = "astate (cell (game_matrix g) p)"
    have IH: "safe_draw (draw_aliens_loop ps g)" and a: "cell_read (game_matrix g) p = Some (cell (game_matrix g) p)"
      using Cons cell_access(1) [OF assms] by simp_all
    show ?case
    proof (cases "?st = EMPTY")
      case True
      then show ?thesis by (intro safe_draw_cong [OF _ IH]) (simp add: a)
    next
      case False
      note idx = alien_index_bound [OF False]
      show ?thesis
      proof (rule safe_draw_cong [OF _ safe_draw_bind [OF safe_put_sprite IH]])
        show "alien_sprites v ! alien_index ?st \<in> all_sprites v" if "video_ok v" for v
          using table_sprites(1) [OF that idx] .
      qed (use False idx in \<open>simp add: a video_okD Let_def\<close>)
    qed
  qed
  from this [of positions] show ?thesis
    by (simp add: vg_draw_aliens_def [abs_def] safe_draw_def list_all_iff)
qed

lemma draw_digits_safe:
  "video_ok v \<Longrightarrow> \<exists>n' x' v'. draw_digits m n x y v = Some (n', x', v') \<and> drawn v v'"
proof (induction m n x y v rule: draw_digits.induct)
  case (1 m n x y v)
  show ?case
  proof (cases "m = 0")
    case True
    then show ?thesis by (simp add: draw_digits.simps drawn_refl)
  next
    case False
    let ?s = "numbers_sprites v ! (m mod 10)"
    have len: "length (numbers_sprites v) = 10" using video_okD [OF "1.prems"] by simp
    obtain v1 where v1: "put_sprite ?s x y v = Some v1" "drawn v v1" "video_ok v1"
    proof (rule safe_drawE [of "\<lambda>v. put_sprite (numbers_sprites v ! (m mod 10)) x y v" v])
      show "safe_draw (\<lambda>v. put_sprite (numbers_sprites v ! (m mod 10)) x y v)"
        by (intro safe_put_sprite table_sprites) simp_all
    qed (use "1.prems" in auto)
    obtain n' x' v' where "draw_digits (m div 10) (Suc n) (x - (width ?s + POINTS_BETWEEN_MARGIN)) y v1 =
        Some (n', x', v')" "drawn v1 v'"
      using "1.IH" [OF False _ refl v1(1,3)] len by auto
    with v1 False len show ?thesis
      by (subst draw_digits.simps) (auto simp: Let_def intro: drawn_trans)
  qed
qed

lemma draw_zero_safe: "video_ok v \<Longrightarrow> \<exists>x' v'. draw_zero x y v = Some (x', v') \<and> drawn v v'"
proof -
  assume v: "video_ok v"
  have "safe_draw (\<lambda>v. put_sprite (numbers_sprites v ! 0) x y v)"
    by (intro safe_put_sprite table_sprites) simp_all
  then obtain v1 where "put_sprite (numbers_sprites v ! 0) x y v = Some v1" "drawn v v1"
    using v by (rule safe_drawE)
  moreover have "numbers_sprites v \<noteq> []" using video_okD(3) [OF v] by auto
  ultimately show ?thesis by (simp add: draw_zero_def)
qed


lemma safe_draw_points: "safe_draw (vg_draw_points g)"
  unfolding safe_draw_def
proof (intro allI impI)
  fix v assume v: "video_ok v"
  show "\<exists>v'. vg_draw_points g v = Some v' \<and> drawn v v'"
    using draw_zero_safe [OF v, of POINTS_WIDTH_MARGIN POINTS_HEIGHT_MARGIN]
      draw_digits_safe [OF v, of "unat (points g)" 0 POINTS_WIDTH_MARGIN POINTS_HEIGHT_MARGIN]
    by (auto simp: vg_draw_points_def Let_def)
qed

lemma safe_draw_crosshair: "safe_draw (vg_draw_crosshair 1 g)"
  unfolding vg_draw_crosshair_def [abs_def]
  by (intro safe_draw_to ucast_u16_bound table_sprites) simp_all

lemma draw_two_digits_safe: "video_ok v \<Longrightarrow> \<exists>x' v'. draw_two_digits val x y v = Some (x', v') \<and> drawn v v'"
proof -
  assume v: "video_ok v"
  obtain n x1 v1 where 1: "draw_digits (unat val) 0 x y v = Some (n, x1, v1)" "drawn v v1"
    using draw_digits_safe [OF v] by blast
  have ok1: "video_ok v1" using v 1(2) by (rule video_ok_drawn)
  obtain x2 v2 where 2: "draw_zero x1 y v1 = Some (x2, v2)" "drawn v1 v2" "video_ok v2"
    using draw_zero_safe [OF ok1] video_ok_drawn [OF ok1] by blast
  obtain x3 v3 where 3: "draw_zero x2 y v2 = Some (x3, v3)" "drawn v2 v3"
    using draw_zero_safe [OF 2(3)] by blast
  show ?thesis
    using 1 2 3 drawn_trans [OF 1(2) 2(2)] drawn_trans [OF drawn_trans [OF 1(2) 2(2)] 3(2)]
    by (auto simp: draw_two_digits_def)
qed

lemma safe_draw_time: "safe_draw (vg_draw_time_info g)"
  unfolding safe_draw_def
proof (intro allI impI)
  fix v assume v: "video_ok v"
  let ?y = "POINTS_HEIGHT_MARGIN + 8"
  obtain x1 v1 where 1: "draw_two_digits (minutes g) POINTS_WIDTH_MARGIN ?y v = Some (x1, v1)"
      "drawn v v1" "video_ok v1"
    using draw_two_digits_safe [OF v] video_ok_drawn [OF v] by blast
  have "safe_draw (\<lambda>v. put_sprite (symb_sprites v ! 2) (x1 + 8) (?y + 6 + 8) v)"
    by (intro safe_put_sprite table_sprites) simp_all
  then obtain v2 where 2: "put_sprite (symb_sprites v1 ! 2) (x1 + 8) (?y + 6 + 8) v1 = Some v2"
      "drawn v1 v2" "video_ok v2"
    using 1(3) by (rule safe_drawE)
  obtain x3 v3 where 3: "draw_two_digits (hours g) (x1 - (width (numbers_sprites v2 ! 1) + POINTS_BETWEEN_MARGIN))
      ?y v2 = Some (x3, v3)" "drawn v2 v3"
    using draw_two_digits_safe [OF 2(3)] by blast
  have "drawn v v3" using 1(2) 2(2) 3(2) by (blast intro: drawn_trans)
  moreover have "\<not> (length (symb_sprites v) < 3 \<or> length (numbers_sprites v) < 2)"
    using video_okD [OF v] by simp
  ultimately show "\<exists>v'. vg_draw_time_info g v = Some v' \<and> drawn v v'"
    using 1(1) 2(1) 3(1) by (simp add: vg_draw_time_info_def Let_def)
qed

lemma glyph_safe: "video_ok v \<Longrightarrow> glyph v c = Some (s, e) \<Longrightarrow> \<exists>s'. s = Some s' \<and> s' \<in> all_sprites v"
  using table_sprites [of v] video_okD [of v]
  by (auto simp: glyph_def Let_def split: if_splits)

lemma draw_chars_safe: "video_ok v \<Longrightarrow> \<exists>v'. draw_chars cs x0 x y v = Some v' \<and> drawn v v'"
proof (induction cs arbitrary: x y v)
  case Nil
  then show ?case by (simp add: drawn_refl)
next
  case (Cons c cs)
  have ne: "letters_sprites v \<noteq> []" using video_okD(4) [OF Cons.prems] by auto
  show ?case
  proof (cases "glyph v c")
    case None
    then show ?thesis using Cons ne by (simp add: Let_def)
  next
    case (Some r)
    then obtain s e where r: "glyph v c = Some (Some s, e)" "s \<in> all_sprites v"
      using glyph_safe [OF Cons.prems] by (cases r) blast
    have "safe_draw (\<lambda>u. put_sprite (if s \<in> all_sprites u then s else crosshair u)
        (word_of_int (x + e)) (word_of_int (y + e)) u)"
      by (intro safe_put_sprite) (auto simp: table_sprites)
    then obtain v1 where v1: "put_sprite s (word_of_int (x + e)) (word_of_int (y + e)) v = Some v1"
        "drawn v v1" "video_ok v1"
      using Cons.prems by (rule safe_drawE) (simp add: r(2))
    show ?thesis
      using Cons.IH [OF v1(3)] v1(1,2) r(1) ne by (fastforce simp: Let_def intro: drawn_trans)
  qed
qed

lemma safe_draw_str: "c_terminated t \<Longrightarrow> safe_draw (\<lambda>v. vg_draw_str t (x v) (y v) v)"
  using draw_chars_safe by (simp add: safe_draw_def vg_draw_str_def)


lemma safe_draw_input:
  assumes "arrays_ok g"
  shows "safe_draw (vg_draw_input_screen g)"
proof -
  have t: "c_terminated (input_message g)" "c_terminated (name g)"
    using assms by (simp_all add: arrays_ok_def)
  show ?thesis
    unfolding vg_draw_input_screen_def [abs_def]
    by (intro safe_draw_bind safe_draw_str t safe_draw_crosshair safe_draw_if safe_draw_Some)
qed

lemma safe_draw_leaderboard_text:
  assumes "lb_wf L" "safe_draw h"
  shows "safe_draw (\<lambda>v. Option.bind (getLeaderBoard L (str v))
    (\<lambda>text. Option.bind (vg_draw_str text x y (v\<lparr>str := text\<rparr>)) h))"
  unfolding safe_draw_def
proof (intro allI impI)
  fix v assume v: "video_ok v"
  obtain tx s where tx: "getLeaderBoard L (str v) = Some tx" "c_holds tx s 256"
    using getLeaderBoard_holds [OF assms(1) video_okD(9) [OF v]] by blast
  then have t: "length tx = length (str v)" "c_terminated tx"
    using video_okD(9) [OF v] by (simp_all add: c_holds_def)
  have d: "drawn v (v\<lparr>str := tx\<rparr>)" using drawnI [of "buffer v" v tx] t by simp
  have "safe_draw (\<lambda>v. Option.bind (vg_draw_str tx x y v) h)"
    using t(2) assms(2) by (intro safe_draw_bind safe_draw_str)
  then obtain v' where v': "Option.bind (vg_draw_str tx x y (v\<lparr>str := tx\<rparr>)) h = Some v'"
      "drawn (v\<lparr>str := tx\<rparr>) v'"
    using video_ok_drawn [OF v d] by (rule safe_drawE)
  have "drawn v v'" using d v'(2) by (rule drawn_trans)
  with v'(1) tx(1) show "\<exists>v'. Option.bind (getLeaderBoard L (str v))
      (\<lambda>text. Option.bind (vg_draw_str text x y (v\<lparr>str := text\<rparr>)) h) = Some v' \<and> drawn v v'"
    by simp
qed

lemma safe_draw_leadeboard:
  assumes "arrays_ok g"
  shows "safe_draw (vg_draw_leadeboard g)"
proof -
  have wf: "lb_wf (LB g)" using assms by (simp add: arrays_ok_def)
  have lit: "c_terminated (c_lit s)" for s by (simp add: c_lit_def)
  have corner: "safe_draw (\<lambda>v. put_sprite (lb_corners v ! i) x y v)" if "i < 4" for i x y
    using that by (intro safe_put_sprite table_sprites)
  have "safe_draw (\<lambda>v. do {
        v \<leftarrow> put_sprite (lb_corners v ! 0) 1 1 v;
        v \<leftarrow> put_sprite (lb_corners v ! 1) 702 1 v;
        v \<leftarrow> put_sprite (lb_corners v ! 2) 702 502 v;
        v \<leftarrow> put_sprite (lb_corners v ! 3) 1 502 v;
        text \<leftarrow> getLeaderBoard (LB g) (str v);
        v \<leftarrow> vg_draw_str text 230 30 (v\<lparr>str := text\<rparr>);
        v \<leftarrow> vg_draw_str (c_lit ''PRESS ENTER TO CONTINUE'') 50
              (100 + 12 * uint (height (letters_sprites v ! 0))) v;
        vg_draw_crosshair 1 g v
      })"
    by (intro safe_draw_leaderboard_text [OF wf] safe_draw_bind corner safe_draw_str lit safe_draw_crosshair)
      simp_all
  then show ?thesis
    by (rule safe_draw_cong [rotated]) (simp add: vg_draw_leadeboard_def video_okD)
qed

lemma safe_draw_killer:
  assumes "kstate (killer g) < 4" "in_grid (killer_pos g)"
  shows "safe_draw (vg_draw_killer_alien g)"
proof -
  let ?x = "kx (killer g) * of_int ALIEN_WIDTH + of_int ALIEN_HORIZONTAL_MARGIN + of_int GAME_HORIZONTAL_MARGIN :: u32"
    and ?y = "ky (killer g) * of_int ALIEN_HEIGHT + of_int ALIEN_VERTICAL_MARGIN + of_int GAME_VERTICAL_MARGIN :: u32"
  have k: "unat (kstate (killer g)) < 4" using assms(1) by (simp add: word_less_nat_alt)
  have pos: "unat (kx (killer g)) < 11" "unat (ky (killer g)) < 7"
    using assms(2) by (simp_all add: in_grid_def killer_pos_def game_consts)
  then have "unat ?x < 65536" "unat ?y < 65536"
    by (simp_all add: game_consts unat_word_ariths)
  then have "safe_draw (\<lambda>v. map_option snd
      (draw_to True (killer_alien_sprites v ! unat (kstate (killer g))) ?x ?y 1 v))"
    using k by (intro safe_draw_to table_sprites)
  then show ?thesis
    by (rule safe_draw_cong [rotated]) (simp add: vg_draw_killer_alien_def video_okD k Let_def)
qed

lemma safe_draw_game_over:
  assumes "kstate (killer g) < 4" "in_grid (killer_pos g)" "grid_wf (game_matrix g)"
  shows "safe_draw (vg_draw_game_over g)"
  unfolding vg_draw_game_over_def [abs_def]
  by (intro safe_draw_bind safe_draw_if safe_put_sprite table_sprites safe_draw_aliens
      safe_draw_killer assms safe_draw_crosshair)

lemma safe_draw_menu: "safe_draw (vg_draw_menu g)"
proof -
  have img: "safe_draw (\<lambda>v. put_sprite (play_button v ! i) (x v) (y v) v)"
      "safe_draw (\<lambda>v. put_sprite (exit_button v ! i) (x v) (y v) v)" if "i < 2" for i x y
    by (intro safe_put_sprite table_sprites that; assumption)+
  have play: "safe_draw (vg_draw_play_button g)" and exit: "safe_draw (vg_draw_exit_button g)"
    using img [of 0 "\<lambda>_. play_button_xi g" "\<lambda>_. play_button_yi g"] img [of 1 "\<lambda>_. play_button_xi g" "\<lambda>_. play_button_yi g"]
      img [of 0 "\<lambda>_. exit_button_xi g" "\<lambda>_. exit_button_yi g"] img [of 1 "\<lambda>_. exit_button_xi g" "\<lambda>_. exit_button_yi g"]
    by (simp_all add: safe_draw_def vg_draw_play_button_def vg_draw_exit_button_def video_okD)
  have nm: "safe_draw vg_draw_game_name"
    unfolding vg_draw_game_name_def [abs_def] by (intro safe_put_sprite table_sprites)
  show ?thesis
    unfolding vg_draw_menu_def [abs_def]
    by (intro safe_draw_bind nm play exit safe_draw_time safe_draw_crosshair)
qed

lemma safe_draw_screens:
  "grid_wf (game_matrix g) \<Longrightarrow> safe_draw (vg_draw_game g)" "safe_draw vg_draw_paused"
  unfolding vg_draw_game_def [abs_def] vg_draw_paused_def [abs_def]
  by (intro safe_draw_bind safe_draw_aliens safe_draw_points safe_draw_crosshair safe_put_sprite
      table_sprites; assumption)+


section \<open>Pixels\<close>

text \<open>The byte \<open>b\<close> of the pixel in row \<open>r\<close> and column \<open>c\<close>.\<close>

definition pixel_at :: "video \<Rightarrow> nat \<Rightarrow> nat \<Rightarrow> nat \<Rightarrow> nat" where
  "pixel_at v r c b = (unat (h_res v) * r + c) * 3 + b"

lemma div_mod_block: "m < T \<Longrightarrow> (q * T + m) div T = q \<and> (q * T + m) mod T = (m :: nat)"
  by simp

lemma image_byte_pixel:
  fixes H :: nat
  assumes "c < H" "b < 3" "x + w \<le> H" and start: "(H * y + x) * 3 \<le> (H * r + c) * 3 + b"
  shows "image_byte tr 3 sp w (H * 3) h 0 ((H * r + c) * 3 + b - (H * y + x) * 3) old =
    (if y \<le> r \<and> r < y + h \<and> x \<le> c \<and> c < x + w \<and> visible tr sp (((r - y) * w + (c - x)) * 3)
     then sp ! (((r - y) * w + (c - x)) * 3 + b) else old)"
proof -
  let ?p = "(H * r + c) * 3 + b - (H * y + x) * 3"
  have yr: "y \<le> r"
  proof (rule ccontr)
    assume "\<not> y \<le> r"
    then have "H * (r + 1) \<le> H * y" by (intro mult_le_mono2) simp
    then show False using start assms(1,2) by (simp add: algebra_simps)
  qed
  then obtain q where r: "r = y + q" using le_Suc_ex by blast
  show ?thesis
  proof (cases "x \<le> c")
    case True
    then obtain e where c: "c = x + e" using le_Suc_ex by blast
    have p: "?p = q * (H * 3) + (e * 3 + b)" by (simp add: r c algebra_simps)
    have "e * 3 + b < H * 3" using assms(1,2) c by simp
    from div_mod_block [OF this] have dm: "?p div (H * 3) = q" "?p mod (H * 3) = e * 3 + b"
      unfolding p by simp_all
    have "(e * 3 + b) div 3 = e" "e * 3 + b < w * 3 \<longleftrightarrow> e < w" using assms(2) by auto
    then show ?thesis
      unfolding image_byte_def dm by (auto simp: r c algebra_simps)
  next
    case False
    then have "0 < q" using start assms(2) r by (cases q) auto
    then obtain q' where q: "q = Suc q'" by (cases q) auto
    have p: "?p = q' * (H * 3) + ((H + c - x) * 3 + b)"
      using False assms(3) by (simp add: r q algebra_simps)
    have "(H + c - x) * 3 + b < H * 3" using False assms(1,2,3) by simp
    from div_mod_block [OF this] have dm: "?p mod (H * 3) = (H + c - x) * 3 + b"
      unfolding p by simp
    have "\<not> (H + c - x) * 3 + b < w * 3" using assms(3) by simp
    then show ?thesis unfolding image_byte_def dm using False by simp
  qed
qed

lemma pixel_before_start:
  fixes H :: nat
  assumes "c < H" "b < 3" "\<not> (H * y + x) * 3 \<le> (H * r + c) * 3 + b"
  shows "\<not> (y \<le> r \<and> x \<le> c)"
proof
  assume "y \<le> r \<and> x \<le> c"
  then have "H * y + x \<le> H * r + c" by (simp add: add_mono)
  then show False using assms(3) by simp
qed

lemma pixel_at_bound:
  assumes "screen_ok v" "r < unat (v_res v)" "c < unat (h_res v)" "b < 3"
  shows "pixel_at v r c b < unat (h_res v) * unat (v_res v) * 3"
proof -
  have "unat (h_res v) * r + c < unat (h_res v) * (r + 1)" using assms(3) by simp
  also have "\<dots> \<le> unat (h_res v) * unat (v_res v)" using assms(2) by (intro mult_le_mono2) simp
  finally show ?thesis using assms(4) by (simp add: pixel_at_def)
qed

lemma draw_image_pixels:
  assumes v: "screen_ok v" and s: "sprite_ok v s" and mem: "length mem = unat (h_res v) * unat (v_res v) * 3"
    and x: "unat x + unat (width s) \<le> unat (h_res v)" and y: "unat y + unat (height s) \<le> unat (v_res v)"
  shows "\<exists>mem'. draw_image tr v s x y mem = Some mem' \<and> length mem' = length mem \<and>
    (\<forall>r c b. r < unat (v_res v) \<longrightarrow> c < unat (h_res v) \<longrightarrow> b < 3 \<longrightarrow>
      mem' ! pixel_at v r c b =
        (let k = ((r - unat y) * unat (width s) + (c - unat x)) * 3 in
         if unat y \<le> r \<and> r < unat y + unat (height s) \<and> unat x \<le> c \<and> c < unat x + unat (width s) \<and>
            visible tr (ptr s) k
         then ptr s ! (k + b) else mem ! pixel_at v r c b))"
proof -
  let ?H = "unat (h_res v)" and ?w = "unat (width s)" and ?h = "unat (height s)"
  have small: "unat x < 65536" "unat y < 65536" using v x y by (auto simp: screen_ok_def)
  have n: "image_cols v s (unat x) = ?w" and R: "image_rows v s (unat y) = ?h"
    using x y by (simp_all add: image_cols_def image_rows_def min_def)
  have T: "image_step v s (unat x) = ?H * 3" using x by (simp add: image_step_def n)
  obtain mem' where mem': "draw_image tr v s x y mem = Some mem'" "length mem' = length mem"
      and bytes: "\<forall>p < length mem. mem' ! p =
        (if (?H * unat y + unat x) * 3 \<le> p \<and> 0 < ?w
         then image_byte tr 3 (ptr s) ?w (?H * 3) ?h 0 (p - (?H * unat y + unat x) * 3) (mem ! p) else mem ! p)"
    using draw_image_spec [OF v s mem small, of tr, unfolded n R T image_start_def] by blast
  have "mem' ! pixel_at v r c b =
        (let k = ((r - unat y) * ?w + (c - unat x)) * 3 in
         if unat y \<le> r \<and> r < unat y + ?h \<and> unat x \<le> c \<and> c < unat x + ?w \<and> visible tr (ptr s) k
         then ptr s ! (k + b) else mem ! pixel_at v r c b)"
    if "r < unat (v_res v)" "c < ?H" "b < 3" for r c b
  proof -
    have p: "pixel_at v r c b < length mem" unfolding mem using pixel_at_bound [OF v that] .
    show ?thesis
    proof (cases "(?H * unat y + unat x) * 3 \<le> pixel_at v r c b")
      case True
      note img = image_byte_pixel [OF that(2,3) x True [unfolded pixel_at_def], folded pixel_at_def]
      show ?thesis
      proof (cases "?w = 0")
        case True
        then show ?thesis using bytes [rule_format, OF p] by (auto simp: Let_def)
      next
        case False
        with True bytes [rule_format, OF p] have eq: "mem' ! pixel_at v r c b = image_byte tr 3 (ptr s) ?w
            (?H * 3) ?h 0 (pixel_at v r c b - (?H * unat y + unat x) * 3) (mem ! pixel_at v r c b)"
          by (simp only: if_True simp_thms zero_less_iff_neq_zero)
        show ?thesis unfolding eq img Let_def ..
      qed
    next
      case False
      then show ?thesis
        using bytes [rule_format, OF p] pixel_before_start [OF that(2,3) False [unfolded pixel_at_def]]
        by (auto simp: Let_def)
    qed
  qed
  with mem' show ?thesis by blast
qed


section \<open>Properties\<close>

lemma unat_ucast_u16 [simp]: "unat (ucast (x :: u16) :: u32) = unat x"
  using u16_bound [of x] by (simp add: unsigned_ucast_eq take_bit_nat_eq_self)

text \<open>A screen of six by four pixels with sprites of one pixel, for the witnesses.\<close>

definition dot :: sprite where
  "dot = \<lparr>ptr = [1, 2, 3], width = 1, height = 1\<rparr>"

definition tiny_video :: video where
  "tiny_video = \<lparr>video_mem = replicate 72 0, buffer = replicate 72 9, h_res = 6, v_res = 4,
     bytes_per_pixel = 3, red_mask_size = 8, green_mask_size = 8, blue_mask_size = 8,
     red_field_position = 16, green_field_position = 8, blue_field_position = 0,
     alien_sprites = replicate 7 dot, killer_alien_sprites = replicate 4 dot,
     numbers_sprites = replicate 10 dot, letters_sprites = replicate 26 dot,
     symb_sprites = replicate 3 dot, lb_corners = replicate 4 dot, crosshair = dot,
     play_button = replicate 2 dot, exit_button = replicate 2 dot, game_over = dot, game_name = dot,
     paused = dot, game_over_x = 1, game_over_y = 1, game_name_x = 1, game_name_y = 1, paused_x = 1,
     paused_y = 1, str = replicate 256 NUL\<rparr>"

lemma tiny_video_ok: "video_ok tiny_video"
  by (simp add: video_ok_def screen_ok_def all_sprites_def sprite_ok_def tables_ok_def tiny_video_def dot_def)

text \<open>C12. A sprite that lies inside the screen is drawn exactly: \<^verbatim>\<open>vg_draw_sprite\<close> copies the
  pixel in row \<open>r - y\<close> and column \<open>c - x\<close> of the sprite to row \<open>r\<close> and column \<open>c\<close> of the second
  buffer, for every pixel of the rectangle, and changes no other pixel and nothing else.
\<close>

theorem vg_draw_sprite_pixels:
  assumes "screen_ok v" "sprite_ok v s"
    and "unat x + unat (width s) \<le> unat (h_res v)" "unat y + unat (height s) \<le> unat (v_res v)"
  shows "\<exists>mem. vg_draw_sprite s x y 1 v = Some (0, v\<lparr>buffer := mem\<rparr>) \<and>
    length mem = length (buffer v) \<and>
    (\<forall>r c b. r < unat (v_res v) \<longrightarrow> c < unat (h_res v) \<longrightarrow> b < 3 \<longrightarrow>
      mem ! pixel_at v r c b =
        (if unat y \<le> r \<and> r < unat y + unat (height s) \<and> unat x \<le> c \<and> c < unat x + unat (width s)
         then ptr s ! (((r - unat y) * unat (width s) + (c - unat x)) * 3 + b)
         else buffer v ! pixel_at v r c b))"
proof -
  have len: "length (buffer v) = unat (h_res v) * unat (v_res v) * 3" using assms(1) by (simp add: screen_ok_def)
  have vis: "visible False sp k = True" for sp k by (simp add: visible_def)
  obtain mem where mem: "draw_image False v s (ucast x) (ucast y) (buffer v) = Some mem"
      "length mem = length (buffer v)"
    and px: "\<forall>r c b. r < unat (v_res v) \<longrightarrow> c < unat (h_res v) \<longrightarrow> b < 3 \<longrightarrow>
      mem ! pixel_at v r c b =
        (if unat y \<le> r \<and> r < unat y + unat (height s) \<and> unat x \<le> c \<and> c < unat x + unat (width s)
         then ptr s ! (((r - unat y) * unat (width s) + (c - unat x)) * 3 + b)
         else buffer v ! pixel_at v r c b)"
    using draw_image_pixels [OF assms(1,2) len, of "ucast x" "ucast y" False,
        unfolded Let_def vis unat_ucast_u16 simp_thms, OF assms(3,4)] by blast
  have "vg_draw_sprite s x y 1 v = Some (0, v\<lparr>buffer := mem\<rparr>)"
    using mem(1) by (simp add: vg_draw_sprite_def draw_to_def)
  with mem(2) px show ?thesis by blast
qed

theorem vg_draw_sprite_pixels_witness:
  "\<exists>mem. vg_draw_sprite dot 2 1 1 tiny_video = Some (0, tiny_video\<lparr>buffer := mem\<rparr>) \<and>
    mem ! pixel_at tiny_video 1 2 1 = 2 \<and> mem ! pixel_at tiny_video 3 5 0 = 9"
proof -
  have ok: "screen_ok tiny_video" "sprite_ok tiny_video dot"
    using tiny_video_ok by (auto simp: video_ok_def all_sprites_def tiny_video_def)
  obtain mem where mem: "vg_draw_sprite dot 2 1 1 tiny_video = Some (0, tiny_video\<lparr>buffer := mem\<rparr>)"
    and px: "\<forall>r c b. r < unat (v_res tiny_video) \<longrightarrow> c < unat (h_res tiny_video) \<longrightarrow> b < 3 \<longrightarrow>
      mem ! pixel_at tiny_video r c b =
        (if unat (1 :: u16) \<le> r \<and> r < unat (1 :: u16) + unat (height dot) \<and> unat (2 :: u16) \<le> c \<and>
            c < unat (2 :: u16) + unat (width dot)
         then ptr dot ! (((r - unat (1 :: u16)) * unat (width dot) + (c - unat (2 :: u16))) * 3 + b)
         else buffer tiny_video ! pixel_at tiny_video r c b)"
    using vg_draw_sprite_pixels [OF ok, of 2 1] by (auto simp: tiny_video_def dot_def)
  have "mem ! pixel_at tiny_video 1 2 1 = 2" "mem ! pixel_at tiny_video 3 5 0 = 9"
    using px [rule_format, of 1 2 1] px [rule_format, of 3 5 0]
    by (simp_all add: tiny_video_def dot_def pixel_at_def)
  with mem show ?thesis by blast
qed

lemma vg_ih_returns:
  assumes v: "video_ok v" and g: "game_inv g"
  shows "\<exists>v'. vg_ih g v = Some v' \<and> video_ok v' \<and> video_mem v' = buffer v'"
proof -
  let ?n = "unat (h_res v * v_res v * bytes_per_pixel v)"
  have sc: "screen_ok v" using v by (simp add: video_ok_def)
  then have n: "?n = unat (h_res v) * unat (v_res v) * 3"
    by (simp add: screen_ok_def unat_word_ariths mod_mult_left_eq)
  then have len: "length (buffer v) = ?n" "length (video_mem v) = ?n" using sc by (simp_all add: screen_ok_def)
  define v0 where "v0 = v\<lparr>buffer := replicate ?n 0 @ drop ?n (buffer v)\<rparr>"
  have d0: "drawn v v0" unfolding v0_def using len by (intro drawn_buffer) simp
  have v0: "video_ok v0" using v d0 by (rule video_ok_drawn)
  have a: "arrays_ok g" using g by (simp add: game_inv_def)
  have over: "kstate (killer g) < 4 \<and> in_grid (killer_pos g)" if "game_state g = GAME_OVER"
    using g that by (simp add: game_inv_def over_ok_def arrays_ok_def)
  have "safe_draw (\<lambda>v. case game_state g of
               PLAYING \<Rightarrow> vg_draw_game g v
             | MENU \<Rightarrow> vg_draw_menu g v
             | GAME_OVER \<Rightarrow> vg_draw_game_over g v
             | PAUSE \<Rightarrow> vg_draw_paused v
             | LB_INPUT \<Rightarrow> vg_draw_input_screen g v
             | LEADERBOARD \<Rightarrow> vg_draw_leadeboard g v
             | _ \<Rightarrow> Some v)" (is "safe_draw ?screen")
    using safe_draw_screens inv_grid_wf [OF g] safe_draw_menu safe_draw_game_over over safe_draw_input [OF a]
      safe_draw_leadeboard [OF a] safe_draw_Some
    by (cases "game_state g") simp_all
  then obtain v1 where v1: "?screen v0 = Some v1" "drawn v0 v1" "video_ok v1"
    using v0 by (rule safe_drawE)
  have d1: "drawn v v1" using d0 v1(2) by (rule drawn_trans)
  note f = drawn_fields [OF d1]
  have "vg_ih g v = Some (v1\<lparr>video_mem := take ?n (buffer v1) @ drop ?n (video_mem v1)\<rparr>)"
    unfolding vg_ih_def Let_def v0_def [symmetric] using v1(1) len f by simp
  moreover have "take ?n (buffer v1) @ drop ?n (video_mem v1) = buffer v1" using len f by simp
  moreover have "video_ok (v1\<lparr>video_mem := buffer v1\<rparr>)"
    using v1(3) by (simp add: video_ok_def screen_ok_def all_sprites_def sprite_ok_def tables_ok_def)
  ultimately show ?thesis by simp
qed


text \<open>Drawing a frame is memory safe: in every state of the game that satisfies the invariant
  \<^verbatim>\<open>vg_ih\<close> returns without an access outside a buffer, a sprite or a table of sprites, and
  afterwards the video memory shows exactly what was composed in the buffer.
\<close>

theorem vg_ih_memory_safe:
  assumes "video_ok v" "game_inv g"
  shows "\<exists>v'. vg_ih g v = Some v' \<and> video_ok v' \<and> video_mem v' = buffer v'"
  using assms by (rule vg_ih_returns)

theorem vg_ih_memory_safe_witness:
  "\<exists>v'. vg_ih play_game tiny_video = Some v' \<and> video_ok v' \<and> video_mem v' = buffer v'"
  using vg_ih_memory_safe [OF tiny_video_ok play_game_facts(1)] .

definition two_by_two :: sprite where
  "two_by_two = \<lparr>ptr = [11, 11, 11, 12, 12, 12, 21, 21, 21, 22, 22, 22], width = 2, height = 2\<rparr>"

text \<open>
  A sprite cut off at the right border is distorted: on a screen six pixels wide, an image of
  two by two pixels drawn at column 5 of row 0 puts its second row, which starts with the wrong
  pixel, at column 4 of row 1 instead of column 5.
\<close>

theorem clipped_sprite_distorted:
  "map_option (\<lambda>(r, v). (r, buffer v ! pixel_at tiny_video 0 5 0, buffer v ! pixel_at tiny_video 1 5 0,
      buffer v ! pixel_at tiny_video 1 4 0)) (vg_draw_sprite two_by_two 5 0 1 tiny_video) =
    Some (0, 11, 9, 12)"
  by code_simp

text \<open>When the mode information cannot be obtained, \<^verbatim>\<open>vg_prepareGraphics\<close> reports success
  although it has set up neither the resolution nor the buffers.
\<close>

theorem prepareGraphics_failure_reported_as_success:
  assumes "vbe_get_mode_info env mode d = (r, info, d')" "r \<noteq> OK"
  shows "vg_prepareGraphics env mode v d = Some (True, v, d')"
  using assms by (simp add: vg_prepareGraphics_def)

theorem prepareGraphics_failure_reported_as_success_witness:
  "vg_prepareGraphics (sim_env\<lparr>vbe_get_mode_info := \<lambda>m d. (1, sim_mode, d)\<rparr>) 0x115 tiny_video sim0 =
    Some (True, tiny_video, sim0)"
  by (rule prepareGraphics_failure_reported_as_success [where r = 1]) simp_all

end
