(* ===== verification/Xpm.thy ===== *)
theory Xpm
  imports Video
begin

text \<open>
  The format of the images under \<^verbatim>\<open>sprites/\<close>, and what \<^verbatim>\<open>xpm_load\<close> of the LCF library
  documents for them. An image is an array of strings: a header with the number of columns, rows,
  colours and characters per pixel, a line for each colour that starts with its character, and a line
  of pixels for each row.
\<close>

fun numbers_from :: "nat option \<Rightarrow> string \<Rightarrow> nat list" where
  "numbers_from acc [] = (case acc of None \<Rightarrow> [] | Some n \<Rightarrow> [n])"
| "numbers_from acc (c # cs) =
     (if is_digit c
      then numbers_from (Some (10 * (case acc of None \<Rightarrow> 0 | Some n \<Rightarrow> n) + (of_char c - 48))) cs
      else case acc of None \<Rightarrow> numbers_from None cs | Some n \<Rightarrow> n # numbers_from None cs)"

text \<open>The numbers of the header.\<close>

definition xpm_header :: "string list \<Rightarrow> nat list" where
  "xpm_header rows = (case rows of [] \<Rightarrow> [] | h # _ \<Rightarrow> numbers_from None h)"

text \<open>
  A complete image of \<open>w\<close> by \<open>h\<close> pixels: the header says so, there are as many lines as it announces,
  every row is \<open>w\<close> characters long, and every character is one of the colours.
\<close>

definition xpm_wf :: "nat \<Rightarrow> nat \<Rightarrow> string list \<Rightarrow> bool" where
  "xpm_wf w h rows \<longleftrightarrow>
     (case xpm_header rows of
        [w', h', n, cpp] \<Rightarrow>
          w' = w \<and> h' = h \<and> cpp = 1 \<and> length rows = 1 + n + h \<and>
          (let keys = map hd (take n (tl rows)) in
           distinct keys \<and>
           list_all (\<lambda>r. length r = w \<and> list_all (\<lambda>c. List.member keys c) r) (drop (1 + n) rows))
      | _ \<Rightarrow> False)"

text \<open>
  What the documentation of \<^verbatim>\<open>xpm_load\<close> promises for 24-bit colours: the size of the image, and
  three bytes for every pixel.
\<close>

definition loads_xpm :: "(string list \<Rightarrow> sprite) \<Rightarrow> bool" where
  "loads_xpm load \<longleftrightarrow>
     (\<forall>w h rows. xpm_wf w h rows \<longrightarrow> w < 65536 \<longrightarrow> h < 65536 \<longrightarrow>
        unat (width (load rows)) = w \<and> unat (height (load rows)) = h \<and>
        length (ptr (load rows)) = w * h * 3)"

section \<open>Images written as runs\<close>

text \<open>
  A large image repeats a row many times, and a row repeats a character many times. \<open>pixel_rows\<close> is
  the list of rows of which each is given once, with the number of its repetitions, as the list of its
  runs of one character.
\<close>

definition runs :: "(nat \<times> char) list \<Rightarrow> string" where
  "runs r = concat (map (\<lambda>(n, c). replicate n c) r)"

definition pixel_rows :: "(nat \<times> (nat \<times> char) list) list \<Rightarrow> string list" where
  "pixel_rows g = concat (map (\<lambda>(k, r). replicate k (runs r)) g)"

definition runs_ok :: "nat \<Rightarrow> nat \<Rightarrow> char list \<Rightarrow> (nat \<times> (nat \<times> char) list) list \<Rightarrow> bool" where
  "runs_ok w h keys g \<longleftrightarrow> sum_list (map fst g) = h \<and>
     list_all (\<lambda>(k, r). sum_list (map fst r) = w \<and> list_all (\<lambda>(n, c). List.member keys c) r) g"

lemma length_runs: "length (runs r) = sum_list (map fst r)"
  by (induction r) (auto simp: runs_def)

lemma length_pixel_rows: "length (pixel_rows g) = sum_list (map fst g)"
  by (induction g) (auto simp: pixel_rows_def)

lemma set_runs: "set (runs r) \<subseteq> snd ` set r"
  by (force simp: runs_def split: if_splits)

lemma xpm_wf_runs:
  assumes "numbers_from None header = [w, h, length cols, 1]" "distinct (map hd cols)" "runs_ok w h (map hd cols) g"
  shows "xpm_wf w h ((header # cols) @ pixel_rows g)"
proof -
  have rows: "length r = w" "set r \<subseteq> hd ` set cols" if "r \<in> set (pixel_rows g)" for r
  proof -
    from that obtain k rs where rs: "(k, rs) \<in> set g" "r = runs rs" by (auto simp: pixel_rows_def split: if_splits)
    with assms(3) have "sum_list (map fst rs) = w" "snd ` set rs \<subseteq> set (map hd cols)"
      by (fastforce simp: runs_ok_def list_all_iff)+
    with rs(2) set_runs [of rs] show "length r = w" "set r \<subseteq> hd ` set cols" by (auto simp: length_runs)
  qed
  have "length (pixel_rows g) = h" using assms(3) by (simp add: runs_ok_def length_pixel_rows)
  with assms(1,2) rows show ?thesis by (auto simp: xpm_wf_def xpm_header_def list_all_iff)
qed

end
