(* ===== verification/Glyphs.thy ===== *)
theory Glyphs
  imports Xpm
begin

text \<open>
  \<^verbatim>\<open>sprites/letters.h\<close> and \<^verbatim>\<open>sprites/numbers.h\<close>: the images of the characters that the
  game writes, string for string (the second definition of \<^verbatim>\<open>xpm_slash\<close> in the latter file is
  inside a comment), and the check that each is a complete image.
\<close>

section \<open>Images\<close>

definition xpm_A :: "string list" where
  "xpm_A =
    [''32 32 2 1 '',
     ''  c #FFFFFF'',
     ''. c #000000'',
     ''................................'',
     ''................................'',
     ''................  ..............'',
     ''................  ..............'',
     ''..............    ..............'',
     ''..............    ..............'',
     ''..............      ............'',
     ''..............      ............'',
     ''............        ............'',
     ''............        ............'',
     ''............  ..    ............'',
     ''............  ..    ............'',
     ''..........    ..      ..........'',
     ''..........    ..      ..........'',
     ''..........  ......    ..........'',
     ''..........  ......    ..........'',
     ''..........  ......      ........'',
     ''..........  ......      ........'',
     ''........                ........'',
     ''........                ........'',
     ''........                ........'',
     ''........                ........'',
     ''........    ........    ........'',
     ''........    ........    ........'',
     ''........    ........    ........'',
     ''........    ........    ........'',
     ''........    ........    ........'',
     ''........    ........    ........'',
     ''........  ..........  ..........'',
     ''........  ..........  ..........'',
     ''................................'',
     ''................................'']"

definition xpm_B :: "string list" where
  "xpm_B =
    [''32 32 2 1 '',
     ''  c #FFFFFF'',
     ''. c #000000'',
     ''................................'',
     ''................................'',
     ''............        ............'',
     ''............        ............'',
     ''..........            ..........'',
     ''..........            ..........'',
     ''........    ....        ........'',
     ''........    ....        ........'',
     ''........    ......      ........'',
     ''........    ......      ........'',
     ''........    ........    ........'',
     ''........    ........    ........'',
     ''........    ......    ..........'',
     ''........    ......    ..........'',
     ''........            ............'',
     ''........            ............'',
     ''........    ..        ..........'',
     ''........    ..        ..........'',
     ''........    ....        ........'',
     ''........    ....        ........'',
     ''........    ......      ........'',
     ''........    ......      ........'',
     ''........    ........    ........'',
     ''........    ........    ........'',
     ''........    ......    ..........'',
     ''........    ......    ..........'',
     ''........            ............'',
     ''........            ............'',
     ''..........        ..............'',
     ''..........        ..............'',
     ''................................'',
     ''................................'']"

definition xpm_C :: "string list" where
  "xpm_C =
    [''32 32 2 1 '',
     ''  c #FFFFFF'',
     ''. c #000000'',
     ''................................'',
     ''................................'',
     ''..............      ............'',
     ''..............      ............'',
     ''............  ..      ..........'',
     ''............  ..      ..........'',
     ''..........  ......      ........'',
     ''..........  ......      ........'',
     ''........    ........    ........'',
     ''........    ........    ........'',
     ''........    ........  ..........'',
     ''........    ........  ..........'',
     ''........    ......  ............'',
     ''........    ......  ............'',
     ''........    ....................'',
     ''........    ....................'',
     ''........    ....................'',
     ''........    ....................'',
     ''........    ....................'',
     ''........    ....................'',
     ''........    ....................'',
     ''........    ....................'',
     ''........      ........  ........'',
     ''........      ........  ........'',
     ''........        ....  ..........'',
     ''........        ....  ..........'',
     ''..........          ............'',
     ''..........          ............'',
     ''............      ..............'',
     ''............      ..............'',
     ''................................'',
     ''................................'']"

definition xpm_D :: "string list" where
  "xpm_D =
    [''32 32 2 1 '',
     ''  c #FFFFFF'',
     ''. c #000000'',
     ''................................'',
     ''................................'',
     ''..........        ..............'',
     ''..........        ..............'',
     ''........            ............'',
     ''........            ............'',
     ''........    ..        ..........'',
     ''........    ..        ..........'',
     ''........    ....        ........'',
     ''........    ....        ........'',
     ''........    ......      ........'',
     ''........    ......      ........'',
     ''........    ........    ........'',
     ''........    ........    ........'',
     ''........    ........    ........'',
     ''........    ........    ........'',
     ''........    ........    ........'',
     ''........    ........    ........'',
     ''........    ........    ........'',
     ''........    ........    ........'',
     ''........    ........    ........'',
     ''........    ........    ........'',
     ''........    ........    ........'',
     ''........    ........    ........'',
     ''........    ......    ..........'',
     ''........    ......    ..........'',
     ''........            ............'',
     ''........            ............'',
     ''..........        ..............'',
     ''..........        ..............'',
     ''................................'',
     ''................................'']"

definition xpm_E :: "string list" where
  "xpm_E =
    [''32 32 2 1 '',
     ''  c #FFFFFF'',
     ''. c #000000'',
     ''................................'',
     ''................................'',
     ''..........              ........'',
     ''..........              ........'',
     ''........              ..........'',
     ''........              ..........'',
     ''........    ....................'',
     ''........    ....................'',
     ''........    ....................'',
     ''........    ....................'',
     ''........    ....................'',
     ''........    ....................'',
     ''........            ............'',
     ''........            ............'',
     ''........          ..............'',
     ''........          ..............'',
     ''........    ....................'',
     ''........    ....................'',
     ''........    ....................'',
     ''........    ....................'',
     ''........    ....................'',
     ''........    ....................'',
     ''........    ....................'',
     ''........    ....................'',
     ''........    ..........  ........'',
     ''........    ..........  ........'',
     ''........              ..........'',
     ''........              ..........'',
     ''..........          ............'',
     ''..........          ............'',
     ''................................'',
     ''................................'']"

definition xpm_F :: "string list" where
  "xpm_F =
    [''32 32 2 1 '',
     ''  c #FFFFFF'',
     ''. c #000000'',
     ''................................'',
     ''................................'',
     ''..........              ........'',
     ''..........              ........'',
     ''........              ..........'',
     ''........              ..........'',
     ''........    ....................'',
     ''........    ....................'',
     ''........    ....................'',
     ''........    ....................'',
     ''........    ....................'',
     ''........    ....................'',
     ''........            ............'',
     ''........            ............'',
     ''........          ..............'',
     ''........          ..............'',
     ''........    ....................'',
     ''........    ....................'',
     ''........    ....................'',
     ''........    ....................'',
     ''........    ....................'',
     ''........    ....................'',
     ''........    ....................'',
     ''........    ....................'',
     ''........      ..................'',
     ''........      ..................'',
     ''........    ....................'',
     ''........    ....................'',
     ''........  ......................'',
     ''........  ......................'',
     ''................................'',
     ''................................'']"

definition xpm_G :: "string list" where
  "xpm_G =
    [''32 32 2 1 '',
     ''  c #FFFFFF'',
     ''. c #000000'',
     ''................................'',
     ''................................'',
     ''..............      ............'',
     ''..............      ............'',
     ''............  ..      ..........'',
     ''............  ..      ..........'',
     ''..........  ......      ........'',
     ''..........  ......      ........'',
     ''........    ........    ........'',
     ''........    ........    ........'',
     ''........    ........  ..........'',
     ''........    ........  ..........'',
     ''........    ......  ............'',
     ''........    ......  ............'',
     ''........    ....................'',
     ''........    ....................'',
     ''........    ......      ........'',
     ''........    ......      ........'',
     ''........    ....        ........'',
     ''........    ....        ........'',
     ''........    ........    ........'',
     ''........    ........    ........'',
     ''........      ......    ........'',
     ''........      ......    ........'',
     ''........        ....  ..........'',
     ''........        ....  ..........'',
     ''..........          ............'',
     ''..........          ............'',
     ''............      ..............'',
     ''............      ..............'',
     ''................................'',
     ''................................'']"

definition xpm_H :: "string list" where
  "xpm_H =
    [''32 32 2 1 '',
     ''  c #FFFFFF'',
     ''. c #000000'',
     ''................................'',
     ''................................'',
     ''..........  ..........  ........'',
     ''..........  ..........  ........'',
     ''........    ........    ........'',
     ''........    ........    ........'',
     ''........    ........    ........'',
     ''........    ........    ........'',
     ''........    ........    ........'',
     ''........    ........    ........'',
     ''........    ........    ........'',
     ''........    ........    ........'',
     ''........                ........'',
     ''........                ........'',
     ''........                ........'',
     ''........                ........'',
     ''........    ........    ........'',
     ''........    ........    ........'',
     ''........    ........    ........'',
     ''........    ........    ........'',
     ''........    ........    ........'',
     ''........    ........    ........'',
     ''........    ........    ........'',
     ''........    ........    ........'',
     ''........      ......    ........'',
     ''........      ......    ........'',
     ''........    ........    ........'',
     ''........    ........    ........'',
     ''........  ..........  ..........'',
     ''........  ..........  ..........'',
     ''................................'',
     ''................................'']"

definition xpm_I :: "string list" where
  "xpm_I =
    [''32 32 2 1 '',
     ''  c #FFFFFF'',
     ''. c #000000'',
     ''................................'',
     ''................................'',
     ''................  ..............'',
     ''................  ..............'',
     ''..............    ..............'',
     ''..............    ..............'',
     ''..............    ..............'',
     ''..............    ..............'',
     ''..............    ..............'',
     ''..............    ..............'',
     ''..............    ..............'',
     ''..............    ..............'',
     ''..............    ..............'',
     ''..............    ..............'',
     ''..............    ..............'',
     ''..............    ..............'',
     ''..............    ..............'',
     ''..............    ..............'',
     ''..............    ..............'',
     ''..............    ..............'',
     ''..............    ..............'',
     ''..............    ..............'',
     ''..............    ..............'',
     ''..............    ..............'',
     ''..............    ..............'',
     ''..............    ..............'',
     ''..............    ..............'',
     ''..............    ..............'',
     ''..............  ................'',
     ''..............  ................'',
     ''................................'',
     ''................................'']"

definition xpm_J :: "string list" where
  "xpm_J =
    [''32 32 2 1 '',
     ''  c #FFFFFF'',
     ''. c #000000'',
     ''................................'',
     ''................................'',
     ''....................  ..........'',
     ''....................  ..........'',
     ''..................    ..........'',
     ''..................    ..........'',
     ''..................    ..........'',
     ''..................    ..........'',
     ''..................    ..........'',
     ''..................    ..........'',
     ''..................    ..........'',
     ''..................    ..........'',
     ''..................    ..........'',
     ''..................    ..........'',
     ''..................    ..........'',
     ''..................    ..........'',
     ''..................    ..........'',
     ''..................    ..........'',
     ''..............  ..    ..........'',
     ''..............  ..    ..........'',
     ''............  ....    ..........'',
     ''............  ....    ..........'',
     ''..........    ....    ..........'',
     ''..........    ....    ..........'',
     ''..........      ..    ..........'',
     ''..........      ..    ..........'',
     ''............        ............'',
     ''............        ............'',
     ''..............    ..............'',
     ''..............    ..............'',
     ''................................'',
     ''................................'']"

definition xpm_K :: "string list" where
  "xpm_K =
    [''32 32 2 1 '',
     ''  c #FFFFFF'',
     ''. c #000000'',
     ''................................'',
     ''................................'',
     ''..........  ........  ..........'',
     ''..........  ........  ..........'',
     ''........    ......    ..........'',
     ''........    ......    ..........'',
     ''........    ....    ............'',
     ''........    ....    ............'',
     ''........    ..    ..............'',
     ''........    ..    ..............'',
     ''........        ................'',
     ''........        ................'',
     ''........      ..................'',
     ''........      ..................'',
     ''........        ................'',
     ''........        ................'',
     ''........        ................'',
     ''........        ................'',
     ''........          ..............'',
     ''........          ..............'',
     ''........    ..    ..............'',
     ''........    ..    ..............'',
     ''........    ..      ............'',
     ''........    ..      ............'',
     ''........    ....    ..  ........'',
     ''........    ....    ..  ........'',
     ''........    ....      ..........'',
     ''........    ....      ..........'',
     ''........  ........  ............'',
     ''........  ........  ............'',
     ''................................'',
     ''................................'']"

definition xpm_L :: "string list" where
  "xpm_L =
    [''32 32 2 1 '',
     ''  c #FFFFFF'',
     ''. c #000000'',
     ''................................'',
     ''................................'',
     ''..........  ....................'',
     ''..........  ....................'',
     ''........    ....................'',
     ''........    ....................'',
     ''........    ....................'',
     ''........    ....................'',
     ''........    ....................'',
     ''........    ....................'',
     ''........    ....................'',
     ''........    ....................'',
     ''........    ....................'',
     ''........    ....................'',
     ''........    ....................'',
     ''........    ....................'',
     ''........    ....................'',
     ''........    ....................'',
     ''........    ....................'',
     ''........    ....................'',
     ''........    ....................'',
     ''........    ....................'',
     ''........    ....................'',
     ''........    ....................'',
     ''........    ..........  ........'',
     ''........    ..........  ........'',
     ''........              ..........'',
     ''........              ..........'',
     ''..........          ............'',
     ''..........          ............'',
     ''................................'',
     ''................................'']"

definition xpm_M :: "string list" where
  "xpm_M =
    [''32 32 2 1 '',
     ''  c #FFFFFF'',
     ''. c #000000'',
     ''................................'',
     ''................................'',
     ''..........  ..........  ........'',
     ''..........  ..........  ........'',
     ''........    ........    ........'',
     ''........    ........    ........'',
     ''........      ......    ........'',
     ''........      ......    ........'',
     ''........      ....      ........'',
     ''........      ....      ........'',
     ''........        ..      ........'',
     ''........        ..      ........'',
     ''........                ........'',
     ''........                ........'',
     ''........          ..    ........'',
     ''........          ..    ........'',
     ''........    ..    ..    ........'',
     ''........    ..    ..    ........'',
     ''........    ..  ....    ........'',
     ''........    ..  ....    ........'',
     ''........    ........    ........'',
     ''........    ........    ........'',
     ''........    ........    ........'',
     ''........    ........    ........'',
     ''........    ........    ........'',
     ''........    ........    ........'',
     ''........    ........    ........'',
     ''........    ........    ........'',
     ''........  ..........  ..........'',
     ''........  ..........  ..........'',
     ''................................'',
     ''................................'']"

definition xpm_N :: "string list" where
  "xpm_N =
    [''32 32 2 1 '',
     ''  c #FFFFFF'',
     ''. c #000000'',
     ''................................'',
     ''................................'',
     ''..........  ..........  ........'',
     ''..........  ..........  ........'',
     ''........    ........    ........'',
     ''........    ........    ........'',
     ''........      ......    ........'',
     ''........      ......    ........'',
     ''........      ......    ........'',
     ''........      ......    ........'',
     ''........        ....    ........'',
     ''........        ....    ........'',
     ''........        ....    ........'',
     ''........        ....    ........'',
     ''........          ..    ........'',
     ''........          ..    ........'',
     ''........    ..    ..    ........'',
     ''........    ..    ..    ........'',
     ''........    ..          ........'',
     ''........    ..          ........'',
     ''........    ....        ........'',
     ''........    ....        ........'',
     ''........    ....        ........'',
     ''........    ....        ........'',
     ''........    ......      ........'',
     ''........    ......      ........'',
     ''........    ......      ........'',
     ''........    ......      ........'',
     ''........  ..........  ..........'',
     ''........  ..........  ..........'',
     ''................................'',
     ''................................'']"

definition xpm_O :: "string list" where
  "xpm_O =
    [''32 32 2 1 '',
     ''  c #FFFFFF'',
     ''. c #000000'',
     ''................................'',
     ''................................'',
     ''..............    ..............'',
     ''..............    ..............'',
     ''............        ............'',
     ''............        ............'',
     ''..........    ..      ..........'',
     ''..........    ..      ..........'',
     ''........    ......      ........'',
     ''........    ......      ........'',
     ''........    ........    ........'',
     ''........    ........    ........'',
     ''........    ........    ........'',
     ''........    ........    ........'',
     ''........    ........    ........'',
     ''........    ........    ........'',
     ''........    ........    ........'',
     ''........    ........    ........'',
     ''........    ........    ........'',
     ''........    ........    ........'',
     ''........    ........    ........'',
     ''........    ........    ........'',
     ''........      ......    ........'',
     ''........      ......    ........'',
     ''..........      ..    ..........'',
     ''..........      ..    ..........'',
     ''............        ............'',
     ''............        ............'',
     ''..............    ..............'',
     ''..............    ..............'',
     ''................................'',
     ''................................'']"

definition xpm_P :: "string list" where
  "xpm_P =
    [''32 32 2 1 '',
     ''  c #FFFFFF'',
     ''. c #000000'',
     ''................................'',
     ''................................'',
     ''............        ............'',
     ''............        ............'',
     ''..........            ..........'',
     ''..........            ..........'',
     ''........    ....        ........'',
     ''........    ....        ........'',
     ''........    ......      ........'',
     ''........    ......      ........'',
     ''........    ........    ........'',
     ''........    ........    ........'',
     ''........    ......    ..........'',
     ''........    ......    ..........'',
     ''........            ............'',
     ''........            ............'',
     ''........          ..............'',
     ''........          ..............'',
     ''........    ....................'',
     ''........    ....................'',
     ''........    ....................'',
     ''........    ....................'',
     ''........    ....................'',
     ''........    ....................'',
     ''........      ..................'',
     ''........      ..................'',
     ''........    ....................'',
     ''........    ....................'',
     ''........  ......................'',
     ''........  ......................'',
     ''................................'',
     ''................................'']"

definition xpm_Q :: "string list" where
  "xpm_Q =
    [''32 32 2 1 '',
     ''  c #FFFFFF'',
     ''. c #000000'',
     ''................................'',
     ''................................'',
     ''..............    ..............'',
     ''..............    ..............'',
     ''............        ............'',
     ''............        ............'',
     ''..........    ..      ..........'',
     ''..........    ..      ..........'',
     ''........    ......      ........'',
     ''........    ......      ........'',
     ''........    ........    ........'',
     ''........    ........    ........'',
     ''........    ........    ........'',
     ''........    ........    ........'',
     ''........    ........    ........'',
     ''........    ........    ........'',
     ''........    ....  ..    ........'',
     ''........    ....  ..    ........'',
     ''........    ..  ....    ........'',
     ''........    ..  ....    ........'',
     ''........    ..    ..    ........'',
     ''........    ..    ..    ........'',
     ''........      ..        ........'',
     ''........      ..        ........'',
     ''..........      ..    ..........'',
     ''..........      ..    ..........'',
     ''............            ........'',
     ''............            ........'',
     ''..............    ....  ........'',
     ''..............    ....  ........'',
     ''................................'',
     ''................................'']"

definition xpm_R :: "string list" where
  "xpm_R =
    [''32 32 2 1 '',
     ''  c #FFFFFF'',
     ''. c #000000'',
     ''................................'',
     ''................................'',
     ''..........          ............'',
     ''..........          ............'',
     ''........              ..........'',
     ''........              ..........'',
     ''........    ....        ........'',
     ''........    ....        ........'',
     ''........    ......      ........'',
     ''........    ......      ........'',
     ''........    ........    ........'',
     ''........    ........    ........'',
     ''........    ......    ..........'',
     ''........    ......    ..........'',
     ''........            ............'',
     ''........            ............'',
     ''........        ................'',
     ''........        ................'',
     ''........          ..............'',
     ''........          ..............'',
     ''........    ..    ..............'',
     ''........    ..    ..............'',
     ''........    ..      ............'',
     ''........    ..      ............'',
     ''........    ....    ..  ........'',
     ''........    ....    ..  ........'',
     ''........    ....      ..........'',
     ''........    ....      ..........'',
     ''........  ........  ............'',
     ''........  ........  ............'',
     ''................................'',
     ''................................'']"

definition xpm_S :: "string list" where
  "xpm_S =
    [''32 32 2 1 '',
     ''  c #FFFFFF'',
     ''. c #000000'',
     ''................................'',
     ''................................'',
     ''..............    ..............'',
     ''..............    ..............'',
     ''............        ............'',
     ''............        ............'',
     ''..........    ..      ..........'',
     ''..........    ..      ..........'',
     ''........      ....      ........'',
     ''........      ....      ........'',
     ''..........      ....  ..........'',
     ''..........      ....  ..........'',
     ''............      ..............'',
     ''............      ..............'',
     ''..............      ............'',
     ''..............      ............'',
     ''..........  ....      ..........'',
     ''..........  ....      ..........'',
     ''........  ........      ........'',
     ''........  ........      ........'',
     ''........    ........    ........'',
     ''........    ........    ........'',
     ''........      ......    ........'',
     ''........      ......    ........'',
     ''..........      ..    ..........'',
     ''..........      ..    ..........'',
     ''............        ............'',
     ''............        ............'',
     ''..............    ..............'',
     ''..............    ..............'',
     ''................................'',
     ''................................'']"

definition xpm_T :: "string list" where
  "xpm_T =
    [''32 32 2 1 '',
     ''  c #FFFFFF'',
     ''. c #000000'',
     ''................................'',
     ''................................'',
     ''..........              ........'',
     ''..........              ........'',
     ''........              ..........'',
     ''........              ..........'',
     ''..............    ..............'',
     ''..............    ..............'',
     ''..............    ..............'',
     ''..............    ..............'',
     ''..............    ..............'',
     ''..............    ..............'',
     ''..............    ..............'',
     ''..............    ..............'',
     ''..............    ..............'',
     ''..............    ..............'',
     ''..............    ..............'',
     ''..............    ..............'',
     ''..............    ..............'',
     ''..............    ..............'',
     ''..............    ..............'',
     ''..............    ..............'',
     ''..............    ..............'',
     ''..............    ..............'',
     ''..............      ............'',
     ''..............      ............'',
     ''..............    ..............'',
     ''..............    ..............'',
     ''..............  ................'',
     ''..............  ................'',
     ''................................'',
     ''................................'']"

definition xpm_U :: "string list" where
  "xpm_U =
    [''32 32 2 1 '',
     ''  c #FFFFFF'',
     ''. c #000000'',
     ''................................'',
     ''................................'',
     ''..........  ..........  ........'',
     ''..........  ..........  ........'',
     ''........    ........    ........'',
     ''........    ........    ........'',
     ''........    ........    ........'',
     ''........    ........    ........'',
     ''........    ........    ........'',
     ''........    ........    ........'',
     ''........    ........    ........'',
     ''........    ........    ........'',
     ''........    ........    ........'',
     ''........    ........    ........'',
     ''........    ........    ........'',
     ''........    ........    ........'',
     ''........    ........    ........'',
     ''........    ........    ........'',
     ''........    ........    ........'',
     ''........    ........    ........'',
     ''........    ........    ........'',
     ''........    ........    ........'',
     ''........    ........    ........'',
     ''........    ........    ........'',
     ''........      ....    ..........'',
     ''........      ....    ..........'',
     ''..........          ............'',
     ''..........          ............'',
     ''............      ..............'',
     ''............      ..............'',
     ''................................'',
     ''................................'']"

definition xpm_V :: "string list" where
  "xpm_V =
    [''32 32 2 1 '',
     ''  c #FFFFFF'',
     ''. c #000000'',
     ''................................'',
     ''................................'',
     ''..........  ..........  ........'',
     ''..........  ..........  ........'',
     ''........    ........    ........'',
     ''........    ........    ........'',
     ''........    ........    ........'',
     ''........    ........    ........'',
     ''........      ......  ..........'',
     ''........      ......  ..........'',
     ''..........    ....    ..........'',
     ''..........    ....    ..........'',
     ''..........    ....    ..........'',
     ''..........    ....    ..........'',
     ''..........    ....    ..........'',
     ''..........    ....    ..........'',
     ''..........      ..  ............'',
     ''..........      ..  ............'',
     ''............        ............'',
     ''............        ............'',
     ''............        ............'',
     ''............        ............'',
     ''............        ............'',
     ''............        ............'',
     ''............      ..............'',
     ''............      ..............'',
     ''..............    ..............'',
     ''..............    ..............'',
     ''..............  ................'',
     ''..............  ................'',
     ''................................'',
     ''................................'']"

definition xpm_W :: "string list" where
  "xpm_W =
    [''32 32 2 1 '',
     ''  c #FFFFFF'',
     ''. c #000000'',
     ''................................'',
     ''................................'',
     ''..........  ....  ....  ........'',
     ''..........  ....  ....  ........'',
     ''........    ..    ..    ........'',
     ''........    ..    ..    ........'',
     ''........    ..    ..    ........'',
     ''........    ..    ..    ........'',
     ''........    ..    ..    ........'',
     ''........    ..    ..    ........'',
     ''........    ..    ..    ........'',
     ''........    ..    ..    ........'',
     ''........    ..    ..    ........'',
     ''........    ..    ..    ........'',
     ''........    ..    ..    ........'',
     ''........    ..    ..    ........'',
     ''........    ..    ..    ........'',
     ''........    ..    ..    ........'',
     ''........    ..    ..    ........'',
     ''........    ..    ..    ........'',
     ''........    ..    ..    ........'',
     ''........    ..    ..    ........'',
     ''........              ..........'',
     ''........              ..........'',
     ''........              ..........'',
     ''........              ..........'',
     ''..........    ..    ............'',
     ''..........    ..    ............'',
     ''............  ....  ............'',
     ''............  ....  ............'',
     ''................................'',
     ''................................'']"

definition xpm_X :: "string list" where
  "xpm_X =
    [''32 32 2 1 '',
     ''  c #FFFFFF'',
     ''. c #000000'',
     ''................................'',
     ''................................'',
     ''..........  ..........  ........'',
     ''..........  ..........  ........'',
     ''........    ........    ........'',
     ''........    ........    ........'',
     ''........      ......  ..........'',
     ''........      ......  ..........'',
     ''..........    ....    ..........'',
     ''..........    ....    ..........'',
     ''..........      ..  ............'',
     ''..........      ..  ............'',
     ''............        ............'',
     ''............        ............'',
     ''............      ..............'',
     ''............      ..............'',
     ''..............    ..............'',
     ''..............    ..............'',
     ''..............      ............'',
     ''..............      ............'',
     ''............        ............'',
     ''............        ............'',
     ''............  ..      ..........'',
     ''............  ..      ..........'',
     ''..........    ....    ..........'',
     ''..........    ....    ..........'',
     ''..........  ......      ........'',
     ''..........  ......      ........'',
     ''........  ..........  ..........'',
     ''........  ..........  ..........'',
     ''................................'',
     ''................................'']"

definition xpm_Y :: "string list" where
  "xpm_Y =
    [''32 32 2 1 '',
     ''  c #FFFFFF'',
     ''. c #000000'',
     ''................................'',
     ''................................'',
     ''..........  ..........  ........'',
     ''..........  ..........  ........'',
     ''........    ........    ........'',
     ''........    ........    ........'',
     ''........      ......  ..........'',
     ''........      ......  ..........'',
     ''..........    ....    ..........'',
     ''..........    ....    ..........'',
     ''..........      ..  ............'',
     ''..........      ..  ............'',
     ''............        ............'',
     ''............        ............'',
     ''............      ..............'',
     ''............      ..............'',
     ''..............    ..............'',
     ''..............    ..............'',
     ''..............    ..............'',
     ''..............    ..............'',
     ''..............    ..............'',
     ''..............    ..............'',
     ''..............    ..............'',
     ''..............    ..............'',
     ''..............      ............'',
     ''..............      ............'',
     ''..............    ..............'',
     ''..............    ..............'',
     ''..............  ................'',
     ''..............  ................'',
     ''................................'',
     ''................................'']"

definition xpm_Z :: "string list" where
  "xpm_Z =
    [''32 32 2 1 '',
     ''  c #FFFFFF'',
     ''. c #000000'',
     ''................................'',
     ''................................'',
     ''..........              ........'',
     ''..........              ........'',
     ''........              ..........'',
     ''........              ..........'',
     ''..................    ..........'',
     ''..................    ..........'',
     ''..................    ..........'',
     ''..................    ..........'',
     ''................    ............'',
     ''................    ............'',
     ''................    ............'',
     ''................    ............'',
     ''..............    ..............'',
     ''..............    ..............'',
     ''..............    ..............'',
     ''..............    ..............'',
     ''............    ................'',
     ''............    ................'',
     ''............    ................'',
     ''............    ................'',
     ''..........    ..................'',
     ''..........    ..................'',
     ''..........    ..................'',
     ''..........    ..................'',
     ''........                ........'',
     ''........                ........'',
     ''..........            ..........'',
     ''..........            ..........'',
     ''................................'',
     ''................................'']"

definition xpm_dash :: "string list" where
  "xpm_dash =
    [''32 32 2 1 '',
     ''  c #FFFFFF'',
     ''. c #000000'',
     ''................................'',
     ''................................'',
     ''................................'',
     ''................................'',
     ''................................'',
     ''................................'',
     ''................................'',
     ''................................'',
     ''................................'',
     ''................................'',
     ''................................'',
     ''................................'',
     ''................................'',
     ''................................'',
     ''..........              ........'',
     ''..........              ........'',
     ''........              ..........'',
     ''........              ..........'',
     ''................................'',
     ''................................'',
     ''................................'',
     ''................................'',
     ''................................'',
     ''................................'',
     ''................................'',
     ''................................'',
     ''................................'',
     ''................................'',
     ''................................'',
     ''................................'',
     ''................................'',
     ''................................'']"

definition xpm_slash :: "string list" where
  "xpm_slash =
    [''32 32 2 1 '',
     ''  c #FFFFFF'',
     ''. c #000000'',
     ''................................'',
     ''................................'',
     ''....................    ........'',
     ''....................    ........'',
     ''..................      ........'',
     ''..................      ........'',
     ''................      ..........'',
     ''................      ..........'',
     ''..................    ..........'',
     ''..................    ..........'',
     ''................    ............'',
     ''................    ............'',
     ''................    ............'',
     ''................    ............'',
     ''..............    ..............'',
     ''..............    ..............'',
     ''..............    ..............'',
     ''..............    ..............'',
     ''............    ................'',
     ''............    ................'',
     ''............    ................'',
     ''............    ................'',
     ''..........    ..................'',
     ''..........    ..................'',
     ''..........      ................'',
     ''..........      ................'',
     ''........      ..................'',
     ''........      ..................'',
     ''........    ....................'',
     ''........    ....................'',
     ''................................'',
     ''................................'']"

definition xpm_0 :: "string list" where
  "xpm_0 =
    [''32 32 2 1 '',
     ''  c #FFFFFF'',
     ''. c #000000'',
     ''................................'',
     ''................................'',
     ''..............    ..............'',
     ''..............    ..............'',
     ''............        ............'',
     ''............        ............'',
     ''..........  ....      ..........'',
     ''..........  ....      ..........'',
     ''........  ........      ........'',
     ''........  ........      ........'',
     ''........  ......  ..    ........'',
     ''........  ......  ..    ........'',
     ''........  ....    ....  ........'',
     ''........  ....    ....  ........'',
     ''........  ....    ....  ........'',
     ''........  ....    ....  ........'',
     ''........  ....    ....  ........'',
     ''........  ....    ....  ........'',
     ''........  ....    ....  ........'',
     ''........  ....    ....  ........'',
     ''........    ..  ......  ........'',
     ''........    ..  ......  ........'',
     ''........      ........  ........'',
     ''........      ........  ........'',
     ''..........      ....  ..........'',
     ''..........      ....  ..........'',
     ''............        ............'',
     ''............        ............'',
     ''..............    ..............'',
     ''..............    ..............'',
     ''................................'',
     ''................................'']"

definition xpm_1 :: "string list" where
  "xpm_1 =
    [''32 32 2 1 '',
     ''  c #FFFFFF'',
     ''. c #000000'',
     ''................................'',
     ''................................'',
     ''................  ..............'',
     ''................  ..............'',
     ''..............    ..............'',
     ''..............    ..............'',
     ''............      ..............'',
     ''............      ..............'',
     ''..........        ..............'',
     ''..........        ..............'',
     ''..........  ..    ..............'',
     ''..........  ..    ..............'',
     ''..............    ..............'',
     ''..............    ..............'',
     ''..............    ..............'',
     ''..............    ..............'',
     ''..............    ..............'',
     ''..............    ..............'',
     ''..............    ..............'',
     ''..............    ..............'',
     ''..............    ..  ..........'',
     ''..............    ..  ..........'',
     ''..............        ..........'',
     ''..............        ..........'',
     ''..............      ............'',
     ''..............      ............'',
     ''..............    ..............'',
     ''..............    ..............'',
     ''..............  ................'',
     ''..............  ................'',
     ''................................'',
     ''................................'']"

definition xpm_2 :: "string list" where
  "xpm_2 =
    [''32 32 2 1 '',
     ''  c #FFFFFF'',
     ''. c #000000'',
     ''................................'',
     ''................................'',
     ''..............      ............'',
     ''..............      ............'',
     ''............          ..........'',
     ''............          ..........'',
     ''..........  ....        ........'',
     ''..........  ....        ........'',
     ''........  ........      ........'',
     ''........  ........      ........'',
     ''........    ........    ........'',
     ''........    ........    ........'',
     ''..........    ......    ........'',
     ''..........    ......    ........'',
     ''..................    ..........'',
     ''..................    ..........'',
     ''................    ............'',
     ''................    ............'',
     ''..............    ..............'',
     ''..............    ..............'',
     ''............    ................'',
     ''............    ................'',
     ''..........    ..................'',
     ''..........    ..................'',
     ''........    ........    ........'',
     ''........    ........    ........'',
     ''........              ..........'',
     ''........              ..........'',
     ''..........          ............'',
     ''..........          ............'',
     ''................................'',
     ''................................'']"

definition xpm_3 :: "string list" where
  "xpm_3 =
    [''32 32 2 1 '',
     ''  c #FFFFFF'',
     ''. c #000000'',
     ''................................'',
     ''................................'',
     ''..............      ............'',
     ''..............      ............'',
     ''............          ..........'',
     ''............          ..........'',
     ''..........  ....        ........'',
     ''..........  ....        ........'',
     ''........  ........      ........'',
     ''........  ........      ........'',
     ''..................      ........'',
     ''..................      ........'',
     ''................        ........'',
     ''................        ........'',
     ''..............      ............'',
     ''..............      ............'',
     ''..........            ..........'',
     ''..........            ..........'',
     ''................        ........'',
     ''................        ........'',
     ''..................      ........'',
     ''..................      ........'',
     ''..................      ........'',
     ''..................      ........'',
     ''................        ........'',
     ''................        ........'',
     ''........  ....      ............'',
     ''........  ....      ............'',
     ''..........        ..............'',
     ''..........        ..............'',
     ''................................'',
     ''................................'']"

definition xpm_4 :: "string list" where
  "xpm_4 =
    [''32 32 2 1 '',
     ''  c #FFFFFF'',
     ''. c #000000'',
     ''................................'',
     ''................................'',
     ''..................  ............'',
     ''..................  ............'',
     ''................    ............'',
     ''................    ............'',
     ''..............      ............'',
     ''..............      ............'',
     ''............  ..    ............'',
     ''............  ..    ............'',
     ''..........  ....    ............'',
     ''..........  ....    ............'',
     ''..........  ....    ............'',
     ''..........  ....    ............'',
     ''........  ......        ........'',
     ''........  ......        ........'',
     ''........              ..........'',
     ''........              ..........'',
     ''........      ..    ............'',
     ''........      ..    ............'',
     ''................    ..  ........'',
     ''................    ..  ........'',
     ''................        ........'',
     ''................        ........'',
     ''................      ..........'',
     ''................      ..........'',
     ''................    ............'',
     ''................    ............'',
     ''................  ..............'',
     ''................  ..............'',
     ''................................'',
     ''................................'']"

definition xpm_5 :: "string list" where
  "xpm_5 =
    [''32 32 2 1 '',
     ''  c #FFFFFF'',
     ''. c #000000'',
     ''................................'',
     ''................................'',
     ''..................      ........'',
     ''..................      ........'',
     ''..........            ..........'',
     ''..........            ..........'',
     ''........      ..................'',
     ''........      ..................'',
     ''........    ....................'',
     ''........    ....................'',
     ''........    ....................'',
     ''........    ....................'',
     ''........    ..      ............'',
     ''........    ..      ............'',
     ''........      ..      ..........'',
     ''........      ..      ..........'',
     ''..........  ......      ........'',
     ''..........  ......      ........'',
     ''....................    ........'',
     ''....................    ........'',
     ''............  ......    ........'',
     ''............  ......    ........'',
     ''..........  ........    ........'',
     ''..........  ........    ........'',
     ''........      ....    ..........'',
     ''........      ....    ..........'',
     ''..........          ............'',
     ''..........          ............'',
     ''............      ..............'',
     ''............      ..............'',
     ''................................'',
     ''................................'']"

definition xpm_6 :: "string list" where
  "xpm_6 =
    [''32 32 2 1 '',
     ''  c #FFFFFF'',
     ''. c #000000'',
     ''................................'',
     ''................................'',
     ''..............    ..............'',
     ''..............    ..............'',
     ''............        ............'',
     ''............        ............'',
     ''..........    ..      ..........'',
     ''..........    ..      ..........'',
     ''........    ......      ........'',
     ''........    ......      ........'',
     ''........  ..........    ........'',
     ''........  ..........    ........'',
     ''........  ....    ..............'',
     ''........  ....    ..............'',
     ''........  ..        ............'',
     ''........  ..        ............'',
     ''........    ....      ..........'',
     ''........    ....      ..........'',
     ''........  ........      ........'',
     ''........  ........      ........'',
     ''........    ........    ........'',
     ''........    ........    ........'',
     ''........      ......    ........'',
     ''........      ......    ........'',
     ''..........      ....  ..........'',
     ''..........      ....  ..........'',
     ''............        ............'',
     ''............        ............'',
     ''..............    ..............'',
     ''..............    ..............'',
     ''................................'',
     ''................................'']"

definition xpm_7 :: "string list" where
  "xpm_7 =
    [''32 32 2 1 '',
     ''  c #FFFFFF'',
     ''. c #000000'',
     ''................................'',
     ''................................'',
     ''..............          ........'',
     ''..............          ........'',
     ''..........              ........'',
     ''..........              ........'',
     ''........      ......    ........'',
     ''........      ......    ........'',
     ''..................    ..........'',
     ''..................    ..........'',
     ''................    ............'',
     ''................    ............'',
     ''................    ............'',
     ''................    ............'',
     ''..............          ........'',
     ''..............          ........'',
     ''........          ..............'',
     ''........          ..............'',
     ''............    ................'',
     ''............    ................'',
     ''............    ................'',
     ''............    ................'',
     ''..........    ..................'',
     ''..........    ..................'',
     ''..........    ..  ..............'',
     ''..........    ..  ..............'',
     ''..........      ................'',
     ''..........      ................'',
     ''..........    ..................'',
     ''..........    ..................'',
     ''................................'',
     ''................................'']"

definition xpm_8 :: "string list" where
  "xpm_8 =
    [''32 32 2 1 '',
     ''  c #FFFFFF'',
     ''. c #000000'',
     ''................................'',
     ''................................'',
     ''..............    ..............'',
     ''..............    ..............'',
     ''............        ............'',
     ''............        ............'',
     ''..........    ..      ..........'',
     ''..........    ..      ..........'',
     ''........      ....      ........'',
     ''........      ....      ........'',
     ''..........      ..    ..........'',
     ''..........      ..    ..........'',
     ''............        ............'',
     ''............        ............'',
     ''............        ............'',
     ''............        ............'',
     ''..........  ....      ..........'',
     ''..........  ....      ..........'',
     ''........  ........      ........'',
     ''........  ........      ........'',
     ''........    ........    ........'',
     ''........    ........    ........'',
     ''........      ......    ........'',
     ''........      ......    ........'',
     ''..........      ....  ..........'',
     ''..........      ....  ..........'',
     ''............        ............'',
     ''............        ............'',
     ''..............    ..............'',
     ''..............    ..............'',
     ''................................'',
     ''................................'']"

definition xpm_9 :: "string list" where
  "xpm_9 =
    [''32 32 2 1 '',
     ''  c #FFFFFF'',
     ''. c #000000'',
     ''................................'',
     ''................................'',
     ''..............    ..............'',
     ''..............    ..............'',
     ''............        ............'',
     ''............        ............'',
     ''..........  ....      ..........'',
     ''..........  ....      ..........'',
     ''........    ......      ........'',
     ''........    ......      ........'',
     ''........    ........    ........'',
     ''........    ........    ........'',
     ''........      ........  ........'',
     ''........      ........  ........'',
     ''..........      ....    ........'',
     ''..........      ....    ........'',
     ''............        ..  ........'',
     ''............        ..  ........'',
     ''..............    ....  ........'',
     ''..............    ....  ........'',
     ''........    ..........  ........'',
     ''........    ..........  ........'',
     ''........      ......    ........'',
     ''........      ......    ........'',
     ''..........      ..    ..........'',
     ''..........      ..    ..........'',
     ''............        ............'',
     ''............        ............'',
     ''..............    ..............'',
     ''..............    ..............'',
     ''................................'',
     ''................................'']"

definition xpm_two_points :: "string list" where
  "xpm_two_points =
    [''16 16 2 1 '',
     ''  c #FFFFFF'',
     ''. c #000000'',
     ''................'',
     ''.......     ....'',
     ''.......     ....'',
     ''.......    .....'',
     ''................'',
     ''................'',
     ''................'',
     ''................'',
     ''................'',
     ''................'',
     ''................'',
     ''................'',
     ''.....     ......'',
     ''....      ......'',
     ''....     .......'',
     ''................'']"


section \<open>Every image is well formed\<close>

lemma xpm_A_wf: "xpm_wf 32 32 xpm_A"
  by code_simp

lemma xpm_B_wf: "xpm_wf 32 32 xpm_B"
  by code_simp

lemma xpm_C_wf: "xpm_wf 32 32 xpm_C"
  by code_simp

lemma xpm_D_wf: "xpm_wf 32 32 xpm_D"
  by code_simp

lemma xpm_E_wf: "xpm_wf 32 32 xpm_E"
  by code_simp

lemma xpm_F_wf: "xpm_wf 32 32 xpm_F"
  by code_simp

lemma xpm_G_wf: "xpm_wf 32 32 xpm_G"
  by code_simp

lemma xpm_H_wf: "xpm_wf 32 32 xpm_H"
  by code_simp

lemma xpm_I_wf: "xpm_wf 32 32 xpm_I"
  by code_simp

lemma xpm_J_wf: "xpm_wf 32 32 xpm_J"
  by code_simp

lemma xpm_K_wf: "xpm_wf 32 32 xpm_K"
  by code_simp

lemma xpm_L_wf: "xpm_wf 32 32 xpm_L"
  by code_simp

lemma xpm_M_wf: "xpm_wf 32 32 xpm_M"
  by code_simp

lemma xpm_N_wf: "xpm_wf 32 32 xpm_N"
  by code_simp

lemma xpm_O_wf: "xpm_wf 32 32 xpm_O"
  by code_simp

lemma xpm_P_wf: "xpm_wf 32 32 xpm_P"
  by code_simp

lemma xpm_Q_wf: "xpm_wf 32 32 xpm_Q"
  by code_simp

lemma xpm_R_wf: "xpm_wf 32 32 xpm_R"
  by code_simp

lemma xpm_S_wf: "xpm_wf 32 32 xpm_S"
  by code_simp

lemma xpm_T_wf: "xpm_wf 32 32 xpm_T"
  by code_simp

lemma xpm_U_wf: "xpm_wf 32 32 xpm_U"
  by code_simp

lemma xpm_V_wf: "xpm_wf 32 32 xpm_V"
  by code_simp

lemma xpm_W_wf: "xpm_wf 32 32 xpm_W"
  by code_simp

lemma xpm_X_wf: "xpm_wf 32 32 xpm_X"
  by code_simp

lemma xpm_Y_wf: "xpm_wf 32 32 xpm_Y"
  by code_simp

lemma xpm_Z_wf: "xpm_wf 32 32 xpm_Z"
  by code_simp

lemma xpm_dash_wf: "xpm_wf 32 32 xpm_dash"
  by code_simp

lemma xpm_slash_wf: "xpm_wf 32 32 xpm_slash"
  by code_simp

lemma xpm_0_wf: "xpm_wf 32 32 xpm_0"
  by code_simp

lemma xpm_1_wf: "xpm_wf 32 32 xpm_1"
  by code_simp

lemma xpm_2_wf: "xpm_wf 32 32 xpm_2"
  by code_simp

lemma xpm_3_wf: "xpm_wf 32 32 xpm_3"
  by code_simp

lemma xpm_4_wf: "xpm_wf 32 32 xpm_4"
  by code_simp

lemma xpm_5_wf: "xpm_wf 32 32 xpm_5"
  by code_simp

lemma xpm_6_wf: "xpm_wf 32 32 xpm_6"
  by code_simp

lemma xpm_7_wf: "xpm_wf 32 32 xpm_7"
  by code_simp

lemma xpm_8_wf: "xpm_wf 32 32 xpm_8"
  by code_simp

lemma xpm_9_wf: "xpm_wf 32 32 xpm_9"
  by code_simp

lemma xpm_two_points_wf: "xpm_wf 16 16 xpm_two_points"
  by code_simp

lemmas glyph_images_wf =
  xpm_A_wf xpm_B_wf xpm_C_wf xpm_D_wf xpm_E_wf xpm_F_wf
  xpm_G_wf xpm_H_wf xpm_I_wf xpm_J_wf xpm_K_wf xpm_L_wf
  xpm_M_wf xpm_N_wf xpm_O_wf xpm_P_wf xpm_Q_wf xpm_R_wf
  xpm_S_wf xpm_T_wf xpm_U_wf xpm_V_wf xpm_W_wf xpm_X_wf
  xpm_Y_wf xpm_Z_wf xpm_dash_wf xpm_slash_wf xpm_0_wf xpm_1_wf
  xpm_2_wf xpm_3_wf xpm_4_wf xpm_5_wf xpm_6_wf xpm_7_wf
  xpm_8_wf xpm_9_wf xpm_two_points_wf

end
