(* ===== verification/Pictures.thy ===== *)
theory Pictures
  imports Xpm
begin

text \<open>
  \<^verbatim>\<open>sprites/crosshair.h\<close> and \<^verbatim>\<open>sprites/alien.h\<close>: the images of the crosshair and of the
  aliens, string for string, and the check that each is a complete image.
\<close>

section \<open>Images\<close>

definition xpm_crosshair :: "string list" where
  "xpm_crosshair =
    [''64 64 8 1 '',
     ''  c #0C2251'',
     ''. c #113077'',
     ''X c #497DFF'',
     ''o c #7CA1FF'',
     ''O c #9BB6FF'',
     ''+ c #B5CAFF'',
     ''@ c #D1DDFF'',
     ''# c #000000'',
     ''################################################################'',
     ''################################################################'',
     ''################################################################'',
     ''################################################################'',
     ''############################  ####  ############################'',
     ''############################  ####  ############################'',
     ''############################  ####  ############################'',
     ''############################  ####  ############################'',
     ''############################..####..############################'',
     ''############################..####..############################'',
     ''############################..####..############################'',
     ''############################..####..############################'',
     ''############################XX####XX############################'',
     ''############################XX####XX############################'',
     ''############################XX####XX############################'',
     ''############################XX####XX############################'',
     ''################oo##########oo####oo##########oo################'',
     ''################oo##########oo####oo##########oo################'',
     ''########################..XXoo####ooXX..########################'',
     ''########################..XXoo####ooXX..########################'',
     ''####################OO  ####oo####oo####  OO####################'',
     ''####################OO  ####oo####oo####  OO####################'',
     ''####################  ######++####++######  ####################'',
     ''####################  ######++####++######  ####################'',
     ''##################..######++########++######..##################'',
     ''##################..######++########++######..##################'',
     ''##################XX####++@@########@@++####XX##################'',
     ''##################XX####++@@########@@++####XX##################'',
     ''####    ....XXXXoooooo++####@@####@@####++ooooooXXXX....    ####'',
     ''####    ....XXXXoooooo++####@@####@@####++ooooooXXXX....    ####'',
     ''################################################################'',
     ''################################################################'',
     ''################################################################'',
     ''################################################################'',
     ''####    ....XXXXoooooo++####@@####@@####++ooooooXXXX....    ####'',
     ''####    ....XXXXoooooo++####@@####@@####++ooooooXXXX....    ####'',
     ''##################XX####++@@########@@++####XX##################'',
     ''##################XX####++@@########@@++####XX##################'',
     ''##################..######++########++######..##################'',
     ''##################..######++########++######..##################'',
     ''####################  ######++####++######  ####################'',
     ''####################  ######++####++######  ####################'',
     ''####################OO  ####oo####oo####  OO####################'',
     ''####################OO  ####oo####oo####  OO####################'',
     ''########################..XXoo####ooXX..########################'',
     ''########################..XXoo####ooXX..########################'',
     ''################oo##########oo####oo##########oo################'',
     ''################oo##########oo####oo##########oo################'',
     ''############################XX####XX############################'',
     ''############################XX####XX############################'',
     ''############################XX####XX############################'',
     ''############################XX####XX############################'',
     ''############################..####..############################'',
     ''############################..####..############################'',
     ''############################..####..############################'',
     ''############################..####..############################'',
     ''############################  ####  ############################'',
     ''############################  ####  ############################'',
     ''############################  ####  ############################'',
     ''############################  ####  ############################'',
     ''################################################################'',
     ''################################################################'',
     ''################################################################'',
     ''################################################################'']"

definition xpm_alien_appearing :: "string list" where
  "xpm_alien_appearing =
    [''64 64 15 1 '',
     ''  c #000000'',
     ''. c #210909'',
     ''X c #350F0F'',
     ''o c #491515'',
     ''O c #561919'',
     ''+ c #601B1B'',
     ''@ c #601C1C'',
     ''# c #7F2424'',
     ''$ c #FF0010'',
     ''% c #DB575C'',
     ''& c #FF4747'',
     ''* c #FF6868'',
     ''= c #E07D7F'',
     ''- c #FFBABC'',
     ''; c #000000'',
     '';;;;;;;;;;;;;;;;;;;;;;;;;;;;;;;;;;;;;;;;;;;;;;;;;;;;;;;;;;;;;;;;'',
     '';;;;;;;;;;;;;;;;;;;;;;;;;;;;;;;;;;;;;;;;;;;;;;;;;;;;;;;;;;;;;;;;'',
     '';;;;;;;;;;;;;;;;;;;;;;;;;;;;;;;;;;;;;;;;;;;;;;;;;;;;;;;;;;;;;;;;'',
     '';;;;;;;;;;;;;;;;;;;;;;;;;;;;;;;;;;;;;;;;;;;;;;;;;;;;;;;;;;;;;;;;'',
     '';;;;;;;;--;;;;;;;;;;;;;;;;;;;;;;;;;;;;;;;;;;;;;;;;;;;;;;;;;;;;;;'',
     '';;;;;;;;--;;;;;;;;;;;;;;;;;;;;;;;;;;;;;;;;;;;;;;;;;;;;;;;;;;;;;;'',
     '';;;;;;--==----;;;;;;;;;;;;--;;;;;;;;;;;;;;;;;;;;;;;;;;;;;;;;;;;;'',
     '';;;;;;--==----;;;;;;;;;;;;--;;;;;;;;;;;;;;;;;;;;;;;;;;;;;;;;;;;;'',
     '';;;;==;;;;%%##--;;;;;;----##--;;;;;;;;;;;;;;;;;;;;;;;;;;;;;;;;;;'',
     '';;;;==;;;;%%##--;;;;;;----##--;;;;;;;;;;;;;;;;;;;;;;;;;;;;;;;;;;'',
     '';;;;;;;;;;%%##--;;;;--;;;;%%##----;;;;;;;;;;--------;;;;;;;;;;;;'',
     '';;;;;;;;;;%%##--;;;;--;;;;%%##----;;;;;;;;;;--------;;;;;;;;;;;;'',
     '';;;;;;;;;;;;==--;;;;;;;;;;;;%%##--;;;;;;;;--########--;;;;;;;;;;'',
     '';;;;;;;;;;;;==--;;;;;;;;;;;;%%##--;;;;;;;;--########--;;;;;;;;;;'',
     '';;;;;;;;;;;;====;;;;;;;;;;;;%%++==;;;;;;;;==++++%%##--;;;;;;;;;;'',
     '';;;;;;;;;;;;====;;;;;;;;;;;;%%++==;;;;;;;;==++++%%##--;;;;;;;;;;'',
     '';;;;;;;;;;;;====;;;;;;;;;;==++++==;;;;;;==++++%%;;%%==;;;;;;;;;;'',
     '';;;;;;;;;;;;====;;;;;;;;;;==++++==;;;;;;==++++%%;;%%==;;;;;;;;;;'',
     '';;;;;;;;;;====##==;;;;;;--##++++##--;;--##++##%%;;%%##--;;;;;;;;'',
     '';;;;;;;;;;====##==;;;;;;--##++++##--;;--##++##%%;;%%##--;;;;;;;;'',
     '';;;;;;;;;;%%++++##====..==##++++++==..==++++==;;;;;;==++--;;;;;;'',
     '';;;;;;;;;;%%++++##====..==##++++++==..==++++==;;;;;;==++--;;;;;;'',
     '';;;;;;;;;;%%++++++##==XX==++++++++==XX==++++==;;;;;;;;====--;;;;'',
     '';;;;;;;;;;%%++++++##==XX==++++++++==XX==++++==;;;;;;;;====--;;;;'',
     '';;;;;;;;;;%%++++++++==OO====++++++%%OO%%++++==....;;;;;;;;==;;;;'',
     '';;;;;;;;;;%%++++++++==OO====++++++%%OO%%++++==....;;;;;;;;==;;;;'',
     '';;;;;;;;;;%%%%==++++==  &&%%%%%%%%oooo%%%%%%++====....;;;;;;==;;'',
     '';;;;;;;;;;%%%%==++++==  &&%%%%%%%%oooo%%%%%%++====....;;;;;;==;;'',
     '';;;;;;....XXOO%%%%====  $$$$oooo@@@@@@oo%%%%%%%%==OOXX....;;;;;;'',
     '';;;;;;....XXOO%%%%====  $$$$oooo@@@@@@oo%%%%%%%%==OOXX....;;;;;;'',
     '';;....XXOO$$--------    @@@@@@oo****&&@@OOOOOO%%%%$$OOOOXX....;;'',
     '';;....XXOO$$--------    @@@@@@oo****&&@@OOOOOO%%%%$$OOOOXX....;;'',
     '';;....XXOO$$--######--  &&****XX&&&&&&@@----OOOO%%$$OOOO......;;'',
     '';;....XXOO$$--######--  &&****XX&&&&&&@@----OOOO%%$$OOOO......;;'',
     '';;;;;;....XX==##++++==  $$&&&&XX$$$$$$--####----%%OOXX....;;;;;;'',
     '';;;;;;....XX==##++++==  $$&&&&XX$$$$$$--####----%%OOXX....;;;;;;'',
     '';;;;;;;;..--##++++++%%OOXX------XXXX--++++++++##----....;;;;;;;;'',
     '';;;;;;;;..--##++++++%%OOXX------XXXX--++++++++##----....;;;;;;;;'',
     '';;;;;;;;--##++++++%%%%%%--####==--OO%%++++++++++##--;;;;;;;;;;;;'',
     '';;;;;;;;--##++++++%%%%%%--####==--OO%%++++++++++##--;;;;;;;;;;;;'',
     '';;;;;;--##==%%%%%%....%%%%++##++--%%%%%%%%%%==++++##--;;;;;;;;;;'',
     '';;;;;;--##==%%%%%%....%%%%++##++--%%%%%%%%%%==++++##--;;;;;;;;;;'',
     '';;;;;;==##%%;;;;;;;;......%%++++--XX......;;;;==++##--;;;;;;;;;;'',
     '';;;;;;==##%%;;;;;;;;......%%++++--XX......;;;;==++##--;;;;;;;;;;'',
     '';;;;==++%%;;;;;;;;;;;;;;..==++==......;;;;;;;;;;--##--;;;;;;;;;;'',
     '';;;;==++%%;;;;;;;;;;;;;;..==++==......;;;;;;;;;;--##--;;;;;;;;;;'',
     '';;;;==++%%;;;;;;;;;;;;;;--++++==;;;;;;;;;;;;;;;;==##==;;;;;;;;;;'',
     '';;;;==++%%;;;;;;;;;;;;;;--++++==;;;;;;;;;;;;;;;;==##==;;;;;;;;;;'',
     '';;;;;;====;;;;;;;;;;;;--++++++%%;;;;;;;;;;;;;;;;====;;;;;;;;;;;;'',
     '';;;;;;====;;;;;;;;;;;;--++++++%%;;;;;;;;;;;;;;;;====;;;;;;;;;;;;'',
     '';;;;;;====;;;;;;;;;;;;==++%%%%;;;;;;;;;;;;;;;;%%##==;;;;;;;;;;;;'',
     '';;;;;;====;;;;;;;;;;;;==++%%%%;;;;;;;;;;;;;;;;%%##==;;;;;;;;;;;;'',
     '';;;;;;;;====;;;;;;;;==##%%;;;;;;;;;;;;;;;;;;;;%%==;;;;;;;;;;;;;;'',
     '';;;;;;;;====;;;;;;;;==##%%;;;;;;;;;;;;;;;;;;;;%%==;;;;;;;;;;;;;;'',
     '';;;;;;;;;;;;==;;;;;;==%%;;;;;;;;;;;;;;;;;;;;;;%%==;;;;;;;;;;;;;;'',
     '';;;;;;;;;;;;==;;;;;;==%%;;;;;;;;;;;;;;;;;;;;;;%%==;;;;;;;;;;;;;;'',
     '';;;;;;;;;;;;;;;;;;;;==%%;;;;;;;;;;;;;;;;;;;;;;%%==;;;;;;;;;;;;;;'',
     '';;;;;;;;;;;;;;;;;;;;==%%;;;;;;;;;;;;;;;;;;;;;;%%==;;;;;;;;;;;;;;'',
     '';;;;;;;;;;;;;;;;;;;;==%%;;;;;;;;;;;;;;;;;;;;;;;;%%%%;;;;;;;;;;;;'',
     '';;;;;;;;;;;;;;;;;;;;==%%;;;;;;;;;;;;;;;;;;;;;;;;%%%%;;;;;;;;;;;;'',
     '';;;;;;;;;;;;;;;;;;;;;;==;;;;;;;;;;;;;;;;;;;;;;;;;;;;%%;;;;;;;;;;'',
     '';;;;;;;;;;;;;;;;;;;;;;==;;;;;;;;;;;;;;;;;;;;;;;;;;;;%%;;;;;;;;;;'',
     '';;;;;;;;;;;;;;;;;;;;;;;;;;;;;;;;;;;;;;;;;;;;;;;;;;;;;;;;;;;;;;;;'',
     '';;;;;;;;;;;;;;;;;;;;;;;;;;;;;;;;;;;;;;;;;;;;;;;;;;;;;;;;;;;;;;;;'']"

definition xpm_alien_alive :: "string list" where
  "xpm_alien_alive =
    [''64 64 12 1 '',
     ''  c #350F0F'',
     ''. c #491515'',
     ''X c #601B1B'',
     ''o c #601C1C'',
     ''O c #7F2424'',
     ''+ c #FF0000'',
     ''@ c #DB575C'',
     ''# c #FF4747'',
     ''$ c #FF6868'',
     ''% c #E07D7F'',
     ''& c #FFBABC'',
     ''* c #000000'',
     ''****************************************************************'',
     ''****************************************************************'',
     ''********&&&&&&&&&&&&&&********************&&&&&&&&&&&&&&********'',
     ''********&&&&&&&&&&&&&&********************&&&&&&&&&&&&&&********'',
     ''******&&&&%%%%%%OOOOOO&&****************&&OOOOOO%%%%%%&&&&******'',
     ''******&&&&%%%%%%OOOOOO&&****************&&OOOOOO%%%%%%&&&&******'',
     ''****&&@@@@******%%%%OOOO&&************&&OOOO%%%%******@@@@&&****'',
     ''****&&@@@@******%%%%OOOO&&************&&OOOO%%%%******@@@@&&****'',
     ''****@@**************%%XXXX&&********&&XXXX%%**************@@****'',
     ''****@@**************%%XXXX&&********&&XXXX%%**************@@****'',
     ''********************%%XXXX&&********&&XXXX%%********************'',
     ''********************%%XXXX&&********&&XXXX%%********************'',
     ''******&&&&&&**********%%..XX%%****%%XX..%%**********&&&&&&******'',
     ''******&&&&&&**********%%..XX%%****%%XX..%%**********&&&&&&******'',
     ''****&&OOOOOO&&&&******%%....XX%%%%XX....%%******&&&&OOOOOO&&****'',
     ''****&&OOOOOO&&&&******%%....XX%%%%XX....%%******&&&&OOOOOO&&****'',
     ''**&&OOOO%%XXXXXX&&**%%XXXX............XXXX%%**&&XXXXXX%%OOOO&&**'',
     ''**&&OOOO%%XXXXXX&&**%%XXXX............XXXX%%**&&XXXXXX%%OOOO&&**'',
     ''**&&OO%%**%%XXXX&&**%%XX................XX%%**&&XXXX%%**%%OO&&**'',
     ''**&&OO%%**%%XXXX&&**%%XX................XX%%**&&XXXX%%**%%OO&&**'',
     ''**&&%%******%%XXXX&&XX....................XX&&XXXX%%******%%&&**'',
     ''**&&%%******%%XXXX&&XX....................XX&&XXXX%%******%%&&**'',
     ''**&&%%******%%XXXX............................XXXX%%******%%&&**'',
     ''**&&%%******%%XXXX............................XXXX%%******%%&&**'',
     ''**%%%%********%%XX....oo................oo....XX%%********%%%%**'',
     ''**%%%%********%%XX....oo................oo....XX%%********%%%%**'',
     ''**@@%%********%%XX..  ++..oooo....oooo..++  ..XX%%********%%@@**'',
     ''**@@%%********%%XX..  ++..oooo....oooo..++  ..XX%%********%%@@**'',
     ''****@@@@****&&XXXX....  oo++##oooo##++oo  ....XXXX&&****@@@@****'',
     ''****@@@@****&&XXXX....  oo++##oooo##++oo  ....XXXX&&****@@@@****'',
     ''******@@****&&XX..oooo..  ++++    ++++  ..oooo..XX&&****@@******'',
     ''******@@****&&XX..oooo..  ++++    ++++  ..oooo..XX&&****@@******'',
     ''********@@**&&XX  ++##oo..    ....    oooo##++  XX&&**@@********'',
     ''********@@**&&XX  ++##oo..    ....    oooo##++  XX&&**@@********'',
     ''**************%%  ++++oo##$$$$oooo$$$$##oo++++  %%**************'',
     ''**************%%  ++++oo##$$$$oooo$$$$##oo++++  %%**************'',
     ''**************%%XX      ++####oooo####++      XX%%**************'',
     ''**************%%XX      ++####oooo####++      XX%%**************'',
     ''************%%XXXX%%XX  ++++++    ++++++  XX%%XXXX%%************'',
     ''************%%XXXX%%XX  ++++++    ++++++  XX%%XXXX%%************'',
     ''**********%%XXXX%%**%%XX      ....      XX%%**%%XXXX%%**********'',
     ''**********%%XXXX%%**%%XX      ....      XX%%**%%XXXX%%**********'',
     ''**********%%XX%%****%%OOXXXXXX%%%%XXXXXXOO%%****%%XX%%**********'',
     ''**********%%XX%%****%%OOXXXXXX%%%%XXXXXXOO%%****%%XX%%**********'',
     ''**********@@XX%%********OOXX%%****%%XXOO********%%XX@@**********'',
     ''**********@@XX%%********OOXX%%****%%XXOO********%%XX@@**********'',
     ''************%%OO@@****&&OO@@@@****@@@@OO&&****@@OO%%************'',
     ''************%%OO@@****&&OO@@@@****@@@@OO&&****@@OO%%************'',
     ''************%%OO@@**&&OO@@************@@OO&&**@@OO%%************'',
     ''************%%OO@@**&&OO@@************@@OO&&**@@OO%%************'',
     ''************%%OO@@**&&@@****************@@&&**@@OO%%************'',
     ''************%%OO@@**&&@@****************@@&&**@@OO%%************'',
     ''************%%OO@@**&&@@****************@@&&**@@OO%%************'',
     ''************%%OO@@**&&@@****************@@&&**@@OO%%************'',
     ''********%%%%OO@@****@@%%%%************%%%%@@****@@OO%%%%********'',
     ''********%%%%OO@@****@@%%%%************%%%%@@****@@OO%%%%********'',
     ''******@@@@@@@@********@@@@************@@@@********@@@@@@@@******'',
     ''******@@@@@@@@********@@@@************@@@@********@@@@@@@@******'',
     ''****@@******************@@@@********@@@@******************@@****'',
     ''****@@******************@@@@********@@@@******************@@****'',
     ''****************************************************************'',
     ''****************************************************************'',
     ''****************************************************************'',
     ''****************************************************************'']"

definition xpm_alien_dead_1 :: "string list" where
  "xpm_alien_dead_1 =
    [''64 64 12 1 '',
     ''  c #350F0F'',
     ''. c #491515'',
     ''X c #601B1B'',
     ''o c #DD0007'',
     ''O c #FF0400'',
     ''+ c #FF0008'',
     ''@ c #DD252B'',
     ''# c #DB575C'',
     ''$ c #FF4747'',
     ''% c #E07D7F'',
     ''& c #FFBABC'',
     ''* c #000000'',
     ''****************************************************************'',
     ''****************************************************************'',
     ''****************************************************************'',
     ''****************************************************************'',
     ''****************************************************************'',
     ''****************************************************************'',
     ''****************************************************************'',
     ''****************************************************************'',
     ''****************************************************************'',
     ''****************************************************************'',
     ''****************************************************************'',
     ''****************************************************************'',
     ''****************************************************************'',
     ''****************************************************************'',
     ''************************&&&&&&********&&&&&&********************'',
     ''************************&&&&&&********&&&&&&********************'',
     ''**************************@@XX&&****&&XXXX%%********************'',
     ''**************************@@XX&&****&&XXXX%%********************'',
     ''**************************##XX&&**&&    ##**********************'',
     ''**************************##XX&&**&&    ##**********************'',
     ''********************&&&&****##++**++@@##************************'',
     ''********************&&&&****##++**++@@##************************'',
     ''******************&&@@XX%%**##++**@@##**************************'',
     ''******************&&@@XX%%**##++**@@##**************************'',
     ''****************####@@@@@@++@@++&&%%****&&&&&&******************'',
     ''****************####@@@@@@++@@++&&%%****&&&&&&******************'',
     ''**************************%%XX@@@@XX&&++++++##%%****************'',
     ''**************************%%XX@@@@XX&&++++++##%%****************'',
     ''********************&&&&%%XX$$OO@@$$XX@@@@##********************'',
     ''********************&&&&%%XX$$OO@@$$XX@@@@##********************'',
     ''******************%%XX@@++++OO++@@  %%**************************'',
     ''******************%%XX@@++++OO++@@  %%**************************'',
     ''****************%%  ##@@@@oo  ++oo  @@++++&&********************'',
     ''****************%%  ##@@@@oo  ++oo  @@++++&&********************'',
     ''****************####******%%  oo..##**@@@@  &&******************'',
     ''****************####******%%  oo..##**@@@@  &&******************'',
     ''************************&&XX@@oo%%++&&**@@@@XX%%****************'',
     ''************************&&XX@@oo%%++&&**@@@@XX%%****************'',
     ''************************&&++++**%%++++&&****####****************'',
     ''************************&&++++**%%++++&&****####****************'',
     ''************************##  ++****##  ##************************'',
     ''************************##  ++****##  ##************************'',
     ''************************####******##  ##************************'',
     ''************************####******##  ##************************'',
     ''**************************##********##**************************'',
     ''**************************##********##**************************'',
     ''****************************************************************'',
     ''****************************************************************'',
     ''****************************************************************'',
     ''****************************************************************'',
     ''****************************************************************'',
     ''****************************************************************'',
     ''****************************************************************'',
     ''****************************************************************'',
     ''****************************************************************'',
     ''****************************************************************'',
     ''****************************************************************'',
     ''****************************************************************'',
     ''****************************************************************'',
     ''****************************************************************'',
     ''****************************************************************'',
     ''****************************************************************'',
     ''****************************************************************'',
     ''****************************************************************'']"

definition xpm_alien_dead_2 :: "string list" where
  "xpm_alien_dead_2 =
    [''64 64 5 1 '',
     ''  c #491515'',
     ''. c #601B1B'',
     ''X c #FF0400'',
     ''o c #DD252B'',
     ''O c #000000'',
     ''OOOOOOOOOOOOOOOOOOOOOOOOOOOOOOOOOOOOOOOOOOOOOOOOOOOOOOOOOOOOOOOO'',
     ''OOOOOOOOOOOOOOOOOOOOOOOOOOOOOOOOOOOOOOOOOOOOOOOOOOOOOOOOOOOOOOOO'',
     ''OOOOOOOOOOOOOOOOOOOOOOOOOOOOOOOOOOOOOOOOOOOOOOOOOOOOOOOOOOOOOOOO'',
     ''OOOOOOOOOOOOOOOOOOOOOOOOOOOOOOOOOOOOOOOOOOOOOOOOOOOOOOOOOOOOOOOO'',
     ''OOOOOOOOOOOOOOOOOOOOOOOOOOOOOOOOOOOOOOOOOOOOOOOOOOOOOOOOOOOOOOOO'',
     ''OOOOOOOOOOOOOOOOOOOOOOOOOOOOOOOOOOOOOOOOOOOOOOOOOOOOOOOOOOOOOOOO'',
     ''OOOOOOOOOOOOOOOOOOOOOOOOOOOOOOOOOOOOOOOOOOOOOOOOOOOOOOOOOOOOOOOO'',
     ''OOOOOOOOOOOOOOOOOOOOOOOOOOOOOOOOOOOOOOOOOOOOOOOOOOOOOOOOOOOOOOOO'',
     ''OOOOOOOOOOOOOOOOOOOOOOOOOOOOOOOOOOOOOOOOOOOOOOOOOOOOOOOOOOOOOOOO'',
     ''OOOOOOOOOOOOOOOOOOOOOOOOOOOOOOOOOOOOOOOOOOOOOOOOOOOOOOOOOOOOOOOO'',
     ''OOOOOOOOOOOOOOOOOOOOOOOOOOOOOOOOOOOOOOOOOOOOOOOOOOOOOOOOOOOOOOOO'',
     ''OOOOOOOOOOOOOOOOOOOOOOOOOOOOOOOOOOOOOOOOOOOOOOOOOOOOOOOOOOOOOOOO'',
     ''OOOOOOOOOOOOOOOOOOOOOOOOOOOOOOOOOOOOOOOOOOOOOOOOOOOOOOOOOOOOOOOO'',
     ''OOOOOOOOOOOOOOOOOOOOOOOOOOOOOOOOOOOOOOOOOOOOOOOOOOOOOOOOOOOOOOOO'',
     ''OOOOOOOOOOOOOOOOOOOOOOOOOOOOOOOOOOOOOOOOOOOOOOOOOOOOOOOOOOOOOOOO'',
     ''OOOOOOOOOOOOOOOOOOOOOOOOOOOOOOOOOOOOOOOOOOOOOOOOOOOOOOOOOOOOOOOO'',
     ''OOOOOOOOOOOOOOOOOOOOOOOOOOOOOOOOOOOOOOOOOOOOOOOOOOOOOOOOOOOOOOOO'',
     ''OOOOOOOOOOOOOOOOOOOOOOOOOOOOOOOOOOOOOOOOOOOOOOOOOOOOOOOOOOOOOOOO'',
     ''OOOOOOOOOOOOOOOOOOOOOOOOOOOOOOOOOOOOOOOOOOOOOOOOOOOOOOOOOOOOOOOO'',
     ''OOOOOOOOOOOOOOOOOOOOOOOOOOOOOOOOOOOOOOOOOOOOOOOOOOOOOOOOOOOOOOOO'',
     ''OOOOOOOOOOOOOOOOOOOOOOOOOOOOOOOOOOOOOOOOOOOOOOOOOOOOOOOOOOOOOOOO'',
     ''OOOOOOOOOOOOOOOOOOOOOOOOOOOOOOOOOOOOOOOOOOOOOOOOOOOOOOOOOOOOOOOO'',
     ''OOOOOOOOOOOOOOOOOOOOOOOOOOOOOO    OOOOOOOOOOOOOOOOOOOOOOOOOOOOOO'',
     ''OOOOOOOOOOOOOOOOOOOOOOOOOOOOOO    OOOOOOOOOOOOOOOOOOOOOOOOOOOOOO'',
     ''OOOOOOOOOOOOOOOOOOOOOOOOOO  ..oooo..  OOOOOOOOOOOOOOOOOOOOOOOOOO'',
     ''OOOOOOOOOOOOOOOOOOOOOOOOOO  ..oooo..  OOOOOOOOOOOOOOOOOOOOOOOOOO'',
     ''OOOOOOOOOOOOOOOOOOOOOOOO  ooXX  XXoooo  OOOOOOOOOOOOOOOOOOOOOOOO'',
     ''OOOOOOOOOOOOOOOOOOOOOOOO  ooXX  XXoooo  OOOOOOOOOOOOOOOOOOOOOOOO'',
     ''OOOOOOOOOOOOOOOOOOOOOOOO  ooooXXXXXX..  OOOOOOOOOOOOOOOOOOOOOOOO'',
     ''OOOOOOOOOOOOOOOOOOOOOOOO  ooooXXXXXX..  OOOOOOOOOOOOOOOOOOOOOOOO'',
     ''OOOOOOOOOOOOOOOOOOOOOOOOOO  ..XX  ooooOOOOOOOOOOOOOOOOOOOOOOOOOO'',
     ''OOOOOOOOOOOOOOOOOOOOOOOOOO  ..XX  ooooOOOOOOOOOOOOOOOOOOOOOOOOOO'',
     ''OOOOOOOOOOOOOOOOOOOOOOOOOO  oooooo..  OOOOOOOOOOOOOOOOOOOOOOOOOO'',
     ''OOOOOOOOOOOOOOOOOOOOOOOOOO  oooooo..  OOOOOOOOOOOOOOOOOOOOOOOOOO'',
     ''OOOOOOOOOOOOOOOOOOOOOOOOOOOO      OOOOOOOOOOOOOOOOOOOOOOOOOOOOOO'',
     ''OOOOOOOOOOOOOOOOOOOOOOOOOOOO      OOOOOOOOOOOOOOOOOOOOOOOOOOOOOO'',
     ''OOOOOOOOOOOOOOOOOOOOOOOOOOOOOOOOOOOOOOOOOOOOOOOOOOOOOOOOOOOOOOOO'',
     ''OOOOOOOOOOOOOOOOOOOOOOOOOOOOOOOOOOOOOOOOOOOOOOOOOOOOOOOOOOOOOOOO'',
     ''OOOOOOOOOOOOOOOOOOOOOOOOOOOOOOOOOOOOOOOOOOOOOOOOOOOOOOOOOOOOOOOO'',
     ''OOOOOOOOOOOOOOOOOOOOOOOOOOOOOOOOOOOOOOOOOOOOOOOOOOOOOOOOOOOOOOOO'',
     ''OOOOOOOOOOOOOOOOOOOOOOOOOOOOOOOOOOOOOOOOOOOOOOOOOOOOOOOOOOOOOOOO'',
     ''OOOOOOOOOOOOOOOOOOOOOOOOOOOOOOOOOOOOOOOOOOOOOOOOOOOOOOOOOOOOOOOO'',
     ''OOOOOOOOOOOOOOOOOOOOOOOOOOOOOOOOOOOOOOOOOOOOOOOOOOOOOOOOOOOOOOOO'',
     ''OOOOOOOOOOOOOOOOOOOOOOOOOOOOOOOOOOOOOOOOOOOOOOOOOOOOOOOOOOOOOOOO'',
     ''OOOOOOOOOOOOOOOOOOOOOOOOOOOOOOOOOOOOOOOOOOOOOOOOOOOOOOOOOOOOOOOO'',
     ''OOOOOOOOOOOOOOOOOOOOOOOOOOOOOOOOOOOOOOOOOOOOOOOOOOOOOOOOOOOOOOOO'',
     ''OOOOOOOOOOOOOOOOOOOOOOOOOOOOOOOOOOOOOOOOOOOOOOOOOOOOOOOOOOOOOOOO'',
     ''OOOOOOOOOOOOOOOOOOOOOOOOOOOOOOOOOOOOOOOOOOOOOOOOOOOOOOOOOOOOOOOO'',
     ''OOOOOOOOOOOOOOOOOOOOOOOOOOOOOOOOOOOOOOOOOOOOOOOOOOOOOOOOOOOOOOOO'',
     ''OOOOOOOOOOOOOOOOOOOOOOOOOOOOOOOOOOOOOOOOOOOOOOOOOOOOOOOOOOOOOOOO'',
     ''OOOOOOOOOOOOOOOOOOOOOOOOOOOOOOOOOOOOOOOOOOOOOOOOOOOOOOOOOOOOOOOO'',
     ''OOOOOOOOOOOOOOOOOOOOOOOOOOOOOOOOOOOOOOOOOOOOOOOOOOOOOOOOOOOOOOOO'',
     ''OOOOOOOOOOOOOOOOOOOOOOOOOOOOOOOOOOOOOOOOOOOOOOOOOOOOOOOOOOOOOOOO'',
     ''OOOOOOOOOOOOOOOOOOOOOOOOOOOOOOOOOOOOOOOOOOOOOOOOOOOOOOOOOOOOOOOO'',
     ''OOOOOOOOOOOOOOOOOOOOOOOOOOOOOOOOOOOOOOOOOOOOOOOOOOOOOOOOOOOOOOOO'',
     ''OOOOOOOOOOOOOOOOOOOOOOOOOOOOOOOOOOOOOOOOOOOOOOOOOOOOOOOOOOOOOOOO'',
     ''OOOOOOOOOOOOOOOOOOOOOOOOOOOOOOOOOOOOOOOOOOOOOOOOOOOOOOOOOOOOOOOO'',
     ''OOOOOOOOOOOOOOOOOOOOOOOOOOOOOOOOOOOOOOOOOOOOOOOOOOOOOOOOOOOOOOOO'',
     ''OOOOOOOOOOOOOOOOOOOOOOOOOOOOOOOOOOOOOOOOOOOOOOOOOOOOOOOOOOOOOOOO'',
     ''OOOOOOOOOOOOOOOOOOOOOOOOOOOOOOOOOOOOOOOOOOOOOOOOOOOOOOOOOOOOOOOO'',
     ''OOOOOOOOOOOOOOOOOOOOOOOOOOOOOOOOOOOOOOOOOOOOOOOOOOOOOOOOOOOOOOOO'',
     ''OOOOOOOOOOOOOOOOOOOOOOOOOOOOOOOOOOOOOOOOOOOOOOOOOOOOOOOOOOOOOOOO'',
     ''OOOOOOOOOOOOOOOOOOOOOOOOOOOOOOOOOOOOOOOOOOOOOOOOOOOOOOOOOOOOOOOO'',
     ''OOOOOOOOOOOOOOOOOOOOOOOOOOOOOOOOOOOOOOOOOOOOOOOOOOOOOOOOOOOOOOOO'']"

definition xpm_alien_dead_3 :: "string list" where
  "xpm_alien_dead_3 =
    [''64 64 6 1 '',
     ''  c #26191B'',
     ''. c #513539'',
     ''X c #9E686E'',
     ''o c #FFA8B2'',
     ''O c #FFBFC6'',
     ''+ c #000000'',
     ''++++++++++++++++++++++++++++++++++++++++++++++++++++++++++++++++'',
     ''++++++++++++++++++++++++++++++++++++++++++++++++++++++++++++++++'',
     ''++++++++++++++++++++++++++++++++++++++++++++++++++++++++++++++++'',
     ''++++++++++++++++++++++++++++++++++++++++++++++++++++++++++++++++'',
     ''++++++++++++++++++++++++++++++++++++++++++++++++++++++++++++++++'',
     ''++++++++++++++++++++++++++++++++++++++++++++++++++++++++++++++++'',
     ''++++++++++++++++++++++++++++++++++++++++++++++++++++++++++++++++'',
     ''++++++++++++++++++++++++++++++++++++++++++++++++++++++++++++++++'',
     ''++++++++++++++++++++++++++++++++++++++++++++++++++++++++++++++++'',
     ''++++++++++++++++++++++++++++++++++++++++++++++++++++++++++++++++'',
     ''++++++++++++++++++++++++++++++++++++++++++++++++++++++++++++++++'',
     ''++++++++++++++++++++++++++++++++++++++++++++++++++++++++++++++++'',
     ''++++++++++++++++++++++++++++++++++++++++++++++++++++++++++++++++'',
     ''++++++++++++++++++++++++++++++++++++++++++++++++++++++++++++++++'',
     ''++++++++++++++++++++++++++++++++++++++++++++++++++++++++++++++++'',
     ''++++++++++++++++++++++++++++++++++++++++++++++++++++++++++++++++'',
     ''++++++++++++++++++++++++++++++++++++++++++++++++++++++++++++++++'',
     ''++++++++++++++++++++++++++++++++++++++++++++++++++++++++++++++++'',
     ''++++++++++++++++++++++++++++++++++++++++++++++++++++++++++++++++'',
     ''++++++++++++++++++++++++++++++++++++++++++++++++++++++++++++++++'',
     ''++++++++++++++++++++++++++++++++++++++++++++++++++++++++++++++++'',
     ''++++++++++++++++++++++++++++++++++++++++++++++++++++++++++++++++'',
     ''++++++++++++++++++++++++++++        ++++++++++++++++++++++++++++'',
     ''++++++++++++++++++++++++++++        ++++++++++++++++++++++++++++'',
     ''++++++++++++++++++++++++++  ........  ++++++++++++++++++++++++++'',
     ''++++++++++++++++++++++++++  ........  ++++++++++++++++++++++++++'',
     ''++++++++++++++++++++++++  ..XXXXXXXX..  ++++++++++++++++++++++++'',
     ''++++++++++++++++++++++++  ..XXXXXXXX..  ++++++++++++++++++++++++'',
     ''++++++++++++++++++++++  ..XXooooooooXX..  ++++++++++++++++++++++'',
     ''++++++++++++++++++++++  ..XXooooooooXX..  ++++++++++++++++++++++'',
     ''++++++++++++++++++++++  ..XXooOOOOooXX..  ++++++++++++++++++++++'',
     ''++++++++++++++++++++++  ..XXooOOOOooXX..  ++++++++++++++++++++++'',
     ''++++++++++++++++++++++  ..XXooOOOOooXX..  ++++++++++++++++++++++'',
     ''++++++++++++++++++++++  ..XXooOOOOooXX..  ++++++++++++++++++++++'',
     ''++++++++++++++++++++++  ..XXooooooooXX..  ++++++++++++++++++++++'',
     ''++++++++++++++++++++++  ..XXooooooooXX..  ++++++++++++++++++++++'',
     ''++++++++++++++++++++++++  ..XXXXXXXX..  ++++++++++++++++++++++++'',
     ''++++++++++++++++++++++++  ..XXXXXXXX..  ++++++++++++++++++++++++'',
     ''++++++++++++++++++++++++++  ........  ++++++++++++++++++++++++++'',
     ''++++++++++++++++++++++++++  ........  ++++++++++++++++++++++++++'',
     ''++++++++++++++++++++++++++++        ++++++++++++++++++++++++++++'',
     ''++++++++++++++++++++++++++++        ++++++++++++++++++++++++++++'',
     ''++++++++++++++++++++++++++++++++++++++++++++++++++++++++++++++++'',
     ''++++++++++++++++++++++++++++++++++++++++++++++++++++++++++++++++'',
     ''++++++++++++++++++++++++++++++++++++++++++++++++++++++++++++++++'',
     ''++++++++++++++++++++++++++++++++++++++++++++++++++++++++++++++++'',
     ''++++++++++++++++++++++++++++++++++++++++++++++++++++++++++++++++'',
     ''++++++++++++++++++++++++++++++++++++++++++++++++++++++++++++++++'',
     ''++++++++++++++++++++++++++++++++++++++++++++++++++++++++++++++++'',
     ''++++++++++++++++++++++++++++++++++++++++++++++++++++++++++++++++'',
     ''++++++++++++++++++++++++++++++++++++++++++++++++++++++++++++++++'',
     ''++++++++++++++++++++++++++++++++++++++++++++++++++++++++++++++++'',
     ''++++++++++++++++++++++++++++++++++++++++++++++++++++++++++++++++'',
     ''++++++++++++++++++++++++++++++++++++++++++++++++++++++++++++++++'',
     ''++++++++++++++++++++++++++++++++++++++++++++++++++++++++++++++++'',
     ''++++++++++++++++++++++++++++++++++++++++++++++++++++++++++++++++'',
     ''++++++++++++++++++++++++++++++++++++++++++++++++++++++++++++++++'',
     ''++++++++++++++++++++++++++++++++++++++++++++++++++++++++++++++++'',
     ''++++++++++++++++++++++++++++++++++++++++++++++++++++++++++++++++'',
     ''++++++++++++++++++++++++++++++++++++++++++++++++++++++++++++++++'',
     ''++++++++++++++++++++++++++++++++++++++++++++++++++++++++++++++++'',
     ''++++++++++++++++++++++++++++++++++++++++++++++++++++++++++++++++'',
     ''++++++++++++++++++++++++++++++++++++++++++++++++++++++++++++++++'',
     ''++++++++++++++++++++++++++++++++++++++++++++++++++++++++++++++++'']"

definition xpm_alien_dead_4 :: "string list" where
  "xpm_alien_dead_4 =
    [''64 64 4 1 '',
     ''  c #26191B'',
     ''. c #513539'',
     ''X c #9E686E'',
     ''o c #000000'',
     ''oooooooooooooooooooooooooooooooooooooooooooooooooooooooooooooooo'',
     ''oooooooooooooooooooooooooooooooooooooooooooooooooooooooooooooooo'',
     ''oooooooooooooooooooooooooooooooooooooooooooooooooooooooooooooooo'',
     ''oooooooooooooooooooooooooooooooooooooooooooooooooooooooooooooooo'',
     ''oooooooooooooooooooooooooooooooooooooooooooooooooooooooooooooooo'',
     ''oooooooooooooooooooooooooooooooooooooooooooooooooooooooooooooooo'',
     ''oooooooooooooooooooooooooooooooooooooooooooooooooooooooooooooooo'',
     ''oooooooooooooooooooooooooooooooooooooooooooooooooooooooooooooooo'',
     ''oooooooooooooooooooooooooooooooooooooooooooooooooooooooooooooooo'',
     ''oooooooooooooooooooooooooooooooooooooooooooooooooooooooooooooooo'',
     ''oooooooooooooooooooooooooooooooooooooooooooooooooooooooooooooooo'',
     ''oooooooooooooooooooooooooooooooooooooooooooooooooooooooooooooooo'',
     ''oooooooooooooooooooooooooooooooooooooooooooooooooooooooooooooooo'',
     ''oooooooooooooooooooooooooooooooooooooooooooooooooooooooooooooooo'',
     ''oooooooooooooooooooooooooooooooooooooooooooooooooooooooooooooooo'',
     ''oooooooooooooooooooooooooooooooooooooooooooooooooooooooooooooooo'',
     ''oooooooooooooooooooooooooooooooooooooooooooooooooooooooooooooooo'',
     ''oooooooooooooooooooooooooooooooooooooooooooooooooooooooooooooooo'',
     ''oooooooooooooooooooooooooooo        oooooooooooooooooooooooooooo'',
     ''oooooooooooooooooooooooooooo        oooooooooooooooooooooooooooo'',
     ''oooooooooooooooooooooooo    ........    oooooooooooooooooooooooo'',
     ''oooooooooooooooooooooooo    ........    oooooooooooooooooooooooo'',
     ''oooooooooooooooooooooo  ....XXXXXXXX....  oooooooooooooooooooooo'',
     ''oooooooooooooooooooooo  ....XXXXXXXX....  oooooooooooooooooooooo'',
     ''oooooooooooooooooooo  ..XXXX........XXXX..  oooooooooooooooooooo'',
     ''oooooooooooooooooooo  ..XXXX........XXXX..  oooooooooooooooooooo'',
     ''oooooooooooooooooooo  ..XX..        ..XX..  oooooooooooooooooooo'',
     ''oooooooooooooooooooo  ..XX..        ..XX..  oooooooooooooooooooo'',
     ''oooooooooooooooooo  ..XX..  oooooooo  ..XX..  oooooooooooooooooo'',
     ''oooooooooooooooooo  ..XX..  oooooooo  ..XX..  oooooooooooooooooo'',
     ''oooooooooooooooooo  ..XX..  oooooooo  ..XX..  oooooooooooooooooo'',
     ''oooooooooooooooooo  ..XX..  oooooooo  ..XX..  oooooooooooooooooo'',
     ''oooooooooooooooooo  ..XX..  oooooooo  ..XX..  oooooooooooooooooo'',
     ''oooooooooooooooooo  ..XX..  oooooooo  ..XX..  oooooooooooooooooo'',
     ''oooooooooooooooooo  ..XX..  oooooooo  ..XX..  oooooooooooooooooo'',
     ''oooooooooooooooooo  ..XX..  oooooooo  ..XX..  oooooooooooooooooo'',
     ''oooooooooooooooooooo  ..XX..        ..XX..  oooooooooooooooooooo'',
     ''oooooooooooooooooooo  ..XX..        ..XX..  oooooooooooooooooooo'',
     ''oooooooooooooooooooo  ..XXXX........XXXX..  oooooooooooooooooooo'',
     ''oooooooooooooooooooo  ..XXXX........XXXX..  oooooooooooooooooooo'',
     ''oooooooooooooooooooooo  ....XXXXXXXX....  oooooooooooooooooooooo'',
     ''oooooooooooooooooooooo  ....XXXXXXXX....  oooooooooooooooooooooo'',
     ''oooooooooooooooooooooooo    ........    oooooooooooooooooooooooo'',
     ''oooooooooooooooooooooooo    ........    oooooooooooooooooooooooo'',
     ''oooooooooooooooooooooooooooo        oooooooooooooooooooooooooooo'',
     ''oooooooooooooooooooooooooooo        oooooooooooooooooooooooooooo'',
     ''oooooooooooooooooooooooooooooooooooooooooooooooooooooooooooooooo'',
     ''oooooooooooooooooooooooooooooooooooooooooooooooooooooooooooooooo'',
     ''oooooooooooooooooooooooooooooooooooooooooooooooooooooooooooooooo'',
     ''oooooooooooooooooooooooooooooooooooooooooooooooooooooooooooooooo'',
     ''oooooooooooooooooooooooooooooooooooooooooooooooooooooooooooooooo'',
     ''oooooooooooooooooooooooooooooooooooooooooooooooooooooooooooooooo'',
     ''oooooooooooooooooooooooooooooooooooooooooooooooooooooooooooooooo'',
     ''oooooooooooooooooooooooooooooooooooooooooooooooooooooooooooooooo'',
     ''oooooooooooooooooooooooooooooooooooooooooooooooooooooooooooooooo'',
     ''oooooooooooooooooooooooooooooooooooooooooooooooooooooooooooooooo'',
     ''oooooooooooooooooooooooooooooooooooooooooooooooooooooooooooooooo'',
     ''oooooooooooooooooooooooooooooooooooooooooooooooooooooooooooooooo'',
     ''oooooooooooooooooooooooooooooooooooooooooooooooooooooooooooooooo'',
     ''oooooooooooooooooooooooooooooooooooooooooooooooooooooooooooooooo'',
     ''oooooooooooooooooooooooooooooooooooooooooooooooooooooooooooooooo'',
     ''oooooooooooooooooooooooooooooooooooooooooooooooooooooooooooooooo'',
     ''oooooooooooooooooooooooooooooooooooooooooooooooooooooooooooooooo'',
     ''oooooooooooooooooooooooooooooooooooooooooooooooooooooooooooooooo'']"

definition xpm_alien_dead_5 :: "string list" where
  "xpm_alien_dead_5 =
    [''64 64 3 1 '',
     ''  c #26191B'',
     ''. c #513539'',
     ''X c #000000'',
     ''XXXXXXXXXXXXXXXXXXXXXXXXXXXXXXXXXXXXXXXXXXXXXXXXXXXXXXXXXXXXXXXX'',
     ''XXXXXXXXXXXXXXXXXXXXXXXXXXXXXXXXXXXXXXXXXXXXXXXXXXXXXXXXXXXXXXXX'',
     ''XXXXXXXXXXXXXXXXXXXXXXXXXXXXXXXXXXXXXXXXXXXXXXXXXXXXXXXXXXXXXXXX'',
     ''XXXXXXXXXXXXXXXXXXXXXXXXXXXXXXXXXXXXXXXXXXXXXXXXXXXXXXXXXXXXXXXX'',
     ''XXXXXXXXXXXXXXXXXXXXXXXXXXXXXXXXXXXXXXXXXXXXXXXXXXXXXXXXXXXXXXXX'',
     ''XXXXXXXXXXXXXXXXXXXXXXXXXXXXXXXXXXXXXXXXXXXXXXXXXXXXXXXXXXXXXXXX'',
     ''XXXXXXXXXXXXXXXXXXXXXXXXXXXXXXXXXXXXXXXXXXXXXXXXXXXXXXXXXXXXXXXX'',
     ''XXXXXXXXXXXXXXXXXXXXXXXXXXXXXXXXXXXXXXXXXXXXXXXXXXXXXXXXXXXXXXXX'',
     ''XXXXXXXXXXXXXXXXXXXXXXXXXXXXXXXXXXXXXXXXXXXXXXXXXXXXXXXXXXXXXXXX'',
     ''XXXXXXXXXXXXXXXXXXXXXXXXXXXXXXXXXXXXXXXXXXXXXXXXXXXXXXXXXXXXXXXX'',
     ''XXXXXXXXXXXXXXXXXXXXXXXXXXXXXXXXXXXXXXXXXXXXXXXXXXXXXXXXXXXXXXXX'',
     ''XXXXXXXXXXXXXXXXXXXXXXXXXXXXXXXXXXXXXXXXXXXXXXXXXXXXXXXXXXXXXXXX'',
     ''XXXXXXXXXXXXXXXXXXXXXXXXXXXXXXXXXXXXXXXXXXXXXXXXXXXXXXXXXXXXXXXX'',
     ''XXXXXXXXXXXXXXXXXXXXXXXXXXXXXXXXXXXXXXXXXXXXXXXXXXXXXXXXXXXXXXXX'',
     ''XXXXXXXXXXXXXXXXXXXXXXXXXXXXXXXXXXXXXXXXXXXXXXXXXXXXXXXXXXXXXXXX'',
     ''XXXXXXXXXXXXXXXXXXXXXXXXXXXXXXXXXXXXXXXXXXXXXXXXXXXXXXXXXXXXXXXX'',
     ''XXXXXXXXXXXXXXXXXXXXXXXXXXXX        XXXXXXXXXXXXXXXXXXXXXXXXXXXX'',
     ''XXXXXXXXXXXXXXXXXXXXXXXXXXXX        XXXXXXXXXXXXXXXXXXXXXXXXXXXX'',
     ''XXXXXXXXXXXXXXXXXXXXXXXX    ........    XXXXXXXXXXXXXXXXXXXXXXXX'',
     ''XXXXXXXXXXXXXXXXXXXXXXXX    ........    XXXXXXXXXXXXXXXXXXXXXXXX'',
     ''XXXXXXXXXXXXXXXXXXXXXX  ....        ....  XXXXXXXXXXXXXXXXXXXXXX'',
     ''XXXXXXXXXXXXXXXXXXXXXX  ....        ....  XXXXXXXXXXXXXXXXXXXXXX'',
     ''XXXXXXXXXXXXXXXXXXXX  ..    XXXXXXXX    ..  XXXXXXXXXXXXXXXXXXXX'',
     ''XXXXXXXXXXXXXXXXXXXX  ..    XXXXXXXX    ..  XXXXXXXXXXXXXXXXXXXX'',
     ''XXXXXXXXXXXXXXXXXX  ..  XXXXXXXXXXXXXXXX  ..  XXXXXXXXXXXXXXXXXX'',
     ''XXXXXXXXXXXXXXXXXX  ..  XXXXXXXXXXXXXXXX  ..  XXXXXXXXXXXXXXXXXX'',
     ''XXXXXXXXXXXXXXXXXX  ..  XXXXXXXXXXXXXXXX  ..  XXXXXXXXXXXXXXXXXX'',
     ''XXXXXXXXXXXXXXXXXX  ..  XXXXXXXXXXXXXXXX  ..  XXXXXXXXXXXXXXXXXX'',
     ''XXXXXXXXXXXXXXXX  ..  XXXXXXXXXXXXXXXXXXXX  ..  XXXXXXXXXXXXXXXX'',
     ''XXXXXXXXXXXXXXXX  ..  XXXXXXXXXXXXXXXXXXXX  ..  XXXXXXXXXXXXXXXX'',
     ''XXXXXXXXXXXXXXXX  ..  XXXXXXXXXXXXXXXXXXXX  ..  XXXXXXXXXXXXXXXX'',
     ''XXXXXXXXXXXXXXXX  ..  XXXXXXXXXXXXXXXXXXXX  ..  XXXXXXXXXXXXXXXX'',
     ''XXXXXXXXXXXXXXXX  ..  XXXXXXXXXXXXXXXXXXXX  ..  XXXXXXXXXXXXXXXX'',
     ''XXXXXXXXXXXXXXXX  ..  XXXXXXXXXXXXXXXXXXXX  ..  XXXXXXXXXXXXXXXX'',
     ''XXXXXXXXXXXXXXXX  ..  XXXXXXXXXXXXXXXXXXXX  ..  XXXXXXXXXXXXXXXX'',
     ''XXXXXXXXXXXXXXXX  ..  XXXXXXXXXXXXXXXXXXXX  ..  XXXXXXXXXXXXXXXX'',
     ''XXXXXXXXXXXXXXXXXX  ..  XXXXXXXXXXXXXXXX  ..  XXXXXXXXXXXXXXXXXX'',
     ''XXXXXXXXXXXXXXXXXX  ..  XXXXXXXXXXXXXXXX  ..  XXXXXXXXXXXXXXXXXX'',
     ''XXXXXXXXXXXXXXXXXX  ..  XXXXXXXXXXXXXXXX  ..  XXXXXXXXXXXXXXXXXX'',
     ''XXXXXXXXXXXXXXXXXX  ..  XXXXXXXXXXXXXXXX  ..  XXXXXXXXXXXXXXXXXX'',
     ''XXXXXXXXXXXXXXXXXXXX  ..    XXXXXXXX    ..  XXXXXXXXXXXXXXXXXXXX'',
     ''XXXXXXXXXXXXXXXXXXXX  ..    XXXXXXXX    ..  XXXXXXXXXXXXXXXXXXXX'',
     ''XXXXXXXXXXXXXXXXXXXXXX  ....        ....  XXXXXXXXXXXXXXXXXXXXXX'',
     ''XXXXXXXXXXXXXXXXXXXXXX  ....        ....  XXXXXXXXXXXXXXXXXXXXXX'',
     ''XXXXXXXXXXXXXXXXXXXXXXXX    ........    XXXXXXXXXXXXXXXXXXXXXXXX'',
     ''XXXXXXXXXXXXXXXXXXXXXXXX    ........    XXXXXXXXXXXXXXXXXXXXXXXX'',
     ''XXXXXXXXXXXXXXXXXXXXXXXXXXXX        XXXXXXXXXXXXXXXXXXXXXXXXXXXX'',
     ''XXXXXXXXXXXXXXXXXXXXXXXXXXXX        XXXXXXXXXXXXXXXXXXXXXXXXXXXX'',
     ''XXXXXXXXXXXXXXXXXXXXXXXXXXXXXXXXXXXXXXXXXXXXXXXXXXXXXXXXXXXXXXXX'',
     ''XXXXXXXXXXXXXXXXXXXXXXXXXXXXXXXXXXXXXXXXXXXXXXXXXXXXXXXXXXXXXXXX'',
     ''XXXXXXXXXXXXXXXXXXXXXXXXXXXXXXXXXXXXXXXXXXXXXXXXXXXXXXXXXXXXXXXX'',
     ''XXXXXXXXXXXXXXXXXXXXXXXXXXXXXXXXXXXXXXXXXXXXXXXXXXXXXXXXXXXXXXXX'',
     ''XXXXXXXXXXXXXXXXXXXXXXXXXXXXXXXXXXXXXXXXXXXXXXXXXXXXXXXXXXXXXXXX'',
     ''XXXXXXXXXXXXXXXXXXXXXXXXXXXXXXXXXXXXXXXXXXXXXXXXXXXXXXXXXXXXXXXX'',
     ''XXXXXXXXXXXXXXXXXXXXXXXXXXXXXXXXXXXXXXXXXXXXXXXXXXXXXXXXXXXXXXXX'',
     ''XXXXXXXXXXXXXXXXXXXXXXXXXXXXXXXXXXXXXXXXXXXXXXXXXXXXXXXXXXXXXXXX'',
     ''XXXXXXXXXXXXXXXXXXXXXXXXXXXXXXXXXXXXXXXXXXXXXXXXXXXXXXXXXXXXXXXX'',
     ''XXXXXXXXXXXXXXXXXXXXXXXXXXXXXXXXXXXXXXXXXXXXXXXXXXXXXXXXXXXXXXXX'',
     ''XXXXXXXXXXXXXXXXXXXXXXXXXXXXXXXXXXXXXXXXXXXXXXXXXXXXXXXXXXXXXXXX'',
     ''XXXXXXXXXXXXXXXXXXXXXXXXXXXXXXXXXXXXXXXXXXXXXXXXXXXXXXXXXXXXXXXX'',
     ''XXXXXXXXXXXXXXXXXXXXXXXXXXXXXXXXXXXXXXXXXXXXXXXXXXXXXXXXXXXXXXXX'',
     ''XXXXXXXXXXXXXXXXXXXXXXXXXXXXXXXXXXXXXXXXXXXXXXXXXXXXXXXXXXXXXXXX'',
     ''XXXXXXXXXXXXXXXXXXXXXXXXXXXXXXXXXXXXXXXXXXXXXXXXXXXXXXXXXXXXXXXX'',
     ''XXXXXXXXXXXXXXXXXXXXXXXXXXXXXXXXXXXXXXXXXXXXXXXXXXXXXXXXXXXXXXXX'']"

definition xpm_alien_kill_1 :: "string list" where
  "xpm_alien_kill_1 =
    [''64 64 17 1 '',
     ''  c #350F0F'',
     ''. c #491515'',
     ''X c #601B1B'',
     ''o c #601C1C'',
     ''O c #502F2F'',
     ''+ c #7F2424'',
     ''@ c #753B3B'',
     ''# c #FF0000'',
     ''$ c #DB575C'',
     ''% c #FF4747'',
     ''& c #FF6060'',
     ''* c #FF6868'',
     ''= c #E07D7F'',
     ''- c #FF7C7C'',
     ''; c #FF8E8E'',
     '': c #FFBABC'',
     ''> c #000000'',
     ''>>>>>>>>>>>>>>>>>>>>>>>>>>>>>>>>>>>>>>>>>>>>>>>>>>>>>>>>>>>>>>>>'',
     ''>>>>>>>>>>>>>>>>>>>>>>>>>>>>>>>>>>>>>>>>>>>>>>>>>>>>>>>>>>>>>>>>'',
     ''>>>>>>>>>>>>::::::::::::>>>>>>>>>>>>>>>>::::::::::::::>>>>>>>>>>'',
     ''>>>>>>>>>>>>::::::::::::>>>>>>>>>>>>>>>>::::::::::::::>>>>>>>>>>'',
     ''>>>>>>>>>>::::====++++++::>>>>>>>>>>>>::++++++======::::>>>>>>>>'',
     ''>>>>>>>>>>::::====++++++::>>>>>>>>>>>>::++++++======::::>>>>>>>>'',
     ''>>>>>>>>::$$$$>>>>====++++::>>>>>>>>::++++====>>>>$$$$::>>>>>>>>'',
     ''>>>>>>>>::$$$$>>>>====++++::>>>>>>>>::++++====>>>>$$$$::>>>>>>>>'',
     ''>>>>>>::$$>>>>>>>>>>>>==XXXX::>>>>>>::XXXX==>>>>>>>>$$>>>>>>>>>>'',
     ''>>>>>>::$$>>>>>>>>>>>>==XXXX::>>>>>>::XXXX==>>>>>>>>$$>>>>>>>>>>'',
     ''>>>>>>>>>>>>>>>>>>>>>>==XXXX::>>>>>>::XXXX==>>>>>>>>>>>>>>>>>>>>'',
     ''>>>>>>>>>>>>>>>>>>>>>>==XXXX::>>>>>>::XXXX==>>>>>>>>>>>>>>>>>>>>'',
     ''>>>>>>>>>>>>>>>>>>>>>>==..XX==>>>>==XX..==>>>>>>>>>>>>>>>>>>>>>>'',
     ''>>>>>>>>>>>>>>>>>>>>>>==..XX==>>>>==XX..==>>>>>>>>>>>>>>>>>>>>>>'',
     ''>>>>>>::::::>>>>>>>>>>==....XX====XX....==>>>>>>>>>>::::::>>>>>>'',
     ''>>>>>>::::::>>>>>>>>>>==....XX====XX....==>>>>>>>>>>::::::>>>>>>'',
     ''>>>>::++++++::::>>>>==XXXX............XXXX==>>>>::::++++++::>>>>'',
     ''>>>>::++++++::::>>>>==XXXX............XXXX==>>>>::::++++++::>>>>'',
     ''>>::++++==XXXXXX::>>==XX................XX==>>::XXXXXX====++::>>'',
     ''>>::++++==XXXXXX::>>==XX................XX==>>::XXXXXX====++::>>'',
     ''>>::++==>>==XXXX::::XX....................XX::XXXXXX==>>>>==::>>'',
     ''>>::++==>>==XXXX::::XX....................XX::XXXXXX==>>>>==::>>'',
     ''>>::==>>>>>>==XXXX............................XXXX==>>>>>>====>>'',
     ''>>::==>>>>>>==XXXX............................XXXX==>>>>>>====>>'',
     ''>>$$==>>>>>>>>==XX....oo................oo....XX==>>>>>>>>==$$>>'',
     ''>>$$==>>>>>>>>==XX....oo................oo....XX==>>>>>>>>==$$>>'',
     ''>>>>$$$$>>>>>>==XX..  ##..oooo..........##  ..XX==>>>>>>>>$$$$>>'',
     ''>>>>$$$$>>>>>>==XX..  ##..oooo..........##  ..XX==>>>>>>>>$$$$>>'',
     ''>>>>>>>>$$>>::XXXX....  oo##%%oooooooooo  ....XXXX::>>>>>>$$>>>>'',
     ''>>>>>>>>$$>>::XXXX....  oo##%%oooooooooo  ....XXXX::>>>>>>$$>>>>'',
     ''>>>>>>>>>>>>::XX........  ####    ####  ..oooo..XX::>>>>>>$$>>>>'',
     ''>>>>>>>>>>>>::XX........  ####    ####  ..oooo..XX::>>>>>>$$>>>>'',
     ''>>>>>>>>>>>>::XX..oooo....  OO....    oooo%%##  XX::>>>>>>>>>>>>'',
     ''>>>>>>>>>>>>::XX..oooo....  OO....    oooo%%##  XX::>>>>>>>>>>>>'',
     ''>>>>>>>>>>>>>>==  ####oo%%--;;@@oo****%%oo####  ==>>>>>>>>>>>>>>'',
     ''>>>>>>>>>>>>>>==  ####oo%%--;;@@oo****%%oo####  ==>>>>>>>>>>>>>>'',
     ''>>>>>>>>>>>>>>==XX      ##%%&&oooo%%%%##      XX==>>>>>>>>>>>>>>'',
     ''>>>>>>>>>>>>>>==XX      ##%%&&oooo%%%%##      XX==>>>>>>>>>>>>>>'',
     ''>>>>>>>>>>>>==XXXX==XX  ######    ######  XX==XXXX==>>>>>>>>>>>>'',
     ''>>>>>>>>>>>>==XXXX==XX  ######    ######  XX==XXXX==>>>>>>>>>>>>'',
     ''>>>>>>>>>>==XXXX==>>==XX      ....      XX==>>==XXXX==>>>>>>>>>>'',
     ''>>>>>>>>>>==XXXX==>>==XX      ....      XX==>>==XXXX==>>>>>>>>>>'',
     ''>>>>>>>>>>==XX==>>>>>>==++XXXX====XXXX++==>>>>>>==XX==>>>>>>>>>>'',
     ''>>>>>>>>>>==XX==>>>>>>==++XXXX====XXXX++==>>>>>>==XX==>>>>>>>>>>'',
     ''>>>>>>>>>>$$XX==>>>>>>>>>>++XX====XX++>>>>>>>>>>==XX$$>>>>>>>>>>'',
     ''>>>>>>>>>>$$XX==>>>>>>>>>>++XX====XX++>>>>>>>>>>==XX$$>>>>>>>>>>'',
     ''>>>>>>>>>>==++$$>>>>>>>>::++$$$$$$$$++::>>>>>>>>==XX$$>>>>>>>>>>'',
     ''>>>>>>>>>>==++$$>>>>>>>>::++$$$$$$$$++::>>>>>>>>==XX$$>>>>>>>>>>'',
     ''>>>>>>>>>>==++$$>>>>>>::++$$>>>>>>>>$$++::>>>>$$++==>>>>>>>>>>>>'',
     ''>>>>>>>>>>==++$$>>>>>>::++$$>>>>>>>>$$++::>>>>$$++==>>>>>>>>>>>>'',
     ''>>>>>>>>>>==++$$>>>>>>::$$>>>>>>>>>>>>$$::>>>>$$++==>>>>>>>>>>>>'',
     ''>>>>>>>>>>==++$$>>>>>>::$$>>>>>>>>>>>>$$::>>>>$$++==>>>>>>>>>>>>'',
     ''>>>>>>>>==++$$>>>>>>>>::$$>>>>>>>>>>>>$$::>>>>$$++==>>>>>>>>>>>>'',
     ''>>>>>>>>==++$$>>>>>>>>::$$>>>>>>>>>>>>$$::>>>>$$++==>>>>>>>>>>>>'',
     ''>>>>>>>>==++$$>>>>>>>>$$====>>>>>>>>====$$>>>>$$++==>>>>>>>>>>>>'',
     ''>>>>>>>>==++$$>>>>>>>>$$====>>>>>>>>====$$>>>>$$++==>>>>>>>>>>>>'',
     ''>>>>>>$$$$$$>>>>>>>>>>>>$$$$>>>>>>>>$$$$>>>>>>>>$$++====$$$$>>>>'',
     ''>>>>>>$$$$$$>>>>>>>>>>>>$$$$>>>>>>>>$$$$>>>>>>>>$$++====$$$$>>>>'',
     ''>>>>$$>>>>>>>>>>>>>>>>>>>>$$$$>>>>$$$$>>>>>>>>>>>>$$$$$$>>>>>>>>'',
     ''>>>>$$>>>>>>>>>>>>>>>>>>>>$$$$>>>>$$$$>>>>>>>>>>>>$$$$$$>>>>>>>>'',
     ''>>>>>>>>>>>>>>>>>>>>>>>>>>>>>>>>>>>>>>>>>>>>>>>>>>>>>>>>>>>>>>>>'',
     ''>>>>>>>>>>>>>>>>>>>>>>>>>>>>>>>>>>>>>>>>>>>>>>>>>>>>>>>>>>>>>>>>'',
     ''>>>>>>>>>>>>>>>>>>>>>>>>>>>>>>>>>>>>>>>>>>>>>>>>>>>>>>>>>>>>>>>>'',
     ''>>>>>>>>>>>>>>>>>>>>>>>>>>>>>>>>>>>>>>>>>>>>>>>>>>>>>>>>>>>>>>>>'']"

definition xpm_alien_kill_2 :: "string list" where
  "xpm_alien_kill_2 =
    [''64 64 18 1 '',
     ''  c #350F0F'',
     ''. c #491515'',
     ''X c #601B1B'',
     ''o c #601C1C'',
     ''O c #502F2F'',
     ''+ c #7F2424'',
     ''@ c #613535'',
     ''# c #753B3B'',
     ''$ c #FF0000'',
     ''% c #DB575C'',
     ''& c #FF4747'',
     ''* c #FF6060'',
     ''= c #E07D7F'',
     ''- c #FF7C7C'',
     ''; c #FF8E8E'',
     '': c #FFABAB'',
     ''> c #FFBABC'',
     '', c #000000'',
     '',,,,,,,,,,,,,,,,,,,,,,,,,,,,,,,,,,,,,,,,,,,,,,,,,,,,,,,,,,,,,,,,'',
     '',,,,,,,,,,,,,,,,,,,,,,,,,,,,,,,,,,,,,,,,,,,,,,,,,,,,,,,,,,,,,,,,'',
     '',,,,,,,,,,,,,,,,>>>>>>>>>>,,,,,,,,,,,,,,>>>>>>>>>>,,,,,,,,,,,,,,'',
     '',,,,,,,,,,,,,,,,>>>>>>>>>>,,,,,,,,,,,,,,>>>>>>>>>>,,,,,,,,,,,,,,'',
     '',,,,,,,,,,,,,,>>>>==++++++>>,,,,,,,,,,>>++++====>>>>,,,,,,,,,,,,'',
     '',,,,,,,,,,,,,,>>>>==++++++>>,,,,,,,,,,>>++++====>>>>,,,,,,,,,,,,'',
     '',,,,,,,,,,,,>>%%%%,,====++++>>,,,,,,>>++====,,%%%%>>,,,,,,,,,,,,'',
     '',,,,,,,,,,,,>>%%%%,,====++++>>,,,,,,>>++====,,%%%%>>,,,,,,,,,,,,'',
     '',,,,,,,,>>>>%%,,,,,,,,==XXXX>>,,,,,,>>XX==,,,,,,%%,,,,,,,,,,,,,,'',
     '',,,,,,,,>>>>%%,,,,,,,,==XXXX>>,,,,,,>>XX==,,,,,,%%,,,,,,,,,,,,,,'',
     '',,,,,,,,,,,,,,,,,,,,,,,,==XXXX>>,,>>XXXX==,,,,,,,,,,,,,,,,,,,,,,'',
     '',,,,,,,,,,,,,,,,,,,,,,,,==XXXX>>,,>>XXXX==,,,,,,,,,,,,,,,,,,,,,,'',
     '',,,,,,,,,,,,,,,,,,,,,,,,==..XX==,,==XX..==,,,,,,,,,,,,,,,,,,,,,,'',
     '',,,,,,,,,,,,,,,,,,,,,,,,==..XX==,,==XX..==,,,,,,,,,,,,,,,,,,,,,,'',
     '',,,,,,,,,,,,,,,,,,,,,,==....XX====XX....==,,,,,,,,>>>>>>>>,,,,,,'',
     '',,,,,,,,,,,,,,,,,,,,,,==....XX====XX....==,,,,,,,,>>>>>>>>,,,,,,'',
     '',,,,,,>>>>>>,,,,,,,,==XXXX............XXXX==,,,,>>XX++++++>>,,,,'',
     '',,,,,,>>>>>>,,,,,,,,==XXXX............XXXX==,,,,>>XX++++++>>,,,,'',
     '',,,,>>++++++>>>>>>,,==XX................XX==,,>>XXXXXX==++++>>,,'',
     '',,,,>>++++++>>>>>>,,==XX................XX==,,>>XXXXXX==++++>>,,'',
     '',,>>++======XXXX>>>>XX....................XX>>XXXX====,,====>>,,'',
     '',,>>++======XXXX>>>>XX....................XX>>XXXX====,,====>>,,'',
     '',,>>==,,,,,,==XXXX............................XX==,,,,,,==>>,,,,'',
     '',,>>==,,,,,,==XXXX............................XX==,,,,,,==>>,,,,'',
     '',,,,%%==,,%%,,==XX......................oo....XX==,,,,,,==%%,,,,'',
     '',,,,%%==,,%%,,==XX......................oo....XX==,,,,,,==%%,,,,'',
     '',,,,,,%%%%,,,,==XX..  oo................$$  ..XX==,,,,,,%%%%,,,,'',
     '',,,,,,%%%%,,,,==XX..  oo................$$  ..XX==,,,,,,%%%%,,,,'',
     '',,,,,,,,,,,,>>XXXX....  oooooooooooooooo  ....XXXX>>,,,,,,%%,,,,'',
     '',,,,,,,,,,,,>>XXXX....  oooooooooooooooo  ....XXXX>>,,,,,,%%,,,,'',
     '',,,,,,,,,,,,>>XX........  $$$$          ........XX>>,,,,,,,,%%,,'',
     '',,,,,,,,,,,,>>XX........  $$$$          ........XX>>,,,,,,,,%%,,'',
     '',,,,,,,,,,,,>>XX..oooo....  OO....@@......oooo..XX>>,,,,,,,,,,,,'',
     '',,,,,,,,,,,,>>XX..oooo....  OO....@@......oooo..XX>>,,,,,,,,,,,,'',
     '',,,,,,,,,,,,,,==      oo&&--::####;;--&&oo      ==,,,,,,,,,,,,,,'',
     '',,,,,,,,,,,,,,==      oo&&--::####;;--&&oo      ==,,,,,,,,,,,,,,'',
     '',,,,,,,,,,,,,,==XX....  $$&&**oooo**&&$$  ....XX==,,,,,,,,,,,,,,'',
     '',,,,,,,,,,,,,,==XX....  $$&&**oooo**&&$$  ....XX==,,,,,,,,,,,,,,'',
     '',,,,,,,,,,,,==XXXX==XX  $$$$$$    $$$$$$  XX==XXXX==,,,,,,,,,,,,'',
     '',,,,,,,,,,,,==XXXX==XX  $$$$$$    $$$$$$  XX==XXXX==,,,,,,,,,,,,'',
     '',,,,,,,,,,==XXXX==,,==XX      ....      XX==,,==XX==,,,,,,,,,,,,'',
     '',,,,,,,,,,==XXXX==,,==XX      ....      XX==,,==XX==,,,,,,,,,,,,'',
     '',,,,,,,,==XXXX==,,,,,,==++XXXX====XXXX++==,,,,==XXXX==,,,,,,,,,,'',
     '',,,,,,,,==XXXX==,,,,,,==++XXXX====XXXX++==,,,,==XXXX==,,,,,,,,,,'',
     '',,,,,,,,%%XX==,,,,,,,,,,,,++XX====XX++,,,,,,,,,,==XX%%,,,,,,,,,,'',
     '',,,,,,,,%%XX==,,,,,,,,,,,,++XX====XX++,,,,,,,,,,==XX%%,,,,,,,,,,'',
     '',,,,,,,,==++%%,,,,,,,,,,>>++%%%%%%%%++>>,,,,,,,,==XX%%,,,,,,,,,,'',
     '',,,,,,,,==++%%,,,,,,,,,,>>++%%%%%%%%++>>,,,,,,,,==XX%%,,,,,,,,,,'',
     '',,,,,,,,==++%%,,,,,,,,>>++%%,,,,,,,,%%++>>,,,,,,==XX%%,,,,,,,,,,'',
     '',,,,,,,,==++%%,,,,,,,,>>++%%,,,,,,,,%%++>>,,,,,,==XX%%,,,,,,,,,,'',
     '',,,,,,,,==++%%,,,,,,,,>>%%,,,,,,,,,,,,%%>>,,,,%%++==,,,,,,,,,,,,'',
     '',,,,,,,,==++%%,,,,,,,,>>%%,,,,,,,,,,,,%%>>,,,,%%++==,,,,,,,,,,,,'',
     '',,,,,,,,,,==++%%,,,,,,>>%%,,,,,,,,,,,,%%>>,,,,%%++==,,,,%%,,,,,,'',
     '',,,,,,,,,,==++%%,,,,,,>>%%,,,,,,,,,,,,%%>>,,,,%%++==,,,,%%,,,,,,'',
     '',,,,,,,,,,==++%%,,,,,,,,>>====,,,,====>>,,,,,,%%++==,,==%%,,,,,,'',
     '',,,,,,,,,,==++%%,,,,,,,,>>====,,,,====>>,,,,,,%%++==,,==%%,,,,,,'',
     '',,,,,,,,,,,,%%%%,,,,,,,,,,%%%%%%%%%%%%,,,,,,,,%%++++==%%,,,,,,,,'',
     '',,,,,,,,,,,,%%%%,,,,,,,,,,%%%%%%%%%%%%,,,,,,,,%%++++==%%,,,,,,,,'',
     '',,,,,,,,,,%%,,,,,,,,,,,,,,,,%%,,,,%%,,,,,,,,,,,,%%%%%%,,,,,,,,,,'',
     '',,,,,,,,,,%%,,,,,,,,,,,,,,,,%%,,,,%%,,,,,,,,,,,,%%%%%%,,,,,,,,,,'',
     '',,,,,,,,,,,,,,,,,,,,,,,,,,,,,,,,,,,,,,,,,,,,,,,,,,,,,,,,,,,,,,,,'',
     '',,,,,,,,,,,,,,,,,,,,,,,,,,,,,,,,,,,,,,,,,,,,,,,,,,,,,,,,,,,,,,,,'',
     '',,,,,,,,,,,,,,,,,,,,,,,,,,,,,,,,,,,,,,,,,,,,,,,,,,,,,,,,,,,,,,,,'',
     '',,,,,,,,,,,,,,,,,,,,,,,,,,,,,,,,,,,,,,,,,,,,,,,,,,,,,,,,,,,,,,,,'']"

definition xpm_alien_kill_3 :: "string list" where
  "xpm_alien_kill_3 =
    [''64 64 17 1 '',
     ''  c #350F0F'',
     ''. c #491515'',
     ''X c #601B1B'',
     ''o c #601C1C'',
     ''O c #502F2F'',
     ''+ c #7F2424'',
     ''@ c #753B3B'',
     ''# c #FF0000'',
     ''$ c #DB575C'',
     ''% c #FF4747'',
     ''& c #FF6060'',
     ''* c #FF6868'',
     ''= c #E07D7F'',
     ''- c #FF7C7C'',
     ''; c #FF9C9C'',
     '': c #FFBABC'',
     ''> c #000000'',
     ''>>>>>>>>>>>>>>>>>>>>>>>>>>>>>>>>>>>>>>>>>>>>>>>>>>>>>>>>>>>>>>>>'',
     ''>>>>>>>>>>>>>>>>>>>>>>>>>>>>>>>>>>>>>>>>>>>>>>>>>>>>>>>>>>>>>>>>'',
     ''>>>>>>>>>>>>::::::::::::>>>>>>>>>>>>>>>>>>>>>>>>>>>>>>>>>>>>>>>>'',
     ''>>>>>>>>>>>>::::::::::::>>>>>>>>>>>>>>>>>>>>>>>>>>>>>>>>>>>>>>>>'',
     ''>>>>>>>>>>::::==++++++++::>>>>>>>>>>>>>>::::::::::::::>>>>>>>>>>'',
     ''>>>>>>>>>>::::==++++++++::>>>>>>>>>>>>>>::::::::::::::>>>>>>>>>>'',
     ''>>>>>>>>::$$$$>>====++++++::>>>>>>>>>>::++++++======::::>>>>>>>>'',
     ''>>>>>>>>::$$$$>>====++++++::>>>>>>>>>>::++++++======::::>>>>>>>>'',
     ''>>>>>>::$$>>>>>>>>==XXXXXX::>>>>>>>>::++++====>>>>$$$$::>>>>>>>>'',
     ''>>>>>>::$$>>>>>>>>==XXXXXX::>>>>>>>>::++++====>>>>$$$$::>>>>>>>>'',
     ''>>>>>>>>>>>>>>>>>>>>====XXXX::>>>>>>::XXXX==>>>>>>>>$$>>>>>>>>>>'',
     ''>>>>>>>>>>>>>>>>>>>>====XXXX::>>>>>>::XXXX==>>>>>>>>$$>>>>>>>>>>'',
     ''>>>>>>>>>>>>>>>>>>>>>>==..XX==>>>>==XX..==>>>>>>>>>>>>>>>>>>>>>>'',
     ''>>>>>>>>>>>>>>>>>>>>>>==..XX==>>>>==XX..==>>>>>>>>>>>>>>>>>>>>>>'',
     ''>>>>>>::::::>>>>>>>>>>==....XX====XX....==>>>>>>>>>>::::::>>>>>>'',
     ''>>>>>>::::::>>>>>>>>>>==....XX====XX....==>>>>>>>>>>::::::>>>>>>'',
     ''>>>>::++++++::::>>>>==XXXX............XXXX==>>>>::::++++++::>>>>'',
     ''>>>>::++++++::::>>>>==XXXX............XXXX==>>>>::::++++++::>>>>'',
     ''>>::++++==XXXXXX::>>==XX................XX==>>::XXXXXX====++::>>'',
     ''>>::++++==XXXXXX::>>==XX................XX==>>::XXXXXX====++::>>'',
     ''>>::++==>>==XXXX::::XX....................XX::XXXXXX==>>>>==::>>'',
     ''>>::++==>>==XXXX::::XX....................XX::XXXXXX==>>>>==::>>'',
     ''>>::==>>>>>>==XXXX............................XXXX==>>>>>>====>>'',
     ''>>::==>>>>>>==XXXX............................XXXX==>>>>>>====>>'',
     ''>>::==>>>>>>>>==XX....oo......................XX==>>>>>>>>==$$>>'',
     ''>>::==>>>>>>>>==XX....oo......................XX==>>>>>>>>==$$>>'',
     ''>>>>$$==>>>>>>==XX..  ##................oo  ..XX==>>>>>>>>$$$$>>'',
     ''>>>>$$==>>>>>>==XX..  ##................oo  ..XX==>>>>>>>>$$$$>>'',
     ''>>>>>>$$$$$$::XXXX....  oooooooooooooooo  ....XXXX::>>>>>>$$>>>>'',
     ''>>>>>>$$$$$$::XXXX....  oooooooooooooooo  ....XXXX::>>>>>>$$>>>>'',
     ''>>>>>>>>>>>>::XX........          ####  ........XX::>>>>>>$$>>>>'',
     ''>>>>>>>>>>>>::XX........          ####  ........XX::>>>>>>$$>>>>'',
     ''>>>>>>>>>>>>::XX..oooo............OO  ....oooo  XX::>>>>>>>>>>>>'',
     ''>>>>>>>>>>>>::XX..oooo............OO  ....oooo  XX::>>>>>>>>>>>>'',
     ''>>>>>>>>>>>>>>==  ####oo%%****oo@@;;--%%oo####  ==>>>>>>>>>>>>>>'',
     ''>>>>>>>>>>>>>>==  ####oo%%****oo@@;;--%%oo####  ==>>>>>>>>>>>>>>'',
     ''>>>>>>>>>>>>>>==XX      ##%%%%oooo&&%%##      XX==>>>>>>>>>>>>>>'',
     ''>>>>>>>>>>>>>>==XX      ##%%%%oooo&&%%##      XX==>>>>>>>>>>>>>>'',
     ''>>>>>>>>>>>>==XXXX==XX  ######    ######  XX==XXXX==>>>>>>>>>>>>'',
     ''>>>>>>>>>>>>==XXXX==XX  ######    ######  XX==XXXX==>>>>>>>>>>>>'',
     ''>>>>>>>>>>==XXXX==>>==XX      ....      XX==>>==XX==>>>>>>>>>>>>'',
     ''>>>>>>>>>>==XXXX==>>==XX      ....      XX==>>==XX==>>>>>>>>>>>>'',
     ''>>>>>>>>==XXXX==>>>>>>==++XXXX====XXXX++==>>>>==XXXX==>>>>>>>>>>'',
     ''>>>>>>>>==XXXX==>>>>>>==++XXXX====XXXX++==>>>>==XXXX==>>>>>>>>>>'',
     ''>>>>>>>>$$XX==>>>>>>>>>>>>++XX====XX++>>>>>>>>>>==XX$$>>>>>>>>>>'',
     ''>>>>>>>>$$XX==>>>>>>>>>>>>++XX====XX++>>>>>>>>>>==XX$$>>>>>>>>>>'',
     ''>>>>>>>>>>==++$$>>>>>>>>::++$$$$$$$$++::>>>>>>>>==XX$$>>>>>>>>>>'',
     ''>>>>>>>>>>==++$$>>>>>>>>::++$$$$$$$$++::>>>>>>>>==XX$$>>>>>>>>>>'',
     ''>>>>>>>>>>==++$$>>>>>>::++$$>>>>>>>>$$++::>>>>$$++==>>>>>>>>>>>>'',
     ''>>>>>>>>>>==++$$>>>>>>::++$$>>>>>>>>$$++::>>>>$$++==>>>>>>>>>>>>'',
     ''>>>>>>>>>>==++$$>>>>>>::$$>>>>>>>>>>>>$$::>>>>$$++==>>>>>>>>>>>>'',
     ''>>>>>>>>>>==++$$>>>>>>::$$>>>>>>>>>>>>$$::>>>>$$++==>>>>>>>>>>>>'',
     ''>>>>>>>>==++$$>>>>>>>>::$$>>>>>>>>>>>>$$::>>>>$$++==>>>>>>>>>>>>'',
     ''>>>>>>>>==++$$>>>>>>>>::$$>>>>>>>>>>>>$$::>>>>$$++==>>>>>>>>>>>>'',
     ''>>>>>>>>==++$$>>>>>>>>$$====>>>>>>>>====$$>>>>$$++==>>>>>>>>>>>>'',
     ''>>>>>>>>==++$$>>>>>>>>$$====>>>>>>>>====$$>>>>$$++==>>>>>>>>>>>>'',
     ''>>>>>>>>$$$$>>>>>>>>>>>>$$$$>>>>>>>>$$$$>>>>>>>>$$++====$$$$>>>>'',
     ''>>>>>>>>$$$$>>>>>>>>>>>>$$$$>>>>>>>>$$$$>>>>>>>>$$++====$$$$>>>>'',
     ''>>>>>>>>>>$$>>>>>>>>>>>>>>$$$$>>>>$$$$>>>>>>>>>>>>$$$$$$>>>>>>>>'',
     ''>>>>>>>>>>$$>>>>>>>>>>>>>>$$$$>>>>$$$$>>>>>>>>>>>>$$$$$$>>>>>>>>'',
     ''>>>>>>>>>>>>>>>>>>>>>>>>>>>>>>>>>>>>>>>>>>>>>>>>>>>>>>>>>>>>>>>>'',
     ''>>>>>>>>>>>>>>>>>>>>>>>>>>>>>>>>>>>>>>>>>>>>>>>>>>>>>>>>>>>>>>>>'',
     ''>>>>>>>>>>>>>>>>>>>>>>>>>>>>>>>>>>>>>>>>>>>>>>>>>>>>>>>>>>>>>>>>'',
     ''>>>>>>>>>>>>>>>>>>>>>>>>>>>>>>>>>>>>>>>>>>>>>>>>>>>>>>>>>>>>>>>>'']"


section \<open>Every image is well formed\<close>

lemma xpm_crosshair_wf: "xpm_wf 64 64 xpm_crosshair"
  by code_simp

lemma xpm_alien_appearing_wf: "xpm_wf 64 64 xpm_alien_appearing"
  by code_simp

lemma xpm_alien_alive_wf: "xpm_wf 64 64 xpm_alien_alive"
  by code_simp

lemma xpm_alien_dead_1_wf: "xpm_wf 64 64 xpm_alien_dead_1"
  by code_simp

lemma xpm_alien_dead_2_wf: "xpm_wf 64 64 xpm_alien_dead_2"
  by code_simp

lemma xpm_alien_dead_3_wf: "xpm_wf 64 64 xpm_alien_dead_3"
  by code_simp

lemma xpm_alien_dead_4_wf: "xpm_wf 64 64 xpm_alien_dead_4"
  by code_simp

lemma xpm_alien_dead_5_wf: "xpm_wf 64 64 xpm_alien_dead_5"
  by code_simp

lemma xpm_alien_kill_1_wf: "xpm_wf 64 64 xpm_alien_kill_1"
  by code_simp

lemma xpm_alien_kill_2_wf: "xpm_wf 64 64 xpm_alien_kill_2"
  by code_simp

lemma xpm_alien_kill_3_wf: "xpm_wf 64 64 xpm_alien_kill_3"
  by code_simp

lemmas picture_images_wf =
  xpm_crosshair_wf xpm_alien_appearing_wf xpm_alien_alive_wf xpm_alien_dead_1_wf xpm_alien_dead_2_wf xpm_alien_dead_3_wf
  xpm_alien_dead_4_wf xpm_alien_dead_5_wf xpm_alien_kill_1_wf xpm_alien_kill_2_wf xpm_alien_kill_3_wf

end
