(* ===== verification/Titles.thy ===== *)
theory Titles
  imports Xpm
begin

text \<open>
  \<^verbatim>\<open>sprites/buttons.h\<close> and \<^verbatim>\<open>sprites/titles.h\<close>: the images of the buttons, of the titles and of
  the corners of the table. The header and the colours are string for string, the rows of pixels are
  written as runs, and each is checked to be a complete image.
\<close>

section \<open>Images\<close>

definition xpm_play_button_pressed_colours :: "string list" where
  "xpm_play_button_pressed_colours =
     [''  c #1C1E33'', ''. c #393268'', ''X c #432F5B'', ''o c #534B82'', ''O c #646DB7'',
      ''+ c #F2E8FF'', ''@ c #000000'']"

definition xpm_play_button_pressed_runs :: "(nat \<times> (nat \<times> char) list) list" where
  "xpm_play_button_pressed_runs =
     [(2, [(256, CHR ''@'')]),
      (1, [(10, CHR ''@''), (236, CHR ''O''), (10, CHR ''@'')]),
      (1, [(7, CHR ''@''), (3, CHR ''O''), (236, CHR '' ''), (3, CHR ''O''), (7, CHR ''@'')]),
      (1, [(5, CHR ''@''), (2, CHR ''O''), (242, CHR '' ''), (2, CHR ''O''), (5, CHR ''@'')]),
      (1, [(4, CHR ''@''), (1, CHR ''O''), (9, CHR '' ''), (228, CHR ''o''), (9, CHR '' ''), (1, CHR ''O''),
        (4, CHR ''@'')]),
      (1, [(4, CHR ''@''), (1, CHR ''O''), (6, CHR '' ''), (234, CHR ''o''), (6, CHR '' ''), (1, CHR ''O''),
        (4, CHR ''@'')]),
      (1, [(3, CHR ''@''), (1, CHR ''O''), (5, CHR '' ''), (238, CHR ''o''), (5, CHR '' ''), (1, CHR ''O''),
        (3, CHR ''@'')]),
      (1, [(3, CHR ''@''), (1, CHR ''O''), (4, CHR '' ''), (60, CHR ''o''), (12, CHR ''+''), (21, CHR ''o''),
        (3, CHR ''+''), (42, CHR ''o''), (3, CHR ''+''), (24, CHR ''o''), (3, CHR ''+''), (15, CHR ''o''),
        (3, CHR ''+''), (54, CHR ''o''), (4, CHR '' ''), (1, CHR ''O''), (3, CHR ''@'')]),
      (1, [(2, CHR ''@''), (1, CHR ''O''), (5, CHR '' ''), (60, CHR ''o''), (12, CHR ''+''), (21, CHR ''o''),
        (3, CHR ''+''), (42, CHR ''o''), (3, CHR ''+''), (24, CHR ''o''), (3, CHR ''+''), (15, CHR ''o''),
        (3, CHR ''+''), (54, CHR ''o''), (4, CHR '' ''), (1, CHR ''O''), (3, CHR ''@'')]),
      (1, [(2, CHR ''@''), (1, CHR ''O''), (4, CHR '' ''), (61, CHR ''o''), (12, CHR ''+''), (21, CHR ''o''),
        (3, CHR ''+''), (42, CHR ''o''), (3, CHR ''+''), (24, CHR ''o''), (3, CHR ''+''), (15, CHR ''o''),
        (3, CHR ''+''), (55, CHR ''o''), (4, CHR '' ''), (1, CHR ''O''), (2, CHR ''@'')]),
      (2, [(2, CHR ''@''), (1, CHR ''O''), (4, CHR '' ''), (58, CHR ''o''), (18, CHR ''+''), (15, CHR ''o''),
        (6, CHR ''+''), (39, CHR ''o''), (6, CHR ''+''), (21, CHR ''o''), (6, CHR ''+''), (12, CHR ''o''),
        (6, CHR ''+''), (55, CHR ''o''), (4, CHR '' ''), (1, CHR ''O''), (2, CHR ''@'')]),
      (1, [(2, CHR ''@''), (1, CHR ''O''), (3, CHR '' ''), (59, CHR ''o''), (18, CHR ''+''), (15, CHR ''o''),
        (6, CHR ''+''), (39, CHR ''o''), (6, CHR ''+''), (21, CHR ''o''), (6, CHR ''+''), (12, CHR ''o''),
        (6, CHR ''+''), (56, CHR ''o''), (3, CHR '' ''), (1, CHR ''O''), (2, CHR ''@'')]),
      (2, [(2, CHR ''@''), (1, CHR ''O''), (3, CHR '' ''), (56, CHR ''o''), (6, CHR ''+''), (6, CHR ''X''),
        (12, CHR ''+''), (12, CHR ''o''), (6, CHR ''+''), (39, CHR ''o''), (9, CHR ''+''), (18, CHR ''o''),
        (9, CHR ''+''), (9, CHR ''o''), (3, CHR ''+''), (3, CHR ''X''), (56, CHR ''o''), (3, CHR '' ''),
        (1, CHR ''O''), (2, CHR ''@'')]),
      (1, [(2, CHR ''@''), (1, CHR ''O''), (3, CHR '' ''), (56, CHR ''o''), (6, CHR ''+''), (6, CHR ''o''),
        (12, CHR ''+''), (12, CHR ''o''), (6, CHR ''+''), (39, CHR ''o''), (9, CHR ''+''), (18, CHR ''o''),
        (9, CHR ''+''), (9, CHR ''o''), (3, CHR ''+''), (59, CHR ''o''), (3, CHR '' ''), (1, CHR ''O''),
        (2, CHR ''@'')]),
      (2, [(2, CHR ''@''), (1, CHR ''O''), (3, CHR '' ''), (56, CHR ''o''), (6, CHR ''+''), (6, CHR ''o''),
        (3, CHR ''X''), (9, CHR ''+''), (12, CHR ''o''), (6, CHR ''+''), (36, CHR ''o''), (12, CHR ''+''),
        (18, CHR ''o''), (3, CHR ''X''), (6, CHR ''+''), (6, CHR ''o''), (6, CHR ''+''), (59, CHR ''o''),
        (3, CHR '' ''), (1, CHR ''O''), (2, CHR ''@'')]),
      (1, [(2, CHR ''@''), (1, CHR ''O''), (3, CHR '' ''), (56, CHR ''o''), (6, CHR ''+''), (9, CHR ''o''),
        (9, CHR ''+''), (12, CHR ''o''), (6, CHR ''+''), (36, CHR ''o''), (12, CHR ''+''), (21, CHR ''o''),
        (6, CHR ''+''), (6, CHR ''o''), (6, CHR ''+''), (59, CHR ''o''), (3, CHR '' ''), (1, CHR ''O''),
        (2, CHR ''@'')]),
      (2, [(2, CHR ''@''), (1, CHR ''O''), (3, CHR '' ''), (56, CHR ''o''), (6, CHR ''+''), (9, CHR ''o''),
        (3, CHR ''X''), (6, CHR ''+''), (12, CHR ''o''), (6, CHR ''+''), (36, CHR ''o''), (3, CHR ''+''),
        (3, CHR ''X''), (6, CHR ''+''), (21, CHR ''o''), (9, CHR ''+''), (3, CHR ''o''), (3, CHR ''+''),
        (3, CHR ''X''), (59, CHR ''o''), (3, CHR '' ''), (1, CHR ''O''), (2, CHR ''@'')]),
      (1, [(2, CHR ''@''), (1, CHR ''O''), (3, CHR '' ''), (56, CHR ''o''), (6, CHR ''+''), (12, CHR ''o''),
        (6, CHR ''+''), (12, CHR ''o''), (6, CHR ''+''), (36, CHR ''o''), (3, CHR ''+''), (3, CHR ''o''),
        (6, CHR ''+''), (21, CHR ''o''), (9, CHR ''+''), (3, CHR ''o''), (3, CHR ''+''), (62, CHR ''o''),
        (3, CHR '' ''), (1, CHR ''O''), (2, CHR ''@'')]),
      (2, [(2, CHR ''@''), (1, CHR ''O''), (3, CHR '' ''), (56, CHR ''o''), (6, CHR ''+''), (9, CHR ''o''),
        (6, CHR ''+''), (3, CHR ''X''), (12, CHR ''o''), (6, CHR ''+''), (33, CHR ''o''), (6, CHR ''+''),
        (3, CHR ''o''), (9, CHR ''+''), (18, CHR ''o''), (3, CHR ''X''), (12, CHR ''+''), (62, CHR ''o''),
        (3, CHR '' ''), (1, CHR ''O''), (2, CHR ''@'')]),
      (1, [(2, CHR ''@''), (1, CHR ''O''), (3, CHR '' ''), (56, CHR ''o''), (6, CHR ''+''), (9, CHR ''o''),
        (6, CHR ''+''), (15, CHR ''o''), (6, CHR ''+''), (33, CHR ''o''), (6, CHR ''+''), (3, CHR ''o''),
        (9, CHR ''+''), (21, CHR ''o''), (12, CHR ''+''), (62, CHR ''o''), (3, CHR '' ''), (1, CHR ''O''),
        (2, CHR ''@'')]),
      (2, [(2, CHR ''@''), (1, CHR ''O''), (3, CHR '' ''), (56, CHR ''o''), (18, CHR ''+''), (3, CHR ''X''),
        (15, CHR ''o''), (6, CHR ''+''), (33, CHR ''o''), (3, CHR ''+''), (3, CHR ''X''), (3, CHR ''o''),
        (3, CHR ''X''), (6, CHR ''+''), (21, CHR ''o''), (9, CHR ''+''), (3, CHR ''X''), (62, CHR ''o''),
        (3, CHR '' ''), (1, CHR ''O''), (2, CHR ''@'')]),
      (1, [(2, CHR ''@''), (1, CHR ''O''), (3, CHR '' ''), (56, CHR ''o''), (18, CHR ''+''), (18, CHR ''o''),
        (6, CHR ''+''), (33, CHR ''o''), (3, CHR ''+''), (9, CHR ''o''), (6, CHR ''+''), (21, CHR ''o''),
        (9, CHR ''+''), (65, CHR ''o''), (3, CHR '' ''), (1, CHR ''O''), (2, CHR ''@'')]),
      (2, [(2, CHR ''@''), (1, CHR ''O''), (3, CHR '' ''), (56, CHR ''o''), (15, CHR ''+''), (3, CHR ''X''),
        (18, CHR ''o''), (6, CHR ''+''), (33, CHR ''o''), (3, CHR ''+''), (9, CHR ''o''), (9, CHR ''+''),
        (18, CHR ''o''), (3, CHR ''X''), (6, CHR ''+''), (65, CHR ''o''), (3, CHR '' ''), (1, CHR ''O''),
        (2, CHR ''@'')]),
      (1, [(2, CHR ''@''), (1, CHR ''O''), (3, CHR '' ''), (56, CHR ''o''), (15, CHR ''+''), (21, CHR ''o''),
        (6, CHR ''+''), (33, CHR ''o''), (3, CHR ''+''), (9, CHR ''o''), (9, CHR ''+''), (21, CHR ''o''),
        (6, CHR ''+''), (65, CHR ''o''), (3, CHR '' ''), (1, CHR ''O''), (2, CHR ''@'')]),
      (2, [(2, CHR ''@''), (1, CHR ''O''), (3, CHR '' ''), (56, CHR ''o''), (6, CHR ''+''), (9, CHR ''X''),
        (21, CHR ''o''), (6, CHR ''+''), (30, CHR ''o''), (24, CHR ''+''), (21, CHR ''o''), (6, CHR ''+''),
        (65, CHR ''o''), (3, CHR '' ''), (1, CHR ''O''), (2, CHR ''@'')]),
      (4, [(2, CHR ''@''), (1, CHR ''O''), (3, CHR '' ''), (56, CHR ''o''), (6, CHR ''+''), (30, CHR ''o''),
        (6, CHR ''+''), (30, CHR ''o''), (24, CHR ''+''), (21, CHR ''o''), (6, CHR ''+''), (65, CHR ''o''),
        (3, CHR '' ''), (1, CHR ''O''), (2, CHR ''@'')]),
      (2, [(2, CHR ''@''), (1, CHR ''O''), (3, CHR '' ''), (56, CHR ''o''), (6, CHR ''+''), (30, CHR ''o''),
        (6, CHR ''+''), (30, CHR ''o''), (6, CHR ''+''), (12, CHR ''X''), (6, CHR ''+''), (21, CHR ''o''),
        (6, CHR ''+''), (65, CHR ''o''), (3, CHR '' ''), (1, CHR ''O''), (2, CHR ''@'')]),
      (1, [(2, CHR ''@''), (1, CHR ''O''), (3, CHR '' ''), (56, CHR ''o''), (6, CHR ''+''), (30, CHR ''o''),
        (6, CHR ''+''), (30, CHR ''o''), (6, CHR ''+''), (12, CHR ''o''), (6, CHR ''+''), (21, CHR ''o''),
        (6, CHR ''+''), (65, CHR ''o''), (3, CHR '' ''), (1, CHR ''O''), (2, CHR ''@'')]),
      (3, [(2, CHR ''@''), (1, CHR ''O''), (3, CHR '' ''), (56, CHR ''o''), (9, CHR ''+''), (27, CHR ''o''),
        (6, CHR ''+''), (15, CHR ''o''), (3, CHR ''+''), (12, CHR ''o''), (6, CHR ''+''), (12, CHR ''o''),
        (6, CHR ''+''), (21, CHR ''o''), (9, CHR ''+''), (62, CHR ''o''), (3, CHR '' ''), (1, CHR ''O''),
        (2, CHR ''@'')]),
      (2, [(2, CHR ''@''), (1, CHR ''O''), (3, CHR '' ''), (56, CHR ''o''), (6, CHR ''+''), (3, CHR ''X''),
        (27, CHR ''o''), (21, CHR ''+''), (3, CHR ''X''), (12, CHR ''o''), (6, CHR ''+''), (12, CHR ''o''),
        (6, CHR ''+''), (21, CHR ''o''), (6, CHR ''+''), (3, CHR ''X''), (62, CHR ''o''), (3, CHR '' ''),
        (1, CHR ''O''), (2, CHR ''@'')]),
      (1, [(2, CHR ''@''), (1, CHR ''O''), (3, CHR '' ''), (56, CHR ''o''), (6, CHR ''+''), (30, CHR ''o''),
        (21, CHR ''+''), (15, CHR ''o''), (6, CHR ''+''), (12, CHR ''o''), (6, CHR ''+''), (21, CHR ''o''),
        (6, CHR ''+''), (65, CHR ''o''), (3, CHR '' ''), (1, CHR ''O''), (2, CHR ''@'')]),
      (2, [(2, CHR ''@''), (1, CHR ''O''), (3, CHR '' ''), (56, CHR ''o''), (3, CHR ''+''), (3, CHR ''X''),
        (30, CHR ''o''), (3, CHR ''X''), (15, CHR ''+''), (3, CHR ''X''), (15, CHR ''o''), (3, CHR ''+''),
        (3, CHR ''X''), (12, CHR ''o''), (3, CHR ''+''), (3, CHR ''X''), (21, CHR ''o''), (3, CHR ''+''),
        (3, CHR ''X''), (65, CHR ''o''), (3, CHR '' ''), (1, CHR ''O''), (2, CHR ''@'')]),
      (1, [(2, CHR ''@''), (1, CHR ''O''), (3, CHR '' ''), (1, CHR ''.''), (55, CHR ''o''), (3, CHR ''+''),
        (36, CHR ''o''), (15, CHR ''+''), (18, CHR ''o''), (3, CHR ''+''), (15, CHR ''o''), (3, CHR ''+''),
        (24, CHR ''o''), (3, CHR ''+''), (67, CHR ''o''), (1, CHR ''.''), (3, CHR '' ''), (1, CHR ''O''),
        (2, CHR ''@'')]),
      (2, [(2, CHR ''@''), (1, CHR ''O''), (4, CHR '' ''), (55, CHR ''o''), (3, CHR ''X''), (36, CHR ''o''),
        (15, CHR ''X''), (18, CHR ''o''), (3, CHR ''X''), (15, CHR ''o''), (3, CHR ''X''), (24, CHR ''o''),
        (3, CHR ''X''), (67, CHR ''o''), (4, CHR '' ''), (1, CHR ''O''), (2, CHR ''@'')]),
      (1, [(2, CHR ''@''), (1, CHR ''O''), (4, CHR '' ''), (1, CHR ''.''), (240, CHR ''o''), (1, CHR ''.''),
        (4, CHR '' ''), (1, CHR ''O''), (2, CHR ''@'')]),
      (1, [(2, CHR ''@''), (1, CHR ''O''), (5, CHR '' ''), (240, CHR ''o''), (5, CHR '' ''), (1, CHR ''O''),
        (2, CHR ''@'')]),
      (1, [(3, CHR ''@''), (1, CHR ''O''), (4, CHR '' ''), (1, CHR ''.''), (238, CHR ''o''), (1, CHR ''.''),
        (4, CHR '' ''), (1, CHR ''O''), (3, CHR ''@'')]),
      (1, [(3, CHR ''@''), (1, CHR ''O''), (5, CHR '' ''), (2, CHR ''.''), (234, CHR ''o''), (2, CHR ''.''),
        (5, CHR '' ''), (1, CHR ''O''), (3, CHR ''@'')]),
      (1, [(3, CHR ''@''), (1, CHR ''O''), (7, CHR '' ''), (3, CHR ''.''), (228, CHR ''o''), (3, CHR ''.''),
        (7, CHR '' ''), (1, CHR ''O''), (3, CHR ''@'')]),
      (1, [(4, CHR ''@''), (1, CHR ''O''), (9, CHR '' ''), (228, CHR ''.''), (9, CHR '' ''), (1, CHR ''O''),
        (4, CHR ''@'')]),
      (1, [(4, CHR ''@''), (1, CHR ''O''), (246, CHR '' ''), (1, CHR ''O''), (4, CHR ''@'')]),
      (1, [(5, CHR ''@''), (2, CHR ''O''), (242, CHR '' ''), (2, CHR ''O''), (5, CHR ''@'')]),
      (1, [(7, CHR ''@''), (3, CHR ''O''), (236, CHR '' ''), (3, CHR ''O''), (7, CHR ''@'')]),
      (1, [(10, CHR ''@''), (236, CHR ''O''), (10, CHR ''@'')]),
      (2, [(256, CHR ''@'')])]"

definition xpm_play_button_pressed :: "string list" where
  "xpm_play_button_pressed = (''256 64 7 1 '' # xpm_play_button_pressed_colours) @ pixel_rows xpm_play_button_pressed_runs"

definition xpm_play_button_unpressed_colours :: "string list" where
  "xpm_play_button_unpressed_colours =
     [''  c #1C1E33'', ''. c #393268'', ''X c #432F5B'', ''o c #534B82'', ''O c #646DB7'',
      ''+ c #F2E8FF'', ''@ c #000000'']"

definition xpm_play_button_unpressed_runs :: "(nat \<times> (nat \<times> char) list) list" where
  "xpm_play_button_unpressed_runs =
     [(2, [(256, CHR ''@'')]),
      (1, [(10, CHR ''@''), (4, CHR ''O''), (228, CHR ''o''), (4, CHR ''O''), (10, CHR ''@'')]),
      (1, [(7, CHR ''@''), (3, CHR ''O''), (1, CHR '' ''), (234, CHR ''o''), (1, CHR '' ''), (3, CHR ''O''),
        (7, CHR ''@'')]),
      (1, [(5, CHR ''@''), (2, CHR ''O''), (2, CHR '' ''), (238, CHR ''o''), (2, CHR '' ''), (2, CHR ''O''),
        (5, CHR ''@'')]),
      (2, [(4, CHR ''@''), (1, CHR ''O''), (3, CHR '' ''), (60, CHR ''o''), (12, CHR ''+''), (21, CHR ''o''),
        (3, CHR ''+''), (42, CHR ''o''), (3, CHR ''+''), (24, CHR ''o''), (3, CHR ''+''), (15, CHR ''o''),
        (3, CHR ''+''), (54, CHR ''o''), (3, CHR '' ''), (1, CHR ''O''), (4, CHR ''@'')]),
      (1, [(3, CHR ''@''), (1, CHR ''O''), (3, CHR '' ''), (61, CHR ''o''), (12, CHR ''+''), (21, CHR ''o''),
        (3, CHR ''+''), (42, CHR ''o''), (3, CHR ''+''), (24, CHR ''o''), (3, CHR ''+''), (15, CHR ''o''),
        (3, CHR ''+''), (55, CHR ''o''), (3, CHR '' ''), (1, CHR ''O''), (3, CHR ''@'')]),
      (1, [(3, CHR ''@''), (1, CHR ''O''), (3, CHR '' ''), (58, CHR ''o''), (18, CHR ''+''), (15, CHR ''o''),
        (6, CHR ''+''), (39, CHR ''o''), (6, CHR ''+''), (21, CHR ''o''), (6, CHR ''+''), (12, CHR ''o''),
        (6, CHR ''+''), (55, CHR ''o''), (3, CHR '' ''), (1, CHR ''O''), (3, CHR ''@'')]),
      (1, [(2, CHR ''@''), (1, CHR ''O''), (4, CHR '' ''), (58, CHR ''o''), (18, CHR ''+''), (15, CHR ''o''),
        (6, CHR ''+''), (39, CHR ''o''), (6, CHR ''+''), (21, CHR ''o''), (6, CHR ''+''), (12, CHR ''o''),
        (6, CHR ''+''), (55, CHR ''o''), (3, CHR '' ''), (1, CHR ''O''), (3, CHR ''@'')]),
      (1, [(2, CHR ''@''), (1, CHR ''O''), (3, CHR '' ''), (59, CHR ''o''), (18, CHR ''+''), (15, CHR ''o''),
        (6, CHR ''+''), (39, CHR ''o''), (6, CHR ''+''), (21, CHR ''o''), (6, CHR ''+''), (12, CHR ''o''),
        (6, CHR ''+''), (56, CHR ''o''), (3, CHR '' ''), (1, CHR ''O''), (2, CHR ''@'')]),
      (2, [(2, CHR ''@''), (1, CHR ''O''), (3, CHR '' ''), (56, CHR ''o''), (6, CHR ''+''), (6, CHR ''X''),
        (12, CHR ''+''), (12, CHR ''o''), (6, CHR ''+''), (39, CHR ''o''), (9, CHR ''+''), (18, CHR ''o''),
        (9, CHR ''+''), (9, CHR ''o''), (3, CHR ''+''), (3, CHR ''X''), (56, CHR ''o''), (3, CHR '' ''),
        (1, CHR ''O''), (2, CHR ''@'')]),
      (1, [(2, CHR ''@''), (1, CHR ''O''), (3, CHR '' ''), (56, CHR ''o''), (6, CHR ''+''), (6, CHR ''o''),
        (12, CHR ''+''), (12, CHR ''o''), (6, CHR ''+''), (39, CHR ''o''), (9, CHR ''+''), (18, CHR ''o''),
        (9, CHR ''+''), (9, CHR ''o''), (3, CHR ''+''), (59, CHR ''o''), (3, CHR '' ''), (1, CHR ''O''),
        (2, CHR ''@'')]),
      (2, [(2, CHR ''@''), (1, CHR ''O''), (3, CHR '' ''), (56, CHR ''o''), (6, CHR ''+''), (6, CHR ''o''),
        (3, CHR ''X''), (9, CHR ''+''), (12, CHR ''o''), (6, CHR ''+''), (36, CHR ''o''), (12, CHR ''+''),
        (18, CHR ''o''), (3, CHR ''X''), (6, CHR ''+''), (6, CHR ''o''), (6, CHR ''+''), (59, CHR ''o''),
        (3, CHR '' ''), (1, CHR ''O''), (2, CHR ''@'')]),
      (1, [(2, CHR ''@''), (1, CHR ''O''), (3, CHR '' ''), (56, CHR ''o''), (6, CHR ''+''), (9, CHR ''o''),
        (9, CHR ''+''), (12, CHR ''o''), (6, CHR ''+''), (36, CHR ''o''), (12, CHR ''+''), (21, CHR ''o''),
        (6, CHR ''+''), (6, CHR ''o''), (6, CHR ''+''), (59, CHR ''o''), (3, CHR '' ''), (1, CHR ''O''),
        (2, CHR ''@'')]),
      (2, [(2, CHR ''@''), (1, CHR ''O''), (3, CHR '' ''), (56, CHR ''o''), (6, CHR ''+''), (9, CHR ''o''),
        (3, CHR ''X''), (6, CHR ''+''), (12, CHR ''o''), (6, CHR ''+''), (36, CHR ''o''), (3, CHR ''+''),
        (3, CHR ''X''), (6, CHR ''+''), (21, CHR ''o''), (9, CHR ''+''), (3, CHR ''o''), (3, CHR ''+''),
        (3, CHR ''X''), (59, CHR ''o''), (3, CHR '' ''), (1, CHR ''O''), (2, CHR ''@'')]),
      (1, [(2, CHR ''@''), (1, CHR ''O''), (3, CHR '' ''), (56, CHR ''o''), (6, CHR ''+''), (12, CHR ''o''),
        (6, CHR ''+''), (12, CHR ''o''), (6, CHR ''+''), (36, CHR ''o''), (3, CHR ''+''), (3, CHR ''o''),
        (6, CHR ''+''), (21, CHR ''o''), (9, CHR ''+''), (3, CHR ''o''), (3, CHR ''+''), (62, CHR ''o''),
        (3, CHR '' ''), (1, CHR ''O''), (2, CHR ''@'')]),
      (2, [(2, CHR ''@''), (1, CHR ''O''), (3, CHR '' ''), (56, CHR ''o''), (6, CHR ''+''), (9, CHR ''o''),
        (6, CHR ''+''), (3, CHR ''X''), (12, CHR ''o''), (6, CHR ''+''), (33, CHR ''o''), (6, CHR ''+''),
        (3, CHR ''o''), (9, CHR ''+''), (18, CHR ''o''), (3, CHR ''X''), (12, CHR ''+''), (62, CHR ''o''),
        (3, CHR '' ''), (1, CHR ''O''), (2, CHR ''@'')]),
      (1, [(2, CHR ''@''), (1, CHR ''O''), (3, CHR '' ''), (56, CHR ''o''), (6, CHR ''+''), (9, CHR ''o''),
        (6, CHR ''+''), (15, CHR ''o''), (6, CHR ''+''), (33, CHR ''o''), (6, CHR ''+''), (3, CHR ''o''),
        (9, CHR ''+''), (21, CHR ''o''), (12, CHR ''+''), (62, CHR ''o''), (3, CHR '' ''), (1, CHR ''O''),
        (2, CHR ''@'')]),
      (2, [(2, CHR ''@''), (1, CHR ''O''), (3, CHR '' ''), (56, CHR ''o''), (18, CHR ''+''), (3, CHR ''X''),
        (15, CHR ''o''), (6, CHR ''+''), (33, CHR ''o''), (3, CHR ''+''), (3, CHR ''X''), (3, CHR ''o''),
        (3, CHR ''X''), (6, CHR ''+''), (21, CHR ''o''), (9, CHR ''+''), (3, CHR ''X''), (62, CHR ''o''),
        (3, CHR '' ''), (1, CHR ''O''), (2, CHR ''@'')]),
      (1, [(2, CHR ''@''), (1, CHR ''O''), (3, CHR '' ''), (56, CHR ''o''), (18, CHR ''+''), (18, CHR ''o''),
        (6, CHR ''+''), (33, CHR ''o''), (3, CHR ''+''), (9, CHR ''o''), (6, CHR ''+''), (21, CHR ''o''),
        (9, CHR ''+''), (65, CHR ''o''), (3, CHR '' ''), (1, CHR ''O''), (2, CHR ''@'')]),
      (2, [(2, CHR ''@''), (1, CHR ''O''), (3, CHR '' ''), (56, CHR ''o''), (15, CHR ''+''), (3, CHR ''X''),
        (18, CHR ''o''), (6, CHR ''+''), (33, CHR ''o''), (3, CHR ''+''), (9, CHR ''o''), (9, CHR ''+''),
        (18, CHR ''o''), (3, CHR ''X''), (6, CHR ''+''), (65, CHR ''o''), (3, CHR '' ''), (1, CHR ''O''),
        (2, CHR ''@'')]),
      (1, [(2, CHR ''@''), (1, CHR ''O''), (3, CHR '' ''), (56, CHR ''o''), (15, CHR ''+''), (21, CHR ''o''),
        (6, CHR ''+''), (33, CHR ''o''), (3, CHR ''+''), (9, CHR ''o''), (9, CHR ''+''), (21, CHR ''o''),
        (6, CHR ''+''), (65, CHR ''o''), (3, CHR '' ''), (1, CHR ''O''), (2, CHR ''@'')]),
      (2, [(2, CHR ''@''), (1, CHR ''O''), (3, CHR '' ''), (56, CHR ''o''), (6, CHR ''+''), (9, CHR ''X''),
        (21, CHR ''o''), (6, CHR ''+''), (30, CHR ''o''), (24, CHR ''+''), (21, CHR ''o''), (6, CHR ''+''),
        (65, CHR ''o''), (3, CHR '' ''), (1, CHR ''O''), (2, CHR ''@'')]),
      (4, [(2, CHR ''@''), (1, CHR ''O''), (3, CHR '' ''), (56, CHR ''o''), (6, CHR ''+''), (30, CHR ''o''),
        (6, CHR ''+''), (30, CHR ''o''), (24, CHR ''+''), (21, CHR ''o''), (6, CHR ''+''), (65, CHR ''o''),
        (3, CHR '' ''), (1, CHR ''O''), (2, CHR ''@'')]),
      (2, [(2, CHR ''@''), (1, CHR ''O''), (3, CHR '' ''), (56, CHR ''o''), (6, CHR ''+''), (30, CHR ''o''),
        (6, CHR ''+''), (30, CHR ''o''), (6, CHR ''+''), (12, CHR ''X''), (6, CHR ''+''), (21, CHR ''o''),
        (6, CHR ''+''), (65, CHR ''o''), (3, CHR '' ''), (1, CHR ''O''), (2, CHR ''@'')]),
      (1, [(2, CHR ''@''), (1, CHR ''O''), (3, CHR '' ''), (56, CHR ''o''), (6, CHR ''+''), (30, CHR ''o''),
        (6, CHR ''+''), (30, CHR ''o''), (6, CHR ''+''), (12, CHR ''o''), (6, CHR ''+''), (21, CHR ''o''),
        (6, CHR ''+''), (65, CHR ''o''), (3, CHR '' ''), (1, CHR ''O''), (2, CHR ''@'')]),
      (3, [(2, CHR ''@''), (1, CHR ''O''), (3, CHR '' ''), (56, CHR ''o''), (9, CHR ''+''), (27, CHR ''o''),
        (6, CHR ''+''), (15, CHR ''o''), (3, CHR ''+''), (12, CHR ''o''), (6, CHR ''+''), (12, CHR ''o''),
        (6, CHR ''+''), (21, CHR ''o''), (9, CHR ''+''), (62, CHR ''o''), (3, CHR '' ''), (1, CHR ''O''),
        (2, CHR ''@'')]),
      (2, [(2, CHR ''@''), (1, CHR ''O''), (3, CHR '' ''), (56, CHR ''o''), (6, CHR ''+''), (3, CHR ''X''),
        (27, CHR ''o''), (21, CHR ''+''), (3, CHR ''X''), (12, CHR ''o''), (6, CHR ''+''), (12, CHR ''o''),
        (6, CHR ''+''), (21, CHR ''o''), (6, CHR ''+''), (3, CHR ''X''), (62, CHR ''o''), (3, CHR '' ''),
        (1, CHR ''O''), (2, CHR ''@'')]),
      (1, [(2, CHR ''@''), (1, CHR ''O''), (3, CHR '' ''), (56, CHR ''o''), (6, CHR ''+''), (30, CHR ''o''),
        (21, CHR ''+''), (15, CHR ''o''), (6, CHR ''+''), (12, CHR ''o''), (6, CHR ''+''), (21, CHR ''o''),
        (6, CHR ''+''), (65, CHR ''o''), (3, CHR '' ''), (1, CHR ''O''), (2, CHR ''@'')]),
      (2, [(2, CHR ''@''), (1, CHR ''O''), (3, CHR '' ''), (56, CHR ''o''), (3, CHR ''+''), (3, CHR ''X''),
        (30, CHR ''o''), (3, CHR ''X''), (15, CHR ''+''), (3, CHR ''X''), (15, CHR ''o''), (3, CHR ''+''),
        (3, CHR ''X''), (12, CHR ''o''), (3, CHR ''+''), (3, CHR ''X''), (21, CHR ''o''), (3, CHR ''+''),
        (3, CHR ''X''), (65, CHR ''o''), (3, CHR '' ''), (1, CHR ''O''), (2, CHR ''@'')]),
      (1, [(2, CHR ''@''), (1, CHR ''O''), (3, CHR '' ''), (1, CHR ''.''), (55, CHR ''o''), (3, CHR ''+''),
        (36, CHR ''o''), (15, CHR ''+''), (18, CHR ''o''), (3, CHR ''+''), (15, CHR ''o''), (3, CHR ''+''),
        (24, CHR ''o''), (3, CHR ''+''), (67, CHR ''o''), (1, CHR ''.''), (3, CHR '' ''), (1, CHR ''O''),
        (2, CHR ''@'')]),
      (2, [(2, CHR ''@''), (1, CHR ''O''), (3, CHR '' ''), (1, CHR ''.''), (55, CHR ''o''), (3, CHR ''X''),
        (36, CHR ''o''), (15, CHR ''X''), (18, CHR ''o''), (3, CHR ''X''), (15, CHR ''o''), (3, CHR ''X''),
        (24, CHR ''o''), (3, CHR ''X''), (67, CHR ''o''), (1, CHR ''.''), (3, CHR '' ''), (1, CHR ''O''),
        (2, CHR ''@'')]),
      (1, [(2, CHR ''@''), (1, CHR ''O''), (3, CHR '' ''), (2, CHR ''.''), (240, CHR ''o''), (2, CHR ''.''),
        (3, CHR '' ''), (1, CHR ''O''), (2, CHR ''@'')]),
      (1, [(2, CHR ''@''), (1, CHR ''O''), (4, CHR '' ''), (1, CHR ''.''), (240, CHR ''o''), (1, CHR ''.''),
        (4, CHR '' ''), (1, CHR ''O''), (2, CHR ''@'')]),
      (1, [(2, CHR ''@''), (1, CHR ''O''), (4, CHR '' ''), (2, CHR ''.''), (238, CHR ''o''), (2, CHR ''.''),
        (4, CHR '' ''), (1, CHR ''O''), (2, CHR ''@'')]),
      (1, [(2, CHR ''@''), (1, CHR ''O''), (4, CHR '' ''), (4, CHR ''.''), (234, CHR ''o''), (4, CHR ''.''),
        (4, CHR '' ''), (1, CHR ''O''), (2, CHR ''@'')]),
      (1, [(2, CHR ''@''), (1, CHR ''O''), (5, CHR '' ''), (6, CHR ''.''), (228, CHR ''o''), (6, CHR ''.''),
        (5, CHR '' ''), (1, CHR ''O''), (2, CHR ''@'')]),
      (1, [(3, CHR ''@''), (1, CHR ''O''), (4, CHR '' ''), (240, CHR ''.''), (4, CHR '' ''), (1, CHR ''O''),
        (3, CHR ''@'')]),
      (1, [(3, CHR ''@''), (1, CHR ''O''), (5, CHR '' ''), (238, CHR ''.''), (5, CHR '' ''), (1, CHR ''O''),
        (3, CHR ''@'')]),
      (1, [(3, CHR ''@''), (1, CHR ''O''), (7, CHR '' ''), (234, CHR ''.''), (7, CHR '' ''), (1, CHR ''O''),
        (3, CHR ''@'')]),
      (1, [(4, CHR ''@''), (1, CHR ''O''), (9, CHR '' ''), (228, CHR ''.''), (9, CHR '' ''), (1, CHR ''O''),
        (4, CHR ''@'')]),
      (1, [(4, CHR ''@''), (1, CHR ''O''), (246, CHR '' ''), (1, CHR ''O''), (4, CHR ''@'')]),
      (1, [(5, CHR ''@''), (2, CHR ''O''), (242, CHR '' ''), (2, CHR ''O''), (5, CHR ''@'')]),
      (1, [(7, CHR ''@''), (3, CHR ''O''), (236, CHR '' ''), (3, CHR ''O''), (7, CHR ''@'')]),
      (1, [(10, CHR ''@''), (236, CHR ''O''), (10, CHR ''@'')]),
      (2, [(256, CHR ''@'')])]"

definition xpm_play_button_unpressed :: "string list" where
  "xpm_play_button_unpressed = (''256 64 7 1 '' # xpm_play_button_unpressed_colours) @ pixel_rows xpm_play_button_unpressed_runs"

definition xpm_exit_button_pressed_colours :: "string list" where
  "xpm_exit_button_pressed_colours =
     [''  c #1C1E33'', ''. c #393268'', ''X c #432F5B'', ''o c #534B82'', ''O c #646DB7'',
      ''+ c #F2E8FF'', ''@ c #000000'']"

definition xpm_exit_button_pressed_runs :: "(nat \<times> (nat \<times> char) list) list" where
  "xpm_exit_button_pressed_runs =
     [(2, [(256, CHR ''@'')]),
      (1, [(10, CHR ''@''), (236, CHR ''O''), (10, CHR ''@'')]),
      (1, [(7, CHR ''@''), (3, CHR ''O''), (236, CHR '' ''), (3, CHR ''O''), (7, CHR ''@'')]),
      (1, [(5, CHR ''@''), (2, CHR ''O''), (242, CHR '' ''), (2, CHR ''O''), (5, CHR ''@'')]),
      (1, [(4, CHR ''@''), (1, CHR ''O''), (9, CHR '' ''), (228, CHR ''o''), (9, CHR '' ''), (1, CHR ''O''),
        (4, CHR ''@'')]),
      (1, [(4, CHR ''@''), (1, CHR ''O''), (6, CHR '' ''), (234, CHR ''o''), (6, CHR '' ''), (1, CHR ''O''),
        (4, CHR ''@'')]),
      (1, [(3, CHR ''@''), (1, CHR ''O''), (5, CHR '' ''), (238, CHR ''o''), (5, CHR '' ''), (1, CHR ''O''),
        (3, CHR ''@'')]),
      (1, [(3, CHR ''@''), (1, CHR ''O''), (4, CHR '' ''), (57, CHR ''o''), (21, CHR ''+''), (15, CHR ''o''),
        (3, CHR ''+''), (15, CHR ''o''), (3, CHR ''+''), (24, CHR ''o''), (3, CHR ''+''), (24, CHR ''o''),
        (21, CHR ''+''), (54, CHR ''o''), (4, CHR '' ''), (1, CHR ''O''), (3, CHR ''@'')]),
      (1, [(2, CHR ''@''), (1, CHR ''O''), (5, CHR '' ''), (57, CHR ''o''), (21, CHR ''+''), (15, CHR ''o''),
        (3, CHR ''+''), (15, CHR ''o''), (3, CHR ''+''), (24, CHR ''o''), (3, CHR ''+''), (24, CHR ''o''),
        (21, CHR ''+''), (54, CHR ''o''), (4, CHR '' ''), (1, CHR ''O''), (3, CHR ''@'')]),
      (1, [(2, CHR ''@''), (1, CHR ''O''), (4, CHR '' ''), (58, CHR ''o''), (21, CHR ''+''), (15, CHR ''o''),
        (3, CHR ''+''), (15, CHR ''o''), (3, CHR ''+''), (24, CHR ''o''), (3, CHR ''+''), (24, CHR ''o''),
        (21, CHR ''+''), (55, CHR ''o''), (4, CHR '' ''), (1, CHR ''O''), (2, CHR ''@'')]),
      (2, [(2, CHR ''@''), (1, CHR ''O''), (4, CHR '' ''), (55, CHR ''o''), (21, CHR ''+''), (3, CHR ''X''),
        (12, CHR ''o''), (6, CHR ''+''), (12, CHR ''o''), (6, CHR ''+''), (21, CHR ''o''), (6, CHR ''+''),
        (21, CHR ''o''), (21, CHR ''+''), (3, CHR ''X''), (55, CHR ''o''), (4, CHR '' ''), (1, CHR ''O''),
        (2, CHR ''@'')]),
      (1, [(2, CHR ''@''), (1, CHR ''O''), (3, CHR '' ''), (56, CHR ''o''), (21, CHR ''+''), (15, CHR ''o''),
        (6, CHR ''+''), (12, CHR ''o''), (6, CHR ''+''), (21, CHR ''o''), (6, CHR ''+''), (21, CHR ''o''),
        (21, CHR ''+''), (59, CHR ''o''), (3, CHR '' ''), (1, CHR ''O''), (2, CHR ''@'')]),
      (2, [(2, CHR ''@''), (1, CHR ''O''), (3, CHR '' ''), (56, CHR ''o''), (6, CHR ''+''), (15, CHR ''X''),
        (15, CHR ''o''), (9, CHR ''+''), (9, CHR ''o''), (3, CHR ''+''), (3, CHR ''X''), (21, CHR ''o''),
        (6, CHR ''+''), (21, CHR ''o''), (9, CHR ''X''), (6, CHR ''+''), (6, CHR ''X''), (59, CHR ''o''),
        (3, CHR '' ''), (1, CHR ''O''), (2, CHR ''@'')]),
      (1, [(2, CHR ''@''), (1, CHR ''O''), (3, CHR '' ''), (56, CHR ''o''), (6, CHR ''+''), (30, CHR ''o''),
        (9, CHR ''+''), (9, CHR ''o''), (3, CHR ''+''), (24, CHR ''o''), (6, CHR ''+''), (30, CHR ''o''),
        (6, CHR ''+''), (65, CHR ''o''), (3, CHR '' ''), (1, CHR ''O''), (2, CHR ''@'')]),
      (2, [(2, CHR ''@''), (1, CHR ''O''), (3, CHR '' ''), (56, CHR ''o''), (6, CHR ''+''), (30, CHR ''o''),
        (3, CHR ''X''), (6, CHR ''+''), (6, CHR ''o''), (6, CHR ''+''), (24, CHR ''o''), (6, CHR ''+''),
        (30, CHR ''o''), (6, CHR ''+''), (65, CHR ''o''), (3, CHR '' ''), (1, CHR ''O''), (2, CHR ''@'')]),
      (1, [(2, CHR ''@''), (1, CHR ''O''), (3, CHR '' ''), (56, CHR ''o''), (6, CHR ''+''), (33, CHR ''o''),
        (6, CHR ''+''), (6, CHR ''o''), (6, CHR ''+''), (24, CHR ''o''), (6, CHR ''+''), (30, CHR ''o''),
        (6, CHR ''+''), (65, CHR ''o''), (3, CHR '' ''), (1, CHR ''O''), (2, CHR ''@'')]),
      (2, [(2, CHR ''@''), (1, CHR ''O''), (3, CHR '' ''), (56, CHR ''o''), (6, CHR ''+''), (33, CHR ''o''),
        (9, CHR ''+''), (3, CHR ''o''), (3, CHR ''+''), (3, CHR ''X''), (24, CHR ''o''), (6, CHR ''+''),
        (30, CHR ''o''), (6, CHR ''+''), (65, CHR ''o''), (3, CHR '' ''), (1, CHR ''O''), (2, CHR ''@'')]),
      (1, [(2, CHR ''@''), (1, CHR ''O''), (3, CHR '' ''), (56, CHR ''o''), (6, CHR ''+''), (33, CHR ''o''),
        (9, CHR ''+''), (3, CHR ''o''), (3, CHR ''+''), (27, CHR ''o''), (6, CHR ''+''), (30, CHR ''o''),
        (6, CHR ''+''), (65, CHR ''o''), (3, CHR '' ''), (1, CHR ''O''), (2, CHR ''@'')]),
      (2, [(2, CHR ''@''), (1, CHR ''O''), (3, CHR '' ''), (56, CHR ''o''), (18, CHR ''+''), (21, CHR ''o''),
        (3, CHR ''X''), (12, CHR ''+''), (27, CHR ''o''), (6, CHR ''+''), (30, CHR ''o''), (6, CHR ''+''),
        (65, CHR ''o''), (3, CHR '' ''), (1, CHR ''O''), (2, CHR ''@'')]),
      (1, [(2, CHR ''@''), (1, CHR ''O''), (3, CHR '' ''), (56, CHR ''o''), (18, CHR ''+''), (24, CHR ''o''),
        (12, CHR ''+''), (27, CHR ''o''), (6, CHR ''+''), (30, CHR ''o''), (6, CHR ''+''), (65, CHR ''o''),
        (3, CHR '' ''), (1, CHR ''O''), (2, CHR ''@'')]),
      (2, [(2, CHR ''@''), (1, CHR ''O''), (3, CHR '' ''), (56, CHR ''o''), (15, CHR ''+''), (3, CHR ''X''),
        (24, CHR ''o''), (9, CHR ''+''), (3, CHR ''X''), (27, CHR ''o''), (6, CHR ''+''), (30, CHR ''o''),
        (6, CHR ''+''), (65, CHR ''o''), (3, CHR '' ''), (1, CHR ''O''), (2, CHR ''@'')]),
      (1, [(2, CHR ''@''), (1, CHR ''O''), (3, CHR '' ''), (56, CHR ''o''), (15, CHR ''+''), (27, CHR ''o''),
        (9, CHR ''+''), (30, CHR ''o''), (6, CHR ''+''), (30, CHR ''o''), (6, CHR ''+''), (65, CHR ''o''),
        (3, CHR '' ''), (1, CHR ''O''), (2, CHR ''@'')]),
      (2, [(2, CHR ''@''), (1, CHR ''O''), (3, CHR '' ''), (56, CHR ''o''), (6, CHR ''+''), (9, CHR ''X''),
        (27, CHR ''o''), (3, CHR ''X''), (6, CHR ''+''), (30, CHR ''o''), (6, CHR ''+''), (30, CHR ''o''),
        (6, CHR ''+''), (65, CHR ''o''), (3, CHR '' ''), (1, CHR ''O''), (2, CHR ''@'')]),
      (1, [(2, CHR ''@''), (1, CHR ''O''), (3, CHR '' ''), (56, CHR ''o''), (6, CHR ''+''), (39, CHR ''o''),
        (6, CHR ''+''), (30, CHR ''o''), (6, CHR ''+''), (30, CHR ''o''), (6, CHR ''+''), (65, CHR ''o''),
        (3, CHR '' ''), (1, CHR ''O''), (2, CHR ''@'')]),
      (3, [(2, CHR ''@''), (1, CHR ''O''), (3, CHR '' ''), (56, CHR ''o''), (6, CHR ''+''), (39, CHR ''o''),
        (9, CHR ''+''), (27, CHR ''o''), (6, CHR ''+''), (30, CHR ''o''), (6, CHR ''+''), (65, CHR ''o''),
        (3, CHR '' ''), (1, CHR ''O''), (2, CHR ''@'')]),
      (3, [(2, CHR ''@''), (1, CHR ''O''), (3, CHR '' ''), (56, CHR ''o''), (6, CHR ''+''), (36, CHR ''o''),
        (12, CHR ''+''), (27, CHR ''o''), (6, CHR ''+''), (30, CHR ''o''), (6, CHR ''+''), (65, CHR ''o''),
        (3, CHR '' ''), (1, CHR ''O''), (2, CHR ''@'')]),
      (2, [(2, CHR ''@''), (1, CHR ''O''), (3, CHR '' ''), (56, CHR ''o''), (6, CHR ''+''), (36, CHR ''o''),
        (3, CHR ''+''), (3, CHR ''X''), (9, CHR ''+''), (24, CHR ''o''), (6, CHR ''+''), (30, CHR ''o''),
        (6, CHR ''+''), (65, CHR ''o''), (3, CHR '' ''), (1, CHR ''O''), (2, CHR ''@'')]),
      (1, [(2, CHR ''@''), (1, CHR ''O''), (3, CHR '' ''), (56, CHR ''o''), (6, CHR ''+''), (36, CHR ''o''),
        (3, CHR ''+''), (3, CHR ''o''), (9, CHR ''+''), (24, CHR ''o''), (6, CHR ''+''), (30, CHR ''o''),
        (6, CHR ''+''), (65, CHR ''o''), (3, CHR '' ''), (1, CHR ''O''), (2, CHR ''@'')]),
      (2, [(2, CHR ''@''), (1, CHR ''O''), (3, CHR '' ''), (56, CHR ''o''), (6, CHR ''+''), (15, CHR ''o''),
        (3, CHR ''+''), (15, CHR ''o''), (6, CHR ''+''), (3, CHR ''o''), (3, CHR ''X''), (6, CHR ''+''),
        (24, CHR ''o''), (6, CHR ''+''), (30, CHR ''o''), (9, CHR ''+''), (62, CHR ''o''), (3, CHR '' ''),
        (1, CHR ''O''), (2, CHR ''@'')]),
      (1, [(2, CHR ''@''), (1, CHR ''O''), (3, CHR '' ''), (56, CHR ''o''), (6, CHR ''+''), (15, CHR ''o''),
        (3, CHR ''+''), (15, CHR ''o''), (6, CHR ''+''), (6, CHR ''o''), (6, CHR ''+''), (24, CHR ''o''),
        (6, CHR ''+''), (30, CHR ''o''), (9, CHR ''+''), (62, CHR ''o''), (3, CHR '' ''), (1, CHR ''O''),
        (2, CHR ''@'')]),
      (2, [(2, CHR ''@''), (1, CHR ''O''), (3, CHR '' ''), (56, CHR ''o''), (21, CHR ''+''), (3, CHR ''X''),
        (15, CHR ''o''), (3, CHR ''+''), (3, CHR ''X''), (6, CHR ''o''), (9, CHR ''+''), (21, CHR ''o''),
        (6, CHR ''+''), (30, CHR ''o''), (6, CHR ''+''), (3, CHR ''X''), (62, CHR ''o''), (3, CHR '' ''),
        (1, CHR ''O''), (2, CHR ''@'')]),
      (1, [(2, CHR ''@''), (1, CHR ''O''), (3, CHR '' ''), (56, CHR ''o''), (21, CHR ''+''), (18, CHR ''o''),
        (3, CHR ''+''), (9, CHR ''o''), (9, CHR ''+''), (21, CHR ''o''), (6, CHR ''+''), (30, CHR ''o''),
        (6, CHR ''+''), (65, CHR ''o''), (3, CHR '' ''), (1, CHR ''O''), (2, CHR ''@'')]),
      (2, [(2, CHR ''@''), (1, CHR ''O''), (3, CHR '' ''), (56, CHR ''o''), (3, CHR ''X''), (15, CHR ''+''),
        (3, CHR ''X''), (15, CHR ''o''), (3, CHR ''+''), (3, CHR ''X''), (9, CHR ''o''), (3, CHR ''X''),
        (3, CHR ''+''), (3, CHR ''X''), (21, CHR ''o''), (3, CHR ''+''), (3, CHR ''X''), (30, CHR ''o''),
        (3, CHR ''+''), (3, CHR ''X''), (65, CHR ''o''), (3, CHR '' ''), (1, CHR ''O''), (2, CHR ''@'')]),
      (1, [(2, CHR ''@''), (1, CHR ''O''), (3, CHR '' ''), (1, CHR ''.''), (58, CHR ''o''), (15, CHR ''+''),
        (18, CHR ''o''), (3, CHR ''+''), (15, CHR ''o''), (3, CHR ''+''), (24, CHR ''o''), (3, CHR ''+''),
        (33, CHR ''o''), (3, CHR ''+''), (67, CHR ''o''), (1, CHR ''.''), (3, CHR '' ''), (1, CHR ''O''),
        (2, CHR ''@'')]),
      (2, [(2, CHR ''@''), (1, CHR ''O''), (4, CHR '' ''), (58, CHR ''o''), (15, CHR ''X''), (18, CHR ''o''),
        (3, CHR ''X''), (15, CHR ''o''), (3, CHR ''X''), (24, CHR ''o''), (3, CHR ''X''), (33, CHR ''o''),
        (3, CHR ''X''), (67, CHR ''o''), (4, CHR '' ''), (1, CHR ''O''), (2, CHR ''@'')]),
      (1, [(2, CHR ''@''), (1, CHR ''O''), (4, CHR '' ''), (1, CHR ''.''), (240, CHR ''o''), (1, CHR ''.''),
        (4, CHR '' ''), (1, CHR ''O''), (2, CHR ''@'')]),
      (1, [(2, CHR ''@''), (1, CHR ''O''), (5, CHR '' ''), (240, CHR ''o''), (5, CHR '' ''), (1, CHR ''O''),
        (2, CHR ''@'')]),
      (1, [(3, CHR ''@''), (1, CHR ''O''), (4, CHR '' ''), (1, CHR ''.''), (238, CHR ''o''), (1, CHR ''.''),
        (4, CHR '' ''), (1, CHR ''O''), (3, CHR ''@'')]),
      (1, [(3, CHR ''@''), (1, CHR ''O''), (5, CHR '' ''), (2, CHR ''.''), (234, CHR ''o''), (2, CHR ''.''),
        (5, CHR '' ''), (1, CHR ''O''), (3, CHR ''@'')]),
      (1, [(3, CHR ''@''), (1, CHR ''O''), (7, CHR '' ''), (3, CHR ''.''), (228, CHR ''o''), (3, CHR ''.''),
        (7, CHR '' ''), (1, CHR ''O''), (3, CHR ''@'')]),
      (1, [(4, CHR ''@''), (1, CHR ''O''), (9, CHR '' ''), (228, CHR ''.''), (9, CHR '' ''), (1, CHR ''O''),
        (4, CHR ''@'')]),
      (1, [(4, CHR ''@''), (1, CHR ''O''), (246, CHR '' ''), (1, CHR ''O''), (4, CHR ''@'')]),
      (1, [(5, CHR ''@''), (2, CHR ''O''), (242, CHR '' ''), (2, CHR ''O''), (5, CHR ''@'')]),
      (1, [(7, CHR ''@''), (3, CHR ''O''), (236, CHR '' ''), (3, CHR ''O''), (7, CHR ''@'')]),
      (1, [(10, CHR ''@''), (236, CHR ''O''), (10, CHR ''@'')]),
      (2, [(256, CHR ''@'')])]"

definition xpm_exit_button_pressed :: "string list" where
  "xpm_exit_button_pressed = (''256 64 7 1 '' # xpm_exit_button_pressed_colours) @ pixel_rows xpm_exit_button_pressed_runs"

definition xpm_exit_button_unpressed_colours :: "string list" where
  "xpm_exit_button_unpressed_colours =
     [''  c #1C1E33'', ''. c #393268'', ''X c #432F5B'', ''o c #534B82'', ''O c #646DB7'',
      ''+ c #F2E8FF'', ''@ c #000000'']"

definition xpm_exit_button_unpressed_runs :: "(nat \<times> (nat \<times> char) list) list" where
  "xpm_exit_button_unpressed_runs =
     [(2, [(256, CHR ''@'')]),
      (1, [(10, CHR ''@''), (4, CHR ''O''), (228, CHR ''o''), (4, CHR ''O''), (10, CHR ''@'')]),
      (1, [(7, CHR ''@''), (3, CHR ''O''), (1, CHR '' ''), (234, CHR ''o''), (1, CHR '' ''), (3, CHR ''O''),
        (7, CHR ''@'')]),
      (1, [(5, CHR ''@''), (2, CHR ''O''), (2, CHR '' ''), (238, CHR ''o''), (2, CHR '' ''), (2, CHR ''O''),
        (5, CHR ''@'')]),
      (2, [(4, CHR ''@''), (1, CHR ''O''), (3, CHR '' ''), (57, CHR ''o''), (21, CHR ''+''), (15, CHR ''o''),
        (3, CHR ''+''), (15, CHR ''o''), (3, CHR ''+''), (24, CHR ''o''), (3, CHR ''+''), (24, CHR ''o''),
        (21, CHR ''+''), (54, CHR ''o''), (3, CHR '' ''), (1, CHR ''O''), (4, CHR ''@'')]),
      (1, [(3, CHR ''@''), (1, CHR ''O''), (3, CHR '' ''), (58, CHR ''o''), (21, CHR ''+''), (15, CHR ''o''),
        (3, CHR ''+''), (15, CHR ''o''), (3, CHR ''+''), (24, CHR ''o''), (3, CHR ''+''), (24, CHR ''o''),
        (21, CHR ''+''), (55, CHR ''o''), (3, CHR '' ''), (1, CHR ''O''), (3, CHR ''@'')]),
      (1, [(3, CHR ''@''), (1, CHR ''O''), (3, CHR '' ''), (55, CHR ''o''), (21, CHR ''+''), (3, CHR ''X''),
        (12, CHR ''o''), (6, CHR ''+''), (12, CHR ''o''), (6, CHR ''+''), (21, CHR ''o''), (6, CHR ''+''),
        (21, CHR ''o''), (21, CHR ''+''), (3, CHR ''X''), (55, CHR ''o''), (3, CHR '' ''), (1, CHR ''O''),
        (3, CHR ''@'')]),
      (1, [(2, CHR ''@''), (1, CHR ''O''), (4, CHR '' ''), (55, CHR ''o''), (21, CHR ''+''), (3, CHR ''X''),
        (12, CHR ''o''), (6, CHR ''+''), (12, CHR ''o''), (6, CHR ''+''), (21, CHR ''o''), (6, CHR ''+''),
        (21, CHR ''o''), (21, CHR ''+''), (3, CHR ''X''), (55, CHR ''o''), (3, CHR '' ''), (1, CHR ''O''),
        (3, CHR ''@'')]),
      (1, [(2, CHR ''@''), (1, CHR ''O''), (3, CHR '' ''), (56, CHR ''o''), (21, CHR ''+''), (15, CHR ''o''),
        (6, CHR ''+''), (12, CHR ''o''), (6, CHR ''+''), (21, CHR ''o''), (6, CHR ''+''), (21, CHR ''o''),
        (21, CHR ''+''), (59, CHR ''o''), (3, CHR '' ''), (1, CHR ''O''), (2, CHR ''@'')]),
      (2, [(2, CHR ''@''), (1, CHR ''O''), (3, CHR '' ''), (56, CHR ''o''), (6, CHR ''+''), (15, CHR ''X''),
        (15, CHR ''o''), (9, CHR ''+''), (9, CHR ''o''), (3, CHR ''+''), (3, CHR ''X''), (21, CHR ''o''),
        (6, CHR ''+''), (21, CHR ''o''), (9, CHR ''X''), (6, CHR ''+''), (6, CHR ''X''), (59, CHR ''o''),
        (3, CHR '' ''), (1, CHR ''O''), (2, CHR ''@'')]),
      (1, [(2, CHR ''@''), (1, CHR ''O''), (3, CHR '' ''), (56, CHR ''o''), (6, CHR ''+''), (30, CHR ''o''),
        (9, CHR ''+''), (9, CHR ''o''), (3, CHR ''+''), (24, CHR ''o''), (6, CHR ''+''), (30, CHR ''o''),
        (6, CHR ''+''), (65, CHR ''o''), (3, CHR '' ''), (1, CHR ''O''), (2, CHR ''@'')]),
      (2, [(2, CHR ''@''), (1, CHR ''O''), (3, CHR '' ''), (56, CHR ''o''), (6, CHR ''+''), (30, CHR ''o''),
        (3, CHR ''X''), (6, CHR ''+''), (6, CHR ''o''), (6, CHR ''+''), (24, CHR ''o''), (6, CHR ''+''),
        (30, CHR ''o''), (6, CHR ''+''), (65, CHR ''o''), (3, CHR '' ''), (1, CHR ''O''), (2, CHR ''@'')]),
      (1, [(2, CHR ''@''), (1, CHR ''O''), (3, CHR '' ''), (56, CHR ''o''), (6, CHR ''+''), (33, CHR ''o''),
        (6, CHR ''+''), (6, CHR ''o''), (6, CHR ''+''), (24, CHR ''o''), (6, CHR ''+''), (30, CHR ''o''),
        (6, CHR ''+''), (65, CHR ''o''), (3, CHR '' ''), (1, CHR ''O''), (2, CHR ''@'')]),
      (2, [(2, CHR ''@''), (1, CHR ''O''), (3, CHR '' ''), (56, CHR ''o''), (6, CHR ''+''), (33, CHR ''o''),
        (9, CHR ''+''), (3, CHR ''o''), (3, CHR ''+''), (3, CHR ''X''), (24, CHR ''o''), (6, CHR ''+''),
        (30, CHR ''o''), (6, CHR ''+''), (65, CHR ''o''), (3, CHR '' ''), (1, CHR ''O''), (2, CHR ''@'')]),
      (1, [(2, CHR ''@''), (1, CHR ''O''), (3, CHR '' ''), (56, CHR ''o''), (6, CHR ''+''), (33, CHR ''o''),
        (9, CHR ''+''), (3, CHR ''o''), (3, CHR ''+''), (27, CHR ''o''), (6, CHR ''+''), (30, CHR ''o''),
        (6, CHR ''+''), (65, CHR ''o''), (3, CHR '' ''), (1, CHR ''O''), (2, CHR ''@'')]),
      (2, [(2, CHR ''@''), (1, CHR ''O''), (3, CHR '' ''), (56, CHR ''o''), (18, CHR ''+''), (21, CHR ''o''),
        (3, CHR ''X''), (12, CHR ''+''), (27, CHR ''o''), (6, CHR ''+''), (30, CHR ''o''), (6, CHR ''+''),
        (65, CHR ''o''), (3, CHR '' ''), (1, CHR ''O''), (2, CHR ''@'')]),
      (1, [(2, CHR ''@''), (1, CHR ''O''), (3, CHR '' ''), (56, CHR ''o''), (18, CHR ''+''), (24, CHR ''o''),
        (12, CHR ''+''), (27, CHR ''o''), (6, CHR ''+''), (30, CHR ''o''), (6, CHR ''+''), (65, CHR ''o''),
        (3, CHR '' ''), (1, CHR ''O''), (2, CHR ''@'')]),
      (2, [(2, CHR ''@''), (1, CHR ''O''), (3, CHR '' ''), (56, CHR ''o''), (15, CHR ''+''), (3, CHR ''X''),
        (24, CHR ''o''), (9, CHR ''+''), (3, CHR ''X''), (27, CHR ''o''), (6, CHR ''+''), (30, CHR ''o''),
        (6, CHR ''+''), (65, CHR ''o''), (3, CHR '' ''), (1, CHR ''O''), (2, CHR ''@'')]),
      (1, [(2, CHR ''@''), (1, CHR ''O''), (3, CHR '' ''), (56, CHR ''o''), (15, CHR ''+''), (27, CHR ''o''),
        (9, CHR ''+''), (30, CHR ''o''), (6, CHR ''+''), (30, CHR ''o''), (6, CHR ''+''), (65, CHR ''o''),
        (3, CHR '' ''), (1, CHR ''O''), (2, CHR ''@'')]),
      (2, [(2, CHR ''@''), (1, CHR ''O''), (3, CHR '' ''), (56, CHR ''o''), (6, CHR ''+''), (9, CHR ''X''),
        (27, CHR ''o''), (3, CHR ''X''), (6, CHR ''+''), (30, CHR ''o''), (6, CHR ''+''), (30, CHR ''o''),
        (6, CHR ''+''), (65, CHR ''o''), (3, CHR '' ''), (1, CHR ''O''), (2, CHR ''@'')]),
      (1, [(2, CHR ''@''), (1, CHR ''O''), (3, CHR '' ''), (56, CHR ''o''), (6, CHR ''+''), (39, CHR ''o''),
        (6, CHR ''+''), (30, CHR ''o''), (6, CHR ''+''), (30, CHR ''o''), (6, CHR ''+''), (65, CHR ''o''),
        (3, CHR '' ''), (1, CHR ''O''), (2, CHR ''@'')]),
      (3, [(2, CHR ''@''), (1, CHR ''O''), (3, CHR '' ''), (56, CHR ''o''), (6, CHR ''+''), (39, CHR ''o''),
        (9, CHR ''+''), (27, CHR ''o''), (6, CHR ''+''), (30, CHR ''o''), (6, CHR ''+''), (65, CHR ''o''),
        (3, CHR '' ''), (1, CHR ''O''), (2, CHR ''@'')]),
      (3, [(2, CHR ''@''), (1, CHR ''O''), (3, CHR '' ''), (56, CHR ''o''), (6, CHR ''+''), (36, CHR ''o''),
        (12, CHR ''+''), (27, CHR ''o''), (6, CHR ''+''), (30, CHR ''o''), (6, CHR ''+''), (65, CHR ''o''),
        (3, CHR '' ''), (1, CHR ''O''), (2, CHR ''@'')]),
      (2, [(2, CHR ''@''), (1, CHR ''O''), (3, CHR '' ''), (56, CHR ''o''), (6, CHR ''+''), (36, CHR ''o''),
        (3, CHR ''+''), (3, CHR ''X''), (9, CHR ''+''), (24, CHR ''o''), (6, CHR ''+''), (30, CHR ''o''),
        (6, CHR ''+''), (65, CHR ''o''), (3, CHR '' ''), (1, CHR ''O''), (2, CHR ''@'')]),
      (1, [(2, CHR ''@''), (1, CHR ''O''), (3, CHR '' ''), (56, CHR ''o''), (6, CHR ''+''), (36, CHR ''o''),
        (3, CHR ''+''), (3, CHR ''o''), (9, CHR ''+''), (24, CHR ''o''), (6, CHR ''+''), (30, CHR ''o''),
        (6, CHR ''+''), (65, CHR ''o''), (3, CHR '' ''), (1, CHR ''O''), (2, CHR ''@'')]),
      (2, [(2, CHR ''@''), (1, CHR ''O''), (3, CHR '' ''), (56, CHR ''o''), (6, CHR ''+''), (15, CHR ''o''),
        (3, CHR ''+''), (15, CHR ''o''), (6, CHR ''+''), (3, CHR ''o''), (3, CHR ''X''), (6, CHR ''+''),
        (24, CHR ''o''), (6, CHR ''+''), (30, CHR ''o''), (9, CHR ''+''), (62, CHR ''o''), (3, CHR '' ''),
        (1, CHR ''O''), (2, CHR ''@'')]),
      (1, [(2, CHR ''@''), (1, CHR ''O''), (3, CHR '' ''), (56, CHR ''o''), (6, CHR ''+''), (15, CHR ''o''),
        (3, CHR ''+''), (15, CHR ''o''), (6, CHR ''+''), (6, CHR ''o''), (6, CHR ''+''), (24, CHR ''o''),
        (6, CHR ''+''), (30, CHR ''o''), (9, CHR ''+''), (62, CHR ''o''), (3, CHR '' ''), (1, CHR ''O''),
        (2, CHR ''@'')]),
      (2, [(2, CHR ''@''), (1, CHR ''O''), (3, CHR '' ''), (56, CHR ''o''), (21, CHR ''+''), (3, CHR ''X''),
        (15, CHR ''o''), (3, CHR ''+''), (3, CHR ''X''), (6, CHR ''o''), (9, CHR ''+''), (21, CHR ''o''),
        (6, CHR ''+''), (30, CHR ''o''), (6, CHR ''+''), (3, CHR ''X''), (62, CHR ''o''), (3, CHR '' ''),
        (1, CHR ''O''), (2, CHR ''@'')]),
      (1, [(2, CHR ''@''), (1, CHR ''O''), (3, CHR '' ''), (56, CHR ''o''), (21, CHR ''+''), (18, CHR ''o''),
        (3, CHR ''+''), (9, CHR ''o''), (9, CHR ''+''), (21, CHR ''o''), (6, CHR ''+''), (30, CHR ''o''),
        (6, CHR ''+''), (65, CHR ''o''), (3, CHR '' ''), (1, CHR ''O''), (2, CHR ''@'')]),
      (2, [(2, CHR ''@''), (1, CHR ''O''), (3, CHR '' ''), (56, CHR ''o''), (3, CHR ''X''), (15, CHR ''+''),
        (3, CHR ''X''), (15, CHR ''o''), (3, CHR ''+''), (3, CHR ''X''), (9, CHR ''o''), (3, CHR ''X''),
        (3, CHR ''+''), (3, CHR ''X''), (21, CHR ''o''), (3, CHR ''+''), (3, CHR ''X''), (30, CHR ''o''),
        (3, CHR ''+''), (3, CHR ''X''), (65, CHR ''o''), (3, CHR '' ''), (1, CHR ''O''), (2, CHR ''@'')]),
      (1, [(2, CHR ''@''), (1, CHR ''O''), (3, CHR '' ''), (1, CHR ''.''), (58, CHR ''o''), (15, CHR ''+''),
        (18, CHR ''o''), (3, CHR ''+''), (15, CHR ''o''), (3, CHR ''+''), (24, CHR ''o''), (3, CHR ''+''),
        (33, CHR ''o''), (3, CHR ''+''), (67, CHR ''o''), (1, CHR ''.''), (3, CHR '' ''), (1, CHR ''O''),
        (2, CHR ''@'')]),
      (2, [(2, CHR ''@''), (1, CHR ''O''), (3, CHR '' ''), (1, CHR ''.''), (58, CHR ''o''), (15, CHR ''X''),
        (18, CHR ''o''), (3, CHR ''X''), (15, CHR ''o''), (3, CHR ''X''), (24, CHR ''o''), (3, CHR ''X''),
        (33, CHR ''o''), (3, CHR ''X''), (67, CHR ''o''), (1, CHR ''.''), (3, CHR '' ''), (1, CHR ''O''),
        (2, CHR ''@'')]),
      (1, [(2, CHR ''@''), (1, CHR ''O''), (3, CHR '' ''), (2, CHR ''.''), (240, CHR ''o''), (2, CHR ''.''),
        (3, CHR '' ''), (1, CHR ''O''), (2, CHR ''@'')]),
      (1, [(2, CHR ''@''), (1, CHR ''O''), (4, CHR '' ''), (1, CHR ''.''), (240, CHR ''o''), (1, CHR ''.''),
        (4, CHR '' ''), (1, CHR ''O''), (2, CHR ''@'')]),
      (1, [(2, CHR ''@''), (1, CHR ''O''), (4, CHR '' ''), (2, CHR ''.''), (238, CHR ''o''), (2, CHR ''.''),
        (4, CHR '' ''), (1, CHR ''O''), (2, CHR ''@'')]),
      (1, [(2, CHR ''@''), (1, CHR ''O''), (4, CHR '' ''), (4, CHR ''.''), (234, CHR ''o''), (4, CHR ''.''),
        (4, CHR '' ''), (1, CHR ''O''), (2, CHR ''@'')]),
      (1, [(2, CHR ''@''), (1, CHR ''O''), (5, CHR '' ''), (6, CHR ''.''), (228, CHR ''o''), (6, CHR ''.''),
        (5, CHR '' ''), (1, CHR ''O''), (2, CHR ''@'')]),
      (1, [(3, CHR ''@''), (1, CHR ''O''), (4, CHR '' ''), (240, CHR ''.''), (4, CHR '' ''), (1, CHR ''O''),
        (3, CHR ''@'')]),
      (1, [(3, CHR ''@''), (1, CHR ''O''), (5, CHR '' ''), (238, CHR ''.''), (5, CHR '' ''), (1, CHR ''O''),
        (3, CHR ''@'')]),
      (1, [(3, CHR ''@''), (1, CHR ''O''), (7, CHR '' ''), (234, CHR ''.''), (7, CHR '' ''), (1, CHR ''O''),
        (3, CHR ''@'')]),
      (1, [(4, CHR ''@''), (1, CHR ''O''), (9, CHR '' ''), (228, CHR ''.''), (9, CHR '' ''), (1, CHR ''O''),
        (4, CHR ''@'')]),
      (1, [(4, CHR ''@''), (1, CHR ''O''), (246, CHR '' ''), (1, CHR ''O''), (4, CHR ''@'')]),
      (1, [(5, CHR ''@''), (2, CHR ''O''), (242, CHR '' ''), (2, CHR ''O''), (5, CHR ''@'')]),
      (1, [(7, CHR ''@''), (3, CHR ''O''), (236, CHR '' ''), (3, CHR ''O''), (7, CHR ''@'')]),
      (1, [(10, CHR ''@''), (236, CHR ''O''), (10, CHR ''@'')]),
      (2, [(256, CHR ''@'')])]"

definition xpm_exit_button_unpressed :: "string list" where
  "xpm_exit_button_unpressed = (''256 64 7 1 '' # xpm_exit_button_unpressed_colours) @ pixel_rows xpm_exit_button_unpressed_runs"

definition xpm_game_over_colours :: "string list" where
  "xpm_game_over_colours =
     [''  c #540100'', ''. c #DB211E'', ''X c #000000'']"

definition xpm_game_over_runs :: "(nat \<times> (nat \<times> char) list) list" where
  "xpm_game_over_runs =
     [(6, [(512, CHR ''X'')]),
      (8, [(104, CHR ''X''), (24, CHR ''.''), (80, CHR ''X''), (8, CHR ''.''), (64, CHR ''X''), (8, CHR ''.''),
        (40, CHR ''X''), (8, CHR ''.''), (40, CHR ''X''), (56, CHR ''.''), (80, CHR ''X'')]),
      (5, [(96, CHR ''X''), (8, CHR ''.''), (8, CHR '' ''), (24, CHR ''.''), (64, CHR ''X''), (16, CHR ''.''),
        (56, CHR ''X''), (16, CHR ''.''), (32, CHR ''X''), (16, CHR ''.''), (32, CHR ''X''), (56, CHR ''.''),
        (8, CHR '' ''), (80, CHR ''X'')]),
      (3, [(96, CHR ''X''), (8, CHR ''.''), (8, CHR ''X''), (24, CHR ''.''), (64, CHR ''X''), (16, CHR ''.''),
        (56, CHR ''X''), (16, CHR ''.''), (32, CHR ''X''), (16, CHR ''.''), (32, CHR ''X''), (56, CHR ''.''),
        (88, CHR ''X'')]),
      (5, [(88, CHR ''X''), (8, CHR ''.''), (8, CHR '' ''), (8, CHR ''X''), (8, CHR '' ''), (24, CHR ''.''),
        (56, CHR ''X''), (24, CHR ''.''), (48, CHR ''X''), (24, CHR ''.''), (24, CHR ''X''), (16, CHR ''.''),
        (32, CHR ''X''), (16, CHR ''.''), (40, CHR '' ''), (88, CHR ''X'')]),
      (3, [(88, CHR ''X''), (8, CHR ''.''), (24, CHR ''X''), (24, CHR ''.''), (56, CHR ''X''), (24, CHR ''.''),
        (48, CHR ''X''), (24, CHR ''.''), (24, CHR ''X''), (16, CHR ''.''), (32, CHR ''X''), (16, CHR ''.''),
        (128, CHR ''X'')]),
      (5, [(80, CHR ''X''), (16, CHR ''.''), (24, CHR ''X''), (8, CHR '' ''), (16, CHR ''.''), (48, CHR ''X''),
        (32, CHR ''.''), (48, CHR ''X''), (24, CHR ''.''), (16, CHR ''X''), (24, CHR ''.''), (32, CHR ''X''),
        (16, CHR ''.''), (128, CHR ''X'')]),
      (3, [(80, CHR ''X''), (16, CHR ''.''), (32, CHR ''X''), (16, CHR ''.''), (48, CHR ''X''), (32, CHR ''.''),
        (48, CHR ''X''), (24, CHR ''.''), (16, CHR ''X''), (24, CHR ''.''), (32, CHR ''X''), (16, CHR ''.''),
        (128, CHR ''X'')]),
      (5, [(80, CHR ''X''), (16, CHR ''.''), (32, CHR ''X''), (8, CHR ''.''), (8, CHR '' ''), (48, CHR ''X''),
        (8, CHR ''.''), (8, CHR '' ''), (16, CHR ''.''), (48, CHR ''X''), (32, CHR ''.''), (8, CHR ''X''),
        (24, CHR ''.''), (32, CHR ''X''), (16, CHR ''.''), (128, CHR ''X'')]),
      (3, [(80, CHR ''X''), (16, CHR ''.''), (32, CHR ''X''), (8, CHR ''.''), (56, CHR ''X''), (8, CHR ''.''),
        (8, CHR ''X''), (16, CHR ''.''), (48, CHR ''X''), (32, CHR ''.''), (8, CHR ''X''), (24, CHR ''.''),
        (32, CHR ''X''), (16, CHR ''.''), (128, CHR ''X'')]),
      (5, [(80, CHR ''X''), (16, CHR ''.''), (24, CHR ''X''), (8, CHR ''.''), (8, CHR '' ''), (48, CHR ''X''),
        (16, CHR ''.''), (8, CHR ''X''), (24, CHR ''.''), (40, CHR ''X''), (64, CHR ''.''), (32, CHR ''X''),
        (48, CHR ''.''), (96, CHR ''X'')]),
      (3, [(80, CHR ''X''), (16, CHR ''.''), (24, CHR ''X''), (8, CHR ''.''), (56, CHR ''X''), (16, CHR ''.''),
        (8, CHR ''X''), (24, CHR ''.''), (40, CHR ''X''), (64, CHR ''.''), (32, CHR ''X''), (48, CHR ''.''),
        (96, CHR ''X'')]),
      (5, [(80, CHR ''X''), (16, CHR ''.''), (24, CHR ''X''), (8, CHR '' ''), (56, CHR ''X''), (8, CHR ''.''),
        (8, CHR '' ''), (8, CHR ''X''), (8, CHR '' ''), (16, CHR ''.''), (40, CHR ''X''), (40, CHR ''.''),
        (8, CHR '' ''), (16, CHR ''.''), (32, CHR ''X''), (40, CHR ''.''), (8, CHR '' ''), (96, CHR ''X'')]),
      (3, [(80, CHR ''X''), (16, CHR ''.''), (88, CHR ''X''), (8, CHR ''.''), (24, CHR ''X''), (16, CHR ''.''),
        (40, CHR ''X''), (40, CHR ''.''), (8, CHR ''X''), (16, CHR ''.''), (32, CHR ''X''), (40, CHR ''.''),
        (104, CHR ''X'')]),
      (5, [(80, CHR ''X''), (16, CHR ''.''), (24, CHR ''X''), (24, CHR ''.''), (40, CHR ''X''), (8, CHR ''.''),
        (24, CHR ''X''), (24, CHR ''.''), (32, CHR ''X''), (16, CHR ''.''), (8, CHR '' ''), (16, CHR ''.''),
        (8, CHR ''X''), (16, CHR ''.''), (32, CHR ''X''), (16, CHR ''.''), (24, CHR '' ''), (104, CHR ''X'')]),
      (3, [(80, CHR ''X''), (16, CHR ''.''), (24, CHR ''X''), (24, CHR ''.''), (40, CHR ''X''), (8, CHR ''.''),
        (24, CHR ''X''), (24, CHR ''.''), (32, CHR ''X''), (16, CHR ''.''), (8, CHR ''X''), (16, CHR ''.''),
        (8, CHR ''X''), (16, CHR ''.''), (32, CHR ''X''), (16, CHR ''.''), (128, CHR ''X'')]),
      (5, [(80, CHR ''X''), (16, CHR ''.''), (16, CHR ''X''), (32, CHR ''.''), (32, CHR ''X''), (64, CHR ''.''),
        (32, CHR ''X''), (16, CHR ''.''), (8, CHR ''X''), (8, CHR ''.''), (8, CHR '' ''), (8, CHR ''X''),
        (16, CHR ''.''), (32, CHR ''X''), (16, CHR ''.''), (128, CHR ''X'')]),
      (3, [(80, CHR ''X''), (16, CHR ''.''), (16, CHR ''X''), (32, CHR ''.''), (32, CHR ''X''), (64, CHR ''.''),
        (32, CHR ''X''), (16, CHR ''.''), (8, CHR ''X''), (8, CHR ''.''), (16, CHR ''X''), (16, CHR ''.''),
        (32, CHR ''X''), (16, CHR ''.''), (128, CHR ''X'')]),
      (5, [(80, CHR ''X''), (16, CHR ''.''), (16, CHR ''X''), (16, CHR '' ''), (16, CHR ''.''), (32, CHR ''X''),
        (64, CHR ''.''), (32, CHR ''X''), (16, CHR ''.''), (8, CHR ''X''), (8, CHR '' ''), (16, CHR ''X''),
        (16, CHR ''.''), (32, CHR ''X''), (16, CHR ''.''), (128, CHR ''X'')]),
      (3, [(80, CHR ''X''), (16, CHR ''.''), (32, CHR ''X''), (16, CHR ''.''), (32, CHR ''X''), (64, CHR ''.''),
        (32, CHR ''X''), (16, CHR ''.''), (32, CHR ''X''), (16, CHR ''.''), (32, CHR ''X''), (16, CHR ''.''),
        (128, CHR ''X'')]),
      (5, [(80, CHR ''X''), (24, CHR ''.''), (24, CHR ''X''), (16, CHR ''.''), (32, CHR ''X''), (16, CHR ''.''),
        (32, CHR '' ''), (16, CHR ''.''), (32, CHR ''X''), (16, CHR ''.''), (32, CHR ''X''), (16, CHR ''.''),
        (32, CHR ''X''), (16, CHR ''.''), (128, CHR ''X'')]),
      (3, [(80, CHR ''X''), (24, CHR ''.''), (24, CHR ''X''), (16, CHR ''.''), (32, CHR ''X''), (16, CHR ''.''),
        (32, CHR ''X''), (16, CHR ''.''), (32, CHR ''X''), (16, CHR ''.''), (32, CHR ''X''), (16, CHR ''.''),
        (32, CHR ''X''), (16, CHR ''.''), (128, CHR ''X'')]),
      (5, [(80, CHR ''X''), (32, CHR ''.''), (16, CHR ''X''), (8, CHR ''.''), (8, CHR '' ''), (32, CHR ''X''),
        (16, CHR ''.''), (32, CHR ''X''), (16, CHR ''.''), (32, CHR ''X''), (16, CHR ''.''), (32, CHR ''X''),
        (16, CHR ''.''), (32, CHR ''X''), (16, CHR ''.''), (40, CHR ''X''), (8, CHR ''.''), (80, CHR ''X'')]),
      (3, [(80, CHR ''X''), (32, CHR ''.''), (16, CHR ''X''), (8, CHR ''.''), (40, CHR ''X''), (16, CHR ''.''),
        (32, CHR ''X''), (16, CHR ''.''), (32, CHR ''X''), (16, CHR ''.''), (32, CHR ''X''), (16, CHR ''.''),
        (32, CHR ''X''), (16, CHR ''.''), (40, CHR ''X''), (8, CHR ''.''), (80, CHR ''X'')]),
      (5, [(80, CHR ''X''), (8, CHR '' ''), (40, CHR ''.''), (8, CHR '' ''), (40, CHR ''X''), (16, CHR ''.''),
        (32, CHR ''X''), (16, CHR ''.''), (32, CHR ''X''), (16, CHR ''.''), (32, CHR ''X''), (16, CHR ''.''),
        (32, CHR ''X''), (56, CHR ''.''), (8, CHR '' ''), (80, CHR ''X'')]),
      (3, [(88, CHR ''X''), (40, CHR ''.''), (48, CHR ''X''), (16, CHR ''.''), (32, CHR ''X''), (16, CHR ''.''),
        (32, CHR ''X''), (16, CHR ''.''), (32, CHR ''X''), (16, CHR ''.''), (32, CHR ''X''), (56, CHR ''.''),
        (88, CHR ''X'')]),
      (5, [(88, CHR ''X''), (8, CHR '' ''), (24, CHR ''.''), (8, CHR '' ''), (48, CHR ''X''), (8, CHR ''.''),
        (8, CHR '' ''), (32, CHR ''X''), (8, CHR ''.''), (8, CHR '' ''), (32, CHR ''X''), (8, CHR ''.''),
        (8, CHR '' ''), (32, CHR ''X''), (8, CHR ''.''), (8, CHR '' ''), (32, CHR ''X''), (8, CHR '' ''),
        (40, CHR ''.''), (8, CHR '' ''), (88, CHR ''X'')]),
      (3, [(96, CHR ''X''), (24, CHR ''.''), (56, CHR ''X''), (8, CHR ''.''), (40, CHR ''X''), (8, CHR ''.''),
        (40, CHR ''X''), (8, CHR ''.''), (40, CHR ''X''), (8, CHR ''.''), (48, CHR ''X''), (40, CHR ''.''),
        (96, CHR ''X'')]),
      (5, [(96, CHR ''X''), (24, CHR '' ''), (56, CHR ''X''), (8, CHR '' ''), (40, CHR ''X''), (8, CHR '' ''),
        (40, CHR ''X''), (8, CHR '' ''), (40, CHR ''X''), (8, CHR '' ''), (48, CHR ''X''), (40, CHR '' ''),
        (96, CHR ''X'')]),
      (11, [(512, CHR ''X'')]),
      (8, [(104, CHR ''X''), (16, CHR ''.''), (64, CHR ''X''), (8, CHR ''.''), (40, CHR ''X''), (8, CHR ''.''),
        (40, CHR ''X''), (56, CHR ''.''), (40, CHR ''X''), (40, CHR ''.''), (96, CHR ''X'')]),
      (5, [(96, CHR ''X''), (32, CHR ''.''), (48, CHR ''X''), (16, CHR ''.''), (32, CHR ''X''), (16, CHR ''.''),
        (32, CHR ''X''), (56, CHR ''.''), (8, CHR '' ''), (32, CHR ''X''), (56, CHR ''.''), (88, CHR ''X'')]),
      (3, [(96, CHR ''X''), (32, CHR ''.''), (48, CHR ''X''), (16, CHR ''.''), (32, CHR ''X''), (16, CHR ''.''),
        (32, CHR ''X''), (56, CHR ''.''), (40, CHR ''X''), (56, CHR ''.''), (88, CHR ''X'')]),
      (5, [(88, CHR ''X''), (16, CHR ''.''), (8, CHR '' ''), (24, CHR ''.''), (40, CHR ''X''), (16, CHR ''.''),
        (32, CHR ''X''), (16, CHR ''.''), (32, CHR ''X''), (16, CHR ''.''), (40, CHR '' ''), (40, CHR ''X''),
        (16, CHR ''.''), (16, CHR '' ''), (32, CHR ''.''), (80, CHR ''X'')]),
      (3, [(88, CHR ''X''), (16, CHR ''.''), (8, CHR ''X''), (24, CHR ''.''), (40, CHR ''X''), (16, CHR ''.''),
        (32, CHR ''X''), (16, CHR ''.''), (32, CHR ''X''), (16, CHR ''.''), (80, CHR ''X''), (16, CHR ''.''),
        (16, CHR ''X''), (32, CHR ''.''), (80, CHR ''X'')]),
      (5, [(80, CHR ''X''), (16, CHR ''.''), (8, CHR '' ''), (8, CHR ''X''), (8, CHR '' ''), (24, CHR ''.''),
        (32, CHR ''X''), (24, CHR ''.''), (24, CHR ''X''), (8, CHR ''.''), (8, CHR '' ''), (32, CHR ''X''),
        (16, CHR ''.''), (80, CHR ''X''), (16, CHR ''.''), (16, CHR ''X''), (8, CHR '' ''), (24, CHR ''.''),
        (80, CHR ''X'')]),
      (3, [(80, CHR ''X''), (16, CHR ''.''), (24, CHR ''X''), (24, CHR ''.''), (32, CHR ''X''), (24, CHR ''.''),
        (24, CHR ''X''), (8, CHR ''.''), (40, CHR ''X''), (16, CHR ''.''), (80, CHR ''X''), (16, CHR ''.''),
        (24, CHR ''X''), (24, CHR ''.''), (80, CHR ''X'')]),
      (5, [(80, CHR ''X''), (16, CHR ''.''), (24, CHR ''X''), (8, CHR '' ''), (16, CHR ''.''), (32, CHR ''X''),
        (8, CHR '' ''), (16, CHR ''.''), (16, CHR ''X''), (16, CHR ''.''), (40, CHR ''X''), (16, CHR ''.''),
        (80, CHR ''X''), (16, CHR ''.''), (24, CHR ''X''), (8, CHR '' ''), (16, CHR ''.''), (80, CHR ''X'')]),
      (3, [(80, CHR ''X''), (16, CHR ''.''), (32, CHR ''X''), (16, CHR ''.''), (40, CHR ''X''), (16, CHR ''.''),
        (16, CHR ''X''), (16, CHR ''.''), (40, CHR ''X''), (16, CHR ''.''), (80, CHR ''X''), (16, CHR ''.''),
        (32, CHR ''X''), (16, CHR ''.''), (80, CHR ''X'')]),
      (5, [(80, CHR ''X''), (16, CHR ''.''), (32, CHR ''X''), (16, CHR ''.''), (40, CHR ''X''), (16, CHR ''.''),
        (16, CHR ''X''), (16, CHR ''.''), (40, CHR ''X''), (48, CHR ''.''), (48, CHR ''X''), (16, CHR ''.''),
        (24, CHR ''X''), (16, CHR ''.''), (8, CHR '' ''), (80, CHR ''X'')]),
      (3, [(80, CHR ''X''), (16, CHR ''.''), (32, CHR ''X''), (16, CHR ''.''), (40, CHR ''X''), (16, CHR ''.''),
        (16, CHR ''X''), (16, CHR ''.''), (40, CHR ''X''), (48, CHR ''.''), (48, CHR ''X''), (16, CHR ''.''),
        (24, CHR ''X''), (16, CHR ''.''), (88, CHR ''X'')]),
      (5, [(80, CHR ''X''), (16, CHR ''.''), (32, CHR ''X''), (16, CHR ''.''), (40, CHR ''X''), (16, CHR ''.''),
        (16, CHR ''X''), (16, CHR ''.''), (40, CHR ''X''), (40, CHR ''.''), (8, CHR '' ''), (48, CHR ''X''),
        (48, CHR ''.''), (8, CHR '' ''), (88, CHR ''X'')]),
      (3, [(80, CHR ''X''), (16, CHR ''.''), (32, CHR ''X''), (16, CHR ''.''), (40, CHR ''X''), (16, CHR ''.''),
        (16, CHR ''X''), (16, CHR ''.''), (40, CHR ''X''), (40, CHR ''.''), (56, CHR ''X''), (48, CHR ''.''),
        (96, CHR ''X'')]),
      (5, [(80, CHR ''X''), (16, CHR ''.''), (32, CHR ''X''), (16, CHR ''.''), (40, CHR ''X''), (24, CHR ''.''),
        (8, CHR ''X''), (8, CHR ''.''), (8, CHR '' ''), (40, CHR ''X''), (16, CHR ''.''), (24, CHR '' ''),
        (56, CHR ''X''), (32, CHR ''.''), (16, CHR '' ''), (96, CHR ''X'')]),
      (3, [(80, CHR ''X''), (16, CHR ''.''), (32, CHR ''X''), (16, CHR ''.''), (40, CHR ''X''), (24, CHR ''.''),
        (8, CHR ''X''), (8, CHR ''.''), (48, CHR ''X''), (16, CHR ''.''), (80, CHR ''X''), (32, CHR ''.''),
        (112, CHR ''X'')]),
      (5, [(80, CHR ''X''), (16, CHR ''.''), (32, CHR ''X''), (16, CHR ''.''), (40, CHR ''X''), (8, CHR '' ''),
        (32, CHR ''.''), (48, CHR ''X''), (16, CHR ''.''), (80, CHR ''X''), (40, CHR ''.''), (104, CHR ''X'')]),
      (3, [(80, CHR ''X''), (16, CHR ''.''), (32, CHR ''X''), (16, CHR ''.''), (48, CHR ''X''), (32, CHR ''.''),
        (48, CHR ''X''), (16, CHR ''.''), (80, CHR ''X''), (40, CHR ''.''), (104, CHR ''X'')]),
      (5, [(80, CHR ''X''), (16, CHR ''.''), (32, CHR ''X''), (16, CHR ''.''), (48, CHR ''X''), (32, CHR ''.''),
        (48, CHR ''X''), (16, CHR ''.''), (80, CHR ''X''), (16, CHR ''.''), (8, CHR '' ''), (16, CHR ''.''),
        (104, CHR ''X'')]),
      (3, [(80, CHR ''X''), (16, CHR ''.''), (32, CHR ''X''), (16, CHR ''.''), (48, CHR ''X''), (32, CHR ''.''),
        (48, CHR ''X''), (16, CHR ''.''), (80, CHR ''X''), (16, CHR ''.''), (8, CHR ''X''), (16, CHR ''.''),
        (104, CHR ''X'')]),
      (8, [(80, CHR ''X''), (24, CHR ''.''), (24, CHR ''X''), (16, CHR ''.''), (48, CHR ''X''), (32, CHR ''.''),
        (48, CHR ''X''), (16, CHR ''.''), (80, CHR ''X''), (16, CHR ''.''), (8, CHR ''X''), (24, CHR ''.''),
        (96, CHR ''X'')]),
      (5, [(80, CHR ''X''), (8, CHR '' ''), (24, CHR ''.''), (8, CHR ''X''), (16, CHR ''.''), (8, CHR '' ''),
        (48, CHR ''X''), (24, CHR ''.''), (8, CHR '' ''), (48, CHR ''X''), (16, CHR ''.''), (40, CHR ''X''),
        (8, CHR ''.''), (32, CHR ''X''), (16, CHR ''.''), (8, CHR ''X''), (8, CHR '' ''), (16, CHR ''.''),
        (8, CHR ''X''), (8, CHR ''.''), (80, CHR ''X'')]),
      (3, [(88, CHR ''X''), (24, CHR ''.''), (8, CHR ''X''), (16, CHR ''.''), (56, CHR ''X''), (24, CHR ''.''),
        (56, CHR ''X''), (16, CHR ''.''), (40, CHR ''X''), (8, CHR ''.''), (32, CHR ''X''), (16, CHR ''.''),
        (16, CHR ''X''), (16, CHR ''.''), (8, CHR ''X''), (8, CHR ''.''), (80, CHR ''X'')]),
      (5, [(88, CHR ''X''), (8, CHR '' ''), (32, CHR ''.''), (8, CHR '' ''), (56, CHR ''X''), (8, CHR '' ''),
        (16, CHR ''.''), (56, CHR ''X''), (56, CHR ''.''), (8, CHR '' ''), (32, CHR ''X''), (16, CHR ''.''),
        (16, CHR ''X''), (24, CHR ''.''), (8, CHR '' ''), (80, CHR ''X'')]),
      (3, [(96, CHR ''X''), (32, CHR ''.''), (72, CHR ''X''), (16, CHR ''.''), (56, CHR ''X''), (56, CHR ''.''),
        (40, CHR ''X''), (16, CHR ''.''), (16, CHR ''X''), (24, CHR ''.''), (88, CHR ''X'')]),
      (5, [(96, CHR ''X''), (8, CHR '' ''), (16, CHR ''.''), (8, CHR '' ''), (72, CHR ''X''), (8, CHR ''.''),
        (8, CHR '' ''), (56, CHR ''X''), (8, CHR '' ''), (40, CHR ''.''), (8, CHR '' ''), (40, CHR ''X''),
        (8, CHR ''.''), (8, CHR '' ''), (16, CHR ''X''), (8, CHR '' ''), (8, CHR ''.''), (8, CHR '' ''),
        (88, CHR ''X'')]),
      (3, [(104, CHR ''X''), (16, CHR ''.''), (80, CHR ''X''), (8, CHR ''.''), (72, CHR ''X''), (40, CHR ''.''),
        (48, CHR ''X''), (8, CHR ''.''), (32, CHR ''X''), (8, CHR ''.''), (96, CHR ''X'')]),
      (5, [(104, CHR ''X''), (16, CHR '' ''), (80, CHR ''X''), (8, CHR '' ''), (72, CHR ''X''), (40, CHR '' ''),
        (48, CHR ''X''), (8, CHR '' ''), (32, CHR ''X''), (8, CHR '' ''), (96, CHR ''X'')]),
      (5, [(512, CHR ''X'')])]"

definition xpm_game_over :: "string list" where
  "xpm_game_over = (''512 256 3 1 '' # xpm_game_over_colours) @ pixel_rows xpm_game_over_runs"

definition xpm_game_name_colours :: "string list" where
  "xpm_game_name_colours =
     [''  c #6B0000'', ''. c #510139'', ''X c #3F0056'', ''o c #DB0300'', ''O c #87025D'',
      ''+ c #8C00C4'', ''@ c #000000'']"

definition xpm_game_name_runs :: "(nat \<times> (nat \<times> char) list) list" where
  "xpm_game_name_runs =
     [(6, [(768, CHR ''@'')]),
      (8, [(81, CHR ''@''), (32, CHR ''O''), (168, CHR ''@''), (24, CHR ''+''), (56, CHR ''@''), (8, CHR ''+''),
        (112, CHR ''@''), (8, CHR ''+''), (80, CHR ''@''), (16, CHR ''+''), (80, CHR ''@''), (16, CHR ''+''),
        (87, CHR ''@'')]),
      (5, [(65, CHR ''@''), (24, CHR ''O''), (16, CHR ''.''), (24, CHR ''O''), (144, CHR ''@''), (8, CHR ''+''),
        (8, CHR ''X''), (24, CHR ''+''), (40, CHR ''@''), (16, CHR ''+''), (104, CHR ''@''), (16, CHR ''+''),
        (72, CHR ''@''), (32, CHR ''+''), (64, CHR ''@''), (32, CHR ''+''), (79, CHR ''@'')]),
      (3, [(65, CHR ''@''), (24, CHR ''O''), (16, CHR ''@''), (24, CHR ''O''), (144, CHR ''@''), (8, CHR ''+''),
        (8, CHR ''@''), (24, CHR ''+''), (40, CHR ''@''), (16, CHR ''+''), (104, CHR ''@''), (16, CHR ''+''),
        (72, CHR ''@''), (32, CHR ''+''), (64, CHR ''@''), (32, CHR ''+''), (79, CHR ''@'')]),
      (5, [(57, CHR ''@''), (24, CHR ''O''), (8, CHR ''.''), (16, CHR ''@''), (8, CHR ''.''), (24, CHR ''O''),
        (128, CHR ''@''), (8, CHR ''+''), (8, CHR ''X''), (8, CHR ''@''), (8, CHR ''X''), (24, CHR ''+''),
        (32, CHR ''@''), (16, CHR ''+''), (104, CHR ''@''), (24, CHR ''+''), (56, CHR ''@''), (16, CHR ''+''),
        (8, CHR ''X''), (24, CHR ''+''), (48, CHR ''@''), (16, CHR ''+''), (8, CHR ''X''), (24, CHR ''+''),
        (71, CHR ''@'')]),
      (3, [(57, CHR ''@''), (24, CHR ''O''), (32, CHR ''@''), (24, CHR ''O''), (128, CHR ''@''), (8, CHR ''+''),
        (24, CHR ''@''), (24, CHR ''+''), (32, CHR ''@''), (16, CHR ''+''), (104, CHR ''@''), (24, CHR ''+''),
        (56, CHR ''@''), (16, CHR ''+''), (8, CHR ''@''), (24, CHR ''+''), (48, CHR ''@''), (16, CHR ''+''),
        (8, CHR ''@''), (24, CHR ''+''), (71, CHR ''@'')]),
      (5, [(49, CHR ''@''), (24, CHR ''O''), (8, CHR ''.''), (8, CHR ''@''), (16, CHR ''o''), (8, CHR ''@''),
        (8, CHR ''.''), (24, CHR ''O''), (112, CHR ''@''), (16, CHR ''+''), (24, CHR ''@''), (8, CHR ''X''),
        (16, CHR ''+''), (32, CHR ''@''), (16, CHR ''+''), (96, CHR ''@''), (32, CHR ''+''), (48, CHR ''@''),
        (24, CHR ''+''), (8, CHR ''@''), (8, CHR ''X''), (24, CHR ''+''), (32, CHR ''@''), (24, CHR ''+''),
        (8, CHR ''@''), (8, CHR ''X''), (24, CHR ''+''), (63, CHR ''@'')]),
      (3, [(49, CHR ''@''), (24, CHR ''O''), (16, CHR ''@''), (16, CHR ''o''), (16, CHR ''@''), (24, CHR ''O''),
        (112, CHR ''@''), (16, CHR ''+''), (32, CHR ''@''), (16, CHR ''+''), (32, CHR ''@''), (16, CHR ''+''),
        (96, CHR ''@''), (32, CHR ''+''), (48, CHR ''@''), (24, CHR ''+''), (16, CHR ''@''), (24, CHR ''+''),
        (32, CHR ''@''), (24, CHR ''+''), (16, CHR ''@''), (24, CHR ''+''), (63, CHR ''@'')]),
      (5, [(49, CHR ''@''), (24, CHR ''O''), (16, CHR ''@''), (16, CHR ''o''), (16, CHR ''@''), (24, CHR ''O''),
        (112, CHR ''@''), (16, CHR ''+''), (32, CHR ''@''), (8, CHR ''+''), (8, CHR ''X''), (32, CHR ''@''),
        (16, CHR ''+''), (96, CHR ''@''), (8, CHR ''+''), (8, CHR ''X''), (16, CHR ''+''), (48, CHR ''@''),
        (8, CHR ''X''), (24, CHR ''+''), (8, CHR ''@''), (8, CHR ''X''), (8, CHR ''+''), (8, CHR ''X''),
        (32, CHR ''@''), (8, CHR ''X''), (24, CHR ''+''), (8, CHR ''@''), (8, CHR ''X''), (8, CHR ''+''),
        (8, CHR ''X''), (63, CHR ''@'')]),
      (3, [(49, CHR ''@''), (24, CHR ''O''), (16, CHR ''@''), (16, CHR ''o''), (16, CHR ''@''), (24, CHR ''O''),
        (112, CHR ''@''), (16, CHR ''+''), (32, CHR ''@''), (8, CHR ''+''), (40, CHR ''@''), (16, CHR ''+''),
        (96, CHR ''@''), (8, CHR ''+''), (8, CHR ''@''), (16, CHR ''+''), (56, CHR ''@''), (24, CHR ''+''),
        (16, CHR ''@''), (8, CHR ''+''), (48, CHR ''@''), (24, CHR ''+''), (16, CHR ''@''), (8, CHR ''+''),
        (71, CHR ''@'')]),
      (5, [(49, CHR ''@''), (24, CHR ''O''), (16, CHR ''@''), (16, CHR ''o''), (16, CHR ''@''), (24, CHR ''O''),
        (112, CHR ''@''), (16, CHR ''+''), (24, CHR ''@''), (8, CHR ''+''), (8, CHR ''X''), (40, CHR ''@''),
        (16, CHR ''+''), (88, CHR ''@''), (16, CHR ''+''), (8, CHR ''@''), (24, CHR ''+''), (48, CHR ''@''),
        (8, CHR ''X''), (24, CHR ''+''), (8, CHR ''@''), (8, CHR ''X''), (48, CHR ''@''), (8, CHR ''X''),
        (24, CHR ''+''), (8, CHR ''@''), (8, CHR ''X''), (71, CHR ''@'')]),
      (3, [(49, CHR ''@''), (24, CHR ''O''), (16, CHR ''@''), (16, CHR ''o''), (16, CHR ''@''), (24, CHR ''O''),
        (112, CHR ''@''), (16, CHR ''+''), (24, CHR ''@''), (8, CHR ''+''), (48, CHR ''@''), (16, CHR ''+''),
        (88, CHR ''@''), (16, CHR ''+''), (8, CHR ''@''), (24, CHR ''+''), (56, CHR ''@''), (24, CHR ''+''),
        (72, CHR ''@''), (24, CHR ''+''), (87, CHR ''@'')]),
      (5, [(49, CHR ''@''), (24, CHR ''O''), (16, CHR ''@''), (16, CHR ''o''), (16, CHR ''@''), (24, CHR ''O''),
        (112, CHR ''@''), (16, CHR ''+''), (24, CHR ''@''), (8, CHR ''X''), (48, CHR ''@''), (16, CHR ''+''),
        (88, CHR ''@''), (8, CHR ''+''), (8, CHR ''X''), (8, CHR ''@''), (8, CHR ''X''), (16, CHR ''+''),
        (56, CHR ''@''), (8, CHR ''X''), (24, CHR ''+''), (64, CHR ''@''), (8, CHR ''X''), (24, CHR ''+''),
        (79, CHR ''@'')]),
      (3, [(49, CHR ''@''), (24, CHR ''O''), (16, CHR ''@''), (16, CHR ''o''), (16, CHR ''@''), (24, CHR ''O''),
        (112, CHR ''@''), (16, CHR ''+''), (80, CHR ''@''), (16, CHR ''+''), (88, CHR ''@''), (8, CHR ''+''),
        (24, CHR ''@''), (16, CHR ''+''), (64, CHR ''@''), (24, CHR ''+''), (72, CHR ''@''), (24, CHR ''+''),
        (79, CHR ''@'')]),
      (5, [(49, CHR ''@''), (24, CHR ''O''), (16, CHR ''@''), (16, CHR ''o''), (16, CHR ''@''), (24, CHR ''O''),
        (112, CHR ''@''), (16, CHR ''+''), (80, CHR ''@''), (16, CHR ''+''), (88, CHR ''@''), (8, CHR ''+''),
        (24, CHR ''@''), (24, CHR ''+''), (40, CHR ''@''), (8, CHR ''+''), (8, CHR ''@''), (8, CHR ''X''),
        (24, CHR ''+''), (48, CHR ''@''), (8, CHR ''+''), (8, CHR ''@''), (8, CHR ''X''), (24, CHR ''+''),
        (71, CHR ''@'')]),
      (3, [(49, CHR ''@''), (24, CHR ''O''), (16, CHR ''@''), (16, CHR ''o''), (16, CHR ''@''), (24, CHR ''O''),
        (112, CHR ''@''), (16, CHR ''+''), (80, CHR ''@''), (16, CHR ''+''), (88, CHR ''@''), (8, CHR ''+''),
        (24, CHR ''@''), (24, CHR ''+''), (40, CHR ''@''), (8, CHR ''+''), (16, CHR ''@''), (24, CHR ''+''),
        (48, CHR ''@''), (8, CHR ''+''), (16, CHR ''@''), (24, CHR ''+''), (71, CHR ''@'')]),
      (5, [(49, CHR ''@''), (24, CHR ''O''), (16, CHR ''@''), (16, CHR ''o''), (16, CHR ''@''), (24, CHR ''O''),
        (112, CHR ''@''), (16, CHR ''+''), (80, CHR ''@''), (16, CHR ''+''), (80, CHR ''@''), (64, CHR ''+''),
        (32, CHR ''@''), (8, CHR ''+''), (8, CHR ''X''), (16, CHR ''@''), (8, CHR ''X''), (24, CHR ''+''),
        (32, CHR ''@''), (8, CHR ''+''), (8, CHR ''X''), (16, CHR ''@''), (8, CHR ''X''), (24, CHR ''+''),
        (63, CHR ''@'')]),
      (3, [(49, CHR ''@''), (24, CHR ''O''), (16, CHR ''@''), (16, CHR ''o''), (16, CHR ''@''), (24, CHR ''O''),
        (112, CHR ''@''), (16, CHR ''+''), (80, CHR ''@''), (16, CHR ''+''), (80, CHR ''@''), (64, CHR ''+''),
        (32, CHR ''@''), (8, CHR ''+''), (32, CHR ''@''), (24, CHR ''+''), (32, CHR ''@''), (8, CHR ''+''),
        (32, CHR ''@''), (24, CHR ''+''), (63, CHR ''@'')]),
      (5, [(49, CHR ''@''), (8, CHR ''.''), (24, CHR ''O''), (8, CHR ''@''), (16, CHR '' ''), (8, CHR ''@''),
        (24, CHR ''O''), (8, CHR ''.''), (112, CHR ''@''), (16, CHR ''+''), (80, CHR ''@''), (16, CHR ''+''),
        (80, CHR ''@''), (64, CHR ''+''), (32, CHR ''@''), (16, CHR ''+''), (24, CHR ''@''), (8, CHR ''X''),
        (16, CHR ''+''), (32, CHR ''@''), (16, CHR ''+''), (24, CHR ''@''), (8, CHR ''X''), (16, CHR ''+''),
        (63, CHR ''@'')]),
      (3, [(57, CHR ''@''), (24, CHR ''O''), (32, CHR ''@''), (24, CHR ''O''), (120, CHR ''@''), (16, CHR ''+''),
        (80, CHR ''@''), (16, CHR ''+''), (80, CHR ''@''), (64, CHR ''+''), (32, CHR ''@''), (16, CHR ''+''),
        (32, CHR ''@''), (16, CHR ''+''), (32, CHR ''@''), (16, CHR ''+''), (32, CHR ''@''), (16, CHR ''+''),
        (63, CHR ''@'')]),
      (5, [(41, CHR ''@''), (8, CHR ''O''), (8, CHR ''@''), (8, CHR ''.''), (24, CHR ''O''), (16, CHR ''@''),
        (24, CHR ''O''), (8, CHR ''.''), (8, CHR ''@''), (8, CHR ''O''), (104, CHR ''@''), (24, CHR ''+''),
        (32, CHR ''@''), (8, CHR ''+''), (32, CHR ''@''), (16, CHR ''+''), (80, CHR ''@''), (16, CHR ''+''),
        (32, CHR ''X''), (16, CHR ''+''), (32, CHR ''@''), (24, CHR ''+''), (24, CHR ''@''), (16, CHR ''+''),
        (32, CHR ''@''), (24, CHR ''+''), (24, CHR ''@''), (16, CHR ''+''), (63, CHR ''@'')]),
      (3, [(41, CHR ''@''), (8, CHR ''O''), (16, CHR ''@''), (24, CHR ''O''), (16, CHR ''@''), (24, CHR ''O''),
        (16, CHR ''@''), (8, CHR ''O''), (104, CHR ''@''), (24, CHR ''+''), (32, CHR ''@''), (8, CHR ''+''),
        (32, CHR ''@''), (16, CHR ''+''), (80, CHR ''@''), (16, CHR ''+''), (32, CHR ''@''), (16, CHR ''+''),
        (32, CHR ''@''), (24, CHR ''+''), (24, CHR ''@''), (16, CHR ''+''), (32, CHR ''@''), (24, CHR ''+''),
        (24, CHR ''@''), (16, CHR ''+''), (63, CHR ''@'')]),
      (5, [(41, CHR ''@''), (8, CHR ''O''), (16, CHR ''@''), (16, CHR ''.''), (8, CHR ''O''), (16, CHR ''@''),
        (8, CHR ''O''), (16, CHR ''.''), (16, CHR ''@''), (8, CHR ''O''), (104, CHR ''@''), (32, CHR ''+''),
        (16, CHR ''@''), (8, CHR ''+''), (8, CHR ''X''), (32, CHR ''@''), (16, CHR ''+''), (40, CHR ''@''),
        (8, CHR ''+''), (32, CHR ''@''), (16, CHR ''+''), (32, CHR ''@''), (16, CHR ''+''), (32, CHR ''@''),
        (8, CHR ''X''), (24, CHR ''+''), (8, CHR ''@''), (16, CHR ''+''), (8, CHR ''X''), (32, CHR ''@''),
        (8, CHR ''X''), (24, CHR ''+''), (8, CHR ''@''), (16, CHR ''+''), (8, CHR ''X''), (63, CHR ''@'')]),
      (3, [(41, CHR ''@''), (8, CHR ''O''), (32, CHR ''@''), (8, CHR ''O''), (16, CHR ''@''), (8, CHR ''O''),
        (32, CHR ''@''), (8, CHR ''O''), (104, CHR ''@''), (32, CHR ''+''), (16, CHR ''@''), (8, CHR ''+''),
        (40, CHR ''@''), (16, CHR ''+''), (40, CHR ''@''), (8, CHR ''+''), (32, CHR ''@''), (16, CHR ''+''),
        (32, CHR ''@''), (16, CHR ''+''), (40, CHR ''@''), (24, CHR ''+''), (8, CHR ''@''), (16, CHR ''+''),
        (48, CHR ''@''), (24, CHR ''+''), (8, CHR ''@''), (16, CHR ''+''), (71, CHR ''@'')]),
      (5, [(41, CHR ''@''), (48, CHR ''O''), (16, CHR ''@''), (48, CHR ''O''), (104, CHR ''@''), (8, CHR ''X''),
        (40, CHR ''+''), (8, CHR ''X''), (40, CHR ''@''), (56, CHR ''+''), (8, CHR ''X''), (32, CHR ''@''),
        (16, CHR ''+''), (32, CHR ''@''), (16, CHR ''+''), (40, CHR ''@''), (8, CHR ''X''), (32, CHR ''+''),
        (8, CHR ''X''), (48, CHR ''@''), (8, CHR ''X''), (32, CHR ''+''), (8, CHR ''X''), (71, CHR ''@'')]),
      (3, [(41, CHR ''@''), (48, CHR ''O''), (16, CHR ''@''), (48, CHR ''O''), (112, CHR ''@''), (40, CHR ''+''),
        (48, CHR ''@''), (56, CHR ''+''), (40, CHR ''@''), (16, CHR ''+''), (32, CHR ''@''), (16, CHR ''+''),
        (48, CHR ''@''), (32, CHR ''+''), (64, CHR ''@''), (32, CHR ''+''), (79, CHR ''@'')]),
      (5, [(41, CHR ''@''), (48, CHR ''O''), (16, CHR ''@''), (48, CHR ''O''), (112, CHR ''@''), (8, CHR ''X''),
        (24, CHR ''+''), (8, CHR ''X''), (48, CHR ''@''), (8, CHR ''X''), (40, CHR ''+''), (8, CHR ''X''),
        (40, CHR ''@''), (8, CHR ''+''), (8, CHR ''X''), (32, CHR ''@''), (8, CHR ''+''), (8, CHR ''X''),
        (48, CHR ''@''), (8, CHR ''X''), (16, CHR ''+''), (8, CHR ''X''), (64, CHR ''@''), (8, CHR ''X''),
        (16, CHR ''+''), (8, CHR ''X''), (79, CHR ''@'')]),
      (3, [(41, CHR ''@''), (48, CHR ''O''), (16, CHR ''@''), (48, CHR ''O''), (120, CHR ''@''), (24, CHR ''+''),
        (64, CHR ''@''), (40, CHR ''+''), (48, CHR ''@''), (8, CHR ''+''), (40, CHR ''@''), (8, CHR ''+''),
        (64, CHR ''@''), (16, CHR ''+''), (80, CHR ''@''), (16, CHR ''+''), (87, CHR ''@'')]),
      (5, [(41, CHR ''@''), (48, CHR ''.''), (16, CHR ''@''), (48, CHR ''.''), (120, CHR ''@''), (24, CHR ''X''),
        (64, CHR ''@''), (40, CHR ''X''), (48, CHR ''@''), (8, CHR ''X''), (40, CHR ''@''), (8, CHR ''X''),
        (64, CHR ''@''), (16, CHR ''X''), (80, CHR ''@''), (16, CHR ''X''), (87, CHR ''@'')]),
      (5, [(768, CHR ''@'')])]"

definition xpm_game_name :: "string list" where
  "xpm_game_name = (''768 128 7 1 '' # xpm_game_name_colours) @ pixel_rows xpm_game_name_runs"

definition xpm_paused_colours :: "string list" where
  "xpm_paused_colours =
     [''  c #49435B'', ''. c #9C8EC3'', ''X c #9D8FC4'', ''o c #000000'']"

definition xpm_paused_runs :: "(nat \<times> (nat \<times> char) list) list" where
  "xpm_paused_runs =
     [(6, [(768, CHR ''o'')]),
      (8, [(128, CHR ''o''), (32, CHR ''X''), (80, CHR ''o''), (8, CHR ''X''), (64, CHR ''o''), (8, CHR ''X''),
        (40, CHR ''o''), (8, CHR ''X''), (56, CHR ''o''), (16, CHR ''X''), (64, CHR ''o''), (56, CHR ''X''),
        (40, CHR ''o''), (32, CHR ''X''), (136, CHR ''o'')]),
      (5, [(120, CHR ''o''), (48, CHR ''X''), (64, CHR ''o''), (16, CHR ''X''), (56, CHR ''o''), (16, CHR ''X''),
        (32, CHR ''o''), (16, CHR ''X''), (48, CHR ''o''), (32, CHR ''X''), (48, CHR ''o''), (56, CHR ''X''),
        (8, CHR '' ''), (32, CHR ''o''), (48, CHR ''X''), (128, CHR ''o'')]),
      (3, [(120, CHR ''o''), (48, CHR ''X''), (64, CHR ''o''), (16, CHR ''X''), (56, CHR ''o''), (16, CHR ''X''),
        (32, CHR ''o''), (16, CHR ''X''), (48, CHR ''o''), (32, CHR ''X''), (48, CHR ''o''), (56, CHR ''X''),
        (40, CHR ''o''), (48, CHR ''X''), (128, CHR ''o'')]),
      (5, [(112, CHR ''o''), (16, CHR ''X''), (16, CHR '' ''), (32, CHR ''X''), (56, CHR ''o''), (24, CHR ''X''),
        (48, CHR ''o''), (16, CHR ''X''), (32, CHR ''o''), (16, CHR ''X''), (40, CHR ''o''), (16, CHR ''X''),
        (8, CHR '' ''), (24, CHR ''X''), (40, CHR ''o''), (16, CHR ''X''), (40, CHR '' ''), (40, CHR ''o''),
        (16, CHR ''X''), (8, CHR '' ''), (32, CHR ''X''), (120, CHR ''o'')]),
      (3, [(112, CHR ''o''), (16, CHR ''X''), (16, CHR ''o''), (32, CHR ''X''), (56, CHR ''o''), (24, CHR ''X''),
        (48, CHR ''o''), (16, CHR ''X''), (32, CHR ''o''), (16, CHR ''X''), (40, CHR ''o''), (16, CHR ''X''),
        (8, CHR ''o''), (24, CHR ''X''), (40, CHR ''o''), (16, CHR ''X''), (80, CHR ''o''), (16, CHR ''X''),
        (8, CHR ''o''), (32, CHR ''X''), (120, CHR ''o'')]),
      (5, [(112, CHR ''o''), (16, CHR ''X''), (16, CHR ''o''), (8, CHR '' ''), (24, CHR ''X''), (48, CHR ''o''),
        (32, CHR ''X''), (48, CHR ''o''), (16, CHR ''X''), (32, CHR ''o''), (16, CHR ''X''), (32, CHR ''o''),
        (24, CHR ''X''), (8, CHR ''o''), (8, CHR '' ''), (24, CHR ''X''), (32, CHR ''o''), (16, CHR ''X''),
        (80, CHR ''o''), (16, CHR ''X''), (8, CHR ''o''), (8, CHR '' ''), (32, CHR ''X''), (112, CHR ''o'')]),
      (3, [(112, CHR ''o''), (16, CHR ''X''), (24, CHR ''o''), (24, CHR ''X''), (48, CHR ''o''), (32, CHR ''X''),
        (48, CHR ''o''), (16, CHR ''X''), (32, CHR ''o''), (16, CHR ''X''), (32, CHR ''o''), (24, CHR ''X''),
        (16, CHR ''o''), (24, CHR ''X''), (32, CHR ''o''), (16, CHR ''X''), (80, CHR ''o''), (16, CHR ''X''),
        (16, CHR ''o''), (32, CHR ''X''), (112, CHR ''o'')]),
      (5, [(112, CHR ''o''), (16, CHR ''X''), (24, CHR ''o''), (8, CHR '' ''), (16, CHR ''X''), (48, CHR ''o''),
        (8, CHR ''X''), (8, CHR '' ''), (16, CHR ''X''), (48, CHR ''o''), (16, CHR ''X''), (32, CHR ''o''),
        (16, CHR ''X''), (32, CHR ''o''), (8, CHR '' ''), (24, CHR ''X''), (8, CHR ''o''), (8, CHR '' ''),
        (8, CHR ''X''), (8, CHR '' ''), (32, CHR ''o''), (16, CHR ''X''), (80, CHR ''o''), (16, CHR ''X''),
        (16, CHR ''o''), (8, CHR '' ''), (24, CHR ''X''), (112, CHR ''o'')]),
      (3, [(112, CHR ''o''), (16, CHR ''X''), (32, CHR ''o''), (16, CHR ''X''), (48, CHR ''o''), (8, CHR ''X''),
        (8, CHR ''o''), (16, CHR ''X''), (48, CHR ''o''), (16, CHR ''X''), (32, CHR ''o''), (16, CHR ''X''),
        (40, CHR ''o''), (24, CHR ''X''), (16, CHR ''o''), (8, CHR ''X''), (40, CHR ''o''), (16, CHR ''X''),
        (80, CHR ''o''), (16, CHR ''X''), (24, CHR ''o''), (24, CHR ''X''), (112, CHR ''o'')]),
      (5, [(112, CHR ''o''), (16, CHR ''X''), (24, CHR ''o''), (16, CHR ''X''), (8, CHR '' ''), (40, CHR ''o''),
        (16, CHR ''X''), (8, CHR ''o''), (24, CHR ''X''), (40, CHR ''o''), (16, CHR ''X''), (32, CHR ''o''),
        (16, CHR ''X''), (40, CHR ''o''), (8, CHR '' ''), (24, CHR ''X''), (8, CHR ''o''), (8, CHR '' ''),
        (40, CHR ''o''), (48, CHR ''X''), (48, CHR ''o''), (16, CHR ''X''), (24, CHR ''o''), (8, CHR '' ''),
        (16, CHR ''X''), (112, CHR ''o'')]),
      (3, [(112, CHR ''o''), (16, CHR ''X''), (24, CHR ''o''), (16, CHR ''X''), (48, CHR ''o''), (16, CHR ''X''),
        (8, CHR ''o''), (24, CHR ''X''), (40, CHR ''o''), (16, CHR ''X''), (32, CHR ''o''), (16, CHR ''X''),
        (48, CHR ''o''), (24, CHR ''X''), (56, CHR ''o''), (48, CHR ''X''), (48, CHR ''o''), (16, CHR ''X''),
        (32, CHR ''o''), (16, CHR ''X''), (112, CHR ''o'')]),
      (5, [(112, CHR ''o''), (48, CHR ''X''), (8, CHR '' ''), (48, CHR ''o''), (8, CHR ''X''), (8, CHR '' ''),
        (8, CHR ''o''), (8, CHR '' ''), (16, CHR ''X''), (40, CHR ''o''), (16, CHR ''X''), (32, CHR ''o''),
        (16, CHR ''X''), (48, CHR ''o''), (8, CHR '' ''), (24, CHR ''X''), (48, CHR ''o''), (40, CHR ''X''),
        (8, CHR '' ''), (48, CHR ''o''), (16, CHR ''X''), (32, CHR ''o''), (16, CHR ''X''), (112, CHR ''o'')]),
      (3, [(112, CHR ''o''), (48, CHR ''X''), (56, CHR ''o''), (8, CHR ''X''), (24, CHR ''o''), (16, CHR ''X''),
        (40, CHR ''o''), (16, CHR ''X''), (32, CHR ''o''), (16, CHR ''X''), (56, CHR ''o''), (24, CHR ''X''),
        (48, CHR ''o''), (40, CHR ''X''), (56, CHR ''o''), (16, CHR ''X''), (32, CHR ''o''), (16, CHR ''X''),
        (112, CHR ''o'')]),
      (5, [(112, CHR ''o''), (40, CHR ''X''), (8, CHR '' ''), (56, CHR ''o''), (8, CHR ''X''), (24, CHR ''o''),
        (24, CHR ''X''), (32, CHR ''o''), (16, CHR ''X''), (32, CHR ''o''), (16, CHR ''X''), (40, CHR ''o''),
        (8, CHR ''X''), (8, CHR ''o''), (8, CHR '' ''), (24, CHR ''X''), (40, CHR ''o''), (16, CHR ''X''),
        (24, CHR '' ''), (56, CHR ''o''), (16, CHR ''X''), (32, CHR ''o''), (16, CHR ''X''), (112, CHR ''o'')]),
      (3, [(112, CHR ''o''), (40, CHR ''X''), (64, CHR ''o''), (8, CHR ''X''), (24, CHR ''o''), (24, CHR ''X''),
        (32, CHR ''o''), (16, CHR ''X''), (32, CHR ''o''), (16, CHR ''X''), (40, CHR ''o''), (8, CHR ''X''),
        (16, CHR ''o''), (24, CHR ''X''), (40, CHR ''o''), (16, CHR ''X''), (80, CHR ''o''), (16, CHR ''X''),
        (32, CHR ''o''), (16, CHR ''X''), (112, CHR ''o'')]),
      (5, [(112, CHR ''o''), (16, CHR ''X''), (24, CHR '' ''), (56, CHR ''o''), (64, CHR ''X''), (32, CHR ''o''),
        (16, CHR ''X''), (32, CHR ''o''), (16, CHR ''X''), (32, CHR ''o''), (8, CHR ''X''), (8, CHR '' ''),
        (16, CHR ''o''), (8, CHR '' ''), (24, CHR ''X''), (32, CHR ''o''), (16, CHR ''X''), (80, CHR ''o''),
        (16, CHR ''X''), (32, CHR ''o''), (16, CHR ''X''), (112, CHR ''o'')]),
      (3, [(112, CHR ''o''), (16, CHR ''X''), (80, CHR ''o''), (64, CHR ''X''), (32, CHR ''o''), (16, CHR ''X''),
        (32, CHR ''o''), (16, CHR ''X''), (32, CHR ''o''), (8, CHR ''X''), (32, CHR ''o''), (24, CHR ''X''),
        (32, CHR ''o''), (16, CHR ''X''), (80, CHR ''o''), (16, CHR ''X''), (32, CHR ''o''), (16, CHR ''X''),
        (112, CHR ''o'')]),
      (5, [(112, CHR ''o''), (16, CHR ''X''), (80, CHR ''o''), (64, CHR ''X''), (32, CHR ''o''), (16, CHR ''X''),
        (32, CHR ''o''), (16, CHR ''X''), (32, CHR ''o''), (16, CHR ''X''), (24, CHR ''o''), (8, CHR '' ''),
        (16, CHR ''X''), (32, CHR ''o''), (16, CHR ''X''), (80, CHR ''o''), (16, CHR ''X''), (32, CHR ''o''),
        (16, CHR ''X''), (112, CHR ''o'')]),
      (3, [(112, CHR ''o''), (16, CHR ''X''), (80, CHR ''o''), (64, CHR ''X''), (32, CHR ''o''), (16, CHR ''X''),
        (32, CHR ''o''), (16, CHR ''X''), (32, CHR ''o''), (16, CHR ''X''), (32, CHR ''o''), (16, CHR ''X''),
        (32, CHR ''o''), (16, CHR ''X''), (80, CHR ''o''), (16, CHR ''X''), (32, CHR ''o''), (16, CHR ''X''),
        (112, CHR ''o'')]),
      (5, [(112, CHR ''o''), (16, CHR ''X''), (80, CHR ''o''), (16, CHR ''X''), (32, CHR '' ''), (16, CHR ''X''),
        (32, CHR ''o''), (16, CHR ''X''), (32, CHR ''o''), (16, CHR ''X''), (32, CHR ''o''), (24, CHR ''X''),
        (24, CHR ''o''), (16, CHR ''X''), (32, CHR ''o''), (16, CHR ''X''), (80, CHR ''o''), (16, CHR ''X''),
        (32, CHR ''o''), (16, CHR ''X''), (112, CHR ''o'')]),
      (3, [(112, CHR ''o''), (16, CHR ''X''), (80, CHR ''o''), (16, CHR ''X''), (32, CHR ''o''), (16, CHR ''X''),
        (32, CHR ''o''), (16, CHR ''X''), (32, CHR ''o''), (16, CHR ''X''), (32, CHR ''o''), (24, CHR ''X''),
        (24, CHR ''o''), (16, CHR ''X''), (32, CHR ''o''), (16, CHR ''X''), (80, CHR ''o''), (16, CHR ''X''),
        (32, CHR ''o''), (16, CHR ''X''), (112, CHR ''o'')]),
      (5, [(112, CHR ''o''), (24, CHR ''X''), (72, CHR ''o''), (16, CHR ''X''), (32, CHR ''o''), (16, CHR ''X''),
        (32, CHR ''o''), (24, CHR ''X''), (16, CHR ''o''), (16, CHR ''X''), (8, CHR '' ''), (32, CHR ''o''),
        (8, CHR '' ''), (24, CHR ''X''), (8, CHR ''o''), (16, CHR ''X''), (8, CHR '' ''), (32, CHR ''o''),
        (16, CHR ''X''), (40, CHR ''o''), (8, CHR ''X''), (32, CHR ''o''), (16, CHR ''X''), (24, CHR ''o''),
        (16, CHR ''X''), (8, CHR '' ''), (112, CHR ''o'')]),
      (3, [(112, CHR ''o''), (24, CHR ''X''), (72, CHR ''o''), (16, CHR ''X''), (32, CHR ''o''), (16, CHR ''X''),
        (32, CHR ''o''), (24, CHR ''X''), (16, CHR ''o''), (16, CHR ''X''), (48, CHR ''o''), (24, CHR ''X''),
        (8, CHR ''o''), (16, CHR ''X''), (40, CHR ''o''), (16, CHR ''X''), (40, CHR ''o''), (8, CHR ''X''),
        (32, CHR ''o''), (16, CHR ''X''), (24, CHR ''o''), (16, CHR ''X''), (120, CHR ''o'')]),
      (5, [(112, CHR ''o''), (16, CHR ''X''), (8, CHR '' ''), (72, CHR ''o''), (16, CHR ''X''), (32, CHR ''o''),
        (16, CHR ''X''), (32, CHR ''o''), (8, CHR '' ''), (40, CHR ''X''), (8, CHR '' ''), (48, CHR ''o''),
        (8, CHR '' ''), (32, CHR ''X''), (8, CHR '' ''), (40, CHR ''o''), (56, CHR ''X''), (8, CHR '' ''),
        (32, CHR ''o''), (48, CHR ''X''), (8, CHR '' ''), (120, CHR ''o'')]),
      (3, [(112, CHR ''o''), (16, CHR ''X''), (80, CHR ''o''), (16, CHR ''X''), (32, CHR ''o''), (16, CHR ''X''),
        (40, CHR ''o''), (40, CHR ''X''), (64, CHR ''o''), (32, CHR ''X''), (48, CHR ''o''), (56, CHR ''X''),
        (40, CHR ''o''), (48, CHR ''X''), (128, CHR ''o'')]),
      (5, [(112, CHR ''o''), (8, CHR ''X''), (8, CHR '' ''), (80, CHR ''o''), (8, CHR ''X''), (8, CHR '' ''),
        (32, CHR ''o''), (8, CHR ''X''), (8, CHR '' ''), (40, CHR ''o''), (8, CHR '' ''), (24, CHR ''X''),
        (8, CHR '' ''), (64, CHR ''o''), (8, CHR '' ''), (16, CHR ''X''), (8, CHR '' ''), (48, CHR ''o''),
        (8, CHR '' ''), (40, CHR ''X''), (8, CHR '' ''), (40, CHR ''o''), (8, CHR '' ''), (32, CHR ''X''),
        (8, CHR '' ''), (128, CHR ''o'')]),
      (2, [(112, CHR ''o''), (8, CHR ''X''), (88, CHR ''o''), (8, CHR ''X''), (40, CHR ''o''), (8, CHR ''X''),
        (56, CHR ''o''), (24, CHR ''X''), (80, CHR ''o''), (16, CHR ''X''), (64, CHR ''o''), (40, CHR ''X''),
        (56, CHR ''o''), (32, CHR ''X''), (136, CHR ''o'')]),
      (1, [(112, CHR ''o''), (8, CHR ''X''), (88, CHR ''o''), (8, CHR ''X''), (40, CHR ''o''), (8, CHR ''X''),
        (56, CHR ''o''), (24, CHR ''X''), (80, CHR ''o''), (16, CHR ''X''), (64, CHR ''o''), (40, CHR ''X''),
        (56, CHR ''o''), (1, CHR ''.''), (31, CHR ''X''), (136, CHR ''o'')]),
      (5, [(112, CHR ''o''), (8, CHR '' ''), (88, CHR ''o''), (8, CHR '' ''), (40, CHR ''o''), (8, CHR '' ''),
        (56, CHR ''o''), (24, CHR '' ''), (80, CHR ''o''), (16, CHR '' ''), (64, CHR ''o''), (40, CHR '' ''),
        (56, CHR ''o''), (32, CHR '' ''), (136, CHR ''o'')]),
      (5, [(768, CHR ''o'')])]"

definition xpm_paused :: "string list" where
  "xpm_paused = (''768 128 4 1 '' # xpm_paused_colours) @ pixel_rows xpm_paused_runs"

definition xpm_lbc1_colours :: "string list" where
  "xpm_lbc1_colours =
     [''  c #20242D'', ''. c #282828'', ''X c #4A5368'', ''o c #7a7a7a'', ''O c #497DFF'',
      ''+ c #7CA1FF'', ''@ c #AFAFAF'', ''# c #899AC1'', ''$ c #B5CAFF'', ''A c #D1DDFF'',
      ''& c #E8EEFF'', ''* c #FFFFFF'', ''= c #000000'']"

definition xpm_lbc1_runs :: "(nat \<times> (nat \<times> char) list) list" where
  "xpm_lbc1_runs =
     [(2, [(96, CHR ''='')]),
      (2, [(26, CHR ''=''), (2, CHR '' ''), (68, CHR ''='')]),
      (2, [(26, CHR ''=''), (2, CHR ''X''), (68, CHR ''='')]),
      (2, [(26, CHR ''=''), (2, CHR ''#''), (68, CHR ''='')]),
      (2, [(26, CHR ''=''), (2, CHR ''$''), (68, CHR ''='')]),
      (2, [(26, CHR ''=''), (2, CHR ''$''), (2, CHR '' ''), (66, CHR ''='')]),
      (2, [(26, CHR ''=''), (2, CHR ''$''), (2, CHR ''X''), (14, CHR ''=''), (2, CHR ''O''), (12, CHR ''=''),
        (2, CHR ''O''), (36, CHR ''='')]),
      (2, [(26, CHR ''=''), (2, CHR ''$''), (2, CHR ''#''), (16, CHR ''=''), (2, CHR ''O''), (12, CHR ''=''),
        (2, CHR ''O''), (34, CHR ''='')]),
      (2, [(24, CHR ''=''), (6, CHR ''$''), (2, CHR '' ''), (2, CHR ''$''), (12, CHR ''=''), (2, CHR ''+''),
        (12, CHR ''=''), (2, CHR ''+''), (34, CHR ''='')]),
      (2, [(20, CHR ''=''), (2, CHR ''O''), (2, CHR ''+''), (2, CHR ''=''), (4, CHR ''$''), (2, CHR ''X''),
        (2, CHR ''=''), (2, CHR ''+''), (2, CHR ''O''), (10, CHR ''=''), (2, CHR ''+''), (10, CHR ''=''),
        (2, CHR ''+''), (34, CHR ''='')]),
      (2, [(18, CHR ''=''), (2, CHR ''O''), (6, CHR ''=''), (2, CHR ''$''), (2, CHR ''A''), (2, CHR ''#''),
        (6, CHR ''=''), (2, CHR ''O''), (8, CHR ''=''), (2, CHR ''+''), (12, CHR ''=''), (2, CHR ''$''),
        (32, CHR ''='')]),
      (2, [(18, CHR ''=''), (2, CHR ''+''), (4, CHR ''=''), (10, CHR ''A''), (4, CHR ''=''), (2, CHR ''+''),
        (10, CHR ''=''), (2, CHR ''$''), (10, CHR ''=''), (2, CHR ''$''), (32, CHR ''='')]),
      (2, [(16, CHR ''=''), (2, CHR ''$''), (4, CHR ''=''), (4, CHR ''A''), (6, CHR ''=''), (4, CHR ''A''),
        (4, CHR ''=''), (2, CHR ''$''), (8, CHR ''=''), (2, CHR ''$''), (10, CHR ''=''), (2, CHR ''A''),
        (32, CHR ''='')]),
      (2, [(2, CHR ''=''), (2, CHR '' ''), (2, CHR ''X''), (2, CHR ''#''), (14, CHR ''$''), (2, CHR ''A''),
        (2, CHR ''=''), (6, CHR ''A''), (2, CHR ''=''), (2, CHR ''A''), (6, CHR ''&''), (34, CHR ''*''),
        (2, CHR ''@''), (2, CHR ''o''), (2, CHR ''.''), (14, CHR ''='')]),
      (2, [(10, CHR ''=''), (2, CHR '' ''), (2, CHR ''X''), (2, CHR ''#''), (4, CHR ''$''), (4, CHR ''A''),
        (2, CHR ''=''), (2, CHR ''A''), (2, CHR ''=''), (2, CHR ''A''), (2, CHR ''=''), (4, CHR ''A''),
        (14, CHR ''&''), (32, CHR ''*''), (2, CHR ''@''), (2, CHR ''o''), (2, CHR ''.''), (6, CHR ''='')]),
      (2, [(16, CHR ''=''), (2, CHR '' ''), (2, CHR ''X''), (2, CHR ''#''), (2, CHR ''A''), (2, CHR ''=''),
        (6, CHR ''A''), (2, CHR ''=''), (8, CHR ''A''), (22, CHR ''&''), (26, CHR ''*''), (2, CHR ''@''),
        (2, CHR ''o''), (2, CHR ''.'')]),
      (2, [(16, CHR ''=''), (2, CHR ''$''), (4, CHR ''=''), (4, CHR ''A''), (6, CHR ''=''), (4, CHR ''A''),
        (4, CHR ''=''), (2, CHR ''$''), (8, CHR ''=''), (2, CHR ''$''), (10, CHR ''=''), (2, CHR ''A''),
        (32, CHR ''='')]),
      (2, [(18, CHR ''=''), (2, CHR ''+''), (4, CHR ''=''), (10, CHR ''A''), (16, CHR ''=''), (2, CHR ''$''),
        (10, CHR ''=''), (2, CHR ''$''), (32, CHR ''='')]),
      (2, [(18, CHR ''=''), (2, CHR ''O''), (6, CHR ''=''), (2, CHR ''&''), (4, CHR ''A''), (16, CHR ''=''),
        (2, CHR ''+''), (12, CHR ''=''), (2, CHR ''$''), (32, CHR ''='')]),
      (2, [(20, CHR ''=''), (2, CHR ''O''), (2, CHR ''+''), (2, CHR ''=''), (4, CHR ''&''), (2, CHR ''A''),
        (16, CHR ''=''), (2, CHR ''+''), (10, CHR ''=''), (2, CHR ''+''), (34, CHR ''='')]),
      (2, [(24, CHR ''=''), (2, CHR ''$''), (4, CHR ''&''), (2, CHR ''A''), (2, CHR ''$''), (12, CHR ''=''),
        (2, CHR ''+''), (12, CHR ''=''), (2, CHR ''+''), (34, CHR ''='')]),
      (2, [(26, CHR ''=''), (2, CHR ''*''), (4, CHR ''&''), (14, CHR ''=''), (2, CHR ''O''), (12, CHR ''=''),
        (2, CHR ''O''), (34, CHR ''='')]),
      (2, [(12, CHR ''=''), (2, CHR ''O''), (12, CHR ''=''), (2, CHR ''*''), (4, CHR ''&''), (12, CHR ''=''),
        (2, CHR ''O''), (12, CHR ''=''), (2, CHR ''O''), (36, CHR ''='')]),
      (2, [(14, CHR ''=''), (2, CHR ''O''), (2, CHR ''+''), (8, CHR ''=''), (2, CHR ''*''), (4, CHR ''&''),
        (8, CHR ''=''), (2, CHR ''+''), (2, CHR ''O''), (52, CHR ''='')]),
      (2, [(18, CHR ''=''), (4, CHR ''+''), (4, CHR ''=''), (2, CHR ''*''), (4, CHR ''&''), (4, CHR ''=''),
        (4, CHR ''+''), (56, CHR ''='')]),
      (2, [(22, CHR ''=''), (4, CHR ''$''), (2, CHR ''*''), (4, CHR ''&''), (4, CHR ''$''), (60, CHR ''='')]),
      (6, [(26, CHR ''=''), (4, CHR ''*''), (2, CHR ''&''), (64, CHR ''='')]),
      (2, [(12, CHR ''=''), (2, CHR ''O''), (12, CHR ''=''), (4, CHR ''*''), (2, CHR ''&''), (12, CHR ''=''),
        (2, CHR ''O''), (50, CHR ''='')]),
      (2, [(14, CHR ''=''), (2, CHR ''O''), (4, CHR ''+''), (6, CHR ''=''), (4, CHR ''*''), (2, CHR ''&''),
        (6, CHR ''=''), (4, CHR ''+''), (2, CHR ''O''), (52, CHR ''='')]),
      (2, [(20, CHR ''=''), (4, CHR ''$''), (2, CHR ''A''), (4, CHR ''*''), (2, CHR ''&''), (2, CHR ''A''),
        (4, CHR ''$''), (58, CHR ''='')]),
      (12, [(26, CHR ''=''), (6, CHR ''*''), (64, CHR ''='')]),
      (2, [(26, CHR ''=''), (2, CHR ''@''), (4, CHR ''*''), (64, CHR ''='')]),
      (2, [(26, CHR ''=''), (2, CHR ''o''), (4, CHR ''*''), (64, CHR ''='')]),
      (2, [(26, CHR ''=''), (2, CHR ''.''), (4, CHR ''*''), (64, CHR ''='')]),
      (2, [(28, CHR ''=''), (4, CHR ''*''), (64, CHR ''='')]),
      (2, [(28, CHR ''=''), (2, CHR ''@''), (2, CHR ''*''), (64, CHR ''='')]),
      (2, [(28, CHR ''=''), (2, CHR ''o''), (2, CHR ''*''), (64, CHR ''='')]),
      (2, [(28, CHR ''=''), (2, CHR ''.''), (2, CHR ''*''), (64, CHR ''='')]),
      (2, [(30, CHR ''=''), (2, CHR ''@''), (64, CHR ''='')]),
      (2, [(30, CHR ''=''), (2, CHR ''o''), (64, CHR ''='')]),
      (2, [(30, CHR ''=''), (2, CHR ''.''), (64, CHR ''='')])]"

definition xpm_lbc1 :: "string list" where
  "xpm_lbc1 = (''96 96 13 1 '' # xpm_lbc1_colours) @ pixel_rows xpm_lbc1_runs"

definition xpm_lbc2_colours :: "string list" where
  "xpm_lbc2_colours =
     [''  c #20242D'', ''. c #282828'', ''X c #4A5368'', ''o c #7a7a7a'', ''O c #497DFF'',
      ''+ c #7CA1FF'', ''@ c #AFAFAF'', ''# c #899AC1'', ''$ c #B5CAFF'', ''A c #D1DDFF'',
      ''& c #E8EEFF'', ''* c #FFFFFF'', ''= c #000000'']"

definition xpm_lbc2_runs :: "(nat \<times> (nat \<times> char) list) list" where
  "xpm_lbc2_runs =
     [(2, [(96, CHR ''='')]),
      (2, [(68, CHR ''=''), (2, CHR '' ''), (26, CHR ''='')]),
      (2, [(68, CHR ''=''), (2, CHR ''X''), (26, CHR ''='')]),
      (2, [(68, CHR ''=''), (2, CHR ''#''), (26, CHR ''='')]),
      (2, [(68, CHR ''=''), (2, CHR ''$''), (26, CHR ''='')]),
      (2, [(66, CHR ''=''), (2, CHR '' ''), (2, CHR ''$''), (26, CHR ''='')]),
      (2, [(36, CHR ''=''), (2, CHR ''O''), (12, CHR ''=''), (2, CHR ''O''), (14, CHR ''=''), (2, CHR ''X''),
        (2, CHR ''$''), (26, CHR ''='')]),
      (2, [(34, CHR ''=''), (2, CHR ''O''), (12, CHR ''=''), (2, CHR ''O''), (16, CHR ''=''), (2, CHR ''#''),
        (2, CHR ''$''), (26, CHR ''='')]),
      (2, [(34, CHR ''=''), (2, CHR ''+''), (12, CHR ''=''), (2, CHR ''+''), (12, CHR ''=''), (2, CHR ''$''),
        (2, CHR '' ''), (6, CHR ''$''), (24, CHR ''='')]),
      (2, [(34, CHR ''=''), (2, CHR ''+''), (10, CHR ''=''), (2, CHR ''+''), (10, CHR ''=''), (2, CHR ''O''),
        (2, CHR ''+''), (2, CHR ''=''), (2, CHR ''X''), (4, CHR ''$''), (2, CHR ''=''), (2, CHR ''+''),
        (2, CHR ''O''), (20, CHR ''='')]),
      (2, [(32, CHR ''=''), (2, CHR ''$''), (12, CHR ''=''), (2, CHR ''+''), (8, CHR ''=''), (2, CHR ''O''),
        (6, CHR ''=''), (2, CHR ''#''), (2, CHR ''A''), (2, CHR ''$''), (6, CHR ''=''), (2, CHR ''O''),
        (18, CHR ''='')]),
      (2, [(32, CHR ''=''), (2, CHR ''$''), (10, CHR ''=''), (2, CHR ''$''), (10, CHR ''=''), (2, CHR ''+''),
        (4, CHR ''=''), (10, CHR ''A''), (4, CHR ''=''), (2, CHR ''+''), (18, CHR ''='')]),
      (2, [(32, CHR ''=''), (2, CHR ''A''), (10, CHR ''=''), (2, CHR ''$''), (8, CHR ''=''), (2, CHR ''$''),
        (4, CHR ''=''), (4, CHR ''A''), (6, CHR ''=''), (4, CHR ''A''), (4, CHR ''=''), (2, CHR ''$''),
        (16, CHR ''='')]),
      (2, [(14, CHR ''=''), (2, CHR ''.''), (2, CHR ''o''), (2, CHR ''@''), (34, CHR ''*''), (6, CHR ''&''),
        (2, CHR ''A''), (2, CHR ''=''), (6, CHR ''A''), (2, CHR ''=''), (2, CHR ''A''), (14, CHR ''$''),
        (2, CHR ''#''), (2, CHR ''X''), (2, CHR '' ''), (2, CHR ''='')]),
      (2, [(6, CHR ''=''), (2, CHR ''.''), (2, CHR ''o''), (2, CHR ''@''), (32, CHR ''*''), (14, CHR ''&''),
        (4, CHR ''A''), (2, CHR ''=''), (2, CHR ''A''), (2, CHR ''=''), (2, CHR ''A''), (2, CHR ''=''),
        (4, CHR ''A''), (4, CHR ''$''), (2, CHR ''#''), (2, CHR ''X''), (2, CHR '' ''), (10, CHR ''='')]),
      (2, [(2, CHR ''.''), (2, CHR ''o''), (2, CHR ''@''), (26, CHR ''*''), (22, CHR ''&''), (8, CHR ''A''),
        (2, CHR ''=''), (6, CHR ''A''), (2, CHR ''=''), (2, CHR ''A''), (2, CHR ''#''), (2, CHR ''X''),
        (2, CHR '' ''), (16, CHR ''='')]),
      (2, [(32, CHR ''=''), (2, CHR ''A''), (10, CHR ''=''), (2, CHR ''$''), (8, CHR ''=''), (2, CHR ''$''),
        (4, CHR ''=''), (4, CHR ''A''), (6, CHR ''=''), (4, CHR ''A''), (4, CHR ''=''), (2, CHR ''$''),
        (16, CHR ''='')]),
      (2, [(32, CHR ''=''), (2, CHR ''$''), (10, CHR ''=''), (2, CHR ''$''), (16, CHR ''=''), (10, CHR ''A''),
        (4, CHR ''=''), (2, CHR ''+''), (18, CHR ''='')]),
      (2, [(32, CHR ''=''), (2, CHR ''$''), (12, CHR ''=''), (2, CHR ''+''), (16, CHR ''=''), (4, CHR ''A''),
        (2, CHR ''&''), (6, CHR ''=''), (2, CHR ''O''), (18, CHR ''='')]),
      (2, [(34, CHR ''=''), (2, CHR ''+''), (10, CHR ''=''), (2, CHR ''+''), (16, CHR ''=''), (2, CHR ''A''),
        (4, CHR ''&''), (2, CHR ''=''), (2, CHR ''+''), (2, CHR ''O''), (20, CHR ''='')]),
      (2, [(34, CHR ''=''), (2, CHR ''+''), (12, CHR ''=''), (2, CHR ''+''), (12, CHR ''=''), (2, CHR ''$''),
        (2, CHR ''A''), (4, CHR ''&''), (2, CHR ''$''), (24, CHR ''='')]),
      (2, [(34, CHR ''=''), (2, CHR ''O''), (12, CHR ''=''), (2, CHR ''O''), (14, CHR ''=''), (4, CHR ''&''),
        (2, CHR ''*''), (26, CHR ''='')]),
      (2, [(36, CHR ''=''), (2, CHR ''O''), (12, CHR ''=''), (2, CHR ''O''), (12, CHR ''=''), (4, CHR ''&''),
        (2, CHR ''*''), (12, CHR ''=''), (2, CHR ''O''), (12, CHR ''='')]),
      (2, [(52, CHR ''=''), (2, CHR ''O''), (2, CHR ''+''), (8, CHR ''=''), (4, CHR ''&''), (2, CHR ''*''),
        (8, CHR ''=''), (2, CHR ''+''), (2, CHR ''O''), (14, CHR ''='')]),
      (2, [(56, CHR ''=''), (4, CHR ''+''), (4, CHR ''=''), (4, CHR ''&''), (2, CHR ''*''), (4, CHR ''=''),
        (4, CHR ''+''), (18, CHR ''='')]),
      (2, [(60, CHR ''=''), (4, CHR ''$''), (4, CHR ''&''), (2, CHR ''*''), (4, CHR ''$''), (22, CHR ''='')]),
      (6, [(64, CHR ''=''), (2, CHR ''&''), (4, CHR ''*''), (26, CHR ''='')]),
      (2, [(50, CHR ''=''), (2, CHR ''O''), (12, CHR ''=''), (2, CHR ''&''), (4, CHR ''*''), (12, CHR ''=''),
        (2, CHR ''O''), (12, CHR ''='')]),
      (2, [(52, CHR ''=''), (2, CHR ''O''), (4, CHR ''+''), (6, CHR ''=''), (2, CHR ''&''), (4, CHR ''*''),
        (6, CHR ''=''), (4, CHR ''+''), (2, CHR ''O''), (14, CHR ''='')]),
      (2, [(58, CHR ''=''), (4, CHR ''$''), (2, CHR ''A''), (2, CHR ''&''), (4, CHR ''*''), (2, CHR ''A''),
        (4, CHR ''$''), (20, CHR ''='')]),
      (12, [(64, CHR ''=''), (6, CHR ''*''), (26, CHR ''='')]),
      (2, [(64, CHR ''=''), (4, CHR ''*''), (2, CHR ''@''), (26, CHR ''='')]),
      (2, [(64, CHR ''=''), (4, CHR ''*''), (2, CHR ''o''), (26, CHR ''='')]),
      (2, [(64, CHR ''=''), (4, CHR ''*''), (2, CHR ''.''), (26, CHR ''='')]),
      (2, [(64, CHR ''=''), (4, CHR ''*''), (28, CHR ''='')]),
      (2, [(64, CHR ''=''), (2, CHR ''*''), (2, CHR ''@''), (28, CHR ''='')]),
      (2, [(64, CHR ''=''), (2, CHR ''*''), (2, CHR ''o''), (28, CHR ''='')]),
      (2, [(64, CHR ''=''), (2, CHR ''*''), (2, CHR ''.''), (28, CHR ''='')]),
      (2, [(64, CHR ''=''), (2, CHR ''@''), (30, CHR ''='')]),
      (2, [(64, CHR ''=''), (2, CHR ''o''), (30, CHR ''='')]),
      (2, [(64, CHR ''=''), (2, CHR ''.''), (30, CHR ''='')])]"

definition xpm_lbc2 :: "string list" where
  "xpm_lbc2 = (''96 96 13 1 '' # xpm_lbc2_colours) @ pixel_rows xpm_lbc2_runs"

definition xpm_lbc3_colours :: "string list" where
  "xpm_lbc3_colours =
     [''  c #20242D'', ''. c #282828'', ''X c #4A5368'', ''o c #7a7a7a'', ''O c #497DFF'',
      ''+ c #7CA1FF'', ''@ c #AFAFAF'', ''# c #899AC1'', ''$ c #B5CAFF'', ''A c #D1DDFF'',
      ''& c #E8EEFF'', ''* c #FFFFFF'', ''= c #000000'']"

definition xpm_lbc3_runs :: "(nat \<times> (nat \<times> char) list) list" where
  "xpm_lbc3_runs =
     [(2, [(64, CHR ''=''), (2, CHR ''.''), (30, CHR ''='')]),
      (2, [(64, CHR ''=''), (2, CHR ''o''), (30, CHR ''='')]),
      (2, [(64, CHR ''=''), (2, CHR ''@''), (30, CHR ''='')]),
      (2, [(64, CHR ''=''), (2, CHR ''*''), (2, CHR ''.''), (28, CHR ''='')]),
      (2, [(64, CHR ''=''), (2, CHR ''*''), (2, CHR ''o''), (28, CHR ''='')]),
      (2, [(64, CHR ''=''), (2, CHR ''*''), (2, CHR ''@''), (28, CHR ''='')]),
      (2, [(64, CHR ''=''), (4, CHR ''*''), (28, CHR ''='')]),
      (2, [(64, CHR ''=''), (4, CHR ''*''), (2, CHR ''.''), (26, CHR ''='')]),
      (2, [(64, CHR ''=''), (4, CHR ''*''), (2, CHR ''o''), (26, CHR ''='')]),
      (2, [(64, CHR ''=''), (4, CHR ''*''), (2, CHR ''@''), (26, CHR ''='')]),
      (12, [(64, CHR ''=''), (6, CHR ''*''), (26, CHR ''='')]),
      (2, [(58, CHR ''=''), (4, CHR ''$''), (2, CHR ''A''), (2, CHR ''&''), (4, CHR ''*''), (2, CHR ''A''),
        (4, CHR ''$''), (20, CHR ''='')]),
      (2, [(52, CHR ''=''), (2, CHR ''O''), (4, CHR ''+''), (6, CHR ''=''), (2, CHR ''&''), (4, CHR ''*''),
        (6, CHR ''=''), (4, CHR ''+''), (2, CHR ''O''), (14, CHR ''='')]),
      (2, [(50, CHR ''=''), (2, CHR ''O''), (12, CHR ''=''), (2, CHR ''&''), (4, CHR ''*''), (12, CHR ''=''),
        (2, CHR ''O''), (12, CHR ''='')]),
      (6, [(64, CHR ''=''), (2, CHR ''&''), (4, CHR ''*''), (26, CHR ''='')]),
      (2, [(60, CHR ''=''), (4, CHR ''$''), (4, CHR ''&''), (2, CHR ''*''), (4, CHR ''$''), (22, CHR ''='')]),
      (2, [(56, CHR ''=''), (4, CHR ''+''), (4, CHR ''=''), (4, CHR ''&''), (2, CHR ''*''), (4, CHR ''=''),
        (4, CHR ''+''), (18, CHR ''='')]),
      (2, [(52, CHR ''=''), (2, CHR ''O''), (2, CHR ''+''), (8, CHR ''=''), (4, CHR ''&''), (2, CHR ''*''),
        (8, CHR ''=''), (2, CHR ''+''), (2, CHR ''O''), (14, CHR ''='')]),
      (2, [(36, CHR ''=''), (2, CHR ''O''), (12, CHR ''=''), (2, CHR ''O''), (12, CHR ''=''), (4, CHR ''&''),
        (2, CHR ''*''), (12, CHR ''=''), (2, CHR ''O''), (12, CHR ''='')]),
      (2, [(34, CHR ''=''), (2, CHR ''O''), (12, CHR ''=''), (2, CHR ''O''), (14, CHR ''=''), (4, CHR ''&''),
        (2, CHR ''*''), (26, CHR ''='')]),
      (2, [(34, CHR ''=''), (2, CHR ''+''), (12, CHR ''=''), (2, CHR ''+''), (12, CHR ''=''), (2, CHR ''$''),
        (2, CHR ''A''), (4, CHR ''&''), (2, CHR ''$''), (24, CHR ''='')]),
      (2, [(34, CHR ''=''), (2, CHR ''+''), (10, CHR ''=''), (2, CHR ''+''), (16, CHR ''=''), (2, CHR ''A''),
        (4, CHR ''&''), (2, CHR ''=''), (2, CHR ''+''), (2, CHR ''O''), (20, CHR ''='')]),
      (2, [(32, CHR ''=''), (2, CHR ''$''), (12, CHR ''=''), (2, CHR ''+''), (16, CHR ''=''), (4, CHR ''A''),
        (2, CHR ''&''), (6, CHR ''=''), (2, CHR ''O''), (18, CHR ''='')]),
      (2, [(32, CHR ''=''), (2, CHR ''$''), (10, CHR ''=''), (2, CHR ''$''), (16, CHR ''=''), (10, CHR ''A''),
        (4, CHR ''=''), (2, CHR ''+''), (18, CHR ''='')]),
      (2, [(32, CHR ''=''), (2, CHR ''A''), (10, CHR ''=''), (2, CHR ''$''), (8, CHR ''=''), (2, CHR ''$''),
        (4, CHR ''=''), (4, CHR ''A''), (6, CHR ''=''), (4, CHR ''A''), (4, CHR ''=''), (2, CHR ''$''),
        (16, CHR ''='')]),
      (2, [(2, CHR ''.''), (2, CHR ''o''), (2, CHR ''@''), (26, CHR ''*''), (22, CHR ''&''), (8, CHR ''A''),
        (2, CHR ''=''), (6, CHR ''A''), (2, CHR ''=''), (2, CHR ''A''), (2, CHR ''#''), (2, CHR ''X''),
        (2, CHR '' ''), (16, CHR ''='')]),
      (2, [(6, CHR ''=''), (2, CHR ''.''), (2, CHR ''o''), (2, CHR ''@''), (32, CHR ''*''), (14, CHR ''&''),
        (4, CHR ''A''), (2, CHR ''=''), (2, CHR ''A''), (2, CHR ''=''), (2, CHR ''A''), (2, CHR ''=''),
        (4, CHR ''A''), (4, CHR ''$''), (2, CHR ''#''), (2, CHR ''X''), (2, CHR '' ''), (10, CHR ''='')]),
      (2, [(14, CHR ''=''), (2, CHR ''.''), (2, CHR ''o''), (2, CHR ''@''), (34, CHR ''*''), (6, CHR ''&''),
        (2, CHR ''A''), (2, CHR ''=''), (6, CHR ''A''), (2, CHR ''=''), (2, CHR ''A''), (14, CHR ''$''),
        (2, CHR ''#''), (2, CHR ''X''), (2, CHR '' ''), (2, CHR ''='')]),
      (2, [(32, CHR ''=''), (2, CHR ''A''), (10, CHR ''=''), (2, CHR ''$''), (8, CHR ''=''), (2, CHR ''$''),
        (4, CHR ''=''), (4, CHR ''A''), (6, CHR ''=''), (4, CHR ''A''), (4, CHR ''=''), (2, CHR ''$''),
        (16, CHR ''='')]),
      (2, [(32, CHR ''=''), (2, CHR ''$''), (10, CHR ''=''), (2, CHR ''$''), (10, CHR ''=''), (2, CHR ''+''),
        (4, CHR ''=''), (10, CHR ''A''), (4, CHR ''=''), (2, CHR ''+''), (18, CHR ''='')]),
      (2, [(32, CHR ''=''), (2, CHR ''$''), (12, CHR ''=''), (2, CHR ''+''), (8, CHR ''=''), (2, CHR ''O''),
        (6, CHR ''=''), (2, CHR ''#''), (2, CHR ''A''), (2, CHR ''$''), (6, CHR ''=''), (2, CHR ''O''),
        (18, CHR ''='')]),
      (2, [(34, CHR ''=''), (2, CHR ''+''), (10, CHR ''=''), (2, CHR ''+''), (10, CHR ''=''), (2, CHR ''O''),
        (2, CHR ''+''), (2, CHR ''=''), (2, CHR ''X''), (4, CHR ''$''), (2, CHR ''=''), (2, CHR ''+''),
        (2, CHR ''O''), (20, CHR ''='')]),
      (2, [(34, CHR ''=''), (2, CHR ''+''), (12, CHR ''=''), (2, CHR ''+''), (12, CHR ''=''), (2, CHR ''$''),
        (2, CHR '' ''), (6, CHR ''$''), (24, CHR ''='')]),
      (2, [(34, CHR ''=''), (2, CHR ''O''), (12, CHR ''=''), (2, CHR ''O''), (16, CHR ''=''), (2, CHR ''#''),
        (2, CHR ''$''), (26, CHR ''='')]),
      (2, [(36, CHR ''=''), (2, CHR ''O''), (12, CHR ''=''), (2, CHR ''O''), (14, CHR ''=''), (2, CHR ''X''),
        (2, CHR ''$''), (26, CHR ''='')]),
      (2, [(66, CHR ''=''), (2, CHR '' ''), (2, CHR ''$''), (26, CHR ''='')]),
      (2, [(68, CHR ''=''), (2, CHR ''$''), (26, CHR ''='')]),
      (2, [(68, CHR ''=''), (2, CHR ''#''), (26, CHR ''='')]),
      (2, [(68, CHR ''=''), (2, CHR ''X''), (26, CHR ''='')]),
      (2, [(68, CHR ''=''), (2, CHR '' ''), (26, CHR ''='')]),
      (2, [(96, CHR ''='')])]"

definition xpm_lbc3 :: "string list" where
  "xpm_lbc3 = (''96 96 13 1 '' # xpm_lbc3_colours) @ pixel_rows xpm_lbc3_runs"

definition xpm_lbc4_colours :: "string list" where
  "xpm_lbc4_colours =
     [''  c #20242D'', ''. c #282828'', ''X c #4A5368'', ''o c #7a7a7a'', ''O c #497DFF'',
      ''+ c #7CA1FF'', ''@ c #AFAFAF'', ''# c #899AC1'', ''$ c #B5CAFF'', ''A c #D1DDFF'',
      ''& c #E8EEFF'', ''* c #FFFFFF'', ''= c #000000'']"

definition xpm_lbc4_runs :: "(nat \<times> (nat \<times> char) list) list" where
  "xpm_lbc4_runs =
     [(2, [(30, CHR ''=''), (2, CHR ''.''), (64, CHR ''='')]),
      (2, [(30, CHR ''=''), (2, CHR ''o''), (64, CHR ''='')]),
      (2, [(30, CHR ''=''), (2, CHR ''@''), (64, CHR ''='')]),
      (2, [(28, CHR ''=''), (2, CHR ''.''), (2, CHR ''*''), (64, CHR ''='')]),
      (2, [(28, CHR ''=''), (2, CHR ''o''), (2, CHR ''*''), (64, CHR ''='')]),
      (2, [(28, CHR ''=''), (2, CHR ''@''), (2, CHR ''*''), (64, CHR ''='')]),
      (2, [(28, CHR ''=''), (4, CHR ''*''), (64, CHR ''='')]),
      (2, [(26, CHR ''=''), (2, CHR ''.''), (4, CHR ''*''), (64, CHR ''='')]),
      (2, [(26, CHR ''=''), (2, CHR ''o''), (4, CHR ''*''), (64, CHR ''='')]),
      (2, [(26, CHR ''=''), (2, CHR ''@''), (4, CHR ''*''), (64, CHR ''='')]),
      (12, [(26, CHR ''=''), (6, CHR ''*''), (64, CHR ''='')]),
      (2, [(20, CHR ''=''), (4, CHR ''$''), (2, CHR ''A''), (4, CHR ''*''), (2, CHR ''&''), (2, CHR ''A''),
        (4, CHR ''$''), (58, CHR ''='')]),
      (2, [(14, CHR ''=''), (2, CHR ''O''), (4, CHR ''+''), (6, CHR ''=''), (4, CHR ''*''), (2, CHR ''&''),
        (6, CHR ''=''), (4, CHR ''+''), (2, CHR ''O''), (52, CHR ''='')]),
      (2, [(12, CHR ''=''), (2, CHR ''O''), (12, CHR ''=''), (4, CHR ''*''), (2, CHR ''&''), (12, CHR ''=''),
        (2, CHR ''O''), (50, CHR ''='')]),
      (6, [(26, CHR ''=''), (4, CHR ''*''), (2, CHR ''&''), (64, CHR ''='')]),
      (2, [(22, CHR ''=''), (4, CHR ''$''), (2, CHR ''*''), (4, CHR ''&''), (4, CHR ''$''), (60, CHR ''='')]),
      (2, [(18, CHR ''=''), (4, CHR ''+''), (4, CHR ''=''), (2, CHR ''*''), (4, CHR ''&''), (4, CHR ''=''),
        (4, CHR ''+''), (56, CHR ''='')]),
      (2, [(14, CHR ''=''), (2, CHR ''O''), (2, CHR ''+''), (8, CHR ''=''), (2, CHR ''*''), (4, CHR ''&''),
        (8, CHR ''=''), (2, CHR ''+''), (2, CHR ''O''), (52, CHR ''='')]),
      (2, [(12, CHR ''=''), (2, CHR ''O''), (12, CHR ''=''), (2, CHR ''*''), (4, CHR ''&''), (12, CHR ''=''),
        (2, CHR ''O''), (12, CHR ''=''), (2, CHR ''O''), (36, CHR ''='')]),
      (2, [(26, CHR ''=''), (2, CHR ''*''), (4, CHR ''&''), (14, CHR ''=''), (2, CHR ''O''), (12, CHR ''=''),
        (2, CHR ''O''), (34, CHR ''='')]),
      (2, [(24, CHR ''=''), (2, CHR ''$''), (4, CHR ''&''), (2, CHR ''A''), (2, CHR ''$''), (12, CHR ''=''),
        (2, CHR ''+''), (12, CHR ''=''), (2, CHR ''+''), (34, CHR ''='')]),
      (2, [(20, CHR ''=''), (2, CHR ''O''), (2, CHR ''+''), (2, CHR ''=''), (4, CHR ''&''), (2, CHR ''A''),
        (16, CHR ''=''), (2, CHR ''+''), (10, CHR ''=''), (2, CHR ''+''), (34, CHR ''='')]),
      (2, [(18, CHR ''=''), (2, CHR ''O''), (6, CHR ''=''), (2, CHR ''&''), (4, CHR ''A''), (16, CHR ''=''),
        (2, CHR ''+''), (12, CHR ''=''), (2, CHR ''$''), (32, CHR ''='')]),
      (2, [(18, CHR ''=''), (2, CHR ''+''), (4, CHR ''=''), (10, CHR ''A''), (16, CHR ''=''), (2, CHR ''$''),
        (10, CHR ''=''), (2, CHR ''$''), (32, CHR ''='')]),
      (2, [(16, CHR ''=''), (2, CHR ''$''), (4, CHR ''=''), (4, CHR ''A''), (6, CHR ''=''), (4, CHR ''A''),
        (4, CHR ''=''), (2, CHR ''$''), (8, CHR ''=''), (2, CHR ''$''), (10, CHR ''=''), (2, CHR ''A''),
        (32, CHR ''='')]),
      (2, [(16, CHR ''=''), (2, CHR '' ''), (2, CHR ''X''), (2, CHR ''#''), (2, CHR ''A''), (2, CHR ''=''),
        (6, CHR ''A''), (2, CHR ''=''), (8, CHR ''A''), (22, CHR ''&''), (26, CHR ''*''), (2, CHR ''@''),
        (2, CHR ''o''), (2, CHR ''.'')]),
      (2, [(10, CHR ''=''), (2, CHR '' ''), (2, CHR ''X''), (2, CHR ''#''), (4, CHR ''$''), (4, CHR ''A''),
        (2, CHR ''=''), (2, CHR ''A''), (2, CHR ''=''), (2, CHR ''A''), (2, CHR ''=''), (4, CHR ''A''),
        (14, CHR ''&''), (32, CHR ''*''), (2, CHR ''@''), (2, CHR ''o''), (2, CHR ''.''), (6, CHR ''='')]),
      (2, [(2, CHR ''=''), (2, CHR '' ''), (2, CHR ''X''), (2, CHR ''#''), (14, CHR ''$''), (2, CHR ''A''),
        (2, CHR ''=''), (6, CHR ''A''), (2, CHR ''=''), (2, CHR ''A''), (6, CHR ''&''), (34, CHR ''*''),
        (2, CHR ''@''), (2, CHR ''o''), (2, CHR ''.''), (14, CHR ''='')]),
      (2, [(16, CHR ''=''), (2, CHR ''$''), (4, CHR ''=''), (4, CHR ''A''), (6, CHR ''=''), (4, CHR ''A''),
        (4, CHR ''=''), (2, CHR ''$''), (8, CHR ''=''), (2, CHR ''$''), (10, CHR ''=''), (2, CHR ''A''),
        (32, CHR ''='')]),
      (2, [(18, CHR ''=''), (2, CHR ''+''), (4, CHR ''=''), (10, CHR ''A''), (4, CHR ''=''), (2, CHR ''+''),
        (10, CHR ''=''), (2, CHR ''$''), (10, CHR ''=''), (2, CHR ''$''), (32, CHR ''='')]),
      (2, [(18, CHR ''=''), (2, CHR ''O''), (6, CHR ''=''), (2, CHR ''$''), (2, CHR ''A''), (2, CHR ''#''),
        (6, CHR ''=''), (2, CHR ''O''), (8, CHR ''=''), (2, CHR ''+''), (12, CHR ''=''), (2, CHR ''$''),
        (32, CHR ''='')]),
      (2, [(20, CHR ''=''), (2, CHR ''O''), (2, CHR ''+''), (2, CHR ''=''), (4, CHR ''$''), (2, CHR ''X''),
        (2, CHR ''=''), (2, CHR ''+''), (2, CHR ''O''), (10, CHR ''=''), (2, CHR ''+''), (10, CHR ''=''),
        (2, CHR ''+''), (34, CHR ''='')]),
      (2, [(24, CHR ''=''), (6, CHR ''$''), (2, CHR '' ''), (2, CHR ''$''), (12, CHR ''=''), (2, CHR ''+''),
        (12, CHR ''=''), (2, CHR ''+''), (34, CHR ''='')]),
      (2, [(26, CHR ''=''), (2, CHR ''$''), (2, CHR ''#''), (16, CHR ''=''), (2, CHR ''O''), (12, CHR ''=''),
        (2, CHR ''O''), (34, CHR ''='')]),
      (2, [(26, CHR ''=''), (2, CHR ''$''), (2, CHR ''X''), (14, CHR ''=''), (2, CHR ''O''), (12, CHR ''=''),
        (2, CHR ''O''), (36, CHR ''='')]),
      (2, [(26, CHR ''=''), (2, CHR ''$''), (2, CHR '' ''), (66, CHR ''='')]),
      (2, [(26, CHR ''=''), (2, CHR ''$''), (68, CHR ''='')]),
      (2, [(26, CHR ''=''), (2, CHR ''#''), (68, CHR ''='')]),
      (2, [(26, CHR ''=''), (2, CHR ''X''), (68, CHR ''='')]),
      (2, [(26, CHR ''=''), (2, CHR '' ''), (68, CHR ''='')]),
      (2, [(96, CHR ''='')])]"

definition xpm_lbc4 :: "string list" where
  "xpm_lbc4 = (''96 96 13 1 '' # xpm_lbc4_colours) @ pixel_rows xpm_lbc4_runs"

section \<open>Every image is well formed\<close>

lemma xpm_play_button_pressed_wf: "xpm_wf 256 64 xpm_play_button_pressed"
  unfolding xpm_play_button_pressed_def by (rule xpm_wf_runs; code_simp)

lemma xpm_play_button_unpressed_wf: "xpm_wf 256 64 xpm_play_button_unpressed"
  unfolding xpm_play_button_unpressed_def by (rule xpm_wf_runs; code_simp)

lemma xpm_exit_button_pressed_wf: "xpm_wf 256 64 xpm_exit_button_pressed"
  unfolding xpm_exit_button_pressed_def by (rule xpm_wf_runs; code_simp)

lemma xpm_exit_button_unpressed_wf: "xpm_wf 256 64 xpm_exit_button_unpressed"
  unfolding xpm_exit_button_unpressed_def by (rule xpm_wf_runs; code_simp)

lemma xpm_game_over_wf: "xpm_wf 512 256 xpm_game_over"
  unfolding xpm_game_over_def by (rule xpm_wf_runs; code_simp)

lemma xpm_game_name_wf: "xpm_wf 768 128 xpm_game_name"
  unfolding xpm_game_name_def by (rule xpm_wf_runs; code_simp)

lemma xpm_paused_wf: "xpm_wf 768 128 xpm_paused"
  unfolding xpm_paused_def by (rule xpm_wf_runs; code_simp)

lemma xpm_lbc1_wf: "xpm_wf 96 96 xpm_lbc1"
  unfolding xpm_lbc1_def by (rule xpm_wf_runs; code_simp)

lemma xpm_lbc2_wf: "xpm_wf 96 96 xpm_lbc2"
  unfolding xpm_lbc2_def by (rule xpm_wf_runs; code_simp)

lemma xpm_lbc3_wf: "xpm_wf 96 96 xpm_lbc3"
  unfolding xpm_lbc3_def by (rule xpm_wf_runs; code_simp)

lemma xpm_lbc4_wf: "xpm_wf 96 96 xpm_lbc4"
  unfolding xpm_lbc4_def by (rule xpm_wf_runs; code_simp)

lemmas title_images_wf =
  xpm_play_button_pressed_wf xpm_play_button_unpressed_wf xpm_exit_button_pressed_wf xpm_exit_button_unpressed_wf
  xpm_game_over_wf xpm_game_name_wf xpm_paused_wf xpm_lbc1_wf
  xpm_lbc2_wf xpm_lbc3_wf xpm_lbc4_wf

end
