(* ===== verification/Sprites.thy ===== *)
theory Sprites
  imports Glyphs Pictures Titles
begin

text \<open>
  The images by name, as \<^verbatim>\<open>vg_load_sprites\<close> asks for them, and what follows for the tables of
  sprites.
\<close>

definition images :: "(string \<times> string list) list" where
  "images =
     [(''xpm_A'', xpm_A), (''xpm_B'', xpm_B), (''xpm_C'', xpm_C), (''xpm_D'', xpm_D),
      (''xpm_E'', xpm_E), (''xpm_F'', xpm_F), (''xpm_G'', xpm_G), (''xpm_H'', xpm_H),
      (''xpm_I'', xpm_I), (''xpm_J'', xpm_J), (''xpm_K'', xpm_K), (''xpm_L'', xpm_L),
      (''xpm_M'', xpm_M), (''xpm_N'', xpm_N), (''xpm_O'', xpm_O), (''xpm_P'', xpm_P),
      (''xpm_Q'', xpm_Q), (''xpm_R'', xpm_R), (''xpm_S'', xpm_S), (''xpm_T'', xpm_T),
      (''xpm_U'', xpm_U), (''xpm_V'', xpm_V), (''xpm_W'', xpm_W), (''xpm_X'', xpm_X),
      (''xpm_Y'', xpm_Y), (''xpm_Z'', xpm_Z), (''xpm_dash'', xpm_dash), (''xpm_slash'', xpm_slash),
      (''xpm_0'', xpm_0), (''xpm_1'', xpm_1), (''xpm_2'', xpm_2), (''xpm_3'', xpm_3),
      (''xpm_4'', xpm_4), (''xpm_5'', xpm_5), (''xpm_6'', xpm_6), (''xpm_7'', xpm_7),
      (''xpm_8'', xpm_8), (''xpm_9'', xpm_9), (''xpm_two_points'', xpm_two_points), (''xpm_crosshair'', xpm_crosshair),
      (''xpm_alien_appearing'', xpm_alien_appearing), (''xpm_alien_alive'', xpm_alien_alive), (''xpm_alien_dead_1'', xpm_alien_dead_1), (''xpm_alien_dead_2'', xpm_alien_dead_2),
      (''xpm_alien_dead_3'', xpm_alien_dead_3), (''xpm_alien_dead_4'', xpm_alien_dead_4), (''xpm_alien_dead_5'', xpm_alien_dead_5), (''xpm_alien_kill_1'', xpm_alien_kill_1),
      (''xpm_alien_kill_2'', xpm_alien_kill_2), (''xpm_alien_kill_3'', xpm_alien_kill_3), (''xpm_play_button_pressed'', xpm_play_button_pressed), (''xpm_play_button_unpressed'', xpm_play_button_unpressed),
      (''xpm_exit_button_pressed'', xpm_exit_button_pressed), (''xpm_exit_button_unpressed'', xpm_exit_button_unpressed), (''xpm_game_over'', xpm_game_over), (''xpm_game_name'', xpm_game_name),
      (''xpm_paused'', xpm_paused), (''xpm_lbc1'', xpm_lbc1), (''xpm_lbc2'', xpm_lbc2), (''xpm_lbc3'', xpm_lbc3),
      (''xpm_lbc4'', xpm_lbc4)]"

definition loaded :: "(string list \<Rightarrow> sprite) \<Rightarrow> string \<Rightarrow> sprite" where
  "loaded load n = load (case map_of images n of Some rows \<Rightarrow> rows | None \<Rightarrow> [])"

lemma loaded_image: "(n, rows) \<in> set images \<Longrightarrow> distinct (map fst images) \<Longrightarrow> loaded load n = load rows"
  by (simp add: loaded_def)

lemma images_distinct: "distinct (map fst images)"
  by (simp add: images_def)

lemma loaded_glyphs:
  "loaded load ''xpm_A'' = load xpm_A" "loaded load ''xpm_B'' = load xpm_B"
  "loaded load ''xpm_C'' = load xpm_C" "loaded load ''xpm_D'' = load xpm_D"
  "loaded load ''xpm_E'' = load xpm_E" "loaded load ''xpm_F'' = load xpm_F"
  "loaded load ''xpm_G'' = load xpm_G" "loaded load ''xpm_H'' = load xpm_H"
  "loaded load ''xpm_I'' = load xpm_I" "loaded load ''xpm_J'' = load xpm_J"
  "loaded load ''xpm_K'' = load xpm_K" "loaded load ''xpm_L'' = load xpm_L"
  "loaded load ''xpm_M'' = load xpm_M" "loaded load ''xpm_N'' = load xpm_N"
  "loaded load ''xpm_O'' = load xpm_O" "loaded load ''xpm_P'' = load xpm_P"
  "loaded load ''xpm_Q'' = load xpm_Q" "loaded load ''xpm_R'' = load xpm_R"
  "loaded load ''xpm_S'' = load xpm_S" "loaded load ''xpm_T'' = load xpm_T"
  "loaded load ''xpm_U'' = load xpm_U" "loaded load ''xpm_V'' = load xpm_V"
  "loaded load ''xpm_W'' = load xpm_W" "loaded load ''xpm_X'' = load xpm_X"
  "loaded load ''xpm_Y'' = load xpm_Y" "loaded load ''xpm_Z'' = load xpm_Z"
  "loaded load ''xpm_dash'' = load xpm_dash" "loaded load ''xpm_slash'' = load xpm_slash"
  "loaded load ''xpm_0'' = load xpm_0" "loaded load ''xpm_1'' = load xpm_1"
  "loaded load ''xpm_2'' = load xpm_2" "loaded load ''xpm_3'' = load xpm_3"
  "loaded load ''xpm_4'' = load xpm_4" "loaded load ''xpm_5'' = load xpm_5"
  "loaded load ''xpm_6'' = load xpm_6" "loaded load ''xpm_7'' = load xpm_7"
  "loaded load ''xpm_8'' = load xpm_8" "loaded load ''xpm_9'' = load xpm_9"
  "loaded load ''xpm_two_points'' = load xpm_two_points"
  by (intro loaded_image [OF _ images_distinct], simp add: images_def)+

lemma loaded_pictures:
  "loaded load ''xpm_crosshair'' = load xpm_crosshair" "loaded load ''xpm_alien_appearing'' = load xpm_alien_appearing"
  "loaded load ''xpm_alien_alive'' = load xpm_alien_alive" "loaded load ''xpm_alien_dead_1'' = load xpm_alien_dead_1"
  "loaded load ''xpm_alien_dead_2'' = load xpm_alien_dead_2" "loaded load ''xpm_alien_dead_3'' = load xpm_alien_dead_3"
  "loaded load ''xpm_alien_dead_4'' = load xpm_alien_dead_4" "loaded load ''xpm_alien_dead_5'' = load xpm_alien_dead_5"
  "loaded load ''xpm_alien_kill_1'' = load xpm_alien_kill_1" "loaded load ''xpm_alien_kill_2'' = load xpm_alien_kill_2"
  "loaded load ''xpm_alien_kill_3'' = load xpm_alien_kill_3"
  by (intro loaded_image [OF _ images_distinct], simp add: images_def)+

lemma loaded_titles:
  "loaded load ''xpm_lbc1'' = load xpm_lbc1" "loaded load ''xpm_lbc2'' = load xpm_lbc2"
  "loaded load ''xpm_lbc3'' = load xpm_lbc3" "loaded load ''xpm_lbc4'' = load xpm_lbc4"
  "loaded load ''xpm_play_button_pressed'' = load xpm_play_button_pressed" "loaded load ''xpm_play_button_unpressed'' = load xpm_play_button_unpressed"
  "loaded load ''xpm_exit_button_pressed'' = load xpm_exit_button_pressed" "loaded load ''xpm_exit_button_unpressed'' = load xpm_exit_button_unpressed"
  "loaded load ''xpm_game_over'' = load xpm_game_over" "loaded load ''xpm_game_name'' = load xpm_game_name"
  "loaded load ''xpm_paused'' = load xpm_paused"
  by (intro loaded_image [OF _ images_distinct], simp add: images_def)+

lemmas load_sprites_defs = vg_load_sprites_def place_titles_def load_screen_sprites_def load_text_sprites_def
  load_alien_sprites_def

lemma image_sizes:
  assumes "loads_xpm load" "xpm_wf w h rows" "w < 65536" "h < 65536"
  shows "unat (width (load rows)) = w" "unat (height (load rows)) = h" "length (ptr (load rows)) = w * h * 3"
  using assms unfolding loads_xpm_def by blast+

lemma image_usizes:
  assumes "loads_xpm load" "xpm_wf w h rows" "w < 65536" "h < 65536"
  shows "uint (width (load rows)) = int w" "uint (height (load rows)) = int h"
  using image_sizes [OF assms] uint_nat [of "width (load rows)"] uint_nat [of "height (load rows)"] by simp_all

lemma image_sprite_ok:
  assumes "loads_xpm load" "xpm_wf w h rows" "w \<le> unat (h_res v)" "w < 65536" "h < 65536"
  shows "sprite_ok v (load rows)"
  using image_sizes [OF assms(1,2,4,5)] assms(3) by (simp add: sprite_ok_def)

lemma loaded_sprites_ok:
  assumes load: "loads_xpm load" and wide: "768 \<le> unat (h_res v)"
  shows "\<forall>s \<in> all_sprites (snd (snd (vg_load_sprites (loaded load) g v))). sprite_ok v s"
proof -
  have w: "32 \<le> unat (h_res v)" "16 \<le> unat (h_res v)" "64 \<le> unat (h_res v)" "96 \<le> unat (h_res v)"
    "256 \<le> unat (h_res v)" "512 \<le> unat (h_res v)" using wide by simp_all
  note ok = glyph_images_wf [THEN image_sprite_ok [OF load]] picture_images_wf [THEN image_sprite_ok [OF load]]
    title_images_wf [THEN image_sprite_ok [OF load]]
  show ?thesis
    unfolding all_sprites_def load_sprites_defs
    by (simp add: loaded_glyphs loaded_pictures loaded_titles ok w wide Let_def)
qed

lemma load_sprites_frame:
  fixes xpm g v
  defines "v' \<equiv> snd (snd (vg_load_sprites xpm g v))"
  shows "h_res v' = h_res v" "v_res v' = v_res v" "bytes_per_pixel v' = bytes_per_pixel v" "buffer v' = buffer v"
    "video_mem v' = video_mem v" "str v' = str v" "tables_ok v'"
  by (simp_all add: v'_def load_sprites_defs Let_def tables_ok_def)

lemma loaded_video_ok:
  assumes "loads_xpm load" "screen_ok v" "768 \<le> unat (h_res v)" "length (str v) = 256"
  shows "video_ok (snd (snd (vg_load_sprites (loaded load) g v)))"
  using loaded_sprites_ok [OF assms(1,3), of g] assms(2,4) load_sprites_frame [of "loaded load" g v]
  by (simp add: video_ok_def screen_ok_def sprite_ok_def)

section \<open>Properties\<close>

text \<open>C26. The images of the program fit the program: whatever loader keeps the promises of
  \<^verbatim>\<open>xpm_load\<close>, loading the sprites on a screen that is set up establishes what the drawing
  routines rely on, every table filled with complete images no wider than the screen; every glyph is
  as large as the first one, which is the width of all steps of the text; the alien of every state
  fills its cell exactly, margins included; and the crosshair has the size that its borders assume.
\<close>

theorem images_fit_program:
  fixes g :: game and v :: video
  assumes "loads_xpm load" "screen_ok v" "768 \<le> unat (h_res v)" "length (str v) = 256"
  defines "v' \<equiv> snd (snd (vg_load_sprites (loaded load) g v))"
  shows "video_ok v' \<and>
    (\<forall>s \<in> set (letters_sprites v') \<union> set (numbers_sprites v'). unat (width s) = 32 \<and> unat (height s) = 32) \<and>
    (\<forall>s \<in> set (alien_sprites v') \<union> set (killer_alien_sprites v').
       int (unat (width s)) + 2 * ALIEN_HORIZONTAL_MARGIN = ALIEN_WIDTH \<and>
       int (unat (height s)) + 2 * ALIEN_VERTICAL_MARGIN = ALIEN_HEIGHT) \<and>
    unat (width (crosshair v')) = unat CROSSHAIR_WIDTH \<and> unat (height (crosshair v')) = unat CROSSHAIR_HEIGHT"
proof (intro conjI)
  note size = glyph_images_wf [THEN image_sizes(1) [OF assms(1)]] glyph_images_wf [THEN image_sizes(2) [OF assms(1)]]
    picture_images_wf [THEN image_sizes(1) [OF assms(1)]] picture_images_wf [THEN image_sizes(2) [OF assms(1)]]
    picture_images_wf [THEN image_usizes(1) [OF assms(1)]] picture_images_wf [THEN image_usizes(2) [OF assms(1)]]
  show "video_ok v'" unfolding v'_def using assms(1-4) by (rule loaded_video_ok)
  show "\<forall>s \<in> set (letters_sprites v') \<union> set (numbers_sprites v'). unat (width s) = 32 \<and> unat (height s) = 32"
    unfolding v'_def load_sprites_defs by (simp add: loaded_glyphs size Let_def)
  show "\<forall>s \<in> set (alien_sprites v') \<union> set (killer_alien_sprites v').
       int (unat (width s)) + 2 * ALIEN_HORIZONTAL_MARGIN = ALIEN_WIDTH \<and>
       int (unat (height s)) + 2 * ALIEN_VERTICAL_MARGIN = ALIEN_HEIGHT"
    unfolding v'_def load_sprites_defs by (simp add: loaded_pictures size Let_def game_consts)
  show "unat (width (crosshair v')) = unat CROSSHAIR_WIDTH" "unat (height (crosshair v')) = unat CROSSHAIR_HEIGHT"
    unfolding v'_def load_sprites_defs by (simp_all add: loaded_pictures size Let_def game_consts)
qed

text \<open>A loader that makes every image black.\<close>

definition black_load :: "string list \<Rightarrow> sprite" where
  "black_load rows =
     (case xpm_header rows of
        w # h # _ \<Rightarrow> \<lparr>ptr = replicate (w * h * 3) 0, width = of_nat w, height = of_nat h\<rparr>
      | _ \<Rightarrow> \<lparr>ptr = [], width = 0, height = 0\<rparr>)"

lemma black_load_loads: "loads_xpm black_load"
  by (auto simp: loads_xpm_def black_load_def xpm_wf_def unat_of_nat split: list.splits)

definition wide_video :: video where
  "wide_video = tiny_video\<lparr>h_res := 800, v_res := 1, buffer := replicate 2400 0, video_mem := replicate 2400 0\<rparr>"

theorem images_fit_program_witness:
  "video_ok (snd (snd (vg_load_sprites (loaded black_load) zero_game wide_video)))"
proof -
  have "screen_ok wide_video" "768 \<le> unat (h_res wide_video)" "length (str wide_video) = 256"
    by (simp_all add: wide_video_def tiny_video_def screen_ok_def sprite_ok_def dot_def)
  from images_fit_program [OF black_load_loads this, of zero_game] show ?thesis by simp
qed

end
