(* ===== verification/Screens.thy ===== *)
theory Screens
  imports Sprites
begin

text \<open>
  What the screens of the game show. A picture is a function from row, column and byte to the value
  of that byte; a layer is a sprite at a place, with or without its black pixels; and painting a list of
  layers over a picture is the specification that the drawing routines of \<^verbatim>\<open>video_card.c\<close>
  refine, with their pointers that run through both buffers.
\<close>

section \<open>Pictures and layers\<close>

type_synonym picture = "nat \<Rightarrow> nat \<Rightarrow> nat \<Rightarrow> u8"
type_synonym layer = "bool \<times> sprite \<times> nat \<times> nat"

definition paint :: "layer \<Rightarrow> picture \<Rightarrow> picture" where
  "paint l f r c b =
     (case l of (transparent, s, x, y) \<Rightarrow>
        let k = ((r - y) * unat (width s) + (c - x)) * 3
        in if y \<le> r \<and> r < y + unat (height s) \<and> x \<le> c \<and> c < x + unat (width s) \<and> visible transparent (ptr s) k
           then ptr s ! (k + b) else f r c b)"

definition pixels :: "video \<Rightarrow> u8 list \<Rightarrow> picture" where
  "pixels v mem r c b = mem ! pixel_at v r c b"

text \<open>Two pictures are the same on the screen.\<close>

definition agree :: "video \<Rightarrow> picture \<Rightarrow> picture \<Rightarrow> bool" where
  "agree v f g \<longleftrightarrow> (\<forall>r c b. r < unat (v_res v) \<longrightarrow> c < unat (h_res v) \<longrightarrow> b < 3 \<longrightarrow> f r c b = g r c b)"

lemma pixels_buffer [simp]: "pixels (v\<lparr>buffer := m\<rparr>) = pixels v"
  by (intro ext) (simp add: pixels_def pixel_at_def)

lemma agree_buffer [simp]: "agree (v\<lparr>buffer := m\<rparr>) = agree v"
  by (intro ext) (simp add: agree_def)

lemma agree_trans: "agree v f g \<Longrightarrow> agree v g h \<Longrightarrow> agree v f h"
  by (simp add: agree_def)

lemma fold_paint_cong: "f r c b = g r c b \<Longrightarrow> fold paint L f r c b = fold paint L g r c b"
proof (induction L arbitrary: f g)
  case (Cons l L)
  have "paint l f r c b = paint l g r c b" using Cons.prems by (cases l) (simp add: paint_def Let_def)
  from Cons.IH [of "paint l f" "paint l g", OF this] show ?case by simp
qed simp

lemma agree_fold: "agree v f g \<Longrightarrow> agree v (fold paint L f) (fold paint L g)"
  using fold_paint_cong unfolding agree_def by blast

text \<open>The contents of a buffer after layers were painted over another one.\<close>

definition shown :: "video \<Rightarrow> u8 list \<Rightarrow> layer list \<Rightarrow> u8 list \<Rightarrow> bool" where
  "shown v mem L mem' \<longleftrightarrow> length mem' = length mem \<and> agree v (pixels v mem') (fold paint L (pixels v mem))"

lemma shown_buffer [simp]: "shown (v\<lparr>buffer := m\<rparr>) = shown v"
  by (intro ext) (simp add: shown_def)

lemma shown_Nil [simp]: "shown v m [] m"
  by (simp add: shown_def agree_def)

lemma shown_trans: "shown v m L m' \<Longrightarrow> shown v m' M m'' \<Longrightarrow> shown v m (L @ M) m''"
  unfolding shown_def by (auto intro: agree_trans agree_fold)

lemma shown_Cons: "shown v m [l] m' \<Longrightarrow> shown v m' M m'' \<Longrightarrow> shown v m (l # M) m''"
  using shown_trans [of v m "[l]"] by simp

section \<open>The layers of the screens\<close>

definition alien_layers :: "game \<Rightarrow> video \<Rightarrow> (nat \<times> nat) list \<Rightarrow> layer list" where
  "alien_layers g v ps =
     (let state = (\<lambda>p. astate (cell (game_matrix g) p))
      in map (\<lambda>p. (False, alien_sprites v ! alien_index (state p), 18 + 70 * snd p, 98 + 70 * fst p))
           (filter (\<lambda>p. state p \<noteq> EMPTY) ps))"

text \<open>The digits of a number, the last one first.\<close>

fun digit_layers :: "sprite list \<Rightarrow> nat \<Rightarrow> nat \<Rightarrow> string \<Rightarrow> layer list" where
  "digit_layers numbers x y [] = []"
| "digit_layers numbers x y (c # cs) =
     (False, numbers ! (of_char c - 48), x, y) # digit_layers numbers (x - 37) y cs"

definition two_digits :: "nat \<Rightarrow> string" where
  "two_digits n = replicate (2 - length (dec_nat n)) (CHR ''0'') @ dec_nat n"

definition time_layers :: "game \<Rightarrow> video \<Rightarrow> layer list" where
  "time_layers g v =
     (let m = two_digits (unat (minutes g)); h = two_digits (unat (hours g)); x = 700 - 37 * length m
      in digit_layers (numbers_sprites v) 700 40 (rev m) @ [(False, symb_sprites v ! 2, x + 8, 54)] @
         digit_layers (numbers_sprites v) (x - 37) 40 (rev h))"

definition crosshair_layer :: "game \<Rightarrow> video \<Rightarrow> layer" where
  "crosshair_layer g v = (True, crosshair v, nat (sint (mouse_x g)) - 32, nat (sint (mouse_y g)) - 32)"

definition killer_layer :: "game \<Rightarrow> video \<Rightarrow> layer" where
  "killer_layer g v =
     (True, killer_alien_sprites v ! unat (kstate (killer g)), 18 + 70 * unat (kx (killer g)),
      98 + 70 * unat (ky (killer g)))"

text \<open>The button under the mouse is shown pressed.\<close>

definition play_layer :: "game \<Rightarrow> video \<Rightarrow> layer" where
  "play_layer g v =
     (let over = sint (mouse_x g) \<in> {uint (play_button_xi g)..uint (play_button_xf g)} \<and>
                 sint (mouse_y g) \<in> {uint (play_button_yi g)..uint (play_button_yf g)}
      in (False, play_button v ! (if over then 0 else 1), unat (play_button_xi g), unat (play_button_yi g)))"

definition exit_layer :: "game \<Rightarrow> video \<Rightarrow> layer" where
  "exit_layer g v =
     (let over = sint (mouse_x g) \<in> {uint (exit_button_xi g)..uint (exit_button_xf g)} \<and>
                 sint (mouse_y g) \<in> {uint (exit_button_yi g)..uint (exit_button_yf g)}
      in (False, exit_button v ! (if over then 0 else 1), unat (exit_button_xi g), unat (exit_button_yi g)))"

definition game_over_layer :: "video \<Rightarrow> layer" where
  "game_over_layer v = (False, game_over v, unat (game_over_x v), unat (game_over_y v))"

definition game_name_layer :: "video \<Rightarrow> layer" where
  "game_name_layer v = (False, game_name v, unat (game_name_x v), unat (game_name_y v))"

definition paused_layer :: "video \<Rightarrow> layer" where
  "paused_layer v = (False, paused v, unat (paused_x v), unat (paused_y v))"

text \<open>What a screen without free text consists of, from the back to the front.\<close>

definition screen_layers :: "game \<Rightarrow> video \<Rightarrow> layer list" where
  "screen_layers g v =
     (case game_state g of
        MENU \<Rightarrow> [game_name_layer v, play_layer g v, exit_layer g v] @ time_layers g v @ [crosshair_layer g v]
      | PLAYING \<Rightarrow> alien_layers g v positions @
          digit_layers (numbers_sprites v) 700 32 (rev (dec_nat (unat (points g)))) @ [crosshair_layer g v]
      | PAUSE \<Rightarrow> [paused_layer v]
      | GAME_OVER \<Rightarrow>
          (if game_over_counter g < GAME_OVER_WAIT - 30 then [game_over_layer v] else alien_layers g v positions) @
          [killer_layer g v, crosshair_layer g v]
      | _ \<Rightarrow> [])"

section \<open>A screen of the size that the game assumes\<close>

definition image_of :: "nat \<Rightarrow> nat \<Rightarrow> sprite \<Rightarrow> bool" where
  "image_of w h s \<longleftrightarrow> unat (width s) = w \<and> unat (height s) = h \<and> w * h * 3 \<le> length (ptr s)"

definition inside :: "layer \<Rightarrow> bool" where
  "inside l = (case l of (transparent, s, x, y) \<Rightarrow>
     unat (width s) * unat (height s) * 3 \<le> length (ptr s) \<and> x + unat (width s) \<le> 800 \<and> y + unat (height s) \<le> 600)"

definition sized :: "game \<Rightarrow> video \<Rightarrow> bool" where
  "sized g v \<longleftrightarrow> screen_ok v \<and> h_res v = 800 \<and> v_res v = 600 \<and> tables_ok v \<and> length (str v) = 256 \<and>
     (\<forall>s \<in> set (alien_sprites v) \<union> set (killer_alien_sprites v) \<union> {crosshair v}. image_of 64 64 s) \<and>
     (\<forall>s \<in> set (numbers_sprites v) \<union> set (letters_sprites v). image_of 32 32 s) \<and>
     image_of 32 32 (symb_sprites v ! 0) \<and> image_of 32 32 (symb_sprites v ! 1) \<and> image_of 16 16 (symb_sprites v ! 2) \<and>
     (\<forall>s \<in> set (lb_corners v). image_of 96 96 s) \<and>
     (\<forall>s \<in> set (play_button v). inside (False, s, unat (play_button_xi g), unat (play_button_yi g))) \<and>
     (\<forall>s \<in> set (exit_button v). inside (False, s, unat (exit_button_xi g), unat (exit_button_yi g))) \<and>
     inside (game_over_layer v) \<and> inside (game_name_layer v) \<and> inside (paused_layer v)"

lemma sizedD:
  assumes "sized g v"
  shows "screen_ok v" "h_res v = 800" "v_res v = 600" "length (alien_sprites v) = 7"
    "length (killer_alien_sprites v) = 4" "length (numbers_sprites v) = 10" "length (symb_sprites v) = 3"
    "length (play_button v) = 2" "length (exit_button v) = 2" "i < 7 \<Longrightarrow> image_of 64 64 (alien_sprites v ! i)"
    "i < 4 \<Longrightarrow> image_of 64 64 (killer_alien_sprites v ! i)" "image_of 64 64 (crosshair v)"
    "i < 10 \<Longrightarrow> image_of 32 32 (numbers_sprites v ! i)" "image_of 16 16 (symb_sprites v ! 2)"
    "i < 2 \<Longrightarrow> inside (False, play_button v ! i, unat (play_button_xi g), unat (play_button_yi g))"
    "i < 2 \<Longrightarrow> inside (False, exit_button v ! i, unat (exit_button_xi g), unat (exit_button_yi g))"
    "inside (game_over_layer v)" "inside (game_name_layer v)" "inside (paused_layer v)"
    "length (letters_sprites v) = 26" "length (lb_corners v) = 4" "length (str v) = 256"
    "i < 26 \<Longrightarrow> image_of 32 32 (letters_sprites v ! i)" "i < 2 \<Longrightarrow> image_of 32 32 (symb_sprites v ! i)"
    "i < 4 \<Longrightarrow> image_of 96 96 (lb_corners v ! i)"
  using assms unfolding sized_def tables_ok_def by (auto simp: less_Suc_eq numeral_2_eq_2)

lemma sized_buffer: "sized g v \<Longrightarrow> length mem = length (buffer v) \<Longrightarrow> sized g (v\<lparr>buffer := mem\<rparr>)"
  by (simp add: sized_def screen_ok_def tables_ok_def game_over_layer_def game_name_layer_def paused_layer_def)

lemma sized_str: "sized g v \<Longrightarrow> length t = 256 \<Longrightarrow> sized g (v\<lparr>str := t\<rparr>)"
  by (simp add: sized_def screen_ok_def tables_ok_def game_over_layer_def game_name_layer_def paused_layer_def)

lemma sized_shown: "sized g v \<Longrightarrow> shown v (buffer v) L mem \<Longrightarrow> sized g (v\<lparr>buffer := mem\<rparr>)"
  using sized_buffer by (simp add: shown_def)

lemma image_inside: "image_of w h s \<Longrightarrow> x + w \<le> 800 \<Longrightarrow> y + h \<le> 600 \<Longrightarrow> inside (tr, s, x, y)"
  by (auto simp: image_of_def inside_def)

section \<open>Routines that paint layers\<close>

definition paints :: "game \<Rightarrow> (video \<Rightarrow> video option) \<Rightarrow> (video \<Rightarrow> layer list) \<Rightarrow> bool" where
  "paints g f L \<longleftrightarrow>
     (\<forall>v. sized g v \<longrightarrow> (\<exists>mem. f v = Some (v\<lparr>buffer := mem\<rparr>) \<and> shown v (buffer v) (L v) mem))"

lemma paintsI:
  assumes "\<And>v. sized g v \<Longrightarrow> \<exists>mem. f v = Some (v\<lparr>buffer := mem\<rparr>) \<and> shown v (buffer v) (L v) mem"
  shows "paints g f L"
  using assms unfolding paints_def by blast

lemma paintsE:
  assumes "paints g f L" "sized g v"
  obtains mem where "f v = Some (v\<lparr>buffer := mem\<rparr>)" "shown v (buffer v) (L v) mem"
  using assms unfolding paints_def by blast

lemma paints_cong: "(\<And>v. sized g v \<Longrightarrow> f v = f' v \<and> L v = L' v) \<Longrightarrow> paints g f' L' \<Longrightarrow> paints g f L"
  by (simp add: paints_def)

lemma paints_none: "paints g Some (\<lambda>v. [])"
proof (rule paintsI)
  fix v :: video
  have "v\<lparr>buffer := buffer v\<rparr> = v" by simp
  then show "\<exists>mem. Some v = Some (v\<lparr>buffer := mem\<rparr>) \<and> shown v (buffer v) [] mem"
    by (intro exI [of _ "buffer v"]) simp
qed

lemma paints_bind:
  assumes "paints g f L" "paints g h M" "\<And>v mem. M (v\<lparr>buffer := mem\<rparr>) = M v"
  shows "paints g (\<lambda>v. Option.bind (f v) h) (\<lambda>v. L v @ M v)"
proof (rule paintsI)
  fix v assume v: "sized g v"
  obtain m1 where m1: "f v = Some (v\<lparr>buffer := m1\<rparr>)" "shown v (buffer v) (L v) m1"
    using assms(1) v by (rule paintsE)
  obtain m2 where m2: "h (v\<lparr>buffer := m1\<rparr>) = Some (v\<lparr>buffer := m2\<rparr>)" "shown v m1 (M v) m2"
    by (rule paintsE [OF assms(2) sized_shown [OF v m1(2)]]) (simp add: assms(3))
  show "\<exists>mem. Option.bind (f v) h = Some (v\<lparr>buffer := mem\<rparr>) \<and> shown v (buffer v) (L v @ M v) mem"
    using m1(1) m2(1) shown_trans [OF m1(2) m2(2)] by (intro exI [of _ m2]) simp
qed

lemma paints_draw:
  assumes "\<And>v. sized g v \<Longrightarrow> inside (tr, s v, unat (x v), unat (y v))"
  shows "paints g (\<lambda>v. map_option snd (draw_to tr (s v) (x v) (y v) 1 v)) (\<lambda>v. [(tr, s v, unat (x v), unat (y v))])"
proof (rule paintsI)
  fix v assume v: "sized g v"
  have H: "unat (h_res v) = 800" "unat (v_res v) = 600" using v by (simp_all add: sizedD)
  have len: "length (buffer v) = unat (h_res v) * unat (v_res v) * 3"
    using sizedD(1) [OF v] by (simp add: screen_ok_def)
  have fit: "sprite_ok v (s v)" "unat (x v) + unat (width (s v)) \<le> unat (h_res v)"
      "unat (y v) + unat (height (s v)) \<le> unat (v_res v)"
    using assms [OF v] unfolding H by (auto simp: inside_def sprite_ok_def H)
  obtain mem where mem: "draw_image tr v (s v) (x v) (y v) (buffer v) = Some mem" "length mem = length (buffer v)"
    "agree v (pixels v mem) (paint (tr, s v, unat (x v), unat (y v)) (pixels v (buffer v)))"
    using draw_image_pixels [OF sizedD(1) [OF v] fit(1) len fit(2,3), of tr]
    unfolding agree_def paint_def pixels_def prod.case by blast
  then have "shown v (buffer v) [(tr, s v, unat (x v), unat (y v))] mem" by (simp add: shown_def)
  with mem(1) show "\<exists>mem. map_option snd (draw_to tr (s v) (x v) (y v) 1 v) = Some (v\<lparr>buffer := mem\<rparr>) \<and>
      shown v (buffer v) [(tr, s v, unat (x v), unat (y v))] mem"
    by (intro exI [of _ mem]) (simp add: draw_to_def)
qed

lemma paints_put:
  assumes "\<And>v. sized g v \<Longrightarrow> inside (False, s v, unat (x v), unat (y v))"
  shows "paints g (\<lambda>v. put_sprite (s v) (x v) (y v) v) (\<lambda>v. [(False, s v, unat (x v), unat (y v))])"
  unfolding put_sprite_def vg_draw_sprite_def
  using paints_draw [of g False s "\<lambda>v. ucast (x v)" "\<lambda>v. ucast (y v)"] assms by simp

section \<open>The drawing routines\<close>

lemma alien_layers_Cons:
  "alien_layers g v (p # ps) =
     (if astate (cell (game_matrix g) p) = EMPTY then alien_layers g v ps
      else (False, alien_sprites v ! alien_index (astate (cell (game_matrix g) p)), 18 + 70 * snd p, 98 + 70 * fst p)
        # alien_layers g v ps)"
  by (simp add: alien_layers_def)

lemma alien_place:
  assumes "in_grid p"
  shows "unat (of_int GAME_HORIZONTAL_MARGIN + of_nat (snd p) * of_int ALIEN_WIDTH + of_int ALIEN_HORIZONTAL_MARGIN :: u16) =
      18 + 70 * snd p"
    "unat (of_int GAME_VERTICAL_MARGIN + of_nat (fst p) * of_int ALIEN_HEIGHT + of_int ALIEN_VERTICAL_MARGIN :: u16) =
      98 + 70 * fst p"
  using assms by (simp_all add: in_grid_def game_consts unat_word_ariths unat_of_nat)

lemma paints_aliens_loop:
  "list_all in_grid ps \<Longrightarrow> grid_wf (game_matrix g) \<Longrightarrow> paints g (draw_aliens_loop ps g) (\<lambda>v. alien_layers g v ps)"
proof (induction ps)
  case Nil
  then show ?case by (intro paints_cong [OF _ paints_none]) (simp add: alien_layers_def)
next
  case (Cons p ps)
  let ?st = "astate (cell (game_matrix g) p)"
  have IH: "paints g (draw_aliens_loop ps g) (\<lambda>v. alien_layers g v ps)" and p: "in_grid p"
    using Cons by simp_all
  note a = cell_access(1) [OF Cons.prems(2) p]
  show ?case
  proof (cases "?st = EMPTY")
    case True
    then show ?thesis by (intro paints_cong [OF _ IH]) (simp add: a alien_layers_Cons)
  next
    case False
    note idx = alien_index_bound [OF False]
    let ?x = "of_int GAME_HORIZONTAL_MARGIN + of_nat (snd p) * of_int ALIEN_WIDTH + of_int ALIEN_HORIZONTAL_MARGIN :: u16"
      and ?y = "of_int GAME_VERTICAL_MARGIN + of_nat (fst p) * of_int ALIEN_HEIGHT + of_int ALIEN_VERTICAL_MARGIN :: u16"
    have "paints g (\<lambda>v. put_sprite (alien_sprites v ! alien_index ?st) ?x ?y v)
        (\<lambda>v. [(False, alien_sprites v ! alien_index ?st, unat ?x, unat ?y)])"
      using p idx unfolding in_grid_def
      by (intro paints_put image_inside [OF sizedD(10)], unfold alien_place [OF p]) (simp_all add: game_consts)
    from paints_bind [OF this IH] show ?thesis
      by (rule paints_cong [rotated])
        (use False idx in \<open>simp_all add: a sizedD Let_def alien_layers_def alien_place [OF p]\<close>)
  qed
qed

lemma paints_aliens: "grid_wf (game_matrix g) \<Longrightarrow> paints g (vg_draw_aliens g) (\<lambda>v. alien_layers g v positions)"
  using paints_aliens_loop [of positions g] by (simp add: vg_draw_aliens_def [abs_def] list_all_iff)

lemma put_number:
  assumes v: "sized g v" and "i < 10" "x \<le> 768" "y \<le> 568"
  obtains mem where "put_sprite (numbers_sprites v ! i) (of_nat x) (of_nat y) v = Some (v\<lparr>buffer := mem\<rparr>)"
    "shown v (buffer v) [(False, numbers_sprites v ! i, x, y)] mem"
proof (rule paintsE [OF paints_put v])
  show "inside (False, numbers_sprites u ! i, unat (of_nat x :: u16), unat (of_nat y :: u16))" if "sized g u" for u
    using assms(2-4) by (intro image_inside [OF sizedD(13) [OF that]]) (simp_all add: unat_of_nat)
qed (use assms in \<open>simp add: unat_of_nat that\<close>)

lemma digit_width:
  assumes "sized g v" "i < 10"
  shows "width (numbers_sprites v ! i) + POINTS_BETWEEN_MARGIN = 37"
proof -
  have "unat (width (numbers_sprites v ! i)) = 32" using sizedD(13) [OF assms] by (simp add: image_of_def)
  then have "width (numbers_sprites v ! i) = 32" by (intro unsigned_word_eqI [where ?'a = nat]) simp
  then show ?thesis by (simp add: POINTS_BETWEEN_MARGIN_def)
qed

lemma draw_zero_paints:
  assumes v: "sized g v" and "37 \<le> x" "x \<le> 768" "y \<le> 568"
  shows "\<exists>mem. draw_zero (of_nat x) (of_nat y) v = Some (of_nat (x - 37), v\<lparr>buffer := mem\<rparr>) \<and>
    shown v (buffer v) [(False, numbers_sprites v ! 0, x, y)] mem"
proof -
  obtain mem where "put_sprite (numbers_sprites v ! 0) (of_nat x) (of_nat y) v = Some (v\<lparr>buffer := mem\<rparr>)"
      "shown v (buffer v) [(False, numbers_sprites v ! 0, x, y)] mem"
    using put_number [OF v, of 0 x y] assms(3,4) by auto
  moreover have "numbers_sprites v \<noteq> []" using sizedD(6) [OF v] by auto
  ultimately show ?thesis
    using digit_width [OF v, of 0] assms(2) by (intro exI [of _ mem]) (simp add: draw_zero_def)
qed

definition number :: "nat \<Rightarrow> string" where
  "number m = (if m = 0 then [] else dec_nat m)"

lemma number_rec: "m \<noteq> 0 \<Longrightarrow> rev (number m) = digit (m mod 10) # rev (number (m div 10))"
  by (simp add: number_def dec_nat.simps [of m] div_eq_0_iff)

lemma draw_digits_paints:
  assumes "sized g v" "37 * length (number m) \<le> x" "x \<le> 768" "y \<le> 568"
  shows "\<exists>mem. draw_digits m n (of_nat x) (of_nat y) v =
      Some (n + length (number m), of_nat (x - 37 * length (number m)), v\<lparr>buffer := mem\<rparr>) \<and>
    shown v (buffer v) (digit_layers (numbers_sprites v) x y (rev (number m))) mem"
  using assms
proof (induction m arbitrary: n x v rule: less_induct)
  case (less m)
  show ?case
  proof (cases "m = 0")
    case True
    then show ?thesis by (intro exI [of _ "buffer v"]) (simp add: draw_digits.simps [of 0] number_def)
  next
    case False
    let ?i = "m mod 10" and ?q = "m div 10"
    have len: "length (number m) = Suc (length (number ?q))"
      using arg_cong [OF number_rec [OF False], of length] by simp
    obtain m1 where m1: "put_sprite (numbers_sprites v ! ?i) (of_nat x) (of_nat y) v = Some (v\<lparr>buffer := m1\<rparr>)"
        "shown v (buffer v) [(False, numbers_sprites v ! ?i, x, y)] m1"
      using put_number [OF less.prems(1), of ?i x y] less.prems(3,4) by auto
    obtain m2 where m2: "draw_digits ?q (Suc n) (of_nat (x - 37)) (of_nat y) (v\<lparr>buffer := m1\<rparr>) =
        Some (Suc n + length (number ?q), of_nat (x - 37 - 37 * length (number ?q)), v\<lparr>buffer := m2\<rparr>)"
      "shown v m1 (digit_layers (numbers_sprites v) (x - 37) y (rev (number ?q))) m2"
      using less.IH [of ?q "v\<lparr>buffer := m1\<rparr>" "x - 37" "Suc n"] sized_shown [OF less.prems(1) m1(2)]
        less.prems len False by fastforce
    have "draw_digits m n (of_nat x) (of_nat y) v =
        Some (n + length (number m), of_nat (x - 37 * length (number m)), v\<lparr>buffer := m2\<rparr>)"
      using False m1(1) m2(1) digit_width [OF less.prems(1), of ?i] less.prems(2) sizedD(6) [OF less.prems(1)]
      by (subst draw_digits.simps) (simp add: Let_def len)
    moreover have "shown v (buffer v) (digit_layers (numbers_sprites v) x y (rev (number m))) m2"
      using shown_Cons [OF m1(2) m2(2)] by (simp add: number_rec [OF False])
    ultimately show ?thesis by blast
  qed
qed

lemma paints_points:
  "paints g (vg_draw_points g) (\<lambda>v. digit_layers (numbers_sprites v) 700 32 (rev (dec_nat (unat (points g)))))"
proof (rule paintsI)
  fix v assume v: "sized g v"
  have len: "length (dec_nat (unat (points g))) \<le> 10"
    using dec_nat_length_le [of "unat (points g)" 9] unsigned_less [of "points g", where ?'a = nat] by simp
  show "\<exists>mem. vg_draw_points g v = Some (v\<lparr>buffer := mem\<rparr>) \<and>
      shown v (buffer v) (digit_layers (numbers_sprites v) 700 32 (rev (dec_nat (unat (points g))))) mem"
  proof (cases "points g = 0")
    case True
    then show ?thesis using draw_zero_paints [OF v, of 700 32]
      by (auto simp: vg_draw_points_def POINTS_WIDTH_MARGIN_def POINTS_HEIGHT_MARGIN_def dec_nat.simps [of 0])
  next
    case False
    then show ?thesis using draw_digits_paints [OF v, of "unat (points g)" 700 32 0] len
      by (auto simp: vg_draw_points_def POINTS_WIDTH_MARGIN_def POINTS_HEIGHT_MARGIN_def number_def unat_eq_0)
  qed
qed

lemma two_digits_number: "two_digits m = replicate (2 - length (number m)) (CHR ''0'') @ number m"
proof -
  have "CHR ''0'' = digit 0" by code_simp
  then show ?thesis by (simp add: two_digits_def number_def dec_nat.simps [of 0] numeral_2_eq_2)
qed

lemma digit_layers_append:
  "digit_layers ns x y (cs @ ds) = digit_layers ns x y cs @ digit_layers ns (x - 37 * length cs) y ds"
  by (induction cs arbitrary: x) simp_all

lemma draw_two_digits_paints:
  assumes v: "sized g v" and x: "111 \<le> x" "x \<le> 768" and y: "y \<le> 568"
  shows "\<exists>mem. draw_two_digits val (of_nat x) (of_nat y) v =
      Some (of_nat (x - 37 * length (two_digits (unat val))), v\<lparr>buffer := mem\<rparr>) \<and>
    shown v (buffer v) (digit_layers (numbers_sprites v) x y (rev (two_digits (unat val)))) mem"
proof -
  let ?n = "number (unat val)"
  have n3: "length ?n \<le> 3" using dec_nat_u8_length [of val] by (simp add: number_def)
  obtain m1 where m1: "draw_digits (unat val) 0 (of_nat x) (of_nat y) v =
      Some (length ?n, of_nat (x - 37 * length ?n), v\<lparr>buffer := m1\<rparr>)"
      "shown v (buffer v) (digit_layers (numbers_sprites v) x y (rev ?n)) m1"
    using draw_digits_paints [OF v, of "unat val" x y 0] n3 x y by fastforce
  have v1: "sized g (v\<lparr>buffer := m1\<rparr>)" using v m1(2) by (rule sized_shown)
  have zero: "\<exists>mem. draw_zero (of_nat z) (of_nat y) (v\<lparr>buffer := m\<rparr>) = Some (of_nat (z - 37), v\<lparr>buffer := mem\<rparr>) \<and>
      shown v m [(False, numbers_sprites v ! 0, z, y)] mem"
    if "sized g (v\<lparr>buffer := m\<rparr>)" "37 \<le> z" "z \<le> 768" for m z
    using draw_zero_paints [OF that y] by simp
  consider "length ?n = 0" | "length ?n = 1" | "2 \<le> length ?n" by linarith
  then show ?thesis
  proof cases
    case 1
    obtain m2 where m2: "draw_zero (of_nat x) (of_nat y) (v\<lparr>buffer := m1\<rparr>) = Some (of_nat (x - 37), v\<lparr>buffer := m2\<rparr>)"
        "shown v m1 [(False, numbers_sprites v ! 0, x, y)] m2"
      using zero [OF v1, of x] x by fastforce
    have "sized g (v\<lparr>buffer := m2\<rparr>)" using sized_shown [OF v1, of _ m2] m2(2) by simp
    then obtain m3 where m3: "draw_zero (of_nat (x - 37)) (of_nat y) (v\<lparr>buffer := m2\<rparr>) =
        Some (of_nat (x - 37 - 37), v\<lparr>buffer := m3\<rparr>)" "shown v m2 [(False, numbers_sprites v ! 0, x - 37, y)] m3"
      using zero [of m2 "x - 37"] x by fastforce
    show ?thesis
      using 1 m1 m2 m3 x shown_trans [OF m1(2) shown_trans [OF m2(2) m3(2)]]
      by (intro exI [of _ m3]) (simp add: draw_two_digits_def two_digits_number numeral_2_eq_2)
  next
    case 2
    obtain m2 where m2: "draw_zero (of_nat (x - 37)) (of_nat y) (v\<lparr>buffer := m1\<rparr>) =
        Some (of_nat (x - 37 - 37), v\<lparr>buffer := m2\<rparr>)" "shown v m1 [(False, numbers_sprites v ! 0, x - 37, y)] m2"
      using zero [OF v1, of "x - 37"] x by fastforce
    show ?thesis
      using 2 m1 m2 x shown_trans [OF m1(2) m2(2)]
      by (intro exI [of _ m2]) (simp add: draw_two_digits_def two_digits_number digit_layers_append)
  next
    case 3
    then show ?thesis using m1
      by (intro exI [of _ m1]) (auto simp: draw_two_digits_def two_digits_number)
  qed
qed

lemma paints_time: "paints g (vg_draw_time_info g) (time_layers g)"
proof (rule paintsI)
  fix v assume v: "sized g v"
  let ?m = "two_digits (unat (minutes g))" and ?h = "two_digits (unat (hours g))"
  define x where "x = 700 - 37 * length ?m"
  have x: "589 \<le> x" "x \<le> 700" using dec_nat_u8_length [of "minutes g"] by (simp_all add: two_digits_def x_def)
  obtain m1 where m1: "draw_two_digits (minutes g) (of_nat 700) (of_nat 40) v = Some (of_nat x, v\<lparr>buffer := m1\<rparr>)"
      "shown v (buffer v) (digit_layers (numbers_sprites v) 700 40 (rev ?m)) m1"
    using draw_two_digits_paints [OF v, of 700 40 "minutes g"] by (fastforce simp: x_def)
  have v1: "sized g (v\<lparr>buffer := m1\<rparr>)" using v m1(2) by (rule sized_shown)
  have x8: "unat (of_nat (x + 8) :: u16) = x + 8" unfolding unat_of_nat using x by simp
  have c: "inside (False, symb_sprites u ! 2, unat (of_nat (x + 8) :: u16), unat (54 :: u16))" if "sized g u" for u
    using x unfolding x8 by (intro image_inside [OF sizedD(14) [OF that]]) simp_all
  obtain m2 where m2: "put_sprite (symb_sprites v ! 2) (of_nat (x + 8)) 54 (v\<lparr>buffer := m1\<rparr>) = Some (v\<lparr>buffer := m2\<rparr>)"
      "shown v m1 [(False, symb_sprites v ! 2, x + 8, 54)] m2"
    using paints_put [of g "\<lambda>v. symb_sprites v ! 2" "\<lambda>v. of_nat (x + 8)" "\<lambda>v. 54", OF c,
        unfolded paints_def x8, rule_format, OF _ v1] by auto
  have v2: "sized g (v\<lparr>buffer := m2\<rparr>)" using sized_shown [OF v1, of _ m2] m2(2) by simp
  obtain m3 where m3: "draw_two_digits (hours g) (of_nat (x - 37)) (of_nat 40) (v\<lparr>buffer := m2\<rparr>) =
        Some (of_nat (x - 37 - 37 * length ?h), v\<lparr>buffer := m3\<rparr>)"
      "shown v m2 (digit_layers (numbers_sprites v) (x - 37) 40 (rev ?h)) m3"
    using draw_two_digits_paints [OF v2, of "x - 37" 40 "hours g"] x by fastforce
  have "vg_draw_time_info g v = Some (v\<lparr>buffer := m3\<rparr>)"
    using m1(1) m2(1) m3(1) sizedD(6,7) [OF v] digit_width [OF v, of 1] x
    by (simp add: vg_draw_time_info_def POINTS_WIDTH_MARGIN_def POINTS_HEIGHT_MARGIN_def)
  moreover have "shown v (buffer v) (time_layers g v) m3"
    using shown_trans [OF m1(2) shown_trans [OF m2(2) m3(2)]] by (simp add: time_layers_def Let_def x_def)
  ultimately show "\<exists>mem. vg_draw_time_info g v = Some (v\<lparr>buffer := mem\<rparr>) \<and> shown v (buffer v) (time_layers g v) mem"
    by blast
qed

lemma unat_crosshair:
  fixes x :: i16
  assumes "32 \<le> sint x" "sint x < 768"
  shows "unat (ucast (x - 32) :: u32) = nat (sint x) - 32"
proof -
  have "of_nat (nat (sint x)) = (of_int (sint x) :: i16)" using assms(1) by (intro of_nat_nat) simp
  then have "x = of_nat (nat (sint x))" by simp
  then have "x - 32 = of_nat (nat (sint x) - 32)" using assms(1) by simp
  then have "unat (x - 32) = nat (sint x) - 32" using assms(2) by (simp add: unat_of_nat)
  then show ?thesis by simp
qed

lemma paints_crosshair:
  assumes "mouse_ok g"
  shows "paints g (vg_draw_crosshair 1 g) (\<lambda>v. [crosshair_layer g v])"
proof -
  let ?x = "ucast (mouse_x g - 32) :: u32" and ?y = "ucast (mouse_y g - 32) :: u32"
  have xy: "unat ?x = nat (sint (mouse_x g)) - 32" "unat ?y = nat (sint (mouse_y g)) - 32"
    using unat_crosshair [of "mouse_x g"] unat_crosshair [of "mouse_y g"] assms by (simp_all add: mouse_ok_def)
  have "paints g (\<lambda>v. map_option snd (draw_to True (crosshair v) ?x ?y 1 v))
      (\<lambda>v. [(True, crosshair v, unat ?x, unat ?y)])"
    using assms by (intro paints_draw image_inside [OF sizedD(12)], unfold xy)
      (simp_all add: mouse_ok_def le_diff_conv nat_le_iff)
  then show ?thesis
    using assms unfolding xy by (simp add: vg_draw_crosshair_def [abs_def] crosshair_layer_def [abs_def] mouse_ok_def)
qed

lemma paints_killer:
  assumes "kstate (killer g) < 4" "in_grid (killer_pos g)"
  shows "paints g (vg_draw_killer_alien g) (\<lambda>v. [killer_layer g v])"
proof -
  let ?x = "kx (killer g) * of_int ALIEN_WIDTH + of_int ALIEN_HORIZONTAL_MARGIN + of_int GAME_HORIZONTAL_MARGIN :: u32"
    and ?y = "ky (killer g) * of_int ALIEN_HEIGHT + of_int ALIEN_VERTICAL_MARGIN + of_int GAME_VERTICAL_MARGIN :: u32"
  let ?k = "unat (kstate (killer g))"
  have k: "?k < 4" using assms(1) by (simp add: word_less_nat_alt)
  have pos: "unat (kx (killer g)) < 11" "unat (ky (killer g)) < 7"
    using assms(2) by (simp_all add: in_grid_def killer_pos_def game_consts)
  then have xy: "unat ?x = 18 + 70 * unat (kx (killer g))" "unat ?y = 98 + 70 * unat (ky (killer g))"
    by (simp_all add: game_consts unat_word_ariths)
  have "paints g (\<lambda>v. map_option snd (draw_to True (killer_alien_sprites v ! ?k) ?x ?y 1 v))
      (\<lambda>v. [(True, killer_alien_sprites v ! ?k, unat ?x, unat ?y)])"
    using pos k by (intro paints_draw image_inside [OF sizedD(11)], unfold xy) simp_all
  then show ?thesis
    by (rule paints_cong [rotated]) (use k in \<open>simp only: vg_draw_killer_alien_def killer_layer_def xy sizedD Let_def; simp\<close>)
qed

lemma paints_play: "paints g (vg_draw_play_button g) (\<lambda>v. [play_layer g v])"
proof -
  have "paints g (\<lambda>v. put_sprite (play_button v ! i) (play_button_xi g) (play_button_yi g) v)
      (\<lambda>v. [(False, play_button v ! i, unat (play_button_xi g), unat (play_button_yi g))])" if "i < 2" for i
    using that by (intro paints_put sizedD(15))
  from this [of 0] this [of 1] show ?thesis
    by (auto simp: paints_def vg_draw_play_button_def play_layer_def sizedD Let_def)
qed

lemma paints_exit: "paints g (vg_draw_exit_button g) (\<lambda>v. [exit_layer g v])"
proof -
  have "paints g (\<lambda>v. put_sprite (exit_button v ! i) (exit_button_xi g) (exit_button_yi g) v)
      (\<lambda>v. [(False, exit_button v ! i, unat (exit_button_xi g), unat (exit_button_yi g))])" if "i < 2" for i
    using that by (intro paints_put sizedD(16))
  from this [of 0] this [of 1] show ?thesis
    by (auto simp: paints_def vg_draw_exit_button_def exit_layer_def sizedD Let_def)
qed

lemma layers_buffer [simp]:
  "alien_layers g (v\<lparr>buffer := m\<rparr>) = alien_layers g v" "time_layers g (v\<lparr>buffer := m\<rparr>) = time_layers g v"
  "crosshair_layer g (v\<lparr>buffer := m\<rparr>) = crosshair_layer g v" "killer_layer g (v\<lparr>buffer := m\<rparr>) = killer_layer g v"
  "play_layer g (v\<lparr>buffer := m\<rparr>) = play_layer g v" "exit_layer g (v\<lparr>buffer := m\<rparr>) = exit_layer g v"
  "game_over_layer (v\<lparr>buffer := m\<rparr>) = game_over_layer v" "game_name_layer (v\<lparr>buffer := m\<rparr>) = game_name_layer v"
  "paused_layer (v\<lparr>buffer := m\<rparr>) = paused_layer v"
  by (simp_all add: alien_layers_def [abs_def] time_layers_def crosshair_layer_def killer_layer_def play_layer_def
      exit_layer_def game_over_layer_def game_name_layer_def paused_layer_def)

lemma screen_layers_buffer [simp]: "screen_layers g (v\<lparr>buffer := m\<rparr>) = screen_layers g v"
  by (cases "game_state g") (simp_all add: screen_layers_def)

lemma paints_titles:
  "paints g vg_draw_game_name (\<lambda>v. [game_name_layer v])" "paints g vg_draw_paused (\<lambda>v. [paused_layer v])"
  "paints g (\<lambda>v. put_sprite (game_over v) (game_over_x v) (game_over_y v) v) (\<lambda>v. [game_over_layer v])"
  unfolding vg_draw_game_name_def [abs_def] vg_draw_paused_def [abs_def] game_name_layer_def paused_layer_def
    game_over_layer_def
  by (intro paints_put, (drule sizedD(17-19), simp add: game_name_layer_def paused_layer_def game_over_layer_def))+

lemma paints_game_over:
  assumes "game_inv g" "game_state g = GAME_OVER"
  shows "paints g (vg_draw_game_over g) (screen_layers g)"
proof -
  have "paints g (\<lambda>v. if game_over_counter g < GAME_OVER_WAIT - 30
      then put_sprite (game_over v) (game_over_x v) (game_over_y v) v else vg_draw_aliens g v)
    (\<lambda>v. if game_over_counter g < GAME_OVER_WAIT - 30 then [game_over_layer v] else alien_layers g v positions)"
    using paints_titles(3) paints_aliens [OF inv_grid_wf [OF assms(1)]] by (cases "game_over_counter g < GAME_OVER_WAIT - 30") simp_all
  from paints_bind [OF this paints_bind [OF paints_killer paints_crosshair]] show ?thesis
    using assms by (simp add: game_inv_def over_ok_def arrays_ok_def vg_draw_game_over_def [abs_def] screen_layers_def [abs_def])
qed

text \<open>What \<^verbatim>\<open>vg_ih\<close> does between clearing the buffer and copying it.\<close>

definition draw_screen :: "game \<Rightarrow> video \<Rightarrow> video option" where
  "draw_screen g v =
     (case game_state g of
        PLAYING \<Rightarrow> vg_draw_game g v
      | MENU \<Rightarrow> vg_draw_menu g v
      | GAME_OVER \<Rightarrow> vg_draw_game_over g v
      | PAUSE \<Rightarrow> vg_draw_paused v
      | LB_INPUT \<Rightarrow> vg_draw_input_screen g v
      | LEADERBOARD \<Rightarrow> vg_draw_leadeboard g v
      | _ \<Rightarrow> Some v)"

lemma paints_screen:
  assumes "game_inv g" "game_state g \<notin> {LB_INPUT, LEADERBOARD}"
  shows "paints g (draw_screen g) (screen_layers g)"
proof -
  have m: "mouse_ok g" using assms(1) by (simp add: game_inv_def)
  have play: "paints g (vg_draw_game g) (screen_layers g)" if "game_state g = PLAYING"
    using that paints_bind [OF paints_aliens [OF inv_grid_wf [OF assms(1)]] paints_bind [OF paints_points paints_crosshair [OF m]]]
    by (simp add: vg_draw_game_def [abs_def] screen_layers_def [abs_def])
  have menu: "paints g (vg_draw_menu g) (screen_layers g)" if "game_state g = MENU"
    using that paints_bind [OF paints_titles(1) paints_bind [OF paints_play paints_bind [OF paints_exit
      paints_bind [OF paints_time paints_crosshair [OF m]]]]]
    by (simp add: vg_draw_menu_def [abs_def] screen_layers_def [abs_def])
  have pause: "paints g vg_draw_paused (screen_layers g)" if "game_state g = PAUSE"
    using that paints_titles(2) by (simp add: screen_layers_def [abs_def])
  have exit: "paints g Some (screen_layers g)" if "game_state g = EXIT"
    using that paints_none by (simp add: screen_layers_def [abs_def])
  show ?thesis
    using assms(2) play menu pause paints_game_over [OF assms(1)] exit unfolding draw_screen_def [abs_def]
    by (cases "game_state g") simp_all
qed

section \<open>The images of the program\<close>

lemma loaded_sized:
  assumes "loads_xpm load" "screen_ok v0" "h_res v0 = 800" "v_res v0 = 600" "length (str v0) = 256"
    and "vg_load_sprites (loaded load) g0 v0 = (r, g, v)"
  shows "sized g v"
proof -
  note size = glyph_images_wf [THEN image_sizes(1) [OF assms(1)]] glyph_images_wf [THEN image_sizes(2) [OF assms(1)]]
    glyph_images_wf [THEN image_sizes(3) [OF assms(1)]]
    picture_images_wf [THEN image_sizes(1) [OF assms(1)]] picture_images_wf [THEN image_sizes(2) [OF assms(1)]]
    picture_images_wf [THEN image_sizes(3) [OF assms(1)]]
    title_images_wf [THEN image_sizes(1) [OF assms(1)]] title_images_wf [THEN image_sizes(2) [OF assms(1)]]
    title_images_wf [THEN image_sizes(3) [OF assms(1)]]
    title_images_wf [THEN image_usizes(1) [OF assms(1)]] title_images_wf [THEN image_usizes(2) [OF assms(1)]]
  have g: "g = place_buttons (loaded load) g0" and v: "v = snd (snd (vg_load_sprites (loaded load) g0 v0))"
    using assms(6) by (simp_all add: vg_load_sprites_def)
  note loaded = load_sprites_defs loaded_titles loaded_pictures loaded_glyphs place_buttons_def half_def game_consts
    BUTTON_MARGIN_TOP_def GAME_MARGIN_TOP_def Let_def size
  show ?thesis
    unfolding sized_def
  proof (intro conjI)
    show "screen_ok v" "h_res v = 800" "v_res v = 600" "tables_ok v" "length (str v) = 256"
      using assms(2-5) load_sprites_frame [of "loaded load" g0 v0] by (simp_all add: v screen_ok_def)
    show "\<forall>s \<in> set (alien_sprites v) \<union> set (killer_alien_sprites v) \<union> {crosshair v}. image_of 64 64 s"
      "\<forall>s \<in> set (numbers_sprites v) \<union> set (letters_sprites v). image_of 32 32 s"
      "image_of 32 32 (symb_sprites v ! 0)" "image_of 32 32 (symb_sprites v ! 1)" "image_of 16 16 (symb_sprites v ! 2)"
      "\<forall>s \<in> set (lb_corners v). image_of 96 96 s"
      by (simp_all add: v loaded image_of_def)
    show "\<forall>s \<in> set (play_button v). inside (False, s, unat (play_button_xi g), unat (play_button_yi g))"
      "\<forall>s \<in> set (exit_button v). inside (False, s, unat (exit_button_xi g), unat (exit_button_yi g))"
      "inside (game_over_layer v)" "inside (game_name_layer v)" "inside (paused_layer v)"
      by (simp_all add: g v loaded inside_def game_over_layer_def game_name_layer_def paused_layer_def)
  qed
qed

section \<open>One frame\<close>

text \<open>
  When the routines of a screen paint its layers over black, and change nothing else but the array of
  text, then the video memory shows them after \<^verbatim>\<open>vg_ih\<close>.
\<close>

lemma vg_ih_shows:
  assumes v: "sized g v"
    and draw: "\<And>u. sized g u \<Longrightarrow> \<exists>mem t. draw_screen g u = Some (u\<lparr>buffer := mem, str := t\<rparr>) \<and> shown u (buffer u) (L u) mem"
    and L: "\<And>m. L (v\<lparr>buffer := m\<rparr>) = L v"
  shows "\<exists>mem t. vg_ih g v = Some (v\<lparr>buffer := mem, str := t, video_mem := mem\<rparr>) \<and>
    (\<forall>r c b. r < 600 \<longrightarrow> c < 800 \<longrightarrow> b < 3 \<longrightarrow>
       mem ! pixel_at v r c b = fold paint (L v) (\<lambda>r c b. 0) r c b)"
proof -
  let ?n = "unat (h_res v * v_res v * bytes_per_pixel v)"
  have sc: "screen_ok v" and res: "unat (h_res v) = 800" "unat (v_res v) = 600"
    using v by (simp_all add: sizedD)
  then have n: "?n = 1440000" "length (buffer v) = ?n" "length (video_mem v) = ?n"
    by (simp_all add: screen_ok_def unat_word_ariths mod_mult_left_eq)
  define black where "black = replicate ?n (0 :: u8) @ drop ?n (buffer v)"
  have "sized g (v\<lparr>buffer := black\<rparr>)" using v n by (intro sized_buffer) (simp_all add: black_def)
  from draw [OF this] obtain mem t where mem: "draw_screen g (v\<lparr>buffer := black\<rparr>) = Some (v\<lparr>buffer := mem, str := t\<rparr>)"
      "shown v black (L v) mem"
    by (auto simp: L)
  have len: "length mem = ?n" using mem(2) n by (simp add: shown_def black_def)
  have ih: "vg_ih g v = Some (v\<lparr>buffer := mem, str := t, video_mem := mem\<rparr>)"
    unfolding vg_ih_def Let_def black_def [symmetric] using mem(1) len n by (simp add: draw_screen_def)
  have "mem ! pixel_at v r c b = fold paint (L v) (\<lambda>r c b. 0) r c b"
    if "r < 600" "c < 800" "b < 3" for r c b
  proof -
    have "pixel_at v r c b < 1440000" using pixel_at_bound [OF sc, of r c b] that res by simp
    then have "pixels v black r c b = 0" by (simp add: pixels_def black_def nth_append n(1))
    with mem(2) that res show ?thesis
      using fold_paint_cong [of "pixels v black" r c b "\<lambda>r c b. 0" "L v"]
      by (simp add: shown_def agree_def pixels_def)
  qed
  with ih show ?thesis by blast
qed

end
