(* ===== verification/Keyboard.thy ===== *)
theory Keyboard
  imports Game
begin

text \<open>
  \<^verbatim>\<open>keyboard/i8042.h\<close> and \<^verbatim>\<open>keyboard/keyboard.c\<close>: the registers of the keyboard
  controller, its command byte, the keyboard interrupt handler and what each key does in each state
  of the game. The busy wait of \<^verbatim>\<open>read_command_byte\<close> has no bound, so it is a partial
  function whose value is \<^const>\<open>None\<close> when the loop does not end.
\<close>

section \<open>Registers, commands and scancodes\<close>

definition KBC_IRQ :: u32 where [port_consts]: "KBC_IRQ = 1"
definition KBC_STAT_CHECK :: u32 where [port_consts]: "KBC_STAT_CHECK = BIT 7 OR BIT 6"
definition MOUSE_CHECK :: u32 where [port_consts]: "MOUSE_CHECK = BIT 5"
definition KBC_OUT_BUF_FULL :: u32 where [port_consts]: "KBC_OUT_BUF_FULL = BIT 0"
definition KBC_IN_BUF_FULL :: u32 where [port_consts]: "KBC_IN_BUF_FULL = BIT 1"
definition KBC_STAT_REG :: u32 where [port_consts]: "KBC_STAT_REG = 0x64"
definition KBC_OUT_BUF :: u32 where [port_consts]: "KBC_OUT_BUF = 0x60"
definition KBC_READ_CMD_BYTE :: u32 where [port_consts]: "KBC_READ_CMD_BYTE = 0x20"
definition KBC_WRITE_CMD_BYTE :: u32 where [port_consts]: "KBC_WRITE_CMD_BYTE = 0x60"
definition KBC_COMMAND_ENABLE_INTERRUPTS :: u32 where
  [port_consts]: "KBC_COMMAND_ENABLE_INTERRUPTS = BIT 0"
definition KBC_SCANCODE_2B :: u8 where [port_consts]: "KBC_SCANCODE_2B = 0xE0"
definition ESC_BREAK :: u8 where [port_consts]: "ESC_BREAK = 0x81"
definition P_BREAK :: u8 where [port_consts]: "P_BREAK = 0x99"
definition A_MAKE :: u8 where [port_consts]: "A_MAKE = 0x1e"
definition B_MAKE :: u8 where [port_consts]: "B_MAKE = 0x30"
definition C_MAKE :: u8 where [port_consts]: "C_MAKE = 0x2e"
definition D_MAKE :: u8 where [port_consts]: "D_MAKE = 0x20"
definition E_MAKE :: u8 where [port_consts]: "E_MAKE = 0x12"
definition F_MAKE :: u8 where [port_consts]: "F_MAKE = 0x21"
definition G_MAKE :: u8 where [port_consts]: "G_MAKE = 0x22"
definition H_MAKE :: u8 where [port_consts]: "H_MAKE = 0x23"
definition I_MAKE :: u8 where [port_consts]: "I_MAKE = 0x17"
definition J_MAKE :: u8 where [port_consts]: "J_MAKE = 0x24"
definition K_MAKE :: u8 where [port_consts]: "K_MAKE = 0x25"
definition L_MAKE :: u8 where [port_consts]: "L_MAKE = 0x26"
definition M_MAKE :: u8 where [port_consts]: "M_MAKE = 0x32"
definition N_MAKE :: u8 where [port_consts]: "N_MAKE = 0x31"
definition O_MAKE :: u8 where [port_consts]: "O_MAKE = 0x18"
definition P_MAKE :: u8 where [port_consts]: "P_MAKE = 0x19"
definition Q_MAKE :: u8 where [port_consts]: "Q_MAKE = 0x10"
definition R_MAKE :: u8 where [port_consts]: "R_MAKE = 0x13"
definition S_MAKE :: u8 where [port_consts]: "S_MAKE = 0x1f"
definition T_MAKE :: u8 where [port_consts]: "T_MAKE = 0x14"
definition U_MAKE :: u8 where [port_consts]: "U_MAKE = 0x16"
definition V_MAKE :: u8 where [port_consts]: "V_MAKE = 0x2f"
definition W_MAKE :: u8 where [port_consts]: "W_MAKE = 0x11"
definition X_MAKE :: u8 where [port_consts]: "X_MAKE = 0x2d"
definition Y_MAKE :: u8 where [port_consts]: "Y_MAKE = 0x15"
definition Z_MAKE :: u8 where [port_consts]: "Z_MAKE = 0x2c"
definition DASH_MAKE :: u8 where [port_consts]: "DASH_MAKE = 0x35"
definition ENTER_MAKE :: u8 where [port_consts]: "ENTER_MAKE = 0x1c"
definition DEL_MAKE :: u8 where [port_consts]: "DEL_MAKE = 0x0e"

section \<open>The controller\<close>

record kbd =
  kbc_hook_id :: i32
  flagESC :: bool
  flag2Bytes :: bool

definition kbc_communication_error :: "'d env \<Rightarrow> 'd \<Rightarrow> bool \<times> 'd" where
  "kbc_communication_error env d =
     (let (r, st, d) = util_sys_inb env KBC_STAT_REG d in
      if r \<noteq> OK then (True, d)
      else if ucast st AND KBC_STAT_CHECK = 0 then (False, d) else (True, d))"

definition keyboard_check :: "'d env \<Rightarrow> 'd \<Rightarrow> bool \<times> 'd" where
  "keyboard_check env d =
     (let (r, st, d) = util_sys_inb env KBC_STAT_REG d in
      if r \<noteq> OK then (True, d)
      else if ucast st AND MOUSE_CHECK = 0 then (True, d) else (False, d))"

definition kbc_output_buf_full :: "'d env \<Rightarrow> 'd \<Rightarrow> bool \<times> 'd" where
  "kbc_output_buf_full env d =
     (let (r, st, d) = util_sys_inb env KBC_STAT_REG d in
      if r \<noteq> OK then (True, d)
      else if ucast st AND KBC_OUT_BUF_FULL \<noteq> 0 then (True, d) else (False, d))"

definition kbc_input_buf_full :: "'d env \<Rightarrow> 'd \<Rightarrow> bool \<times> 'd" where
  "kbc_input_buf_full env d =
     (let (r, status_reg, d) = util_sys_inb env KBC_STAT_REG d in
      if ucast status_reg AND KBC_IN_BUF_FULL \<noteq> 0 then (True, d) else (False, d))"

definition kbc_read_output_buffer :: "'d env \<Rightarrow> 'd \<Rightarrow> u8 \<times> 'd" where
  "kbc_read_output_buffer env d =
     (let (r, scan_code, d) = util_sys_inb env KBC_OUT_BUF d in (scan_code, d))"

text \<open>
  The loop of \<^verbatim>\<open>read_command_byte\<close>: the counter is incremented only on the way out, so as
  long as the input buffer is full the condition never changes.
\<close>

partial_function (option) read_command_loop :: "'d env \<Rightarrow> nat \<Rightarrow> 'd \<Rightarrow> 'd option" where
  "read_command_loop env counterCycles d =
     (if counterCycles < 100000 then
        let (full, d) = kbc_input_buf_full env d in
        if \<not> full then Some (snd (sys_outb env KBC_STAT_REG KBC_READ_CMD_BYTE d))
        else read_command_loop env counterCycles d
      else Some d)"

definition read_command_byte :: "'d env \<Rightarrow> 'd \<Rightarrow> (u8 \<times> 'd) option" where
  "read_command_byte env d = do {
     d \<leftarrow> read_command_loop env 0 d;
     let (r, comm, d) = util_sys_inb env KBC_OUT_BUF d;
     Some (comm, d)
   }"

function write_command_loop :: "'d env \<Rightarrow> nat \<Rightarrow> 'd \<Rightarrow> 'd" where
  "write_command_loop env counterCycles d =
     (if counterCycles < 100000 then
        let (full, d) = kbc_input_buf_full env d in
        if \<not> full then snd (sys_outb env KBC_STAT_REG KBC_WRITE_CMD_BYTE d)
        else write_command_loop env (Suc counterCycles) d
      else d)"
  by pat_completeness auto
termination
  by (relation "measure (\<lambda>(env, n, d). 100000 - n)") auto

declare write_command_loop.simps [simp del]

definition write_command_byte :: "'d env \<Rightarrow> u8 \<Rightarrow> 'd \<Rightarrow> 'd" where
  "write_command_byte env command_byte d =
     snd (sys_outb env KBC_OUT_BUF (ucast command_byte) (write_command_loop env 0 d))"

definition enable_interrupts :: "'d env \<Rightarrow> 'd \<Rightarrow> 'd option" where
  "enable_interrupts env d = do {
     (command_byte, d) \<leftarrow> read_command_byte env d;
     Some (write_command_byte env (ucast (ucast command_byte OR KBC_COMMAND_ENABLE_INTERRUPTS)) d)
   }"

definition kbc_subscribe_int :: "'d env \<Rightarrow> kbd \<Rightarrow> 'd \<Rightarrow> i32 \<times> u8 \<times> kbd \<times> 'd" where
  "kbc_subscribe_int env k d =
     (let k = k\<lparr>kbc_hook_id := KBC_IRQ\<rparr>;
          bit_no = ucast (kbc_hook_id k);
          (r, hook, d) = sys_irqsetpolicy env KBC_IRQ (IRQ_REENABLE OR IRQ_EXCLUSIVE) (kbc_hook_id k) d
      in (r, bit_no, k\<lparr>kbc_hook_id := hook\<rparr>, d))"

definition kbc_unsubscribe_int :: "'d env \<Rightarrow> kbd \<Rightarrow> 'd \<Rightarrow> i32 \<times> 'd" where
  "kbc_unsubscribe_int env k d = sys_irqrmpolicy env (kbc_hook_id k) d"

section \<open>Keys\<close>

text \<open>The cases of the \<^verbatim>\<open>switch\<close> that append a character to the name.\<close>

definition letter_keys :: "(u8 \<times> string) list" where
  "letter_keys =
     [(A_MAKE, ''A''), (B_MAKE, ''B''), (C_MAKE, ''C''), (D_MAKE, ''D''), (E_MAKE, ''E''),
      (F_MAKE, ''F''), (G_MAKE, ''G''), (H_MAKE, ''H''), (I_MAKE, ''I''), (J_MAKE, ''J''),
      (K_MAKE, ''K''), (L_MAKE, ''L''), (M_MAKE, ''M''), (N_MAKE, ''N''), (O_MAKE, ''O''),
      (P_MAKE, ''P''), (Q_MAKE, ''Q''), (R_MAKE, ''R''), (S_MAKE, ''S''), (T_MAKE, ''T''),
      (U_MAKE, ''U''), (V_MAKE, ''V''), (W_MAKE, ''W''), (X_MAKE, ''X''), (Y_MAKE, ''Y''),
      (Z_MAKE, ''Z''), (DASH_MAKE, ''-'')]"

definition delete_last :: "game \<Rightarrow> game option" where
  "delete_last g = do {
     n \<leftarrow> c_strlen (name g);
     Some (g\<lparr>name := (name g)[n - 1 := NUL]\<rparr>)
   }"

definition lb_input_key :: "u8 option \<Rightarrow> u8 \<Rightarrow> game \<Rightarrow> game option" where
  "lb_input_key past scanCode g =
     (if name g ! 5 = NUL then
        (case map_of letter_keys scanCode of
           Some s \<Rightarrow> do { nm \<leftarrow> c_strcat (name g) (c_lit s); Some (g\<lparr>name := nm\<rparr>) }
         | None \<Rightarrow>
             if scanCode = DEL_MAKE then
               if name g ! 0 \<noteq> NUL then delete_last g else Some g
             else if scanCode = ENTER_MAKE then
               if name g ! 0 \<noteq> NUL then game_save_and_display_lb past g else Some g
             else Some g)
      else do {
        g \<leftarrow> (if scanCode = ENTER_MAKE \<and> name g ! 0 \<noteq> NUL
             then game_save_and_display_lb past g else Some g);
        if scanCode = DEL_MAKE \<and> name g ! 0 \<noteq> NUL then delete_last g else Some g
      })"

definition keyboard_event_handler :: "'d env \<Rightarrow> u8 option \<Rightarrow> u8 \<Rightarrow> game \<Rightarrow> 'd \<Rightarrow> (game \<times> 'd) option" where
  "keyboard_event_handler env past scanCode g d =
     (if scanCode = ESC_BREAK then Some (g\<lparr>game_state := EXIT\<rparr>, d)
      else case game_state g of
        PLAYING \<Rightarrow> Some (if scanCode = P_BREAK then g\<lparr>game_state := PAUSE\<rparr> else g, d)
      | PAUSE \<Rightarrow> Some (if scanCode = P_BREAK then g\<lparr>game_state := PLAYING\<rparr> else g, d)
      | LB_INPUT \<Rightarrow> map_option (\<lambda>g. (g, d)) (lb_input_key past scanCode g)
      | LEADERBOARD \<Rightarrow> Some (if scanCode = ENTER_MAKE then game_initialize env g d else (g, d))
      | _ \<Rightarrow> Some (g, d))"

definition kbc_ih :: "'d env \<Rightarrow> u8 option \<Rightarrow> kbd \<Rightarrow> game \<Rightarrow> 'd \<Rightarrow> (kbd \<times> game \<times> 'd) option" where
  "kbc_ih env past k g d =
     (let (full, d) = kbc_output_buf_full env d in
      if \<not> full then Some (k, g, d) else
      let (kbd_data, d) = keyboard_check env d in
      if \<not> kbd_data then Some (k, g, d) else
      let (scanCode, d) = kbc_read_output_buffer env d;
          (err, d) = kbc_communication_error env d
      in if err then Some (k, g, d)
         else if scanCode = KBC_SCANCODE_2B then Some (k\<lparr>flag2Bytes := True\<rparr>, g, d)
         else
           let k = (if flag2Bytes k then k\<lparr>flag2Bytes := False\<rparr> else k);
               k = (if scanCode = ESC_BREAK then k\<lparr>flagESC := False\<rparr> else k)
           in map_option (\<lambda>(g, d). (k, g, d)) (keyboard_event_handler env past scanCode g d))"


section \<open>The name\<close>

definition name_chars :: "char set" where
  "name_chars = set (concat (map snd letter_keys))"

definition typed :: "string \<Rightarrow> bool" where
  "typed s \<longleftrightarrow> length s \<le> 6 \<and> set s \<subseteq> name_chars"

text \<open>The array of the name is a typed word followed by zeros only.\<close>

definition name_ok :: "game \<Rightarrow> bool" where
  "name_ok g \<longleftrightarrow> (\<exists>s. name g = lb_name s \<and> typed s)"

text \<open>What the keyboard relies on and keeps.\<close>

definition kbd_safe :: "game \<Rightarrow> bool" where
  "kbd_safe g \<longleftrightarrow> game_inv g \<and> score_fits (points g) \<and> name_ok g \<and> plain_names (LB g)"

text \<open>
  While a name is being typed the score can be inserted: the byte after the array of scores counts as
  readable, or the search for the rank ends inside the array.
\<close>

definition table_ok :: "u8 option \<Rightarrow> game \<Rightarrow> bool" where
  "table_ok past g \<longleftrightarrow> (game_state g = LB_INPUT \<longrightarrow> past \<noteq> None \<or> stops_inside (points g) (LB g))"

lemma letter_key_char:
  assumes "map_of letter_keys sc = Some s"
  shows "length s = 1" "set s \<subseteq> name_chars" "NUL \<notin> set s"
proof -
  have m: "s \<in> set (map snd letter_keys)" using map_of_SomeD [OF assms] by force
  have "list_all (\<lambda>s. length s = 1 \<and> NUL \<notin> set s) (map snd letter_keys)"
    by (simp add: letter_keys_def)
  with m show "length s = 1" "NUL \<notin> set s" by (auto simp: list_all_iff)
  show "set s \<subseteq> name_chars" using m by (auto simp: name_chars_def)
qed

lemma name_chars_plain: "CHR ''.'' \<notin> name_chars" "NL \<notin> name_chars" "NUL \<notin> name_chars"
  by (simp_all add: name_chars_def letter_keys_def)

lemma typed_no_NUL: "typed s \<Longrightarrow> NUL \<notin> set s"
  using name_chars_plain by (auto simp: typed_def)

lemma typed_holds: "typed s \<Longrightarrow> c_holds (lb_name s) s 7"
  using typed_no_NUL [of s] by (intro lb_name_holds) (auto simp: typed_def)

lemma typed_c_str [simp]: "typed s \<Longrightarrow> c_str (lb_name s) = s"
  using typed_holds by (simp add: c_holds_def)

lemma lb_name_nth:
  "typed s \<Longrightarrow> i < 7 \<Longrightarrow> lb_name s ! i = NUL \<longleftrightarrow> length s \<le> i"
  using typed_no_NUL [of s] by (auto simp: lb_name_def nth_append) (metis nth_mem)

lemma strcat_lb_name:
  assumes "typed s" "typed (s @ t)"
  shows "c_strcat (lb_name s) (c_lit t) = Some (lb_name (s @ t))"
proof -
  have len: "length (s @ t) \<le> 6" "NUL \<notin> set t"
    using assms typed_no_NUL [OF assms(2)] by (simp_all add: typed_def)
  have "c_strcat (lb_name s) (c_lit t) = c_put (lb_name s) (length s) (t @ [NUL])"
    using typed_holds [OF assms(1)] len by (simp add: c_strcat_def c_holds_def c_lit_def)
  also have "\<dots> = Some (lb_name (s @ t))"
    using len by (simp add: c_put_def lb_name_def)
      (simp add: replicate_Suc [symmetric] Suc_diff_le del: replicate_Suc)
  finally show ?thesis .
qed

lemma delete_lb_name:
  assumes "typed s" "s \<noteq> []"
  shows "(lb_name s)[length s - 1 := NUL] = lb_name (butlast s)"
proof -
  obtain t x where s: "s = t @ [x]" using assms(2) by (cases s rule: rev_cases) auto
  have "Suc (6 - length t) = 7 - length t" using assms(1) s by (auto simp: typed_def)
  then show ?thesis
    unfolding s lb_name_def by (simp add: list_update_append flip: replicate_Suc)
qed

lemma names_of_entries: "lb_wf L \<Longrightarrow> set (map c_str (names L)) = snd ` set (entries L)"
  using map_snd_zip [of "map unat (scores L)" "map c_str (names L)"]
  by (simp add: entries_def lb_wf_def flip: set_map)

lemma game_inv_state: "game_inv g \<Longrightarrow> S \<noteq> GAME_OVER \<Longrightarrow> game_inv (g\<lparr>game_state := S\<rparr>)"
  by (simp add: game_inv_defs grid_ok_def)

lemma game_inv_name:
  assumes "game_inv g" "length nm = 7" "c_terminated nm"
  shows "game_inv (g\<lparr>name := nm\<rparr>)"
  using assms by (simp add: game_inv_defs grid_ok_def over_ok_def killer_pos_def)

lemma name_update_safe: "kbd_safe g \<Longrightarrow> typed s \<Longrightarrow> kbd_safe (g\<lparr>name := lb_name s\<rparr>)"
  using typed_holds [of s]
  by (auto simp: kbd_safe_def name_ok_def c_holds_def intro!: game_inv_name)

text \<open>
  The name as the player sees it: letters are appended up to six, the deletion key removes the last
  one, other keys do nothing.
\<close>

definition edit_name :: "u8 \<Rightarrow> string \<Rightarrow> string" where
  "edit_name sc s =
     (case map_of letter_keys sc of
        Some c \<Rightarrow> if length s < 6 then s @ c else s
      | None \<Rightarrow> if sc = DEL_MAKE then butlast s else s)"

lemma typed_edit: "typed s \<Longrightarrow> typed (edit_name sc s)"
  using letter_key_char [of sc]
  by (auto simp: typed_def edit_name_def split: option.splits dest: in_set_butlastD)

lemma letter_keys_special:
  "map_of letter_keys DEL_MAKE = None" "map_of letter_keys ENTER_MAKE = None"
  "ENTER_MAKE \<noteq> DEL_MAKE"
  by (simp_all add: letter_keys_def port_consts)

lemma delete_last_typed:
  assumes "name g = lb_name s" "typed s" "s \<noteq> []"
  shows "delete_last g = Some (g\<lparr>name := lb_name (butlast s)\<rparr>)"
  using assms typed_holds [OF assms(2)]
  by (simp add: delete_last_def c_strlen_def c_holds_def delete_lb_name [OF assms(2,3), simplified])

lemma lb_input_key_edits:
  assumes "name g = lb_name s" "typed s" "sc \<noteq> ENTER_MAKE"
  shows "lb_input_key past sc g = Some (g\<lparr>name := lb_name (edit_name sc s)\<rparr>)"
proof -
  have g: "g\<lparr>name := lb_name s\<rparr> = g" using assms(1) by simp
  have n5: "name g ! 5 = NUL \<longleftrightarrow> length s < 6" and n0: "name g ! 0 = NUL \<longleftrightarrow> s = []"
    using lb_name_nth [OF assms(2)] assms(1) by auto
  show ?thesis
  proof (cases "map_of letter_keys sc")
    case None
    have "lb_input_key past sc g =
        (if sc = DEL_MAKE \<and> s \<noteq> [] then delete_last g else Some g)"
      using assms(3) None by (simp add: lb_input_key_def n5 n0 letter_keys_special)
    moreover have "edit_name sc s = (if sc = DEL_MAKE \<and> s \<noteq> [] then butlast s else s)"
      using None by (simp add: edit_name_def)
    ultimately show ?thesis using delete_last_typed [OF assms(1,2)] g by simp
  next
    case (Some c)
    then have sc: "sc \<noteq> DEL_MAKE" using letter_keys_special by auto
    show ?thesis
    proof (cases "length s < 6")
      case True
      then have "typed (s @ c)" using typed_edit [OF assms(2), of sc] Some by (simp add: edit_name_def)
      then show ?thesis
        using Some True assms(1) strcat_lb_name [OF assms(2), of c]
        by (simp add: lb_input_key_def n5 [unfolded assms(1)] edit_name_def)
    next
      case False
      then show ?thesis using Some sc assms(3) g by (simp add: lb_input_key_def n5 edit_name_def)
    qed
  qed
qed

lemma save_safe:
  assumes "kbd_safe g" and read: "past \<noteq> None \<or> stops_inside (points g) (LB g)"
  shows "\<exists>LB'. game_save_and_display_lb past g = Some (g\<lparr>LB := LB', game_state := LEADERBOARD\<rparr>) \<and>
    kbd_safe (g\<lparr>LB := LB', game_state := LEADERBOARD\<rparr>)"
proof -
  obtain s where s: "name g = lb_name s" "typed s" using assms(1) by (auto simp: kbd_safe_def name_ok_def)
  have wf: "lb_wf (LB g)" using assms(1) by (simp add: kbd_safe_def game_inv_def arrays_ok_def)
  have nm: "c_holds (name g) s 7" unfolding s(1) using s(2) by (rule typed_holds)
  have "0 \<le> sint (points g)"
    using assms(1) by (simp add: kbd_safe_def score_fits_def sint_of_nat_u32)
  from addScore_refines [OF wf nm this read]
  obtain LB' where LB': "addScore past (points g) (name g) (LB g) = Some LB'" "lb_wf LB'"
    and e: "entries LB' = takeWhile (\<lambda>x. int (fst x) < sint (points g)) (tl (entries (LB g))) @
      (unat (ucast (points g) :: u8), s) # dropWhile (\<lambda>x. int (fst x) < sint (points g)) (tl (entries (LB g)))"
    by blast
  have "set (entries LB') \<subseteq> insert (unat (ucast (points g) :: u8), s) (set (entries (LB g)))"
    unfolding e using list.set_sel(2) [of "entries (LB g)"] wf
    by (auto dest!: set_takeWhileD set_dropWhileD) (metis length_entries list.size(3) zero_neq_numeral)+
  then have "set (map c_str (names LB')) \<subseteq> insert s (set (map c_str (names (LB g))))"
    unfolding names_of_entries [OF wf] names_of_entries [OF LB'(2)] by auto
  moreover have "CHR ''.'' \<notin> set s" "NL \<notin> set s"
    using s(2) name_chars_plain by (auto simp: typed_def)
  ultimately have "plain_names LB'"
    using assms(1) unfolding kbd_safe_def plain_names_def by (auto simp: image_iff subset_iff)
  with assms(1) LB' show ?thesis
    by (auto simp: kbd_safe_def game_save_and_display_lb_def game_inv_defs grid_ok_def name_ok_def)
qed


lemma lb_input_safe:
  assumes "kbd_safe g" and read: "past \<noteq> None \<or> stops_inside (points g) (LB g)"
  shows "\<exists>g'. lb_input_key past sc g = Some g' \<and> kbd_safe g'"
proof (cases "sc = ENTER_MAKE")
  case True
  then show ?thesis
    using letter_keys_special assms(1) save_safe [OF assms] by (auto simp: lb_input_key_def)
next
  case False
  obtain s where "name g = lb_name s" "typed s" using assms(1) by (auto simp: kbd_safe_def name_ok_def)
  with False assms(1) show ?thesis by (auto simp: lb_input_key_edits intro!: name_update_safe typed_edit)
qed

lemma initialize_frame:
  "name (fst (game_initialize env g d)) = name g" "LB (fst (game_initialize env g d)) = LB g"
  "points (fst (game_initialize env g d)) = 0"
  by (simp_all add: game_initialize_def game_reset_def Let_def)

lemma initialize_safe: "kbd_safe g \<Longrightarrow> kbd_safe (fst (game_initialize env g d))"
  using initialize_inv(1) [of g env d]
  by (simp add: kbd_safe_def initialize_frame score_fits_def name_ok_def game_inv_def [of g])

lemma state_safe: "kbd_safe g \<Longrightarrow> S \<noteq> GAME_OVER \<Longrightarrow> kbd_safe (g\<lparr>game_state := S\<rparr>)"
  by (simp add: kbd_safe_def game_inv_state name_ok_def)

lemma keyboard_event_safe:
  assumes "kbd_safe g" "table_ok past g"
  shows "\<exists>g' d'. keyboard_event_handler env past sc g d = Some (g', d') \<and> kbd_safe g'"
proof (cases "sc = ESC_BREAK")
  case True
  with assms show ?thesis by (simp add: keyboard_event_handler_def state_safe)
next
  case False
  with assms lb_input_safe [OF assms(1), of past sc] show ?thesis
    using initialize_safe [OF assms(1), of env d]
    by (cases "game_state g"; cases "game_initialize env g d")
      (auto simp: keyboard_event_handler_def state_safe table_ok_def)
qed

interpretation kbd_events: safe_handler
  "\<lambda>(past, sc) (g, d). keyboard_event_handler env (Some past) sc g d" "\<lambda>(g, d). kbd_safe g"
  by unfold_locales (use keyboard_event_safe in \<open>fastforce simp: table_ok_def\<close>)

lemma kbc_ih_safe:
  assumes "kbd_safe g" "table_ok past g"
  shows "\<exists>k' g' d'. kbc_ih env past k g d = Some (k', g', d') \<and> kbd_safe g'"
proof -
  obtain full d1 where 1: "kbc_output_buf_full env d = (full, d1)" by (metis surj_pair)
  obtain kd d2 where 2: "keyboard_check env d1 = (kd, d2)" by (metis surj_pair)
  obtain sc d3 where 3: "kbc_read_output_buffer env d2 = (sc, d3)" by (metis surj_pair)
  obtain err d4 where 4: "kbc_communication_error env d3 = (err, d4)" by (metis surj_pair)
  obtain g' d' where "keyboard_event_handler env past sc g d4 = Some (g', d')" "kbd_safe g'"
    using keyboard_event_safe [OF assms, of env sc d4] by blast
  with 1 2 3 4 assms show ?thesis by (simp add: kbc_ih_def Let_def)
qed

section \<open>Properties\<close>

lemma play_game_safe: "kbd_safe play_game"
proof -
  have "name play_game = name zero_game" "LB play_game = LB zero_game"
    by (simp_all add: play_game_def put_alien_def initialize_frame)
  then show ?thesis
    by (simp add: kbd_safe_def play_game_facts score_fits_def name_ok_def zero_game_def empty_board_wf
        lb_name_def typed_def exI [of _ "[]"])
qed

text \<open>Whatever keys are pressed, in whatever state of the game, the keyboard never writes outside
  the arrays of the name, the message and the table, whatever byte follows the scores, keeps the invariant of the game, and only
  writes names of capital letters and dashes, so that every name the table ever holds can be saved
  and read back.
\<close>

theorem keyboard_keys_safe:
  assumes "kbd_safe g"
  shows "\<exists>g' d'. run_events (\<lambda>(past, sc) (g, d). keyboard_event_handler env (Some past) sc g d) keys (g, d)
      = Some (g', d') \<and> game_inv g' \<and> set (c_str (name g')) \<subseteq> name_chars \<and> plain_names (LB g')"
  using kbd_events.run_safe [of "(g, d)" env keys] assms
  by (auto simp: kbd_safe_def name_ok_def) (auto simp: typed_def)

theorem keyboard_keys_safe_witness:
  "\<exists>g' d'. run_events (\<lambda>(past, sc) (g, d). keyboard_event_handler sim_env (Some past) sc g d)
      [(0, P_BREAK), (9, A_MAKE), (0, ESC_BREAK)] (play_game, sim0)
      = Some (g', d') \<and> game_inv g' \<and> set (c_str (name g')) \<subseteq> name_chars \<and> plain_names (LB g')"
  using keyboard_keys_safe [OF play_game_safe] .


lemma lb_input_run:
  assumes "game_state g = LB_INPUT" "name g = lb_name s" "typed s"
    and "\<forall>(past, sc) \<in> set keys. sc \<noteq> ENTER_MAKE \<and> sc \<noteq> ESC_BREAK"
  shows "run_events (\<lambda>(past, sc) (g, d). keyboard_event_handler env past sc g d) keys (g, d) =
    Some (g\<lparr>name := lb_name (fold (\<lambda>(past, sc). edit_name sc) keys s)\<rparr>, d)"
  using assms
proof (induction keys arbitrary: g s)
  case (Cons k keys)
  obtain past sc where k: "k = (past, sc)" by (cases k)
  have "keyboard_event_handler env past sc g d = Some (g\<lparr>name := lb_name (edit_name sc s)\<rparr>, d)"
    using Cons.prems lb_input_key_edits [OF Cons.prems(2,3), of sc past]
    by (simp add: keyboard_event_handler_def k)
  then show ?case
    using Cons.prems Cons.IH [of "g\<lparr>name := lb_name (edit_name sc s)\<rparr>" "edit_name sc s"]
    by (simp add: k typed_edit)
qed simp

text \<open>C13. The array of the name is a line editor: while the name is being typed, any sequence of keys
  other than enter and escape leaves in it exactly the word that appending the letters up to a
  length of six and deleting the last one gives, followed by zeros, and changes nothing else.
\<close>

theorem name_editor_refines:
  assumes "game_state g = LB_INPUT" "name g = lb_name s" "typed s"
    and "\<forall>(past, sc) \<in> set keys. sc \<noteq> ENTER_MAKE \<and> sc \<noteq> ESC_BREAK"
  shows "run_events (\<lambda>(past, sc) (g, d). keyboard_event_handler env past sc g d) keys (g, d) =
    Some (g\<lparr>name := lb_name (fold (\<lambda>(past, sc). edit_name sc) keys s)\<rparr>, d)"
  using assms by (rule lb_input_run)

theorem name_editor_refines_witness:
  "run_events (\<lambda>(past, sc) (g, d). keyboard_event_handler sim_env past sc g d)
     [(None, A_MAKE), (None, B_MAKE), (None, DEL_MAKE), (None, DASH_MAKE)]
     (zero_game\<lparr>game_state := LB_INPUT\<rparr>, sim0) =
   Some (zero_game\<lparr>game_state := LB_INPUT, name := lb_name ''A-''\<rparr>, sim0)"
proof -
  have "fold (\<lambda>(past, sc). edit_name sc) [(None :: u8 option, A_MAKE), (None, B_MAKE), (None, DEL_MAKE), (None, DASH_MAKE)] []
      = ''A-''"
    by (simp add: edit_name_def letter_keys_def port_consts)
  then show ?thesis
    using name_editor_refines [of "zero_game\<lparr>game_state := LB_INPUT\<rparr>" "[]"
        "[(None, A_MAKE), (None, B_MAKE), (None, DEL_MAKE), (None, DASH_MAKE)]" sim_env sim0]
    by (simp add: zero_game_def lb_name_def typed_def port_consts)
qed

text \<open>C39. When the input buffer of the controller stays full, \<^verbatim>\<open>read_command_byte\<close> never
  returns, and neither does \<^verbatim>\<open>enable_interrupts\<close>: the bound of 100000 cycles is never used,
  because the counter only advances on the way out of the loop.
\<close>

theorem read_command_byte_hangs:
  assumes "stuck d" "\<forall>d. stuck d \<longrightarrow> fst (kbc_input_buf_full env d) \<and> stuck (snd (kbc_input_buf_full env d))"
  shows "read_command_byte env d = None \<and> enable_interrupts env d = None"
proof -
  have "e = env \<longrightarrow> n < 100000 \<longrightarrow> \<not> stuck d" if "read_command_loop e n d = Some d'" for e n d d'
  proof (rule read_command_loop.raw_induct [of "\<lambda>e n d d'. e = env \<longrightarrow> n < 100000 \<longrightarrow> \<not> stuck d", OF _ that])
    fix f :: "'a env \<Rightarrow> nat \<Rightarrow> 'a \<Rightarrow> 'a option" and e n d d'
    assume IH: "\<And>e n d d'. f e n d = Some d' \<Longrightarrow> e = env \<longrightarrow> n < 100000 \<longrightarrow> \<not> stuck d"
      and run: "(if n < 100000 then let (full, d) = kbc_input_buf_full e d in
        if \<not> full then Some (snd (sys_outb e KBC_STAT_REG KBC_READ_CMD_BYTE d)) else f e n d
        else Some d) = Some d'"
    show "e = env \<longrightarrow> n < 100000 \<longrightarrow> \<not> stuck d"
      using IH [of e n "snd (kbc_input_buf_full e d)" d'] run assms(2)
      by (auto simp: split_beta split: if_splits)
  qed
  then have "read_command_loop env 0 d = None"
    using assms(1) by (cases "read_command_loop env 0 d") auto
  then show ?thesis by (simp add: read_command_byte_def enable_interrupts_def)
qed


theorem read_command_byte_hangs_witness:
  "read_command_byte (fixed_env (\<lambda>_. 2)) [] = None \<and> enable_interrupts (fixed_env (\<lambda>_. 2)) [] = None"
  by (rule read_command_byte_hangs [of "\<lambda>_. True"])
    (simp_all add: kbc_input_buf_full_def util_sys_inb_def port_consts BIT_def)

lemma input_free_write:
  assumes "\<not> fst (kbc_input_buf_full env d)"
  shows "write_command_loop env 0 d =
    snd (sys_outb env KBC_STAT_REG KBC_WRITE_CMD_BYTE (snd (kbc_input_buf_full env d)))"
  using assms by (simp add: write_command_loop.simps split_beta)

lemma input_free_read:
  assumes "\<not> fst (kbc_input_buf_full env d)"
  shows "read_command_loop env 0 d =
    Some (snd (sys_outb env KBC_STAT_REG KBC_READ_CMD_BYTE (snd (kbc_input_buf_full env d))))"
  using assms by (simp add: read_command_loop.simps split_beta)

lemma input_buf_full_log: "io_traced env log \<Longrightarrow> log (snd (kbc_input_buf_full env d)) = log d"
  by (simp add: kbc_input_buf_full_def split_beta util_sys_inb_log)

text \<open>When the controller accepts commands, \<^verbatim>\<open>enable_interrupts\<close> writes to its ports exactly
  the read command, the write command and the old command byte with bit 0 set: the other bits of
  the configuration are preserved.
\<close>

theorem enable_interrupts_sequence:
  assumes "io_traced env log" "\<forall>d. \<not> fst (kbc_input_buf_full env d)"
  shows "\<exists>b d1 d'. b = fst (snd (util_sys_inb env KBC_OUT_BUF d1)) \<and> log d1 = log d @ [(0x64, 0x20)] \<and>
    enable_interrupts env d = Some d' \<and>
    log d' = log d @ [(0x64, 0x20), (0x64, 0x60), (0x60, ucast (b OR 1))]"
proof -
  define d1 where "d1 = snd (sys_outb env KBC_STAT_REG KBC_READ_CMD_BYTE (snd (kbc_input_buf_full env d)))"
  obtain r b d2 where r: "util_sys_inb env KBC_OUT_BUF d1 = (r, b, d2)" by (metis surj_pair)
  have l1: "log d1 = log d @ [(0x64, 0x20)]"
    by (simp add: d1_def io_tracedD [OF assms(1)] input_buf_full_log [OF assms(1)] port_consts)
  have l2: "log d2 = log d1" using util_sys_inb_log [OF assms(1), of KBC_OUT_BUF d1] by (simp add: r)
  have byte: "(ucast (ucast b OR KBC_COMMAND_ENABLE_INTERRUPTS) :: u8) = b OR 1"
    by (rule bit_word_eqI) (simp add: port_consts BIT_def bit_simps)
  have "enable_interrupts env d = Some (write_command_byte env (b OR 1) d2)"
    using assms(2) r by (simp add: enable_interrupts_def read_command_byte_def input_free_read byte
        flip: d1_def)
  moreover have "log (write_command_byte env (b OR 1) d2) =
      log d @ [(0x64, 0x20), (0x64, 0x60), (0x60, ucast (b OR 1))]"
    using assms(2) by (simp add: write_command_byte_def input_free_write io_tracedD [OF assms(1)]
        input_buf_full_log [OF assms(1)] l1 l2) (simp add: port_consts)
  moreover have "b = fst (snd (util_sys_inb env KBC_OUT_BUF d1))" by (simp add: r)
  ultimately show ?thesis using l1 by blast
qed


theorem enable_interrupts_sequence_witness:
  "\<exists>b d1 d'. b = fst (snd (util_sys_inb (fixed_env (\<lambda>p. if p = 0x60 then 0x46 else 0)) KBC_OUT_BUF d1)) \<and>
    d1 = [] @ [(0x64, 0x20)] \<and>
    enable_interrupts (fixed_env (\<lambda>p. if p = 0x60 then 0x46 else 0)) [] = Some d' \<and>
    d' = [] @ [(0x64, 0x20), (0x64, 0x60), (0x60, ucast (b OR 1))]"
  by (rule enable_interrupts_sequence [OF fixed_env_traced])
    (simp add: kbc_input_buf_full_def util_sys_inb_def port_consts)

end
