(* ===== verification/Mouse.thy ===== *)
theory Mouse
  imports Keyboard
begin

text \<open>
  \<^verbatim>\<open>mouse/ps2.h\<close> and \<^verbatim>\<open>mouse/mouse.c\<close>: the assembly of the three-byte packets of the
  PS/2 mouse in the interrupt handler, the event handler that moves the crosshair, shoots and
  presses the buttons of the menu, and the commands to the mouse with their acknowledgements. The
  local variable that the acknowledgement loop compares before anything has been read into it is
  the parameter \<open>junk\<close>.
\<close>

section \<open>Constants and data\<close>

definition MOUSE_IRQ :: u32 where [port_consts]: "MOUSE_IRQ = 12"
definition ACK :: u8 where [port_consts]: "ACK = 0xFA"
definition NACK :: u8 where [port_consts]: "NACK = 0xFE"
definition ERROR :: u8 where [port_consts]: "ERROR = 0xFC"
definition LB_MOUSE :: u32 where [port_consts]: "LB_MOUSE = BIT 0"
definition X_SIGN :: u32 where [port_consts]: "X_SIGN = BIT 4"
definition Y_SIGN :: u32 where [port_consts]: "Y_SIGN = BIT 5"
definition Y_OV_MOUSE :: u32 where [port_consts]: "Y_OV_MOUSE = BIT 7"
definition X_OV_MOUSE :: u32 where [port_consts]: "X_OV_MOUSE = BIT 6"
definition WR_MOUSE :: u32 where [port_consts]: "WR_MOUSE = 0xD4"
definition DISABLE :: u32 where [port_consts]: "DISABLE = 0xF5"
definition DATA_REPORT :: u32 where [port_consts]: "DATA_REPORT = 0xF4"
definition STREAM_MODE :: u32 where [port_consts]: "STREAM_MODE = 0xEA"
definition DELAY :: u32 where [port_consts]: "DELAY = 20000"

record mouse_event =
  moveX :: i16
  moveY :: i16
  lbdown :: bool
  overflow :: bool

record mouse =
  mouse_hook_id :: i32
  nbytes :: nat
  arr :: "u8 list"
  button_was_raised :: bool

section \<open>Shooting and the menu\<close>

definition mouse_check_kill :: "game \<Rightarrow> game option" where
  "mouse_check_kill g =
     (let x = sdiv_int (sint (mouse_x g) - GAME_HORIZONTAL_MARGIN) ALIEN_WIDTH;
          y = sdiv_int (sint (mouse_y g) - GAME_VERTICAL_MARGIN) ALIEN_HEIGHT
      in if x \<ge> int GAME_WIDTH_MATRIX \<or> x < 0 then Some g
         else if y \<ge> int GAME_HEIGHT_MATRIX \<or> y < 0 then Some g
         else do {
           a \<leftarrow> cell_read (game_matrix g) (nat y, nat x);
           if astate a = EMPTY then Some g
           else if astate a = ALIVE \<or> astate a = APPEARING
           then write_alien (nat y, nat x) \<lparr>astate = DEAD_1, time = alien_times ! alien_index DEAD_1\<rparr>
                  (g\<lparr>points := points g + 1\<rparr>)
           else Some g
         })"

definition mouse_check_play_button :: "game \<Rightarrow> game" where
  "mouse_check_play_button g =
     (if sint (mouse_x g) < uint (play_button_xi g) \<or> sint (mouse_x g) > uint (play_button_xf g) \<or>
         sint (mouse_y g) < uint (play_button_yi g) \<or> sint (mouse_y g) > uint (play_button_yf g)
      then g else g\<lparr>game_state := PLAYING\<rparr>)"

definition mouse_check_exit_button :: "game \<Rightarrow> game" where
  "mouse_check_exit_button g =
     (if sint (mouse_x g) < uint (exit_button_xi g) \<or> sint (mouse_x g) > uint (exit_button_xf g) \<or>
         sint (mouse_y g) < uint (exit_button_yi g) \<or> sint (mouse_y g) > uint (exit_button_yf g)
      then g else g\<lparr>game_state := EXIT\<rparr>)"

definition mouse_move :: "mouse_event \<Rightarrow> game \<Rightarrow> game" where
  "mouse_move ev g =
     (let g = g\<lparr>mouse_x := mouse_x g + moveX ev\<rparr>;
          g = g\<lparr>mouse_y := mouse_y g - moveY ev\<rparr>;
          g = (if mouse_x g <s crosshair_half_width g
               then g\<lparr>mouse_x := crosshair_half_width g\<rparr> else g);
          g = (if crosshair_width_border g \<le>s mouse_x g
               then g\<lparr>mouse_x := crosshair_width_border g - 1\<rparr> else g);
          g = (if mouse_y g <s crosshair_half_height g
               then g\<lparr>mouse_y := crosshair_half_height g\<rparr> else g);
          g = (if crosshair_height_border g \<le>s mouse_y g
               then g\<lparr>mouse_y := crosshair_height_border g - 1\<rparr> else g)
      in g)"

definition mouse_event_handler :: "mouse_event \<Rightarrow> mouse \<Rightarrow> game \<Rightarrow> (mouse \<times> game) option" where
  "mouse_event_handler ev m g =
     (if overflow ev then Some (m, g) else
      let g = mouse_move ev g;
          m = (if \<not> lbdown ev then m\<lparr>button_was_raised := True\<rparr> else m)
      in case game_state g of
           PLAYING \<Rightarrow>
             if lbdown ev \<and> button_was_raised m then do {
               g \<leftarrow> mouse_check_kill g;
               Some (m\<lparr>button_was_raised := False\<rparr>, g)
             } else Some (m, g)
         | MENU \<Rightarrow>
             if lbdown ev \<and> button_was_raised m
             then Some (m\<lparr>button_was_raised := False\<rparr>, mouse_check_exit_button (mouse_check_play_button g))
             else Some (m, g)
         | _ \<Rightarrow> Some (m, g))"

section \<open>The interrupt handler\<close>

definition decode_packet :: "u8 list \<Rightarrow> mouse_event" where
  "decode_packet pk =
     (let x = ucast (pk ! 1) :: i16; y = ucast (pk ! 2) :: i16
      in \<lparr>moveX = (if ucast (pk ! 0) AND X_SIGN \<noteq> 0 then x OR 0xFF00 else x),
          moveY = (if ucast (pk ! 0) AND Y_SIGN \<noteq> 0 then y OR 0xFF00 else y),
          lbdown = (ucast (pk ! 0) AND LB_MOUSE \<noteq> 0),
          overflow = (drop_bit 6 (ucast (pk ! 0) AND X_OV_MOUSE) \<noteq> 0 \<or>
                      drop_bit 7 (ucast (pk ! 0) AND Y_OV_MOUSE) \<noteq> 0)\<rparr>)"

definition mouse_ih :: "'d env \<Rightarrow> mouse \<Rightarrow> game \<Rightarrow> 'd \<Rightarrow> (mouse \<times> game \<times> 'd) option" where
  "mouse_ih env m g d =
     (let m = (if nbytes m = 0 then m\<lparr>arr := replicate 3 0\<rparr> else m);
          (kbd_data, d) = keyboard_check env d
      in if kbd_data then Some (m, g, d) else
      let (full, d) = kbc_output_buf_full env d in
      if \<not> full then Some (m, g, d) else
      let (byte, d) = kbc_read_output_buffer env d;
          (err, d) = kbc_communication_error env d
      in if err then Some (m, g, d)
         else if (ucast byte AND BIT 3 = 0) \<and> nbytes m = 0 then Some (m, g, d)
         else if \<not> nbytes m < length (arr m) then None
         else
           let m = m\<lparr>arr := (arr m)[nbytes m := byte]\<rparr>;
               m = m\<lparr>nbytes := nbytes m + 1\<rparr>
           in if nbytes m = 3
              then map_option (\<lambda>(m, g). (m\<lparr>nbytes := 0\<rparr>, g, d))
                     (mouse_event_handler (decode_packet (arr m)) m g)
              else Some (m, g, d))"

section \<open>Commands to the mouse\<close>

partial_function (option) read_ACK_loop :: "'d env \<Rightarrow> u8 \<Rightarrow> 'd \<Rightarrow> (i32 \<times> 'd) option" where
  "read_ACK_loop env ack_byte d =
     (let (r, stat, d) = util_sys_inb env KBC_STAT_REG d in
      if r \<noteq> 0 then Some (-1, d)
      else
        let (ack_byte, d) =
              (if ucast stat AND KBC_OUT_BUF_FULL \<noteq> 0
               then let (r, ack_byte, d) = util_sys_inb env KBC_OUT_BUF d in (ack_byte, d)
               else (ack_byte, d))
        in if ack_byte = ACK then Some (0, d)
           else if ack_byte = ERROR then Some (-1, d)
           else if ack_byte = NACK then Some (1, d)
           else read_ACK_loop env ack_byte d)"

definition read_ACK_byte :: "'d env \<Rightarrow> ('d \<Rightarrow> u8) \<Rightarrow> 'd \<Rightarrow> (i32 \<times> 'd) option" where
  "read_ACK_byte env junk d = read_ACK_loop env (junk d) d"

fun wr_mouse_loop :: "'d env \<Rightarrow> nat \<Rightarrow> 'd \<Rightarrow> 'd" where
  "wr_mouse_loop env 0 d = d"
| "wr_mouse_loop env (Suc cycles) d =
     (let (full, d) = kbc_input_buf_full env d in
      if \<not> full then snd (sys_outb env KBC_STAT_REG WR_MOUSE d)
      else wr_mouse_loop env cycles (tickdelay env (micros_to_ticks env DELAY) d))"

partial_function (option) mouse_command_loop ::
  "'d env \<Rightarrow> ('d \<Rightarrow> u8) \<Rightarrow> u32 \<Rightarrow> 'd \<Rightarrow> (i32 \<times> 'd) option" where
  "mouse_command_loop env junk cmd d =
     (let d = wr_mouse_loop env 10 d;
          d = snd (sys_outb env KBC_OUT_BUF cmd d)
      in Option.bind (read_ACK_byte env junk d) (\<lambda>(r, d).
         if r = 1 then mouse_command_loop env junk cmd d else Some (r, d)))"

definition mouse_enable_data_reporting :: "'d env \<Rightarrow> ('d \<Rightarrow> u8) \<Rightarrow> 'd \<Rightarrow> (i32 \<times> 'd) option" where
  "mouse_enable_data_reporting env junk d = do {
     (r, d) \<leftarrow> mouse_command_loop env junk STREAM_MODE d;
     if r = -1 then Some (1, d)
     else do {
       (r, d) \<leftarrow> mouse_command_loop env junk DATA_REPORT d;
       Some (0, d)
     }
   }"

definition mouse_disable_data_reporting ::
  "'d env \<Rightarrow> ('d \<Rightarrow> u8) \<Rightarrow> i32 \<Rightarrow> 'd \<Rightarrow> (i32 \<times> 'd) option" where
  "mouse_disable_data_reporting env junk mode d = mouse_command_loop env junk DISABLE d"

definition mouse_subscribe_int :: "'d env \<Rightarrow> mouse \<Rightarrow> 'd \<Rightarrow> i32 \<times> u8 \<times> mouse \<times> 'd" where
  "mouse_subscribe_int env m d =
     (let m = m\<lparr>mouse_hook_id := MOUSE_IRQ\<rparr>;
          bit_no = ucast (mouse_hook_id m);
          (r, hook, d) = sys_irqsetpolicy env MOUSE_IRQ (IRQ_REENABLE OR IRQ_EXCLUSIVE) (mouse_hook_id m) d
      in (r, bit_no, m\<lparr>mouse_hook_id := hook\<rparr>, d))"

definition mouse_unsubscribe_int :: "'d env \<Rightarrow> mouse \<Rightarrow> 'd \<Rightarrow> i32 \<times> 'd" where
  "mouse_unsubscribe_int env m d = sys_irqrmpolicy env (mouse_hook_id m) d"


section \<open>The handlers without the test of the bounds\<close>

text \<open>What the two handlers compute as long as the cell of a click lies in the matrix.\<close>

definition pure_mouse_check_kill :: "game \<Rightarrow> game" where
  "pure_mouse_check_kill g =
     (let x = sdiv_int (sint (mouse_x g) - GAME_HORIZONTAL_MARGIN) ALIEN_WIDTH;
          y = sdiv_int (sint (mouse_y g) - GAME_VERTICAL_MARGIN) ALIEN_HEIGHT
      in if x \<ge> int GAME_WIDTH_MATRIX \<or> x < 0 then g
         else if y \<ge> int GAME_HEIGHT_MATRIX \<or> y < 0 then g
         else
           let a = cell (game_matrix g) (nat y, nat x) in
           if astate a = EMPTY then g
           else if astate a = ALIVE \<or> astate a = APPEARING
           then put_alien (nat y, nat x) \<lparr>astate = DEAD_1, time = alien_times ! alien_index DEAD_1\<rparr>
                  (g\<lparr>points := points g + 1\<rparr>)
           else g)"

definition pure_mouse_event_handler :: "mouse_event \<Rightarrow> mouse \<Rightarrow> game \<Rightarrow> mouse \<times> game" where
  "pure_mouse_event_handler ev m g =
     (if overflow ev then (m, g) else
      let g = mouse_move ev g;
          m = (if \<not> lbdown ev then m\<lparr>button_was_raised := True\<rparr> else m)
      in case game_state g of
           PLAYING \<Rightarrow>
             if lbdown ev \<and> button_was_raised m
             then (m\<lparr>button_was_raised := False\<rparr>, pure_mouse_check_kill g) else (m, g)
         | MENU \<Rightarrow>
             if lbdown ev \<and> button_was_raised m
             then (m\<lparr>button_was_raised := False\<rparr>, mouse_check_exit_button (mouse_check_play_button g))
             else (m, g)
         | _ \<Rightarrow> (m, g))"

lemma check_kill_Some: "mouse_check_kill g = Some g' \<Longrightarrow> g' = pure_mouse_check_kill g"
  by (auto simp: mouse_check_kill_def pure_mouse_check_kill_def Let_def bind_eq_Some_conv
      dest!: cell_read_Some write_alien_Some split: if_splits)

lemma check_kill_returns:
  assumes "grid_wf (game_matrix g)"
  shows "mouse_check_kill g = Some (pure_mouse_check_kill g)"
proof -
  have "in_grid (nat y, nat x)" if "\<not> (x \<ge> int GAME_WIDTH_MATRIX \<or> x < 0)" "\<not> (y \<ge> int GAME_HEIGHT_MATRIX \<or> y < 0)"
    for x y using that by (auto simp: in_grid_def game_consts)
  then show ?thesis
    using assms cell_access(1) [OF assms] cell_access(2) [of "g\<lparr>points := points g + 1\<rparr>"]
    by (simp add: mouse_check_kill_def pure_mouse_check_kill_def Let_def)
qed

lemma event_Some: "mouse_event_handler ev m g = Some s \<Longrightarrow> s = pure_mouse_event_handler ev m g"
  by (auto simp: mouse_event_handler_def pure_mouse_event_handler_def Let_def bind_eq_Some_conv
      dest!: check_kill_Some split: game_state.splits if_splits)

section \<open>The crosshair\<close>

definition clamp :: "int \<Rightarrow> int \<Rightarrow> int \<Rightarrow> int" where
  "clamp lo hi v = (if v < lo then lo else if hi \<le> v then hi - 1 else v)"

lemma i16_add_sint:
  "- 32768 \<le> sint (x :: i16) + sint y \<Longrightarrow> sint x + sint y < 32768 \<Longrightarrow> sint (x + y) = sint x + sint y"
  unfolding sint_word_add by (rule signed_take_bit_int_eq_self) simp_all

lemma i16_sub_sint:
  "- 32768 \<le> sint (x :: i16) - sint y \<Longrightarrow> sint x - sint y < 32768 \<Longrightarrow> sint (x - y) = sint x - sint y"
  unfolding sint_word_diff by (rule signed_take_bit_int_eq_self) simp_all

text \<open>The movements a packet can carry.\<close>

definition small_move :: "mouse_event \<Rightarrow> bool" where
  "small_move ev \<longleftrightarrow> \<bar>sint (moveX ev)\<bar> \<le> 256 \<and> \<bar>sint (moveY ev)\<bar> \<le> 256"

definition clamp_word :: "i16 \<Rightarrow> i16 \<Rightarrow> i16 \<Rightarrow> i16" where
  "clamp_word lo hi v = (let v = (if v <s lo then lo else v) in if hi \<le>s v then hi - 1 else v)"

lemma sint_clamp_word:
  assumes "sint lo < sint hi" "sint (hi - 1) = sint hi - 1"
  shows "sint (clamp_word lo hi v) = clamp (sint lo) (sint hi) (sint v)"
  using assms by (simp add: clamp_word_def clamp_def Let_def word_sless_alt word_sle_eq)

lemma mouse_move_eq:
  "mouse_move ev g =
     g\<lparr>mouse_x := clamp_word (crosshair_half_width g) (crosshair_width_border g) (mouse_x g + moveX ev),
       mouse_y := clamp_word (crosshair_half_height g) (crosshair_height_border g) (mouse_y g - moveY ev)\<rparr>"
proof -
  have *: "(if c then g\<lparr>mouse_x := a\<rparr> else g) = g\<lparr>mouse_x := if c then a else mouse_x g\<rparr>"
    "(if c then g\<lparr>mouse_y := a\<rparr> else g) = g\<lparr>mouse_y := if c then a else mouse_y g\<rparr>" for c a and g :: game
    by simp_all
  show ?thesis unfolding mouse_move_def * Let_def clamp_word_def by simp
qed

lemma event_returns:
  "grid_wf (game_matrix g) \<Longrightarrow> mouse_event_handler ev m g = Some (pure_mouse_event_handler ev m g)"
  by (auto simp: mouse_event_handler_def pure_mouse_event_handler_def Let_def check_kill_returns
      mouse_move_eq split: game_state.split)

lemma mouse_move_clamps:
  assumes "mouse_ok g" "small_move ev"
  shows "sint (mouse_x (mouse_move ev g)) = clamp 32 768 (sint (mouse_x g) + sint (moveX ev))"
    and "sint (mouse_y (mouse_move ev g)) = clamp 32 568 (sint (mouse_y g) - sint (moveY ev))"
    and "mouse_ok (mouse_move ev g)"
proof -
  have x: "sint (mouse_x g + moveX ev) = sint (mouse_x g) + sint (moveX ev)"
    using assms by (intro i16_add_sint) (auto simp: mouse_ok_def small_move_def)
  have y: "sint (mouse_y g - moveY ev) = sint (mouse_y g) - sint (moveY ev)"
    using assms by (intro i16_sub_sint) (auto simp: mouse_ok_def small_move_def)
  show mx: "sint (mouse_x (mouse_move ev g)) = clamp 32 768 (sint (mouse_x g) + sint (moveX ev))"
    and my: "sint (mouse_y (mouse_move ev g)) = clamp 32 568 (sint (mouse_y g) - sint (moveY ev))"
    using assms(1) by (simp_all add: mouse_move_eq mouse_ok_def sint_clamp_word x y)
  show "mouse_ok (mouse_move ev g)"
    using assms(1) mx my unfolding mouse_ok_def by (simp add: mouse_move_eq clamp_def)
qed

lemma uint_u8_bounds: "0 \<le> uint (b :: u8)" "uint b < 256"
  using unsigned_less [of b] by simp_all

lemma sint_ucast_u8: "sint (ucast (b :: u8) :: i16) = uint b"
proof -
  have "- 32768 \<le> uint b" using uint_u8_bounds(1) [of b] by linarith
  then have "signed_take_bit 15 (uint b) = uint b"
    using uint_u8_bounds(2) [of b] by (intro signed_take_bit_int_eq_self) auto
  then show ?thesis
    using uint_u8_bounds [of b] by (simp add: sint_uint unsigned_ucast_eq take_bit_int_eq_self)
qed

lemma or_sign_bits: "(ucast (b :: u8) OR 0xFF00 :: i16) = ucast b - 256"
proof -
  have m: "(0xFF00 :: i16) = NOT (mask 8)" by (simp add: mask_eq_exp_minus_1 not_eq_complement)
  have z: "(ucast b :: i16) AND 0xFF00 = 0"
    unfolding m by (rule bit_word_eqI) (auto simp: bit_simps dest: bit_imp_le_length)
  have "(ucast b :: i16) OR 0xFF00 = ucast b + 0xFF00"
    by (rule disjunctive_add_eq_or [symmetric]) (rule z)
  also have "\<dots> = ucast b - 256" by simp
  finally show ?thesis .
qed

text \<open>The nine-bit two's complement numbers of a packet.\<close>

lemma sign_extend9: "sint (ucast (b :: u8) OR 0xFF00 :: i16) = uint b - 256"
  unfolding or_sign_bits using uint_u8_bounds [of b]
  by (subst i16_sub_sint) (simp_all add: sint_ucast_u8)

lemma decode_moves:
  "sint (moveX (decode_packet pk)) = uint (pk ! 1) - (if bit (pk ! 0) 4 then 256 else 0)"
  "sint (moveY (decode_packet pk)) = uint (pk ! 2) - (if bit (pk ! 0) 5 then 256 else 0)"
  "lbdown (decode_packet pk) = bit (pk ! 0) 0"
  "overflow (decode_packet pk) = (bit (pk ! 0) 6 \<or> bit (pk ! 0) 7)"
  by (simp_all add: decode_packet_def Let_def port_consts u8_and_BIT u8_and_BIT_drop sign_extend9
      sint_ucast_u8 del: drop_bit_and)

lemma decode_small: "small_move (decode_packet pk)"
  using uint_u8_bounds [of "pk ! 1"] uint_u8_bounds [of "pk ! 2"]
  unfolding small_move_def decode_moves by auto

lemma mouse_check_kill_frame:
  "mouse_ok (pure_mouse_check_kill g) = mouse_ok g" "spawn_ok (pure_mouse_check_kill g) = spawn_ok g"
  "arrays_ok (pure_mouse_check_kill g) = arrays_ok g" "game_state (pure_mouse_check_kill g) = game_state g"
  by (simp_all add: pure_mouse_check_kill_def Let_def mouse_ok_def spawn_ok_def arrays_ok_def put_alien_def)

lemma check_kill_position:
  "mouse_x (pure_mouse_check_kill g) = mouse_x g" "mouse_y (pure_mouse_check_kill g) = mouse_y g"
  by (simp_all add: pure_mouse_check_kill_def Let_def put_alien_def)

lemma event_position:
  assumes "\<not> overflow ev"
  shows "mouse_x (snd (pure_mouse_event_handler ev m g)) = mouse_x (mouse_move ev g)"
    and "mouse_y (snd (pure_mouse_event_handler ev m g)) = mouse_y (mouse_move ev g)"
  using assms by (simp_all add: pure_mouse_event_handler_def Let_def mouse_check_play_button_def
      mouse_check_exit_button_def check_kill_position split: game_state.split)

text \<open>The cell that a click hits, as the code computes it.\<close>

definition aimed_cell :: "game \<Rightarrow> nat \<times> nat" where
  "aimed_cell g = (if sint (mouse_y g) < 95 then 0 else nat (sint (mouse_y g) - 95) div 70,
                   nat (sint (mouse_x g) - 15) div 70)"

lemma aimed_in_grid: "mouse_ok g \<Longrightarrow> in_grid (aimed_cell g)"
  by (auto simp: aimed_cell_def in_grid_def game_consts mouse_ok_def)

lemma mouse_check_kill_eq:
  assumes "mouse_ok g"
  shows "pure_mouse_check_kill g =
    (if threatens (cell (game_matrix g) (aimed_cell g))
     then put_alien (aimed_cell g) \<lparr>astate = DEAD_1, time = 2\<rparr> (g\<lparr>points := points g + 1\<rparr>) else g)"
proof -
  let ?x = "sdiv_int (sint (mouse_x g) - GAME_HORIZONTAL_MARGIN) ALIEN_WIDTH"
    and ?y = "sdiv_int (sint (mouse_y g) - GAME_VERTICAL_MARGIN) ALIEN_HEIGHT"
  have x: "?x = int (snd (aimed_cell g))"
    using assms by (auto simp: mouse_ok_def aimed_cell_def sdiv_int_def game_consts sgn_if zdiv_int)
  have y: "?y = int (fst (aimed_cell g))"
    using assms by (auto simp: mouse_ok_def aimed_cell_def sdiv_int_def game_consts sgn_if zdiv_int)
  show ?thesis
    using aimed_in_grid [OF assms] unfolding pure_mouse_check_kill_def x y
    by (auto simp: Let_def in_grid_def threatens_def alien_times_def)
qed


section \<open>The invariant\<close>

definition mouse_safe :: "game \<Rightarrow> bool" where
  "mouse_safe g \<longleftrightarrow> game_inv g \<and> name_ok g \<and> plain_names (LB g)"

lemma kbd_safe_eq: "kbd_safe g \<longleftrightarrow> mouse_safe g \<and> score_fits (points g)"
  by (auto simp: kbd_safe_def mouse_safe_def)

lemma mouse_move_safe:
  assumes "mouse_safe g" "small_move ev"
  shows "mouse_safe (mouse_move ev g)"
proof -
  have "mouse_ok (mouse_move ev g)"
    using assms mouse_move_clamps(3) by (simp add: mouse_safe_def game_inv_def)
  moreover have "mouse_safe (g\<lparr>mouse_x := a, mouse_y := b\<rparr>)" if "mouse_ok (g\<lparr>mouse_x := a, mouse_y := b\<rparr>)"
    for a b
    using assms(1) that
    by (simp add: mouse_safe_def game_inv_def grid_ok_def over_ok_def spawn_ok_def arrays_ok_def
        killer_pos_def name_ok_def)
  ultimately show ?thesis unfolding mouse_move_eq by blast
qed

lemma mouse_check_kill_safe:
  assumes "mouse_safe g" "game_state g = PLAYING"
  shows "mouse_safe (pure_mouse_check_kill g)"
proof -
  let ?g = "g\<lparr>points := points g + 1\<rparr>"
  have ok: "mouse_ok g" using assms by (simp add: mouse_safe_def game_inv_def)
  have "game_inv ?g" using assms by (simp add: mouse_safe_def game_inv_defs grid_ok_def)
  then have "game_inv (put_alien (aimed_cell g) \<lparr>astate = DEAD_1, time = 2\<rparr> ?g)"
    using aimed_in_grid [OF ok] assms(2)
    by (intro put_alien_inv) (simp_all add: alien_ok_def alien_times_def)
  moreover have "name (put_alien p a ?g) = name g" "LB (put_alien p a ?g) = LB g" for p a
    by (simp_all add: put_alien_def)
  ultimately show ?thesis
    using assms(1) by (simp add: mouse_check_kill_eq [OF ok] mouse_safe_def name_ok_def)
qed

lemma mouse_state_safe: "mouse_safe g \<Longrightarrow> S \<noteq> GAME_OVER \<Longrightarrow> mouse_safe (g\<lparr>game_state := S\<rparr>)"
  by (simp add: mouse_safe_def game_inv_state name_ok_def)

lemma buttons_safe: "mouse_safe g \<Longrightarrow> mouse_safe (mouse_check_exit_button (mouse_check_play_button g))"
  by (simp add: mouse_check_exit_button_def mouse_check_play_button_def mouse_state_safe)

lemma mouse_event_handler_safe:
  assumes "mouse_safe g" "small_move ev"
  shows "mouse_safe (snd (pure_mouse_event_handler ev m g))"
  using mouse_move_safe [OF assms] assms(1) mouse_check_kill_safe [of "mouse_move ev g"]
    buttons_safe [of "mouse_move ev g"]
  by (auto simp: pure_mouse_event_handler_def Let_def split: game_state.split)

definition packet_ok :: "mouse \<Rightarrow> bool" where
  "packet_ok m \<longleftrightarrow> nbytes m < 3 \<and> length (arr m) = 3"

lemma handler_packet:
  "nbytes (fst (pure_mouse_event_handler ev m g)) = nbytes m"
  "arr (fst (pure_mouse_event_handler ev m g)) = arr m"
  by (auto simp: pure_mouse_event_handler_def Let_def split: game_state.split)

text \<open>The byte of a mouse interrupt, with the conditions under which the handler accepts it.\<close>

definition next_byte :: "'d env \<Rightarrow> 'd \<Rightarrow> (u8 option) \<times> 'd" where
  "next_byte env d =
     (let (kbd_data, d) = keyboard_check env d in
      if kbd_data then (None, d) else
      let (full, d) = kbc_output_buf_full env d in
      if \<not> full then (None, d) else
      let (byte, d) = kbc_read_output_buffer env d; (err, d) = kbc_communication_error env d
      in (if err then None else Some byte, d))"

definition take_byte :: "u8 option \<Rightarrow> mouse \<Rightarrow> game \<Rightarrow> (mouse \<times> game) option" where
  "take_byte b m g =
     (let m = (if nbytes m = 0 then m\<lparr>arr := replicate 3 0\<rparr> else m) in
      case b of
        None \<Rightarrow> Some (m, g)
      | Some byte \<Rightarrow>
          if \<not> bit byte 3 \<and> nbytes m = 0 then Some (m, g)
          else if \<not> nbytes m < length (arr m) then None
          else
            let m = m\<lparr>arr := (arr m)[nbytes m := byte], nbytes := nbytes m + 1\<rparr>
            in if nbytes m = 3
               then map_option (\<lambda>(m, g). (m\<lparr>nbytes := 0\<rparr>, g))
                      (mouse_event_handler (decode_packet (arr m)) m g)
               else Some (m, g))"

lemma packet_done:
  "map_option (\<lambda>(m, g). (m, g, d)) (map_option (\<lambda>(m, g). (m\<lparr>nbytes := 0\<rparr>, g)) s) =
   map_option (\<lambda>(m, g). (m\<lparr>nbytes := 0\<rparr>, g, d)) s"
  by (cases s) (simp_all add: split_beta)

lemma mouse_ih_eq:
  "mouse_ih env m g d =
     (let (b, d) = next_byte env d in map_option (\<lambda>(m, g). (m, g, d)) (take_byte b m g))"
proof -
  obtain kd d1 where 1: "keyboard_check env d = (kd, d1)" by (metis surj_pair)
  obtain full d2 where 2: "kbc_output_buf_full env d1 = (full, d2)" by (metis surj_pair)
  obtain byte d3 where 3: "kbc_read_output_buffer env d2 = (byte, d3)" by (metis surj_pair)
  obtain err d4 where 4: "kbc_communication_error env d3 = (err, d4)" by (metis surj_pair)
  show ?thesis
    unfolding mouse_ih_def next_byte_def take_byte_def
    by (simp add: 1 2 3 4 Let_def u8_and_BIT packet_done)
qed

lemma take_byte_safe:
  assumes "mouse_safe g" "packet_ok m"
  shows "\<exists>m' g'. take_byte b m g = Some (m', g') \<and> mouse_safe g' \<and> packet_ok m'"
proof (cases b)
  case None
  then show ?thesis using assms by (simp add: take_byte_def packet_ok_def)
next
  case (Some byte)
  let ?m = "(if nbytes m = 0 then m\<lparr>arr := replicate 3 0\<rparr> else m)"
  let ?m' = "?m\<lparr>arr := (arr ?m)[nbytes m := byte], nbytes := nbytes m + 1\<rparr>"
  have "mouse_safe (snd (pure_mouse_event_handler (decode_packet (arr ?m')) ?m' g))"
    using assms(1) decode_small by (rule mouse_event_handler_safe)
  moreover have "grid_wf (game_matrix g)" using assms(1) by (simp add: mouse_safe_def inv_grid_wf)
  ultimately show ?thesis
    using assms Some handler_packet [of "decode_packet (arr ?m')" ?m' g]
    by (auto simp: take_byte_def packet_ok_def Let_def event_returns split_beta)
qed

lemma mouse_ih_safe:
  assumes "mouse_safe g" "packet_ok m"
  shows "\<exists>m' g' d'. mouse_ih env m g d = Some (m', g', d') \<and> mouse_safe g' \<and> packet_ok m'"
  using take_byte_safe [OF assms, of "fst (next_byte env d)"]
  by (auto simp: mouse_ih_eq split_beta)

interpretation mouse_events: safe_handler
  "\<lambda>(_ :: unit) (m, g, d). mouse_ih env m g d" "\<lambda>(m, g, d). mouse_safe g \<and> packet_ok m"
  by unfold_locales (use mouse_ih_safe in fastforce)


section \<open>Properties\<close>

definition idle_mouse :: mouse where
  "idle_mouse = \<lparr>mouse_hook_id = 12, nbytes = 0, arr = replicate 3 0, button_was_raised = True\<rparr>"

lemma play_game_mouse_safe: "mouse_safe play_game"
  using play_game_safe by (simp add: kbd_safe_eq)

text \<open>Whatever bytes the controller delivers, any number of mouse interrupts returns, never writes
  outside the packet of three bytes or the matrix of aliens, and keeps the invariant of the game, in
  particular the crosshair inside the screen.
\<close>

theorem mouse_interrupts_safe:
  assumes "mouse_safe g" "packet_ok m"
  shows "\<exists>m' g' d'. run_events (\<lambda>_ (m, g, d). mouse_ih env m g d) (replicate n ()) (m, g, d)
      = Some (m', g', d') \<and> game_inv g' \<and> packet_ok m'"
  using mouse_events.run_safe [of "(m, g, d)" env "replicate n ()"] assms
  by (auto simp: mouse_safe_def)

theorem mouse_interrupts_safe_witness:
  "\<exists>m' g' d'. run_events (\<lambda>_ (m, g, d). mouse_ih sim_env m g d) (replicate 5 ())
      (idle_mouse, play_game, sim0) = Some (m', g', d') \<and> game_inv g' \<and> packet_ok m'"
  by (rule mouse_interrupts_safe [OF play_game_mouse_safe]) (simp add: packet_ok_def idle_mouse_def)

lemma take_byte_three:
  assumes "nbytes m = 0" "bit b0 3"
  shows "take_byte (Some b0) m g = Some (m\<lparr>arr := [b0, 0, 0], nbytes := 1\<rparr>, g)"
    and "take_byte (Some b1) (m\<lparr>arr := [b0, 0, 0], nbytes := 1\<rparr>) g =
      Some (m\<lparr>arr := [b0, b1, 0], nbytes := 2\<rparr>, g)"
    and "take_byte (Some b2) (m\<lparr>arr := [b0, b1, 0], nbytes := 2\<rparr>) g =
      map_option (\<lambda>(m, g). (m\<lparr>nbytes := 0\<rparr>, g))
        (mouse_event_handler (decode_packet [b0, b1, b2]) (m\<lparr>arr := [b0, b1, b2], nbytes := 3\<rparr>) g)"
  using assms by (simp_all add: take_byte_def Let_def numeral_3_eq_3 numeral_2_eq_2)

text \<open>C18. Three consecutive bytes of the mouse, the first with bit 3 set, are delivered as one event:
  the handler sees the two displacements as nine-bit two's complement numbers with the sign bits of
  the first byte, the left button, and the overflow bits; then the assembly starts over.
\<close>

theorem mouse_packet_delivered:
  assumes "nbytes m = 0" "bit b0 3" "next_byte env d = (Some b0, da)"
    and "next_byte env da = (Some b1, db)" "next_byte env db = (Some b2, dc)"
  shows "\<exists>ev. run_events (\<lambda>_ (m, g, d). mouse_ih env m g d) [(), (), ()] (m, g, d) =
      map_option (\<lambda>(m, g). (m\<lparr>nbytes := 0\<rparr>, g, dc))
        (mouse_event_handler ev (m\<lparr>arr := [b0, b1, b2], nbytes := 3\<rparr>) g) \<and>
    sint (moveX ev) = uint b1 - (if bit b0 4 then 256 else 0) \<and>
    sint (moveY ev) = uint b2 - (if bit b0 5 then 256 else 0) \<and>
    lbdown ev = bit b0 0 \<and> overflow ev = (bit b0 6 \<or> bit b0 7)"
proof (intro exI conjI)
  show "run_events (\<lambda>_ (m, g, d). mouse_ih env m g d) [(), (), ()] (m, g, d) =
      map_option (\<lambda>(m, g). (m\<lparr>nbytes := 0\<rparr>, g, dc))
        (mouse_event_handler (decode_packet [b0, b1, b2]) (m\<lparr>arr := [b0, b1, b2], nbytes := 3\<rparr>) g)"
    using assms(3-5) take_byte_three [OF assms(1,2)]
    by (simp add: mouse_ih_eq packet_done)
qed (simp_all add: decode_moves)

text \<open>A mouse whose status always reads as a byte of the mouse and which sends three bytes.\<close>

definition packet_sim :: sim where
  "packet_sim = sim0\<lparr>sim_in := [0x21, 0x21, 0x19, 0x21, 0x21, 0x21, 0xF0, 0x21, 0x21, 0x21, 0x05, 0x21]\<rparr>"

lemmas kbc_status_defs = next_byte_def keyboard_check_def kbc_output_buf_full_def
  kbc_read_output_buffer_def kbc_communication_error_def util_sys_inb_def

theorem mouse_packet_delivered_witness:
  "\<exists>ev. run_events (\<lambda>_ (m, g, d). mouse_ih sim_env m g d) [(), (), ()] (idle_mouse, play_game, packet_sim) =
      map_option (\<lambda>(m, g). (m\<lparr>nbytes := 0\<rparr>, g, sim0))
        (mouse_event_handler ev (idle_mouse\<lparr>arr := [0x19, 0xF0, 0x05], nbytes := 3\<rparr>) play_game) \<and>
    sint (moveX ev) = uint (0xF0 :: u8) - (if bit (0x19 :: u8) 4 then 256 else 0) \<and>
    sint (moveY ev) = uint (0x05 :: u8) - (if bit (0x19 :: u8) 5 then 256 else 0) \<and>
    lbdown ev = bit (0x19 :: u8) 0 \<and> overflow ev = (bit (0x19 :: u8) 6 \<or> bit (0x19 :: u8) 7)"
  by (rule mouse_packet_delivered
      [where da = "sim0\<lparr>sim_in := [0x21, 0x21, 0xF0, 0x21, 0x21, 0x21, 0x05, 0x21]\<rparr>"
         and db = "sim0\<lparr>sim_in := [0x21, 0x21, 0x05, 0x21]\<rparr>"])
    (simp_all add: idle_mouse_def kbc_status_defs packet_sim_def sim0_def port_consts BIT_def)

text \<open>C19. An event moves the crosshair by its displacement, up being negative, and stops it at the
  borders: after any packet without overflow its coordinates are the exact sums clamped to
  \<open>32 \<le> x < 768\<close> and \<open>32 \<le> y < 568\<close>, with no wrap-around of the 16-bit values.
\<close>

theorem crosshair_clamped:
  assumes "mouse_ok g" "grid_wf (game_matrix g)" "small_move ev" "\<not> overflow ev"
  shows "\<exists>m' g'. mouse_event_handler ev m g = Some (m', g') \<and>
    sint (mouse_x g') = clamp 32 768 (sint (mouse_x g) + sint (moveX ev)) \<and>
    sint (mouse_y g') = clamp 32 568 (sint (mouse_y g) - sint (moveY ev))"
  using event_position [OF assms(4), of m g] mouse_move_clamps [OF assms(1,3)]
  by (simp add: event_returns [OF assms(2)] prod_eq_iff)

theorem crosshair_clamped_witness:
  "\<exists>m' g'. mouse_event_handler \<lparr>moveX = -200, moveY = 100, lbdown = False, overflow = False\<rparr>
      idle_mouse play_game = Some (m', g') \<and>
    sint (mouse_x g') = clamp 32 768 (sint (mouse_x play_game) + sint (-200 :: i16))"
  using crosshair_clamped [of play_game
      "\<lparr>moveX = -200, moveY = 100, lbdown = False, overflow = False\<rparr>" idle_mouse]
    play_game_facts(1)
  by (auto simp: game_inv_def grid_ok_def small_move_def)

text \<open>The centre of the crosshair lies in the rectangle of a cell, in the coordinates of the screen.\<close>

definition aims_at :: "game \<Rightarrow> nat \<times> nat \<Rightarrow> bool" where
  "aims_at g p \<longleftrightarrow>
     15 + 70 * int (snd p) \<le> sint (mouse_x g) \<and> sint (mouse_x g) < 15 + 70 * (int (snd p) + 1) \<and>
     95 + 70 * int (fst p) \<le> sint (mouse_y g) \<and> sint (mouse_y g) < 95 + 70 * (int (fst p) + 1)"

lemma aims_at_unique: "aims_at g p \<Longrightarrow> aims_at g q \<Longrightarrow> p = q"
  by (cases p; cases q) (auto simp: aims_at_def)

lemma aims_at_cell: "mouse_ok g \<Longrightarrow> 95 \<le> sint (mouse_y g) \<Longrightarrow> aims_at g (aimed_cell g)"
  by (auto simp: aims_at_def aimed_cell_def mouse_ok_def)

text \<open>While the button is held down nothing is shot.\<close>

lemma held_button:
  assumes "\<not> button_was_raised m" "game_state g = PLAYING" "\<forall>ev \<in> set evs. lbdown ev"
  shows "\<exists>m' g'. run_events (\<lambda>ev (m, g). mouse_event_handler ev m g) evs (m, g) = Some (m', g') \<and>
    game_matrix g' = game_matrix g \<and> points g' = points g"
  using assms
proof (induction evs arbitrary: g)
  case (Cons ev evs)
  have "mouse_event_handler ev m g = Some (m, if overflow ev then g else mouse_move ev g)"
    using Cons.prems by (simp add: mouse_event_handler_def Let_def mouse_move_eq)
  then show ?case
    using Cons.prems Cons.IH [of "if overflow ev then g else mouse_move ev g"]
    by (simp add: mouse_move_eq split: if_splits)
qed simp

text \<open>C11. A click while playing shoots the cell under the crosshair and nothing else. Let the crosshair,
  after the movement of the event, be at or below the upper border of the field: then its centre lies
  in the rectangle of exactly one cell of the matrix, and when an alien is appearing or alive there it
  starts to die and the score grows by one, otherwise matrix and score stay as they are; and however
  many events follow while the button is held down, none of them shoots. (Above the field the code
  shoots too, which is a property of its own.)
\<close>

theorem click_shoots_once:
  assumes "game_inv g" "game_state g = PLAYING" "button_was_raised m"
    and "small_move ev" "lbdown ev" "\<not> overflow ev"
    and "95 \<le> clamp 32 568 (sint (mouse_y g) - sint (moveY ev))" "\<forall>e \<in> set held. lbdown e"
  shows "\<exists>m1 g1 m2 g2 p. mouse_event_handler ev m g = Some (m1, g1) \<and>
    run_events (\<lambda>ev (m, g). mouse_event_handler ev m g) held (m1, g1) = Some (m2, g2) \<and>
    in_grid p \<and> aims_at g1 p \<and> (\<forall>q. aims_at g1 q \<longrightarrow> q = p) \<and>
    (if threatens (cell (game_matrix g) p)
     then game_matrix g1 = set_cell p \<lparr>astate = DEAD_1, time = 2\<rparr> (game_matrix g) \<and>
       points g1 = points g + 1
     else game_matrix g1 = game_matrix g \<and> points g1 = points g) \<and>
    game_matrix g2 = game_matrix g1 \<and> points g2 = points g1"
proof -
  let ?g = "mouse_move ev g" and ?m = "m\<lparr>button_was_raised := False\<rparr>"
  let ?g1 = "pure_mouse_check_kill ?g" and ?p = "aimed_cell (mouse_move ev g)"
  have ok0: "mouse_ok g" using assms(1) by (simp add: game_inv_def)
  have ok: "mouse_ok ?g" and y: "95 \<le> sint (mouse_y ?g)"
    using mouse_move_clamps [OF ok0 assms(4)] assms(7) by simp_all
  have s1: "mouse_event_handler ev m g = Some (?m, ?g1)"
    unfolding event_returns [OF inv_grid_wf [OF assms(1)]]
    using assms(2,3,5,6) by (simp add: pure_mouse_event_handler_def Let_def mouse_move_eq)
  have "game_state ?g1 = PLAYING" using assms(2) by (simp add: mouse_check_kill_frame mouse_move_eq)
  then obtain m2 g2 where s2:
    "run_events (\<lambda>ev (m, g). mouse_event_handler ev m g) held (?m, ?g1) = Some (m2, g2)"
    "game_matrix g2 = game_matrix ?g1" "points g2 = points ?g1"
    using held_button [of ?m ?g1 held] assms(8) by auto
  have "aims_at ?g1 ?p"
    using aims_at_cell [OF ok y] by (simp add: aims_at_def check_kill_position)
  moreover have "if threatens (cell (game_matrix g) ?p)
     then game_matrix ?g1 = set_cell ?p \<lparr>astate = DEAD_1, time = 2\<rparr> (game_matrix g) \<and> points ?g1 = points g + 1
     else game_matrix ?g1 = game_matrix g \<and> points ?g1 = points g"
    by (simp add: mouse_check_kill_eq [OF ok]) (simp add: mouse_move_eq)
  ultimately show ?thesis using s1 s2 aimed_in_grid [OF ok] aims_at_unique by blast
qed

theorem click_shoots_once_witness:
  "\<exists>m1 g1 m2 g2. mouse_event_handler \<lparr>moveX = 0, moveY = -40, lbdown = True, overflow = False\<rparr>
      idle_mouse play_game = Some (m1, g1) \<and>
    run_events (\<lambda>ev (m, g). mouse_event_handler ev m g)
      (replicate 9 \<lparr>moveX = 0, moveY = 0, lbdown = True, overflow = False\<rparr>) (m1, g1) = Some (m2, g2) \<and>
    game_matrix g2 = set_cell (3, 5) \<lparr>astate = DEAD_1, time = 2\<rparr> (game_matrix play_game) \<and> points g2 = 1"
proof -
  let ?ev = "\<lparr>moveX = 0, moveY = -40, lbdown = True, overflow = False\<rparr> :: mouse_event"
  let ?held = "replicate 9 \<lparr>moveX = 0, moveY = 0, lbdown = True, overflow = False\<rparr> :: mouse_event list"
  have xy: "sint (mouse_x play_game) = 400" "sint (mouse_y play_game) = 300"
    by (simp_all add: play_game_def put_alien_def game_initialize_def game_reset_def Let_def game_consts)
  have hyp: "small_move ?ev" "lbdown ?ev" "\<not> overflow ?ev" "\<forall>e \<in> set ?held. lbdown e" "button_was_raised idle_mouse"
    "95 \<le> clamp 32 568 (sint (mouse_y play_game) - sint (moveY ?ev))"
    by (simp_all add: small_move_def idle_mouse_def clamp_def xy)
  obtain m1 g1 m2 g2 p where run: "mouse_event_handler ?ev idle_mouse play_game = Some (m1, g1)"
      "run_events (\<lambda>ev (m, g). mouse_event_handler ev m g) ?held (m1, g1) = Some (m2, g2)"
      "game_matrix g2 = game_matrix g1" "points g2 = points g1"
    and only: "\<And>q. aims_at g1 q \<Longrightarrow> q = p"
    and shot: "if threatens (cell (game_matrix play_game) p)
     then game_matrix g1 = set_cell p \<lparr>astate = DEAD_1, time = 2\<rparr> (game_matrix play_game) \<and>
       points g1 = points play_game + 1
     else game_matrix g1 = game_matrix play_game \<and> points g1 = points play_game"
    using click_shoots_once [OF play_game_facts(1,2) hyp(5,1,2,3,6,4)] by blast
  have g1: "snd (pure_mouse_event_handler ?ev idle_mouse play_game) = g1"
    using event_Some [OF run(1)] by (metis snd_conv)
  have "mouse_ok play_game" using play_game_facts(1) by (simp add: game_inv_def)
  then have "sint (mouse_x g1) = 400" "sint (mouse_y g1) = 340"
    using event_position [OF hyp(3), of idle_mouse play_game] mouse_move_clamps [of play_game ?ev] hyp(1) xy
    unfolding g1 by (simp_all add: clamp_def)
  then have "(3, 5) = p" by (intro only) (simp add: aims_at_def)
  with shot run play_game_facts show ?thesis by (auto simp: threatens_def)
qed

text \<open>C40. The division of the code rounds towards zero, so the guard against negative rows never
  applies: a click in the strip of 63 lines above the field, where no alien is drawn, shoots the
  alien of the first row of its column.
\<close>

theorem click_above_field_shoots:
  assumes "mouse_ok g" "grid_wf (game_matrix g)" "sint (mouse_y g) < GAME_VERTICAL_MARGIN"
    and "threatens (cell (game_matrix g) (0, nat (sint (mouse_x g) - 15) div 70))"
  shows "\<exists>g'. mouse_check_kill g = Some g' \<and> points g' = points g + 1 \<and>
    game_matrix g' =
      set_cell (0, nat (sint (mouse_x g) - 15) div 70) \<lparr>astate = DEAD_1, time = 2\<rparr> (game_matrix g)"
  using assms(3,4)
  by (simp add: check_kill_returns [OF assms(2)] mouse_check_kill_eq [OF assms(1)] aimed_cell_def game_consts)

definition strip_game :: game where
  "strip_game = put_alien (0, 5) \<lparr>astate = ALIVE, time = 100\<rparr> (play_game\<lparr>mouse_x := 400, mouse_y := 40\<rparr>)"

theorem click_above_field_shoots_witness:
  "\<exists>g'. mouse_check_kill strip_game = Some g' \<and> points g' = points strip_game + 1"
proof -
  have wf: "grid_wf (game_matrix play_game)" using play_game_facts by (simp add: inv_grid_wf)
  then have c: "cell (game_matrix strip_game) (0, 5) = \<lparr>astate = ALIVE, time = 100\<rparr>"
    by (simp add: strip_game_def grid.get_put in_grid_def game_consts)
  have x: "mouse_x strip_game = 400" "mouse_y strip_game = 40" by (simp_all add: strip_game_def put_alien_def)
  have "mouse_ok play_game" using play_game_facts by (simp add: game_inv_def)
  then have "mouse_ok strip_game" by (simp add: strip_game_def mouse_ok_def put_alien_def)
  moreover have "grid_wf (game_matrix strip_game)" using wf by (simp add: strip_game_def grid.wf_put)
  ultimately show ?thesis
    using click_above_field_shoots [of strip_game] c x by (auto simp: game_consts threatens_def)
qed

text \<open>The acknowledgement loop compares its variable before anything was read into it: when that
  variable happens to hold the acknowledgement code, the loop reports success after one look at a
  status register that says that no byte has arrived.
\<close>

theorem read_ACK_byte_uninitialised:
  assumes "junk d = ACK" "util_sys_inb env KBC_STAT_REG d = (OK, stat, d')" "\<not> bit stat 0"
  shows "read_ACK_byte env junk d = Some (0, d')"
  using assms by (simp add: read_ACK_byte_def read_ACK_loop.simps port_consts u8_and_BIT)

theorem read_ACK_byte_uninitialised_witness:
  "read_ACK_byte (fixed_env (\<lambda>_. 0)) (\<lambda>_. ACK) [] = Some (0, [])"
  by (rule read_ACK_byte_uninitialised [where stat = 0]) (simp_all add: util_sys_inb_def)

text \<open>C36. When the controller is ready and the mouse acknowledges every command, enabling data reporting
  writes exactly the two commands, each announced by the command that addresses the mouse, and
  returns success.
\<close>

theorem enable_data_reporting_sequence:
  assumes "io_traced env log"
    and "\<forall>d. \<not> fst (kbc_input_buf_full env d)"
    and "\<forall>d. \<exists>d'. read_ACK_byte env junk d = Some (0, d') \<and> log d' = log d"
  shows "\<exists>d'. mouse_enable_data_reporting env junk d = Some (0, d') \<and>
    log d' = log d @ [(0x64, 0xD4), (0x60, 0xEA), (0x64, 0xD4), (0x60, 0xF4)]"
proof -
  have cmd: "\<exists>d'. mouse_command_loop env junk c d = Some (0, d') \<and>
      log d' = log d @ [(0x64, 0xD4), (0x60, c)]" for c d
  proof -
    let ?d1 = "wr_mouse_loop env 10 d"
    have "?d1 = snd (sys_outb env KBC_STAT_REG WR_MOUSE (snd (kbc_input_buf_full env d)))"
      using assms(2) by (simp add: numeral_eq_Suc split_beta)
    then have "log (snd (sys_outb env KBC_OUT_BUF c ?d1)) = log d @ [(0x64, 0xD4), (0x60, c)]"
      by (simp add: io_tracedD [OF assms(1)] input_buf_full_log [OF assms(1)] port_consts)
    then show ?thesis
      using assms(3) [rule_format, of "snd (sys_outb env KBC_OUT_BUF c ?d1)"]
      by (subst mouse_command_loop.simps) auto
  qed
  obtain d1 where d1: "mouse_command_loop env junk STREAM_MODE d = Some (0, d1)"
      "log d1 = log d @ [(0x64, 0xD4), (0x60, STREAM_MODE)]"
    using cmd by blast
  then show ?thesis
    using cmd [of DATA_REPORT d1] 
    by (auto simp: mouse_enable_data_reporting_def STREAM_MODE_def DATA_REPORT_def)
qed

theorem enable_data_reporting_sequence_witness:
  "\<exists>d'. mouse_enable_data_reporting (fixed_env (\<lambda>p. if p = 0x64 then 1 else 0xFA)) (\<lambda>_. 0) [] = Some (0, d') \<and>
    d' = [] @ [(0x64, 0xD4), (0x60, 0xEA), (0x64, 0xD4), (0x60, 0xF4)]"
  by (rule enable_data_reporting_sequence [OF fixed_env_traced])
    (simp_all add: kbc_input_buf_full_def util_sys_inb_def port_consts read_ACK_byte_def
      read_ACK_loop.simps BIT_def)

end
