(* ===== verification/Texts.thy ===== *)
theory Texts
  imports Screens Mouse
begin

text \<open>
  The text on the screens. A text is laid out in lines, 32 pixels apart, and a line from left to right,
  32 pixels for a character and 20 for a space; \<^verbatim>\<open>vg_draw_str\<close>, which moves one cursor over the
  string, paints exactly these characters. With it all screens of the game are specified.
\<close>

section \<open>The layout of a text\<close>

definition char_width :: "char \<Rightarrow> nat" where
  "char_width c = (if c = CHR 0x20 then 20 else 32)"

definition glyph_layers :: "video \<Rightarrow> nat \<Rightarrow> nat \<Rightarrow> char \<Rightarrow> layer list" where
  "glyph_layers v x y c =
     (case glyph v c of Some (Some s, e) \<Rightarrow> [(False, s, x + nat e, y + nat e)] | _ \<Rightarrow> [])"

fun line_layers :: "video \<Rightarrow> nat \<Rightarrow> nat \<Rightarrow> string \<Rightarrow> layer list" where
  "line_layers v x y [] = []"
| "line_layers v x y (c # cs) = glyph_layers v x y c @ line_layers v (x + char_width c) y cs"

fun lines_layers :: "video \<Rightarrow> nat \<Rightarrow> nat \<Rightarrow> string list \<Rightarrow> layer list" where
  "lines_layers v x y [] = []"
| "lines_layers v x y (l # ls) = line_layers v x y l @ lines_layers v x (y + 32) ls"

fun text_lines :: "string \<Rightarrow> string list" where
  "text_lines [] = [[]]"
| "text_lines (c # cs) =
     (if c = NL then [] # text_lines cs
      else case text_lines cs of [] \<Rightarrow> [[c]] | l # ls \<Rightarrow> (c # l) # ls)"

definition text_layers :: "video \<Rightarrow> nat \<Rightarrow> nat \<Rightarrow> string \<Rightarrow> layer list" where
  "text_layers v x y t = lines_layers v x y (text_lines t)"

definition line_width :: "string \<Rightarrow> nat" where
  "line_width l = sum_list (map char_width l)"

definition text_fits :: "nat \<Rightarrow> nat \<Rightarrow> string \<Rightarrow> bool" where
  "text_fits x y t \<longleftrightarrow> list_all (\<lambda>l. x + line_width l \<le> 800) (text_lines t) \<and> y + 32 * length (text_lines t) \<le> 600"

lemma text_lines_ne [simp]: "text_lines t \<noteq> []"
  by (cases t) (simp_all split: list.split)

lemma text_lines_line: "NL \<notin> set l \<Longrightarrow> text_lines (l @ NL # t) = l # text_lines t"
  by (induction l) auto

lemma text_lines_last: "NL \<notin> set l \<Longrightarrow> text_lines l = [l]"
  by (induction l) auto

lemma line_width_bound: "line_width l \<le> 32 * length l"
  by (induction l) (auto simp: line_width_def char_width_def)

lemma line_width_Cons [simp]: "line_width (c # l) = char_width c + line_width l"
  by (simp add: line_width_def)

lemma glyph_buffer [simp]: "glyph (v\<lparr>buffer := m\<rparr>) = glyph v" "glyph (v\<lparr>str := t\<rparr>) = glyph v"
  by (intro ext, simp add: glyph_def Let_def)+

lemma line_layers_cong: "glyph u = glyph v \<Longrightarrow> line_layers u x y l = line_layers v x y l"
  by (induction l arbitrary: x) (simp_all add: glyph_layers_def)

lemma lines_layers_cong: "glyph u = glyph v \<Longrightarrow> lines_layers u x y ls = lines_layers v x y ls"
  by (induction ls arbitrary: y) (simp_all add: line_layers_cong [of u v])

lemma text_layers_cong: "glyph u = glyph v \<Longrightarrow> text_layers u x y t = text_layers v x y t"
  unfolding text_layers_def by (rule lines_layers_cong)

lemma text_layers_buffer [simp]:
  "text_layers (v\<lparr>buffer := m\<rparr>) x y s = text_layers v x y s" "text_layers (v\<lparr>str := t\<rparr>) x y s = text_layers v x y s"
  by (intro text_layers_cong, simp)+

section \<open>Drawing a string\<close>

text \<open>A character that has a picture fills its place, or for the colon the middle of it.\<close>

lemma glyph_sized:
  assumes "sized g v" "glyph v c = Some (so, e)"
  shows "\<exists>s. so = Some s \<and> (e = 0 \<and> image_of 32 32 s \<or> e = 8 \<and> image_of 16 16 s)"
  using assms(2) sizedD [OF assms(1)] unfolding glyph_def Let_def by (auto split: if_splits)

lemma glyph_blank [simp]: "glyph v NL = None" "glyph v (CHR 0x20) = None"
  by (simp_all add: glyph_def)

lemma letter_size:
  assumes "sized g v"
  shows "uint (width (letters_sprites v ! 0)) = 32" "uint (height (letters_sprites v ! 0)) = 32"
  using sizedD(23) [OF assms, of 0] uint_nat [of "width (letters_sprites v ! 0)"]
    uint_nat [of "height (letters_sprites v ! 0)"] by (simp_all add: image_of_def)

lemma put_glyph:
  assumes v: "sized g v" and c: "glyph v c = Some (Some s, e)" and "x + 32 \<le> 800" "y + 32 \<le> 600"
  obtains mem where "put_sprite s (word_of_int (int x + e)) (word_of_int (int y + e)) v = Some (v\<lparr>buffer := mem\<rparr>)"
    "shown v (buffer v) (glyph_layers v x y c) mem"
proof -
  obtain k where e: "e = int k" "k = 0 \<and> image_of 32 32 s \<or> k = 8 \<and> image_of 16 16 s"
    using glyph_sized [OF v c] by (auto intro: that [of 0] that [of 8])
  have w: "word_of_int (int n + e) = (of_nat (n + k) :: u16)" for n using e(1) by simp
  have u: "unat (of_nat (x + k) :: u16) = x + k" "unat (of_nat (y + k) :: u16) = y + k"
    unfolding unat_of_nat using assms(3,4) e(2) by auto
  have "inside (False, s, unat (of_nat (x + k) :: u16), unat (of_nat (y + k) :: u16))"
    unfolding u using assms(3,4) e(2) by (auto intro: image_inside)
  then have "paints g (\<lambda>v. put_sprite s (of_nat (x + k)) (of_nat (y + k)) v) (\<lambda>v. [(False, s, x + k, y + k)])"
    using paints_put [of g "\<lambda>v. s" "\<lambda>v. of_nat (x + k)" "\<lambda>v. of_nat (y + k)"] unfolding u by blast
  then obtain mem where "put_sprite s (of_nat (x + k)) (of_nat (y + k)) v = Some (v\<lparr>buffer := mem\<rparr>)"
      "shown v (buffer v) [(False, s, x + k, y + k)] mem"
    using v by (rule paintsE)
  with that [of mem] c e(1) show ?thesis unfolding w by (simp add: glyph_layers_def)
qed

text \<open>
  The cursor is in the middle of a line: its rest, and the lines below it from the left margin \<open>z\<close>.
\<close>

lemma draw_chars_paints:
  assumes "sized g v" "text_lines cs = l # ls"
    and "x + line_width l \<le> 800" "list_all (\<lambda>l. z + line_width l \<le> 800) ls" "y + 32 * Suc (length ls) \<le> 600"
  shows "\<exists>mem. draw_chars cs (int z) (int x) (int y) v = Some (v\<lparr>buffer := mem\<rparr>) \<and>
    shown v (buffer v) (line_layers v x y l @ lines_layers v z (y + 32) ls) mem"
  using assms
proof (induction cs arbitrary: x y v l ls)
  case Nil
  then show ?case by (intro exI [of _ "buffer v"]) auto
next
  case (Cons c cs)
  note size = letter_size [OF Cons.prems(1)]
  have ne: "letters_sprites v \<noteq> []" using sizedD(20) [OF Cons.prems(1)] by auto
  obtain m ms where ms: "text_lines cs = m # ms" by (cases "text_lines cs") simp_all
  show ?case
  proof (cases "c = NL")
    case True
    with Cons.prems(2) ms have "l = []" "ls = m # ms" by auto
    with Cons.IH [of v m ms z "y + 32"] Cons.prems ms True ne size show ?thesis
      by (simp add: Let_def add.commute)
  next
    case False
    with Cons.prems(2) ms have l: "l = c # m" "ls = ms" by auto
    show ?thesis
    proof (cases "glyph v c")
      case None
      then have "draw_chars (c # cs) (int z) (int x) (int y) v = draw_chars cs (int z) (int (x + char_width c)) (int y) v"
        using False ne size by (simp add: Let_def char_width_def add.commute)
      with None l Cons.IH [of v m ms "x + char_width c" y] Cons.prems ms show ?thesis
        by (simp add: glyph_layers_def add.assoc)
    next
      case (Some r)
      then obtain s e where r: "glyph v c = Some (Some s, e)" using glyph_sized [OF Cons.prems(1)] by (cases r) blast
      have adv: "char_width c = 32" using r by (auto simp: char_width_def)
      have fit: "x + 32 \<le> 800" "y + 32 \<le> 600" using Cons.prems(3,5) l adv by simp_all
      obtain m1 where m1: "put_sprite s (word_of_int (int x + e)) (word_of_int (int y + e)) v = Some (v\<lparr>buffer := m1\<rparr>)"
          "shown v (buffer v) (glyph_layers v x y c) m1"
        using put_glyph [OF Cons.prems(1) r fit] .
      obtain m2 where m2: "draw_chars cs (int z) (int (x + 32)) (int y) (v\<lparr>buffer := m1\<rparr>) = Some (v\<lparr>buffer := m2\<rparr>)"
          "shown v m1 (line_layers v (x + 32) y m @ lines_layers v z (y + 32) ms) m2"
        using Cons.IH [OF sized_shown [OF Cons.prems(1) m1(2)] ms, of "x + 32" y] Cons.prems l adv
        by (auto simp: line_layers_cong [OF glyph_buffer(1)] lines_layers_cong [OF glyph_buffer(1)])
      show ?thesis
        using m1(1) m2(1) shown_trans [OF m1(2) m2(2)] r ne size l adv
        by (intro exI [of _ m2]) (simp add: Let_def)
    qed
  qed
qed

lemma paints_str:
  assumes "c_terminated t" "text_fits x y (c_str t)"
  shows "paints g (vg_draw_str t (int x) (int y)) (\<lambda>v. text_layers v x y (c_str t))"
proof (rule paintsI)
  fix v assume v: "sized g v"
  obtain l ls where l: "text_lines (c_str t) = l # ls" by (cases "text_lines (c_str t)") simp_all
  show "\<exists>mem. vg_draw_str t (int x) (int y) v = Some (v\<lparr>buffer := mem\<rparr>) \<and>
      shown v (buffer v) (text_layers v x y (c_str t)) mem"
    using draw_chars_paints [OF v l, of x x y] assms by (simp add: vg_draw_str_def text_fits_def text_layers_def l)
qed

section \<open>The screens with text\<close>

definition corner_layers :: "video \<Rightarrow> layer list" where
  "corner_layers v =
     [(False, lb_corners v ! 0, 1, 1), (False, lb_corners v ! 1, 702, 1), (False, lb_corners v ! 2, 702, 502),
      (False, lb_corners v ! 3, 1, 502)]"

definition board_text :: "leaderboard \<Rightarrow> string" where
  "board_text L = ''LEADERBOARD'' @ [NL, NL, NL] @ concat (map (lb_row L) (rev [0..<10]))"

definition frame_layers :: "game \<Rightarrow> video \<Rightarrow> layer list" where
  "frame_layers g v =
     (case game_state g of
        LB_INPUT \<Rightarrow> text_layers v 100 100 (c_str (input_message g)) @ text_layers v 352 132 (c_str (name g)) @
          [crosshair_layer g v]
      | LEADERBOARD \<Rightarrow> corner_layers v @ text_layers v 230 30 (board_text (LB g)) @
          text_layers v 50 484 ''PRESS ENTER TO CONTINUE'' @ [crosshair_layer g v]
      | _ \<Rightarrow> screen_layers g v)"

lemma frame_layers_buffer [simp]: "frame_layers g (v\<lparr>buffer := m\<rparr>) = frame_layers g v"
  by (cases "game_state g") (simp_all add: frame_layers_def corner_layers_def)

text \<open>While the name is typed, the message above it is the one that the end of the game has put there.\<close>

definition message_ok :: "game \<Rightarrow> bool" where
  "message_ok g \<longleftrightarrow> (game_state g = LB_INPUT \<longrightarrow> (\<exists>n < 1000. c_str (input_message g) = score_message n True))"

lemma message_fits: "n < 1000 \<Longrightarrow> text_fits 100 100 (score_message n True)"
proof -
  assume n: "n < 1000"
  let ?l = "''SCORE:   '' @ dec_nat n"
  have "NL \<notin> set ?l" using dec_nat_digits [of NL n] by (auto simp: is_digit_def)
  then have "text_lines (score_message n True) = [?l, ''NAME:   '', [], ''TYPE AND PRESS ENTER'']"
    using text_lines_line [of ?l "''NAME:   '' @ [NL, NL] @ ''TYPE AND PRESS ENTER''"]
    by (simp add: score_message_def)
  moreover have "line_width ?l \<le> 32 * 12"
    using line_width_bound [of ?l] dec_nat_length_le [of n 2] n by simp
  ultimately show ?thesis by (simp add: text_fits_def line_width_def char_width_def)
qed

lemma name_fits:
  assumes "typed s"
  shows "text_fits 352 132 s"
proof -
  have "NL \<notin> set s" using assms name_chars_plain(2) by (auto simp: typed_def)
  then show ?thesis
    using line_width_bound [of s] assms by (simp add: text_fits_def typed_def text_lines_last)
qed

lemma text_lines_rows:
  "\<forall>l \<in> set ls. NL \<notin> set l \<Longrightarrow> text_lines (concat (map (\<lambda>l. l @ [NL]) ls)) = ls @ [[]]"
  by (induction ls) (simp_all add: text_lines_line)

lemma board_fits:
  assumes wf: "lb_wf L" and plain: "plain_names L"
  shows "text_fits 230 30 (board_text L)"
proof -
  let ?r = "\<lambda>i. pad4 (unat (scores L ! i)) @ CHR ''-'' # c_str (names L ! i)"
  let ?ls = "[''LEADERBOARD'', [], []] @ map ?r (rev [0..<10])"
  have row: "NL \<notin> set (?r i)" "length (?r i) \<le> 11" if "i < 10" for i
    using plain_namesD [OF plain wf that] lb_row_length [OF wf that] dec_nat_digits [of NL "unat (scores L ! i)"]
    by (auto simp: pad4_def lb_row_def is_digit_def)
  have "board_text L = concat (map (\<lambda>l. l @ [NL]) ?ls)"
    by (simp add: board_text_def lb_row_def [abs_def] comp_def)
  moreover have "\<forall>l \<in> set ?ls. NL \<notin> set l" using row(1) by auto
  ultimately have lines: "text_lines (board_text L) = ?ls @ [[]]" using text_lines_rows [of ?ls] by simp
  have "length l \<le> 11" if "l \<in> set (?ls @ [[]])" for l using that row(2) by auto
  then have "230 + line_width l \<le> 800" if "l \<in> set (?ls @ [[]])" for l
    using line_width_bound [of l] that by fastforce
  then show ?thesis unfolding text_fits_def lines list_all_iff by simp
qed

lemma paints_input:
  assumes "mouse_safe g" "message_ok g" "game_state g = LB_INPUT"
  shows "paints g (vg_draw_input_screen g) (frame_layers g)"
proof -
  have inv: "mouse_ok g" "c_terminated (input_message g)" using assms(1) by (simp_all add: mouse_safe_def game_inv_defs)
  obtain n where n: "n < 1000" "c_str (input_message g) = score_message n True"
    using assms(2,3) by (auto simp: message_ok_def)
  obtain s where s: "name g = lb_name s" "typed s" using assms(1) by (auto simp: mouse_safe_def name_ok_def)
  have msg: "paints g (vg_draw_str (input_message g) 100 100) (\<lambda>v. text_layers v 100 100 (c_str (input_message g)))"
    using paints_str [OF inv(2), of 100 100 g] message_fits [OF n(1)] n(2) by simp
  have "paints g (vg_draw_str (name g) 352 132) (\<lambda>v. text_layers v 352 132 (c_str (name g)))"
    using paints_str [of "name g" 352 132 g] name_fits [OF s(2)] s typed_holds [OF s(2)] by (simp add: c_holds_def)
  then have nm: "paints g (\<lambda>v. if name g ! 0 \<noteq> NUL then vg_draw_str (name g) (8 * uint (width (letters_sprites v ! 0)) + 96)
        (uint (height (letters_sprites v ! 0)) + 100) v else Some v) (\<lambda>v. text_layers v 352 132 (c_str (name g)))"
  proof (cases "s = []")
    case True
    then show ?thesis
      using s by (intro paints_cong [OF _ paints_none]) (simp add: lb_name_def text_layers_def c_str_def)
  next
    case False
    assume "paints g (vg_draw_str (name g) 352 132) (\<lambda>v. text_layers v 352 132 (c_str (name g)))"
    then show ?thesis
      by (rule paints_cong [rotated]) (use False lb_name_nth [OF s(2), of 0] s(1) in \<open>simp add: letter_size\<close>)
  qed
  show ?thesis
    using paints_bind [OF msg paints_bind [OF nm paints_crosshair [OF inv(1)]]] assms(3)
    by (simp add: vg_draw_input_screen_def [abs_def] frame_layers_def [abs_def])
qed

lemma paints_corners:
  "paints g (\<lambda>v. do {
        v \<leftarrow> put_sprite (lb_corners v ! 0) 1 1 v;
        v \<leftarrow> put_sprite (lb_corners v ! 1) 702 1 v;
        v \<leftarrow> put_sprite (lb_corners v ! 2) 702 502 v;
        put_sprite (lb_corners v ! 3) 1 502 v
      }) corner_layers"
proof -
  have corner: "paints g (\<lambda>v. put_sprite (lb_corners v ! i) x y v) (\<lambda>v. [(False, lb_corners v ! i, unat x, unat y)])"
    if "i < 4" "unat x \<le> 702" "unat y \<le> 502" for i and x y :: u16
    using that by (intro paints_put image_inside [OF sizedD(25)]) simp_all
  show ?thesis
    using paints_bind [OF corner [of 0 1 1] paints_bind [OF corner [of 1 702 1] paints_bind [OF corner [of 2 702 502]
      corner [of 3 1 502]]]]
    by (simp add: corner_layers_def [abs_def])
qed

lemma shown_str [simp]: "shown (v\<lparr>str := t\<rparr>) = shown v"
proof -
  have "pixels (v\<lparr>str := t\<rparr>) = pixels v" by (intro ext) (simp add: pixels_def pixel_at_def)
  then show ?thesis by (intro ext) (simp add: shown_def agree_def)
qed

text \<open>The table, its last line and the crosshair, once its text is in the array \<open>t\<close>.\<close>

definition draw_table :: "game \<Rightarrow> char list \<Rightarrow> video \<Rightarrow> video option" where
  "draw_table g t v = do {
     v \<leftarrow> vg_draw_str t 230 30 v;
     v \<leftarrow> vg_draw_str (c_lit ''PRESS ENTER TO CONTINUE'') 50 (100 + 12 * uint (height (letters_sprites v ! 0))) v;
     vg_draw_crosshair 1 g v
   }"

definition table_layers :: "game \<Rightarrow> video \<Rightarrow> layer list" where
  "table_layers g v = text_layers v 230 30 (board_text (LB g)) @ text_layers v 50 484 ''PRESS ENTER TO CONTINUE'' @
     [crosshair_layer g v]"

lemma table_layers_buffer [simp]: "table_layers g (v\<lparr>buffer := m\<rparr>) = table_layers g v"
    "table_layers g (v\<lparr>str := t\<rparr>) = table_layers g v"
  by (simp_all add: table_layers_def crosshair_layer_def)

lemma paints_table:
  assumes g: "mouse_safe g" and t: "c_holds t (board_text (LB g)) 256"
  shows "paints g (draw_table g t) (table_layers g)"
proof -
  let ?press = "''PRESS ENTER TO CONTINUE''"
  have wf: "lb_wf (LB g)" "plain_names (LB g)" "mouse_ok g" using g by (simp_all add: mouse_safe_def game_inv_defs)
  have "c_terminated (c_lit ?press)" "c_str (c_lit ?press) = ?press" by (simp_all add: c_lit_def c_str_def c_terminated_def)
  moreover have "text_fits 50 484 ?press" by (simp add: text_fits_def line_width_def char_width_def)
  ultimately have "paints g (vg_draw_str (c_lit ?press) 50 484) (\<lambda>v. text_layers v 50 484 ?press)"
    using paints_str [of "c_lit ?press" 50 484 g] by simp
  then have press: "paints g (\<lambda>v. vg_draw_str (c_lit ?press) 50 (100 + 12 * uint (height (letters_sprites v ! 0))) v)
      (\<lambda>v. text_layers v 50 484 ?press)"
    by (rule paints_cong [rotated]) (simp add: letter_size)
  have board: "paints g (vg_draw_str t 230 30) (\<lambda>v. text_layers v 230 30 (board_text (LB g)))"
    using paints_str [of t 230 30 g] t board_fits [OF wf(1,2)] by (simp add: c_holds_def)
  show ?thesis
    using paints_bind [OF board paints_bind [OF press paints_crosshair [OF wf(3)]]]
    by (simp add: draw_table_def [abs_def] table_layers_def [abs_def])
qed

lemma leaderboard_shown:
  assumes g: "mouse_safe g" and v: "sized g v"
  shows "\<exists>mem t. vg_draw_leadeboard g v = Some (v\<lparr>buffer := mem, str := t\<rparr>) \<and>
    shown v (buffer v) (corner_layers v @ table_layers g v) mem"
proof -
  have wf: "lb_wf (LB g)" using g by (simp add: mouse_safe_def game_inv_defs)
  let ?corners = "do { v \<leftarrow> put_sprite (lb_corners v ! 0) 1 1 v; v \<leftarrow> put_sprite (lb_corners v ! 1) 702 1 v;
      v \<leftarrow> put_sprite (lb_corners v ! 2) 702 502 v; put_sprite (lb_corners v ! 3) 1 502 v }"
  obtain m1 where m1: "?corners = Some (v\<lparr>buffer := m1\<rparr>)" "shown v (buffer v) (corner_layers v) m1"
    using paints_corners v by (rule paintsE)
  obtain t where t: "getLeaderBoard (LB g) (str v) = Some t" "c_holds t (board_text (LB g)) 256"
    using getLeaderBoard_holds [OF wf sizedD(22) [OF v]] by (auto simp: board_text_def)
  let ?v = "v\<lparr>buffer := m1, str := t\<rparr>"
  have "sized g ?v" using sized_str [OF sized_shown [OF v m1(2)], of t] t(2) by (simp add: c_holds_def)
  then obtain m2 where m2: "draw_table g t ?v = Some (?v\<lparr>buffer := m2\<rparr>)" "shown v m1 (table_layers g v) m2"
    using paintsE [OF paints_table [OF g t(2)], of ?v] by auto
  have "vg_draw_leadeboard g v = Option.bind ?corners
      (\<lambda>v. Option.bind (getLeaderBoard (LB g) (str v)) (\<lambda>t. draw_table g t (v\<lparr>str := t\<rparr>)))"
    using sizedD(21) [OF v] by (simp add: vg_draw_leadeboard_def draw_table_def)
  also have "\<dots> = Some (v\<lparr>buffer := m2, str := t\<rparr>)" using m1(1) t(1) m2(1) by simp
  finally show ?thesis using shown_trans [OF m1(2) m2(2)] by blast
qed

section \<open>A frame\<close>

lemma frame_shown:
  assumes "sized g v" "mouse_safe g" "message_ok g"
  shows "\<exists>mem t. vg_ih g v = Some (v\<lparr>buffer := mem, str := t, video_mem := mem\<rparr>) \<and>
    (\<forall>r c b. r < 600 \<longrightarrow> c < 800 \<longrightarrow> b < 3 \<longrightarrow>
       mem ! pixel_at v r c b = fold paint (frame_layers g v) (\<lambda>r c b. 0) r c b)"
proof (rule vg_ih_shows [OF assms(1)])
  fix u assume u: "sized g u"
  have inv: "game_inv g" using assms(2) by (simp add: mouse_safe_def)
  have paint: "\<exists>mem t. f u = Some (u\<lparr>buffer := mem, str := t\<rparr>) \<and> shown u (buffer u) (L u) mem"
    if "paints g f L" for f L
    by (rule paintsE [OF that u]) (intro exI [of _ "str u"] exI, auto)
  consider "game_state g = LEADERBOARD" | "game_state g = LB_INPUT" | "game_state g \<notin> {LB_INPUT, LEADERBOARD}" by blast
  then show "\<exists>mem t. draw_screen g u = Some (u\<lparr>buffer := mem, str := t\<rparr>) \<and>
      shown u (buffer u) (frame_layers g u) mem"
  proof cases
    case 1
    then show ?thesis using leaderboard_shown [OF assms(2) u] by (simp add: draw_screen_def frame_layers_def table_layers_def)
  next
    case 2
    then show ?thesis using paint [OF paints_input [OF assms(2,3) 2]] by (simp add: draw_screen_def)
  next
    case 3
    then have "frame_layers g = screen_layers g"
      by (intro ext) (auto simp: frame_layers_def split: game_state.split)
    then show ?thesis using paint [OF paints_screen [OF inv 3]] by simp
  qed
qed simp

section \<open>Properties\<close>

text \<open>C6. A frame shows the game. On the screen of 800 by 600 with the images in place, \<^verbatim>\<open>vg_ih\<close>
  returns and the video memory shows, over black, exactly the layers of the state of the game: in
  play an alien for every cell of the matrix that is not empty, the one of its state and at its place,
  the decimal digits of the points and in front the crosshair, centred at the mouse and transparent
  where it is black; in the menu the name, both buttons, the one under the mouse pressed, and the
  time with two digits each; in a pause its title; after the game the title or the last aliens,
  with the alien that killed the player; while the name is entered the message with the score and the
  name below it; and in the end the table of the ten best, line by line between its corners. Each
  pixel has the value of the last layer that covers it, and no text leaves the screen.
\<close>

theorem screen_shows_game:
  assumes "sized g v" "mouse_safe g" "message_ok g"
  shows "\<exists>v'. vg_ih g v = Some v' \<and>
    (\<forall>r c b. r < 600 \<longrightarrow> c < 800 \<longrightarrow> b < 3 \<longrightarrow>
       video_mem v' ! pixel_at v r c b = fold paint (frame_layers g v) (\<lambda>r c b. 0) r c b)"
proof -
  obtain mem t where "vg_ih g v = Some (v\<lparr>buffer := mem, str := t, video_mem := mem\<rparr>)"
    and "\<forall>r c b. r < 600 \<longrightarrow> c < 800 \<longrightarrow> b < 3 \<longrightarrow> mem ! pixel_at v r c b = fold paint (frame_layers g v) (\<lambda>r c b. 0) r c b"
    using frame_shown [OF assms] by blast
  then show ?thesis by (intro exI [of _ "v\<lparr>buffer := mem, str := t, video_mem := mem\<rparr>"]) simp
qed

definition full_video :: video where
  "full_video = tiny_video\<lparr>h_res := 800, v_res := 600, buffer := replicate 1440000 0, video_mem := replicate 1440000 0\<rparr>"

text \<open>The screen of the program with black images, and a game whose buttons are placed on it.\<close>

definition shown_video :: video where
  "shown_video = snd (snd (vg_load_sprites (loaded black_load) play_game full_video))"

definition shown_game :: game where
  "shown_game = place_buttons (loaded black_load) play_game"

lemma full_video_ok: "screen_ok full_video" "h_res full_video = 800" "v_res full_video = 600" "length (str full_video) = 256"
  by (simp_all add: full_video_def tiny_video_def screen_ok_def)

lemma shown_sized: "sized shown_game shown_video"
  by (rule loaded_sized [OF black_load_loads full_video_ok, of play_game True])
    (simp add: shown_video_def shown_game_def vg_load_sprites_def)

lemma mouse_safe_buttons: "game_state g = PLAYING \<Longrightarrow> mouse_safe (place_buttons xpm g) = mouse_safe g"
  by (simp add: place_buttons_def Let_def mouse_safe_def game_inv_defs grid_ok_def name_ok_def)

lemma shown_game_safe: "mouse_safe shown_game" "game_state shown_game = PLAYING" "points shown_game = 0"
proof -
  show "mouse_safe shown_game"
    using play_game_facts(2) play_game_safe by (simp add: shown_game_def mouse_safe_buttons kbd_safe_eq)
  show "game_state shown_game = PLAYING" "points shown_game = 0"
    using play_game_facts by (simp_all add: shown_game_def place_buttons_def Let_def)
qed

theorem screen_shows_game_witness:
  "\<exists>v'. vg_ih shown_game shown_video = Some v' \<and>
     video_mem v' ! pixel_at shown_video 310 370 0 = fold paint (frame_layers shown_game shown_video) (\<lambda>r c b. 0) 310 370 0"
proof -
  have "message_ok shown_game" by (simp add: message_ok_def shown_game_safe)
  from screen_shows_game [OF shown_sized shown_game_safe(1) this]
  obtain v' where v': "vg_ih shown_game shown_video = Some v'" and px: "\<forall>r c b. r < 600 \<longrightarrow> c < 800 \<longrightarrow> b < 3 \<longrightarrow>
      video_mem v' ! pixel_at shown_video r c b = fold paint (frame_layers shown_game shown_video) (\<lambda>r c b. 0) r c b"
    by blast
  have "video_mem v' ! pixel_at shown_video 310 370 0 = fold paint (frame_layers shown_game shown_video) (\<lambda>r c b. 0) 310 370 0"
    using px [rule_format, of 310 370 0] by simp
  with v' show ?thesis by blast
qed

end
