(* ===== verification/Rtc.thy ===== *)
theory Rtc
  imports Keyboard
begin

text \<open>
  \<^verbatim>\<open>rtc/rtc_macros.h\<close> and \<^verbatim>\<open>rtc/rtc.c\<close>: reading the time of day from the real
  time clock. The loop that waits for the end of an update has no bound, so it is a partial
  function.
\<close>

definition RTC_IRQ :: u32 where [port_consts]: "RTC_IRQ = 8"
definition RTC_ADDR_REG :: u32 where [port_consts]: "RTC_ADDR_REG = 0x70"
definition RTC_DATA_REG :: u32 where [port_consts]: "RTC_DATA_REG = 0x71"
definition SECONDS :: u32 where [port_consts]: "SECONDS = 0x00"
definition MINUTES :: u32 where [port_consts]: "MINUTES = 0x02"
definition HOURS :: u32 where [port_consts]: "HOURS = 0x04"
definition DATE_OF_THE_MONTH :: u32 where [port_consts]: "DATE_OF_THE_MONTH = 0x07"
definition MONTH :: u32 where [port_consts]: "MONTH = 0x08"
definition YEAR :: u32 where [port_consts]: "YEAR = 0x09"
definition REGISTER_A :: u32 where [port_consts]: "REGISTER_A = 0x0A"
definition REGISTER_B :: u32 where [port_consts]: "REGISTER_B = 0x0B"
definition RTC_UIP :: u8 where [port_consts]: "RTC_UIP = 0x80"
definition disINT :: u8 where [port_consts]: "disINT = 0x8F"
definition enINT :: u8 where [port_consts]: "enINT = 0x70"
definition set24 :: u8 where [port_consts]: "set24 = 0x02"
definition setBCD :: u8 where [port_consts]: "setBCD = 0xFB"

record rtc =
  reg_A :: u8
  reg_B :: u8
  g_rtc_hook_id :: i32
  g_rtc_seconds :: u8
  g_rtc_minutes :: u8
  g_rtc_hours :: u8
  g_rtc_day :: u8
  g_rtc_month :: u8
  g_rtc_year :: u8

definition get_rtc_seconds :: "rtc \<Rightarrow> i32" where "get_rtc_seconds c = ucast (g_rtc_seconds c)"
definition get_rtc_minutes :: "rtc \<Rightarrow> i32" where "get_rtc_minutes c = ucast (g_rtc_minutes c)"
definition get_rtc_hours :: "rtc \<Rightarrow> i32" where "get_rtc_hours c = ucast (g_rtc_hours c)"
definition get_rtc_day :: "rtc \<Rightarrow> i32" where "get_rtc_day c = ucast (g_rtc_day c)"
definition get_rtc_month :: "rtc \<Rightarrow> i32" where "get_rtc_month c = ucast (g_rtc_month c)"
definition get_rtc_year :: "rtc \<Rightarrow> i32" where "get_rtc_year c = ucast (g_rtc_year c)"

definition rtc_subscribe_int :: "'d env \<Rightarrow> rtc \<Rightarrow> 'd \<Rightarrow> i32 \<times> u8 \<times> rtc \<times> 'd" where
  "rtc_subscribe_int env c d =
     (let c = c\<lparr>g_rtc_hook_id := RTC_IRQ\<rparr>;
          bit_no = ucast (g_rtc_hook_id c);
          (r, hook, d) = sys_irqsetpolicy env RTC_IRQ (IRQ_REENABLE OR IRQ_EXCLUSIVE) (g_rtc_hook_id c) d
      in (r, bit_no, c\<lparr>g_rtc_hook_id := hook\<rparr>, d))"

definition rtc_unsubscribe_int :: "'d env \<Rightarrow> rtc \<Rightarrow> 'd \<Rightarrow> i32 \<times> 'd" where
  "rtc_unsubscribe_int env c d = sys_irqrmpolicy env (g_rtc_hook_id c) d"

definition to_BCD :: "u8 \<Rightarrow> u8" where
  "to_BCD value = drop_bit 4 (value AND 0xF0) * 10 + (value AND 0x0F)"

definition read_reg_B :: "'d env \<Rightarrow> rtc \<Rightarrow> 'd \<Rightarrow> rtc \<times> 'd" where
  "read_reg_B env c d =
     (let d = snd (sys_outb env RTC_ADDR_REG REGISTER_B d);
          (r, reg_B1, d) = util_sys_inb env RTC_DATA_REG d
      in (c\<lparr>reg_B := reg_B1\<rparr>, d))"

definition write_reg_B :: "'d env \<Rightarrow> rtc \<Rightarrow> 'd \<Rightarrow> 'd" where
  "write_reg_B env c d =
     (let d = snd (sys_outb env RTC_ADDR_REG REGISTER_B d)
      in snd (sys_outb env RTC_DATA_REG (ucast (reg_B c)) d))"

definition disable_interrupts_rtc :: "'d env \<Rightarrow> rtc \<Rightarrow> 'd \<Rightarrow> rtc \<times> 'd" where
  "disable_interrupts_rtc env c d =
     (let (c, d) = read_reg_B env c d;
          c = c\<lparr>reg_B := reg_B c OR set24\<rparr>;
          c = c\<lparr>reg_B := reg_B c AND setBCD\<rparr>;
          c = c\<lparr>reg_B := reg_B c AND disINT\<rparr>
      in (c, write_reg_B env c d))"

definition enable_interrupts_rtc :: "'d env \<Rightarrow> rtc \<Rightarrow> 'd \<Rightarrow> rtc \<times> 'd" where
  "enable_interrupts_rtc env c d =
     (let (c, d) = read_reg_B env c d;
          c = c\<lparr>reg_B := reg_B c OR enINT\<rparr>
      in (c, write_reg_B env c d))"

partial_function (option) wait_valid_rtc :: "'d env \<Rightarrow> rtc \<Rightarrow> 'd \<Rightarrow> (rtc \<times> 'd) option" where
  "wait_valid_rtc env c d =
     (let (c, d) = disable_interrupts_rtc env c d;
          d = snd (sys_outb env RTC_ADDR_REG REGISTER_A d);
          (r, reg_A1, d) = util_sys_inb env RTC_DATA_REG d;
          (c, d) = enable_interrupts_rtc env c d
      in if reg_A1 AND RTC_UIP \<noteq> 0 then wait_valid_rtc env c d
         else Some (c\<lparr>reg_A := reg_A1\<rparr>, d))"

text \<open>\<^verbatim>\<open>sys_outb(RTC_ADDR_REG, r)\<close> followed by the read of the data port.\<close>

definition read_rtc_reg :: "'d env \<Rightarrow> u32 \<Rightarrow> 'd \<Rightarrow> u8 \<times> 'd" where
  "read_rtc_reg env r d =
     (let d = snd (sys_outb env RTC_ADDR_REG r d); (res, v, d) = util_sys_inb env RTC_DATA_REG d
      in (v, d))"

definition read_time :: "'d env \<Rightarrow> rtc \<Rightarrow> 'd \<Rightarrow> (rtc \<times> 'd) option" where
  "read_time env c d = do {
     (c, d) \<leftarrow> wait_valid_rtc env c d;
     let (v, d) = read_rtc_reg env SECONDS d; c = c\<lparr>g_rtc_seconds := to_BCD v\<rparr>;
         (v, d) = read_rtc_reg env MINUTES d; c = c\<lparr>g_rtc_minutes := to_BCD v\<rparr>;
         (v, d) = read_rtc_reg env HOURS d; c = c\<lparr>g_rtc_hours := to_BCD v\<rparr>;
         (v, d) = read_rtc_reg env DATE_OF_THE_MONTH d; c = c\<lparr>g_rtc_day := to_BCD v\<rparr>;
         (v, d) = read_rtc_reg env MONTH d; c = c\<lparr>g_rtc_month := to_BCD v\<rparr>;
         (v, d) = read_rtc_reg env YEAR d; c = c\<lparr>g_rtc_year := to_BCD v\<rparr>
     in Some (c, d)
   }"

definition rtc_ih :: "'d env \<Rightarrow> rtc \<Rightarrow> game \<Rightarrow> 'd \<Rightarrow> (rtc \<times> game \<times> 'd) option" where
  "rtc_ih env c g d = do {
     (c, d) \<leftarrow> read_time env c d;
     let g = g\<lparr>hours := ucast (get_rtc_hours c)\<rparr>;
         g = g\<lparr>minutes := ucast (get_rtc_minutes c)\<rparr>
     in Some (c, g, d)
   }"


section \<open>The clock as a register file\<close>

text \<open>
  The documented behaviour of the clock that the code relies on: a write to the address port selects
  a register, the data port reads and writes the selected one, and nothing else changes.
\<close>

definition rtc_device :: "'d env \<Rightarrow> ('d \<Rightarrow> u32) \<Rightarrow> ('d \<Rightarrow> u32 \<Rightarrow> u8) \<Rightarrow> bool" where
  "rtc_device env sel cmos \<longleftrightarrow>
     (\<forall>a d. sel (snd (sys_outb env 0x70 a d)) = a \<and> cmos (snd (sys_outb env 0x70 a d)) = cmos d) \<and>
     (\<forall>v d. sel (snd (sys_outb env 0x71 v d)) = sel d \<and>
        cmos (snd (sys_outb env 0x71 v d)) = (cmos d)(sel d := ucast v)) \<and>
     (\<forall>v d. fst (snd (sys_inb env 0x71 v d)) = ucast (cmos d (sel d)) \<and>
        sel (snd (snd (sys_inb env 0x71 v d))) = sel d \<and>
        cmos (snd (snd (sys_inb env 0x71 v d))) = cmos d)"

definition bcd :: "nat \<Rightarrow> u8" where
  "bcd n = of_nat (16 * (n div 10) + n mod 10)"

lemma u8_nibbles: "unat (drop_bit 4 (v AND 0xF0)) = unat (v :: u8) div 16" "unat (v AND 0x0F) = unat v mod 16"
proof -
  have hi: "(0xF0 :: u8) = NOT (mask 4)" and lo: "(0x0F :: u8) = mask 4"
    by (simp_all add: mask_eq_exp_minus_1 not_eq_complement)
  have "drop_bit 4 (v AND 0xF0) = drop_bit 4 v"
    unfolding hi by (rule bit_word_eqI) (auto simp: bit_simps dest: bit_imp_le_length)
  then show "unat (drop_bit 4 (v AND 0xF0)) = unat v div 16"
    by (simp add: unat_div drop_bit_eq_div del: drop_bit_and)
  show "unat (v AND 0x0F) = unat v mod 16"
    unfolding lo take_bit_eq_mask [symmetric] by (simp add: unat_mod take_bit_eq_mod)
qed

lemma unat_to_BCD: "unat (to_BCD v) = unat v div 16 * 10 + unat v mod 16"
proof -
  have "unat v div 16 < 16" using u8_bound [of v] by simp
  then have "unat v div 16 * 10 + unat v mod 16 < 256"
    using mod_less_divisor [of 16 "unat v"] by linarith
  then show ?thesis by (simp add: to_BCD_def unat_word_ariths u8_nibbles del: drop_bit_and)
qed

lemma to_BCD_bcd: "n < 100 \<Longrightarrow> unat (to_BCD (bcd n)) = n"
proof -
  assume "n < 100"
  then have "n div 10 < 10" by simp
  then have "16 * (n div 10) + n mod 10 < 256" using mod_less_divisor [of 10 n] by linarith
  then have "unat (bcd n) = 16 * (n div 10) + n mod 10"
    unfolding bcd_def by (simp only: unat_of_nat) simp
  then show "unat (to_BCD (bcd n)) = n" by (simp add: unat_to_BCD)
qed


lemma rtc_deviceD:
  assumes "rtc_device env sel cmos"
  shows "sel (snd (sys_outb env 0x70 a d)) = a" "cmos (snd (sys_outb env 0x70 a d)) = cmos d"
    "sel (snd (sys_outb env 0x71 v d)) = sel d"
    "cmos (snd (sys_outb env 0x71 v d)) = (cmos d)(sel d := ucast v)"
    "fst (snd (util_sys_inb env 0x71 d)) = cmos d (sel d)"
    "sel (snd (snd (util_sys_inb env 0x71 d))) = sel d"
    "cmos (snd (snd (util_sys_inb env 0x71 d))) = cmos d"
  using assms by (simp_all add: rtc_device_def util_sys_inb_def split_beta)

text \<open>Register B while the clock is read: 24 hours, BCD, interrupts off; and after it: interrupts on.\<close>

definition quiet_B :: "u8 \<Rightarrow> u8" where "quiet_B b = ((b OR 0x02) AND 0xFB) AND 0x8F"
definition ready_B :: "u8 \<Rightarrow> u8" where "ready_B b = quiet_B b OR 0x70"

lemma rtc_reg_B:
  assumes "rtc_device env sel cmos"
  shows "reg_B (fst (disable_interrupts_rtc env c d)) = quiet_B (cmos d 0x0B)"
    and "cmos (snd (disable_interrupts_rtc env c d)) = (cmos d)(0x0B := quiet_B (cmos d 0x0B))"
    and "cmos (snd (enable_interrupts_rtc env c d)) = (cmos d)(0x0B := cmos d 0x0B OR 0x70)"
  by (simp_all add: disable_interrupts_rtc_def enable_interrupts_rtc_def read_reg_B_def write_reg_B_def
      Let_def split_beta port_consts rtc_deviceD [OF assms] quiet_B_def)

lemma read_rtc_reg_device:
  assumes "rtc_device env sel cmos"
  shows "fst (read_rtc_reg env r d) = cmos d r" "cmos (snd (read_rtc_reg env r d)) = cmos d"
  by (simp_all add: read_rtc_reg_def Let_def split_beta port_consts rtc_deviceD [OF assms])

lemma wait_valid_device:
  assumes "rtc_device env sel cmos" "\<not> bit (cmos d 0x0A) 7"
  shows "\<exists>c' d'. wait_valid_rtc env c d = Some (c', d') \<and>
    cmos d' = (cmos d)(0x0B := ready_B (cmos d 0x0B))"
proof -
  have uip: "cmos d 0x0A AND 0x80 = 0"
    using assms(2) and_exp_eq_0_iff_not_bit [of "cmos d 0x0A" 7] by simp
  show ?thesis
    by (subst wait_valid_rtc.simps) (simp add: Let_def split_beta port_consts rtc_deviceD [OF assms(1)]
        rtc_reg_B [OF assms(1)] uip ready_B_def)
qed

lemma ready_B_bit:
  assumes "i < 8"
  shows "bit (ready_B b) i \<longleftrightarrow> i \<in> {1, 4, 5, 6} \<or> i \<noteq> 2 \<and> bit b i"
proof -
  from assms have "i \<in> {0, 1, 2, 3, 4, 5, 6, 7}" by auto
  then show ?thesis by (auto simp: ready_B_def quiet_B_def bit_simps)
qed

text \<open>C22. When no update of the clock is in progress, \<^verbatim>\<open>rtc_ih\<close> returns and shows the time of the
  clock as binary numbers although the clock counts in BCD. It writes to register B of the clock only:
  there the 24-hour mode (bit 1) and the three interrupt enables (bits 4 to 6) are switched on, the
  binary mode (bit 2) off, and the other bits, like the time and all other registers, stay as they were.
\<close>

theorem rtc_ih_shows_time:
  assumes "rtc_device env sel cmos" "\<not> bit (cmos d 0x0A) 7"
    and "cmos d 0x04 = bcd h" "cmos d 0x02 = bcd m" "h < 24" "m < 60"
  shows "\<exists>c' g' d'. rtc_ih env c g d = Some (c', g', d') \<and> unat (hours g') = h \<and> unat (minutes g') = m \<and>
    g' = g\<lparr>hours := hours g', minutes := minutes g'\<rparr> \<and>
    (\<forall>r. r \<noteq> 0x0B \<longrightarrow> cmos d' r = cmos d r) \<and>
    (\<forall>i < 8. bit (cmos d' 0x0B) i \<longleftrightarrow> i \<in> {1, 4, 5, 6} \<or> i \<noteq> 2 \<and> bit (cmos d 0x0B) i)"
proof -
  obtain c1 d1 where w: "wait_valid_rtc env c d = Some (c1, d1)"
      and cm: "cmos d1 = (cmos d)(0x0B := ready_B (cmos d 0x0B))"
    using wait_valid_device [OF assms(1,2)] by blast
  have "\<exists>c' g' d'. rtc_ih env c g d = Some (c', g', d') \<and> unat (hours g') = h \<and> unat (minutes g') = m \<and>
    g' = g\<lparr>hours := hours g', minutes := minutes g'\<rparr> \<and> cmos d' = (cmos d)(0x0B := ready_B (cmos d 0x0B))"
    using assms(3-6)
    by (simp add: rtc_ih_def read_time_def w Let_def split_beta get_rtc_hours_def get_rtc_minutes_def
        read_rtc_reg_device [OF assms(1)] cm port_consts to_BCD_bcd)
  then obtain c' g' d' where r: "rtc_ih env c g d = Some (c', g', d')" "unat (hours g') = h" "unat (minutes g') = m"
      "g' = g\<lparr>hours := hours g', minutes := minutes g'\<rparr>"
    and B: "cmos d' = (cmos d)(0x0B := ready_B (cmos d 0x0B))" by blast
  have "(\<forall>r. r \<noteq> 0x0B \<longrightarrow> cmos d' r = cmos d r) \<and>
      (\<forall>i < 8. bit (cmos d' 0x0B) i \<longleftrightarrow> i \<in> {1, 4, 5, 6} \<or> i \<noteq> 2 \<and> bit (cmos d 0x0B) i)"
    using ready_B_bit by (simp add: B)
  with r show ?thesis by blast
qed

definition clock_env :: "(u32 \<times> (u32 \<Rightarrow> u8)) env" where
  "clock_env = port_env
     (\<lambda>p v d. (OK, if p = 0x70 then (v, snd d) else if p = 0x71 then (fst d, (snd d)(fst d := ucast v)) else d))
     (\<lambda>p v d. (OK, if p = 0x71 then ucast (snd d (fst d)) else 0, d))"

definition zero_clock :: rtc where
  "zero_clock = \<lparr>reg_A = 0, reg_B = 0, g_rtc_hook_id = 8, g_rtc_seconds = 0, g_rtc_minutes = 0,
     g_rtc_hours = 0, g_rtc_day = 0, g_rtc_month = 0, g_rtc_year = 0\<rparr>"

theorem rtc_ih_shows_time_witness:
  "\<exists>c' g' d'. rtc_ih clock_env zero_clock zero_game
      (0, (\<lambda>_. 0)(0x04 := bcd 23, 0x02 := bcd 59)) = Some (c', g', d') \<and>
    unat (hours g') = 23 \<and> unat (minutes g') = 59"
proof -
  have "rtc_device clock_env fst snd" by (simp add: rtc_device_def clock_env_def)
  from rtc_ih_shows_time [OF this, of "(0, (\<lambda>_. 0)(0x04 := bcd 23, 0x02 := bcd 59))" 23 59
      zero_clock zero_game]
  show ?thesis by auto
qed

end
