(* ===== verification/Timer.thy ===== *)
theory Timer
  imports Utils
begin

text \<open>
  \<^verbatim>\<open>timer/i8254.h\<close> and \<^verbatim>\<open>timer/timer.c\<close>: programming the i8254 and the loop of
  \<^verbatim>\<open>delay_seconds\<close>. The loop around \<^verbatim>\<open>driver_receive\<close> that every driver of the
  repository has is stated once, with the test of its condition and the handling of a hardware
  notification as parameters; the laboratories and the project use it with theirs.

  A division by zero and a shift by 32 or more are undefined in C and are \<^const>\<open>None\<close> here.
\<close>

section \<open>The interrupt loop\<close>

partial_function (option) recv_loop ::
  "'d env \<Rightarrow> ('s \<Rightarrow> bool) \<Rightarrow> (u32 \<Rightarrow> 's \<Rightarrow> 'd \<Rightarrow> ('s \<times> 'd) option) \<Rightarrow> 's \<Rightarrow> 'd \<Rightarrow> ('s \<times> 'd) option" where
  "recv_loop env cond handle s d =
     (if cond s then
        let (r, msg, d) = driver_receive env d in
        if r \<noteq> 0 then recv_loop env cond handle s d
        else if ipc_notify msg \<and> from_hardware msg
        then Option.bind (handle (interrupts msg) s d) (\<lambda>(s, d). recv_loop env cond handle s d)
        else recv_loop env cond handle s d
      else Some (s, d))"

section \<open>Constants\<close>

definition TIMER_FREQ :: u32 where [port_consts]: "TIMER_FREQ = 1193182"
definition TIMER0_IRQ :: u32 where [port_consts]: "TIMER0_IRQ = 0"
definition TIMER_0 :: u32 where [port_consts]: "TIMER_0 = 0x40"
definition TIMER_1 :: u32 where [port_consts]: "TIMER_1 = 0x41"
definition TIMER_2 :: u32 where [port_consts]: "TIMER_2 = 0x42"
definition TIMER_CTRL :: u32 where [port_consts]: "TIMER_CTRL = 0x43"
definition TIMER_CTRL_SEL :: "u8 \<Rightarrow> u32" where [port_consts]: "TIMER_CTRL_SEL n = push_bit 6 (ucast n)"
definition TIMER_RB_CMD :: u32 where [port_consts]: "TIMER_RB_CMD = BIT 7 OR BIT 6"
definition TIMER_LSB :: u32 where [port_consts]: "TIMER_LSB = BIT 4"
definition TIMER_MSB :: u32 where [port_consts]: "TIMER_MSB = BIT 5"
definition TIMER_LSB_MSB :: u32 where [port_consts]: "TIMER_LSB_MSB = TIMER_LSB OR TIMER_MSB"
definition TIMER_BCD :: u32 where [port_consts]: "TIMER_BCD = 0x01"
definition TIMER_RB_COUNT :: u32 where [port_consts]: "TIMER_RB_COUNT = BIT 5"

record timer =
  timer_global_counter :: i32
  timer_hook_id :: i32

section \<open>Operations\<close>

definition timer_port :: "u8 \<Rightarrow> u32 option" where
  "timer_port t = (if t = 0 then Some TIMER_0 else if t = 1 then Some TIMER_1
     else if t = 2 then Some TIMER_2 else None)"

definition timer_get_conf :: "'d env \<Rightarrow> u8 \<Rightarrow> u8 \<Rightarrow> 'd \<Rightarrow> (i32 \<times> u8 \<times> 'd) option" where
  "timer_get_conf env t st d =
     (if \<not> unat t + 1 < 32 then None else
      let command = (ucast (TIMER_RB_CMD OR TIMER_RB_COUNT OR BIT (unat t + 1)) :: u8);
          (r, d) = sys_outb env TIMER_CTRL (ucast command) d
      in if r \<noteq> OK then Some (1, st, d)
         else case timer_port t of
           Some port \<Rightarrow> Some (util_sys_inb env port d)
         | None \<Rightarrow> Some (1, st, d))"

definition timer_set_frequency :: "'d env \<Rightarrow> u8 \<Rightarrow> u32 \<Rightarrow> 'd \<Rightarrow> (i32 \<times> 'd) option" where
  "timer_set_frequency env t freq d = do {
     (r, st, d) \<leftarrow> timer_get_conf env t 0 d;
     if r \<noteq> OK then Some (1, d)
     else if freq = 0 then None
     else
       let st = st AND 0x0F;
           st = (ucast (ucast st OR TIMER_CTRL_SEL t OR TIMER_LSB_MSB) :: u8);
           timer_counter = (ucast (TIMER_FREQ div freq) :: u16);
           lsb = snd (util_get_LSB timer_counter);
           msb = snd (util_get_MSB timer_counter);
           (r, d) = sys_outb env TIMER_CTRL (ucast st) d
       in if r \<noteq> OK then Some (1, d)
          else case timer_port t of
            Some port \<Rightarrow>
              let (res1, d) = sys_outb env port (ucast lsb) d;
                  (res2, d) = sys_outb env port (ucast msb) d
              in Some (res1 AND res2, d)
          | None \<Rightarrow> Some (1, d)
   }"

definition timer_subscribe_int :: "'d env \<Rightarrow> timer \<Rightarrow> 'd \<Rightarrow> i32 \<times> u8 \<times> timer \<times> 'd" where
  "timer_subscribe_int env t d =
     (let t = t\<lparr>timer_hook_id := TIMER0_IRQ\<rparr>;
          bit_no = ucast (timer_hook_id t);
          (r, hook, d) = sys_irqsetpolicy env TIMER0_IRQ IRQ_REENABLE (timer_hook_id t) d
      in (r, bit_no, t\<lparr>timer_hook_id := hook\<rparr>, d))"

definition timer_unsubscribe_int :: "'d env \<Rightarrow> timer \<Rightarrow> 'd \<Rightarrow> i32 \<times> 'd" where
  "timer_unsubscribe_int env t d = sys_irqrmpolicy env (timer_hook_id t) d"

definition timer_int_handler :: "timer \<Rightarrow> timer" where
  "timer_int_handler t = t\<lparr>timer_global_counter := timer_global_counter t + 1\<rparr>"

definition timer_display_conf ::
  "'d env \<Rightarrow> u8 \<Rightarrow> u8 \<Rightarrow> timer_status_field \<Rightarrow> 'd \<Rightarrow> i32 \<times> 'd" where
  "timer_display_conf env t st field d =
     (let val =
        (case field of
           tsf_all \<Rightarrow> Some (Val_byte st)
         | tsf_initial \<Rightarrow>
             Some (Val_in_mode
               (if ucast st AND BIT 5 \<noteq> 0 \<and> ucast st AND BIT 4 \<noteq> 0 then MSB_after_LSB
                else if ucast st AND BIT 5 \<noteq> 0 then MSB_only
                else if ucast st AND BIT 4 \<noteq> 0 then LSB_only
                else INVAL_val))
         | tsf_mode \<Rightarrow>
             (let st = drop_bit 1 st; st = st AND 0x07
              in Some (Val_count_mode
                (if st = 0 then 0 else if st = 1 then 1 else if st = 2 then 2
                 else if st = 3 then 3 else if st = 4 then 4 else 5)))
         | tsf_base \<Rightarrow> Some (Val_bcd (ucast st AND TIMER_BCD \<noteq> 0))
         | tsf_other \<Rightarrow> None)
      in case val of
           None \<Rightarrow> (1, d)
         | Some val \<Rightarrow>
             let (r, d) = timer_print_config env t field val d in (if r \<noteq> OK then 1 else 0, d))"

text \<open>The state of the loop of \<^verbatim>\<open>delay_seconds\<close>: the timer and \<^verbatim>\<open>counter_seconds\<close>.\<close>

definition delay_handle :: "'d env \<Rightarrow> u32 \<Rightarrow> u32 \<Rightarrow> timer \<times> u8 \<Rightarrow> 'd \<Rightarrow> ((timer \<times> u8) \<times> 'd) option" where
  "delay_handle env irq_set ints s d =
     (let (t, counter_seconds) = s in
      if ints AND irq_set \<noteq> 0 then
        let t = timer_int_handler t in
        if sint (timer_global_counter t) mod 60 = 0
        then Some ((t, counter_seconds + 1), timer_print_elapsed_time env d)
        else Some ((t, counter_seconds), d)
      else Some (s, d))"

definition delay_seconds :: "'d env \<Rightarrow> u8 \<Rightarrow> timer \<Rightarrow> 'd \<Rightarrow> (timer \<times> 'd) option" where
  "delay_seconds env seconds t d =
     (let (r, bit_no, t, d) = timer_subscribe_int env t d;
          t = t\<lparr>timer_global_counter := 0\<rparr>;
          irq_set = BIT (unat bit_no)
      in do {
        ((t, counter_seconds), d) \<leftarrow>
          recv_loop env (\<lambda>(t, counter_seconds). counter_seconds < seconds)
            (delay_handle env irq_set) (t, 0) d;
        Some (t, snd (timer_unsubscribe_int env t d))
      })"


section \<open>Lemmas on the loop\<close>

lemma recv_loop_stop: "\<not> cond s \<Longrightarrow> recv_loop env cond handle s d = Some (s, d)"
  by (simp add: recv_loop.simps)

lemma recv_loop_interrupt:
  assumes "cond s" "driver_receive env d = (OK, msg, d')" "ipc_notify msg" "from_hardware msg"
  shows "recv_loop env cond handle s d =
    Option.bind (handle (interrupts msg) s d') (\<lambda>(s, d). recv_loop env cond handle s d)"
  using assms by (subst recv_loop.simps) simp

lemma recv_loop_idle:
  assumes "cond s" "driver_receive env d = (r, msg, d')" "\<not> (r = OK \<and> ipc_notify msg \<and> from_hardware msg)"
  shows "recv_loop env cond handle s d = recv_loop env cond handle s d'"
  using assms by (subst recv_loop.simps) auto

text \<open>
  A loop returns when every message that is received, or its handling, makes some measure of state
  and device smaller; in particular when notifications keep coming and the handling of each does.
\<close>

lemma recv_loop_ends:
  assumes step: "\<And>s d r msg d1. P s d \<Longrightarrow> cond s \<Longrightarrow> driver_receive env d = (r, msg, d1) \<Longrightarrow>
      if r = OK \<and> ipc_notify msg \<and> from_hardware msg
      then \<exists>s' d'. handle (interrupts msg) s d1 = Some (s', d') \<and> P s' d' \<and> (m s' d' :: nat) < m s d
      else P s d1 \<and> m s d1 < m s d"
    and "P s d"
  shows "\<exists>s' d'. recv_loop env cond handle s d = Some (s', d') \<and> P s' d' \<and> \<not> cond s'"
  using assms(2)
proof (induction "m s d" arbitrary: s d rule: less_induct)
  case less
  obtain r msg d1 where rec: "driver_receive env d = (r, msg, d1)" by (metis surj_pair)
  consider (stop) "\<not> cond s" | (idle) "cond s" "\<not> (r = OK \<and> ipc_notify msg \<and> from_hardware msg)"
    | (int) "cond s" "r = OK" "ipc_notify msg" "from_hardware msg" by blast
  then show ?case
  proof cases
    case stop
    then show ?thesis using less.prems by (simp add: recv_loop_stop)
  next
    case idle
    then have "P s d1" "m s d1 < m s d" using step [OF less.prems _ rec] by (auto split: if_splits)
    then show ?thesis using less.hyps [of s d1] recv_loop_idle [of cond s, OF idle(1) rec idle(2)] by simp
  next
    case int
    then obtain s' d' where "handle (interrupts msg) s d1 = Some (s', d')" "P s' d'" "m s' d' < m s d"
      using step [OF less.prems _ rec] by auto
    with int rec show ?thesis using less.hyps [of s' d'] by (simp add: recv_loop_interrupt)
  qed
qed

lemma recv_loop_returns:
  assumes step: "\<And>s d. P s d \<Longrightarrow> cond s \<Longrightarrow> \<exists>msg d1 s' d'. driver_receive env d = (OK, msg, d1) \<and>
      ipc_notify msg \<and> from_hardware msg \<and> handle (interrupts msg) s d1 = Some (s', d') \<and>
      P s' d' \<and> (m s' d' :: nat) < m s d"
    and "P s d"
  shows "\<exists>s' d'. recv_loop env cond handle s d = Some (s', d') \<and> P s' d' \<and> \<not> cond s'"
proof (rule recv_loop_ends [where m = m and P = P, OF _ assms(2)])
  fix s d r msg d1
  assume "P s d" "cond s" "driver_receive env d = (r, msg, d1)"
  with step [of s d] show "if r = OK \<and> ipc_notify msg \<and> from_hardware msg
      then \<exists>s' d'. handle (interrupts msg) s d1 = Some (s', d') \<and> P s' d' \<and> m s' d' < m s d
      else P s d1 \<and> m s d1 < m s d" by auto
qed

text \<open>
  The interface of such a loop: an invariant of its state and the device that the receipt and the
  handling of every notification keep. What a loop that returns gives is the invariant and the
  negation of its condition.
\<close>

locale device_loop =
  fixes env :: "'d env"
    and cond :: "'s \<Rightarrow> bool"
    and handle :: "u32 \<Rightarrow> 's \<Rightarrow> 'd \<Rightarrow> ('s \<times> 'd) option"
    and inv :: "'s \<Rightarrow> 'd \<Rightarrow> bool"
  assumes receive_inv: "inv s d \<Longrightarrow> inv s (snd (snd (driver_receive env d)))"
    and handle_inv: "inv s d \<Longrightarrow> cond s \<Longrightarrow> handle ints s d = Some (s', d') \<Longrightarrow> inv s' d'"
begin

lemma loop_inv:
  assumes "recv_loop env cond handle s d = Some (s', d')" "inv s d"
  shows "inv s' d' \<and> \<not> cond s'"
proof -
  have "e = env \<longrightarrow> c = cond \<longrightarrow> h = handle \<longrightarrow> inv s d \<longrightarrow> inv (fst r) (snd r) \<and> \<not> cond (fst r)"
    if "recv_loop e c h s d = Some r" for e c h s d r
  proof (rule recv_loop.raw_induct
      [of "\<lambda>e c h s d r. e = env \<longrightarrow> c = cond \<longrightarrow> h = handle \<longrightarrow> inv s d \<longrightarrow>
         inv (fst r) (snd r) \<and> \<not> cond (fst r)", OF _ that], goal_cases)
    case (1 f e c h s d r)
    show ?case
    proof (intro impI)
      assume eq: "e = env" "c = cond" "h = handle" and s: "inv s d"
      obtain k msg d1 where rec: "driver_receive env d = (k, msg, d1)" by (metis surj_pair)
      have s1: "inv s d1" using receive_inv [OF s] by (simp add: rec)
      have IH: "f env cond handle s1 d2 = Some r \<Longrightarrow> inv s1 d2 \<Longrightarrow> inv (fst r) (snd r) \<and> \<not> cond (fst r)" for s1 d2
        using 1(1) [of env cond handle s1 d2 r] by blast
      show "inv (fst r) (snd r) \<and> \<not> cond (fst r)"
        using 1(2) s s1 IH handle_inv [OF s1] unfolding eq
        by (fastforce simp: rec bind_eq_Some_conv split: if_splits)
    qed
  qed
  from this [OF assms(1)] assms(2) show ?thesis by simp
qed

end

text \<open>An invariant of the state alone.\<close>

locale interrupt_loop =
  fixes env :: "'d env"
    and cond :: "'s \<Rightarrow> bool"
    and handle :: "u32 \<Rightarrow> 's \<Rightarrow> 'd \<Rightarrow> ('s \<times> 'd) option"
    and inv :: "'s \<Rightarrow> bool"
  assumes handle_inv: "inv s \<Longrightarrow> cond s \<Longrightarrow> handle ints s d = Some (s', d') \<Longrightarrow> inv s'"

sublocale interrupt_loop \<subseteq> dev: device_loop env cond handle "\<lambda>s d. inv s"
  by unfold_locales (auto dest: handle_inv)

text \<open>
  Two loops of which one follows the other: every step of the first, seen through \<open>abs\<close>, is the step
  of the second. Then they return together, or neither does.
\<close>

locale loop_simulation = interrupt_loop env cond handle inv
  for env :: "'d env" and cond :: "'s \<Rightarrow> bool"
    and handle :: "u32 \<Rightarrow> 's \<Rightarrow> 'd \<Rightarrow> ('s \<times> 'd) option" and inv :: "'s \<Rightarrow> bool" +
  fixes cond' :: "'t \<Rightarrow> bool"
    and handle' :: "u32 \<Rightarrow> 't \<Rightarrow> 'd \<Rightarrow> ('t \<times> 'd) option"
    and abs :: "'s \<Rightarrow> 't"
  assumes same_cond: "inv s \<Longrightarrow> cond' (abs s) = cond s"
    and same_step: "inv s \<Longrightarrow> cond s \<Longrightarrow>
      handle' ints (abs s) d = map_option (\<lambda>(s, d). (abs s, d)) (handle ints s d)"
begin

lemma loop_forward:
  assumes "recv_loop env cond handle s d = Some r" "inv s"
  shows "recv_loop env cond' handle' (abs s) d = Some (abs (fst r), snd r)"
proof -
  have "e = env \<longrightarrow> c = cond \<longrightarrow> h = handle \<longrightarrow> inv s \<longrightarrow>
      recv_loop env cond' handle' (abs s) d = Some (abs (fst r), snd r)"
    if "recv_loop e c h s d = Some r" for e c h s d r
  proof (rule recv_loop.raw_induct
      [of "\<lambda>e c h s d r. e = env \<longrightarrow> c = cond \<longrightarrow> h = handle \<longrightarrow> inv s \<longrightarrow>
         recv_loop env cond' handle' (abs s) d = Some (abs (fst r), snd r)", OF _ that], goal_cases)
    case (1 f e c h s d r)
    show ?case
    proof (intro impI)
      assume eq: "e = env" "c = cond" "h = handle" and s: "inv s"
      obtain k msg d1 where rec: "driver_receive env d = (k, msg, d1)" by (metis surj_pair)
      have IH: "f env cond handle s1 d2 = Some r \<Longrightarrow> inv s1 \<Longrightarrow>
          recv_loop env cond' handle' (abs s1) d2 = Some (abs (fst r), snd r)" for s1 d2
        using 1(1) [of env cond handle s1 d2 r] by blast
      show "recv_loop env cond' handle' (abs s) d = Some (abs (fst r), snd r)"
        using 1(2) s IH handle_inv [OF s] same_step [OF s] same_cond [OF s] unfolding eq
        by (subst recv_loop.simps) (fastforce simp: rec bind_eq_Some_conv split: if_splits)
    qed
  qed
  from this [OF assms(1)] assms(2) show ?thesis by simp
qed

lemma loop_backward:
  assumes "recv_loop env cond' handle' (abs s) d = Some r" "inv s"
  shows "recv_loop env cond handle s d \<noteq> None"
proof -
  have "e = env \<longrightarrow> c = cond' \<longrightarrow> h = handle' \<longrightarrow>
      (\<forall>s. t = abs s \<longrightarrow> inv s \<longrightarrow> recv_loop env cond handle s d \<noteq> None)"
    if "recv_loop e c h t d = Some r" for e c h t d r
  proof (rule recv_loop.raw_induct
      [of "\<lambda>e c h t d r. e = env \<longrightarrow> c = cond' \<longrightarrow> h = handle' \<longrightarrow>
         (\<forall>s. t = abs s \<longrightarrow> inv s \<longrightarrow> recv_loop env cond handle s d \<noteq> None)", OF _ that], goal_cases)
    case (1 f e c h t d r)
    show ?case
    proof (intro impI allI)
      fix s
      assume eq: "e = env" "c = cond'" "h = handle'" "t = abs s" and s: "inv s"
      obtain k msg d1 where rec: "driver_receive env d = (k, msg, d1)" by (metis surj_pair)
      have IH: "f env cond' handle' (abs s1) d2 = Some r \<Longrightarrow> inv s1 \<Longrightarrow> recv_loop env cond handle s1 d2 \<noteq> None"
        for s1 d2
        using 1(1) [of env cond' handle' "abs s1" d2 r] by blast
      show "recv_loop env cond handle s d \<noteq> None"
        using 1(2) s IH handle_inv [OF s] same_step [OF s] same_cond [OF s] unfolding eq
        by (subst recv_loop.simps) (fastforce simp: rec bind_eq_Some_conv split: if_splits)
    qed
  qed
  from this [OF assms(1)] assms(2) show ?thesis by simp
qed

lemma loops_agree:
  assumes "inv s"
  shows "recv_loop env cond' handle' (abs s) d = map_option (\<lambda>(s, d). (abs s, d)) (recv_loop env cond handle s d)"
  using loop_forward [OF _ assms] loop_backward [OF _ assms]
  by (cases "recv_loop env cond handle s d"; cases "recv_loop env cond' handle' (abs s) d") force+

end


section \<open>Properties\<close>

lemma u8_below_3: "(t :: u8) < 3 \<Longrightarrow> t = 0 \<or> t = 1 \<or> t = 2"
proof -
  assume "t < 3"
  then have "unat t < 3" by (simp add: word_less_nat_alt)
  then have "unat t = 0 \<or> unat t = 1 \<or> unat t = 2" by linarith
  then show "t = 0 \<or> t = 1 \<or> t = 2" by (auto simp: word_unat_eq_iff)
qed

lemma timer_port_below_3: "t < 3 \<Longrightarrow> timer_port t = Some (0x40 + ucast t)"
  using u8_below_3 [of t] by (auto simp: timer_port_def port_consts)

text \<open>The read-back command and the control word of \<^verbatim>\<open>timer_set_frequency\<close>.\<close>

definition rb_command :: "u8 \<Rightarrow> u32" where
  "rb_command t = 0xE0 OR push_bit (unat t + 1) 1"

definition control_word :: "u8 \<Rightarrow> u8 \<Rightarrow> u8" where
  "control_word t st = (st AND 0x0F) OR 0x30 OR push_bit 6 t"

lemma rb_command_below_3:
  "t < 3 \<Longrightarrow> ucast (ucast (TIMER_RB_CMD OR TIMER_RB_COUNT OR BIT (unat t + 1)) :: u8) = rb_command t"
  using u8_below_3 [of t] by (auto simp: rb_command_def port_consts BIT_def)

lemma control_word_below_3:
  "(ucast (ucast (st AND 0x0F) OR TIMER_CTRL_SEL t OR TIMER_LSB_MSB) :: u8) = control_word t st"
  unfolding control_word_def
  by (rule bit_word_eqI) (auto simp: port_consts BIT_def bit_simps)

lemma divisor_small: "19 \<le> (freq :: u32) \<Longrightarrow> unat (TIMER_FREQ div freq) = 1193182 div unat freq \<and>
    1193182 div unat freq < 65536"
proof -
  assume "19 \<le> freq"
  then have "1193182 div unat freq \<le> 1193182 div 19" by (intro div_le_mono2) (simp_all add: word_le_nat_alt)
  then show ?thesis by (simp add: unat_div port_consts)
qed

text \<open>C35. For a timer 0 to 2 and a frequency of at least 19, \<^verbatim>\<open>timer_set_frequency\<close> sends the
  read-back command of that timer, a control word that selects the timer and the loading of both
  bytes and keeps the counting mode and base that the timer had, and then the two bytes of the
  divisor, low byte first; it returns success.
\<close>

theorem timer_set_frequency_programs:
  assumes "io_traced env log" "t < 3" "19 \<le> freq"
    and "\<forall>p d. fst (util_sys_inb env p d) = OK"
  shows "\<exists>st lsb msb d'. timer_set_frequency env t freq d = Some (0, d') \<and>
    log d' = log d @ [(0x43, rb_command t), (0x43, ucast (control_word t st)),
                      (0x40 + ucast t, ucast lsb), (0x40 + ucast t, ucast msb)] \<and>
    (\<exists>d1. st = fst (snd (util_sys_inb env (0x40 + ucast t) d1)) \<and>
       log d1 = log d @ [(0x43, rb_command t)]) \<and>
    unat (lsb :: u8) + 256 * unat (msb :: u8) = 1193182 div unat freq"
proof -
  note traced = io_tracedD [OF assms(1)]
  define v where "v = (ucast (TIMER_FREQ div freq) :: u16)"
  have v: "unat v = 1193182 div unat freq"
    using divisor_small [OF assms(3)] by (simp add: v_def ucast_u16_small)
  have small: "unat t + 1 < 32" using u8_below_3 [OF assms(2)] by auto
  have nz: "freq \<noteq> 0" using assms(3) by auto
  define d1 where "d1 = snd (sys_outb env TIMER_CTRL (rb_command t) d)"
  obtain st d2 where r: "util_sys_inb env (0x40 + ucast t) d1 = (OK, st, d2)"
    using assms(4) by (metis prod.collapse)
  have l2: "log d2 = log d1"
    using util_sys_inb_log [OF assms(1), of "0x40 + ucast t" d1] by (simp add: r)
  have l1: "log d1 = log d @ [(0x43, rb_command t)]" by (simp add: d1_def traced port_consts)
  have conf: "timer_get_conf env t 0 d = Some (OK, st, d2)"
    using small by (simp add: timer_get_conf_def Let_def split_beta traced
        rb_command_below_3 [OF assms(2), unfolded Suc_eq_plus1 [symmetric]]
        timer_port_below_3 [OF assms(2)] r flip: d1_def)
  have "\<exists>d'. timer_set_frequency env t freq d = Some (0, d') \<and>
    log d' = log d @ [(0x43, rb_command t), (0x43, ucast (control_word t st)),
      (0x40 + ucast t, ucast (snd (util_get_LSB v))), (0x40 + ucast t, ucast (snd (util_get_MSB v)))]"
    using nz by (simp add: timer_set_frequency_def conf Let_def split_beta control_word_below_3 traced
        timer_port_below_3 [OF assms(2)] l1 l2 TIMER_CTRL_def flip: v_def)
  moreover have "unat (snd (util_get_LSB v)) + 256 * unat (snd (util_get_MSB v)) = 1193182 div unat freq"
    by (simp add: util_bytes_value v)
  moreover have "st = fst (snd (util_sys_inb env (0x40 + ucast t) d1))" by (simp add: r)
  ultimately show ?thesis using l1 by blast
qed


theorem timer_set_frequency_programs_witness:
  "\<exists>st lsb msb d'. timer_set_frequency (fixed_env (\<lambda>_. 0x34)) 0 60 [] = Some (0, d') \<and>
    d' = [] @ [(0x43, rb_command 0), (0x43, ucast (control_word 0 st)),
               (0x40 + ucast (0 :: u8), ucast (lsb :: u8)), (0x40 + ucast (0 :: u8), ucast msb)] \<and>
    unat lsb + 256 * unat (msb :: u8) = 1193182 div unat (60 :: u32)"
proof -
  have "\<forall>p d. fst (util_sys_inb (fixed_env (\<lambda>_. 0x34)) p d) = OK" by (simp add: util_sys_inb_def)
  from timer_set_frequency_programs [OF fixed_env_traced _ _ this, of 0 60 "[]"] show ?thesis by auto
qed

text \<open>When the write of the low byte fails and that of the high byte succeeds, or the other way
  round, \<^verbatim>\<open>timer_set_frequency\<close> still reports success, since it returns the bitwise
  conjunction of the two results.
\<close>

theorem timer_set_frequency_hides_failure:
  assumes "t < 3" "freq \<noteq> 0" "timer_get_conf env t 0 d = Some (OK, st, da)"
    and "sys_outb env 0x43 (ucast (control_word t st)) da = (OK, db)"
    and "sys_outb env (0x40 + ucast t) (ucast (snd (util_get_LSB (ucast (TIMER_FREQ div freq))))) db = (ra, dc)"
    and "sys_outb env (0x40 + ucast t) (ucast (snd (util_get_MSB (ucast (TIMER_FREQ div freq))))) dc = (rb, dd)"
    and "ra = OK \<or> rb = OK"
  shows "timer_set_frequency env t freq d = Some (0, dd)"
  using assms(2-7)
  by (auto simp: timer_set_frequency_def Let_def control_word_below_3 timer_port_below_3 [OF assms(1)]
      TIMER_CTRL_def)

text \<open>A device on which the second write to port 0x40 fails.\<close>

definition flaky_env :: "nat env" where
  "flaky_env = port_env (\<lambda>p v n. (if p = 0x40 \<and> n = 3 then - 5 else OK, Suc n)) (\<lambda>p v n. (OK, 0x34, n))"

theorem timer_set_frequency_hides_failure_witness:
  "timer_set_frequency flaky_env 0 60 0 = Some (0, 4) \<and> fst (sys_outb flaky_env 0x40 77 3) = - 5"
proof
  show "timer_set_frequency flaky_env 0 60 0 = Some (0, 4)"
    by (rule timer_set_frequency_hides_failure [where st = "0x34" and da = 1 and db = 2 and dc = 3
          and ra = 0 and rb = "- 5"])
      (simp_all add: flaky_env_def timer_get_conf_def util_sys_inb_def timer_port_def port_consts)
qed (simp add: flaky_env_def)

text \<open>
  A frequency below 19 does not fit: the divisor is truncated to 16 bits, so asking for 18 Hz
  programs the divisor 751, which is 1588 Hz.
\<close>

theorem timer_low_frequency_truncated:
  assumes "0 < freq" "freq < 19"
  shows "unat (ucast (TIMER_FREQ div freq) :: u16) = (1193182 div unat freq) mod 65536 \<and>
    unat (ucast (TIMER_FREQ div freq) :: u16) < 1193182 div unat freq"
proof -
  have f: "0 < unat freq" "unat freq < 19" using assms by (simp_all add: word_less_nat_alt)
  have "unat (ucast (TIMER_FREQ div freq) :: u16) = (1193182 div unat freq) mod 65536"
    by (simp add: unsigned_ucast_eq take_bit_eq_mod unat_div port_consts)
  moreover have "1193182 div 18 \<le> 1193182 div unat freq" using f by (intro div_le_mono2) simp_all
  then have "65536 \<le> 1193182 div unat freq" by simp
  ultimately show ?thesis using mod_less_divisor [of 65536 "1193182 div unat freq"] by linarith
qed

theorem timer_low_frequency_truncated_witness: "unat (ucast (TIMER_FREQ div 18) :: u16) = 751"
  using timer_low_frequency_truncated [of 18] by simp


definition only_timer_interrupts :: "'d env \<Rightarrow> bool" where
  "only_timer_interrupts env \<longleftrightarrow>
     (\<forall>d. \<exists>msg d'. driver_receive env d = (OK, msg, d') \<and> ipc_notify msg \<and> from_hardware msg \<and>
        interrupts msg AND 1 \<noteq> 0)"

text \<open>
  \<open>ticks\<close> counts the messages that the device has delivered: every receipt adds one, and the other
  calls that a test makes do not.
\<close>

definition counts_messages :: "'d env \<Rightarrow> ('d \<Rightarrow> nat) \<Rightarrow> bool" where
  "counts_messages env ticks \<longleftrightarrow>
     (\<forall>d. ticks (snd (snd (driver_receive env d))) = ticks d + 1) \<and>
     (\<forall>d. ticks (timer_print_elapsed_time env d) = ticks d) \<and>
     (\<forall>irq pol hook d. ticks (snd (snd (sys_irqsetpolicy env irq pol hook d))) = ticks d) \<and>
     (\<forall>hook d. ticks (snd (sys_irqrmpolicy env hook d)) = ticks d) \<and>
     (\<forall>n d. ticks (snd (kbd_print_no_sysinb env n d)) = ticks d)"

lemma counts_messagesD:
  assumes "counts_messages env ticks"
  shows "driver_receive env d = (r, msg, d') \<Longrightarrow> ticks d' = ticks d + 1"
    "ticks (timer_print_elapsed_time env d) = ticks d"
    "sys_irqsetpolicy env irq pol hook d = (r, hook', d') \<Longrightarrow> ticks d' = ticks d"
    "ticks (snd (sys_irqrmpolicy env hook d)) = ticks d" "ticks (snd (kbd_print_no_sysinb env n d)) = ticks d"
  using assms unfolding counts_messages_def by (metis snd_conv, blast, metis snd_conv, blast+)

text \<open>A device on which only the timer interrupts and which counts its interrupts.\<close>

definition tick_env :: "nat env" where
  "tick_env = (port_env (\<lambda>p v d. (OK, d)) (\<lambda>p v d. (OK, 0, d)))
     \<lparr>driver_receive := (\<lambda>d. (OK, \<lparr>ipc_notify = True, from_hardware = True, interrupts = 1\<rparr>, Suc d))\<rparr>"

lemma tick_env_counts: "counts_messages tick_env (\<lambda>d. d)" "only_timer_interrupts tick_env"
  by (simp_all add: counts_messages_def only_timer_interrupts_def tick_env_def port_env_def)

lemma delay_step:
  fixes t :: timer
  defines "k \<equiv> unat (timer_global_counter t)"
  assumes "k < 15300" "unat c = k div 60" "ints AND 1 \<noteq> 0"
  shows "\<exists>t' c' d'. delay_handle env 1 ints (t, c) d = Some ((t', c'), d') \<and>
    unat (timer_global_counter t') = k + 1 \<and> unat c' = (k + 1) div 60 \<and>
    (d' = d \<or> d' = timer_print_elapsed_time env d)"
proof -
  have inc: "unat (timer_global_counter t + 1) = k + 1"
    using assms(2) by (simp add: k_def unat_word_ariths)
  then have s: "sint (timer_global_counter t + 1) = int (k + 1)"
    using sint_of_nat_u32 [of "timer_global_counter t + 1"] assms(2) by simp
  have "k div 60 < 255" using assms(2) by simp
  then have c: "unat (c + 1) = k div 60 + 1" using assms(3) by (simp add: unat_word_ariths)
  have m: "int (k + 1) mod 60 = 0 \<longleftrightarrow> (k + 1) mod 60 = 0" by presburger
  have "(k + 1) div 60 = (if (k + 1) mod 60 = 0 then k div 60 + 1 else k div 60)"
    using div_Suc [of k 60] by simp
  then show ?thesis
    using assms(3,4) inc c m by (simp add: delay_handle_def timer_int_handler_def s)
qed

lemma delay_loop_returns:
  assumes "only_timer_interrupts env" "counts_messages env ticks"
    and "unat (timer_global_counter t) \<le> 60 * unat seconds"
    and "unat c = unat (timer_global_counter t) div 60"
  shows "\<exists>t' c' d'. recv_loop env (\<lambda>(t, c). c < seconds) (delay_handle env 1) (t, c) d = Some ((t', c'), d') \<and>
    unat (timer_global_counter t') = 60 * unat seconds \<and>
    ticks d' + unat (timer_global_counter t) = ticks d + 60 * unat seconds"
  using assms(3,4)
proof (induction "60 * unat seconds - unat (timer_global_counter t)" arbitrary: t c d)
  case 0
  then have "\<not> c < seconds" by (simp add: word_less_nat_alt)
  with 0 show ?case by (simp add: recv_loop_stop)
next
  case (Suc n)
  let ?k = "unat (timer_global_counter t)"
  have k: "?k < 60 * unat seconds" using Suc.hyps(2) by simp
  then have lt: "c < seconds" using Suc.prems(2) by (simp add: word_less_nat_alt less_mult_imp_div_less mult.commute)
  have "?k < 15300" using k u8_bound [of seconds] by linarith
  obtain msg d1 where msg: "driver_receive env d = (OK, msg, d1)" "ipc_notify msg" "from_hardware msg"
      "interrupts msg AND 1 \<noteq> 0"
    using assms(1) unfolding only_timer_interrupts_def by blast
  obtain t' c' d' where step: "delay_handle env 1 (interrupts msg) (t, c) d1 = Some ((t', c'), d')"
      and t': "unat (timer_global_counter t') = ?k + 1" "unat c' = (?k + 1) div 60"
      "d' = d1 \<or> d' = timer_print_elapsed_time env d1"
    using delay_step [OF \<open>?k < 15300\<close> Suc.prems(2) msg(4), of env d1] by blast
  have "ticks d' = ticks d + 1"
    using t'(3) counts_messagesD(1) [OF assms(2) msg(1)] counts_messagesD(2) [OF assms(2), of d1] by auto
  moreover have "recv_loop env (\<lambda>(t, c). c < seconds) (delay_handle env 1) (t, c) d =
      recv_loop env (\<lambda>(t, c). c < seconds) (delay_handle env 1) (t', c') d'"
    using lt by (subst recv_loop_interrupt [OF _ msg(1-3)]) (simp_all add: step)
  ultimately show ?case using Suc.hyps(1) [of t' c' d'] Suc.hyps(2) k t'(1,2) by simp
qed

text \<open>C23. On a device on which only the timer interrupts, \<^verbatim>\<open>delay_seconds\<close> returns, and it does so
  after exactly sixty interrupts for every second it was asked for: that many messages the device has
  delivered in the meantime, and that many the counter of the timer shows.
\<close>

theorem delay_seconds_returns:
  assumes "only_timer_interrupts env" "counts_messages env ticks"
  shows "\<exists>t' d'. delay_seconds env seconds t d = Some (t', d') \<and>
    ticks d' = ticks d + 60 * unat seconds \<and> unat (timer_global_counter t') = 60 * unat seconds"
proof -
  obtain r hook d1 where sub: "sys_irqsetpolicy env TIMER0_IRQ IRQ_REENABLE TIMER0_IRQ d = (r, hook, d1)"
    by (metis surj_pair)
  let ?t = "t\<lparr>timer_hook_id := hook, timer_global_counter := 0\<rparr>"
  obtain t' c' d' where
    "recv_loop env (\<lambda>(t, c). c < seconds) (delay_handle env 1) (?t, 0) d1 = Some ((t', c'), d')"
    "unat (timer_global_counter t') = 60 * unat seconds" "ticks d' = ticks d + 60 * unat seconds"
    using delay_loop_returns [OF assms, of ?t seconds 0 d1] counts_messagesD(3) [OF assms(2) sub] by auto
  then show ?thesis
    by (simp add: delay_seconds_def timer_subscribe_int_def sub)
      (simp add: TIMER0_IRQ_def BIT_def timer_unsubscribe_int_def counts_messagesD(4) [OF assms(2)])
qed

theorem delay_seconds_returns_witness:
  "\<exists>t' d'. delay_seconds tick_env 2 \<lparr>timer_global_counter = 9, timer_hook_id = 0\<rparr> 7 = Some (t', d') \<and>
    d' = 7 + 60 * unat (2 :: u8) \<and> unat (timer_global_counter t') = 60 * unat (2 :: u8)"
  by (rule delay_seconds_returns [OF tick_env_counts(2,1)])

end
