(* ===== verification/Proj.thy ===== *)
theory Proj
  imports Mouse Rtc Timer Video
begin

text \<open>
  \<^verbatim>\<open>game_loop\<close> of \<^verbatim>\<open>game.c\<close> and \<^verbatim>\<open>proj.c\<close>: the interrupt loop that ties the
  components together, and the program around it.
\<close>

declare split_paired_All [simp del] split_paired_Ex [simp del]

section \<open>The loop\<close>

record proj =
  kb :: kbd
  ms :: mouse
  ck :: rtc
  tm :: timer
  gm :: game
  vd :: video

definition GAME_FRAME_RATE :: u32 where "GAME_FRAME_RATE = 30"

definition frame_number :: u32 where
  "frame_number = 60 div GAME_FRAME_RATE"

text \<open>
  The three tests of the mask of a notification, in the order of the code. \<open>past\<close> is what the
  insertion of a score gets when it reads the byte after the array of scores.
\<close>

definition on_mouse :: "'d env \<Rightarrow> proj \<times> 'd \<Rightarrow> (proj \<times> 'd) option" where
  "on_mouse env s =
     (let (p, d) = s in
      map_option (\<lambda>(m, g, d). (p\<lparr>ms := m, gm := g\<rparr>, d)) (mouse_ih env (ms p) (gm p) d))"

definition on_kbc :: "'d env \<Rightarrow> (game \<Rightarrow> u8 option) \<Rightarrow> proj \<times> 'd \<Rightarrow> (proj \<times> 'd) option" where
  "on_kbc env past s =
     (let (p, d) = s in
      map_option (\<lambda>(k, g, d). (p\<lparr>kb := k, gm := g\<rparr>, d)) (kbc_ih env (past (gm p)) (kb p) (gm p) d))"

definition on_rtc :: "'d env \<Rightarrow> proj \<times> 'd \<Rightarrow> (proj \<times> 'd) option" where
  "on_rtc env s =
     (let (p, d) = s in
      map_option (\<lambda>(c, g, d). (p\<lparr>ck := c, gm := g\<rparr>, d)) (rtc_ih env (ck p) (gm p) d))"

definition on_timer :: "'d env \<Rightarrow> proj \<times> 'd \<Rightarrow> (proj \<times> 'd) option" where
  "on_timer env s =
     (let (p, d) = s; p = p\<lparr>gm := (gm p)\<lparr>frame_counter := frame_counter (gm p) + 1\<rparr>\<rparr> in
      if frame_counter (gm p) mod frame_number = 0 then do {
        (p, d) \<leftarrow> (if game_state (gm p) = MENU then on_rtc env (p, d) else Some (p, d));
        v \<leftarrow> vg_ih (gm p) (vd p);
        (g, d) \<leftarrow> game_ih env (gm p) d;
        Some (p\<lparr>vd := v, gm := g\<rparr>, d)
      } else Some (p, d))"

definition game_dispatch ::
  "'d env \<Rightarrow> (game \<Rightarrow> u8 option) \<Rightarrow> u32 \<Rightarrow> u32 \<Rightarrow> u32 \<Rightarrow> u32 \<Rightarrow> proj \<times> 'd \<Rightarrow> (proj \<times> 'd) option" where
  "game_dispatch env past irq_set_mouse irq_set_kbc irq_set_timer ints s = do {
     s \<leftarrow> (if ints AND irq_set_mouse \<noteq> 0 then on_mouse env s else Some s);
     s \<leftarrow> (if ints AND irq_set_kbc \<noteq> 0 then on_kbc env past s else Some s);
     if ints AND irq_set_timer \<noteq> 0 then on_timer env s else Some s
   }"

text \<open>
  \<open>junk\<close> is the uninitialised byte of the acknowledgement loop and \<open>line\<close> the uninitialised line
  buffer of \<^verbatim>\<open>readSaveFile\<close>.
\<close>

definition game_start ::
  "'d env \<Rightarrow> ('d \<Rightarrow> u8) \<Rightarrow> char list \<Rightarrow> proj \<Rightarrow> 'd \<Rightarrow> ((u32 \<times> u32 \<times> u32) \<times> proj \<times> 'd) option" where
  "game_start env junk line p d = do {
     (r, d) \<leftarrow> mouse_enable_data_reporting env junk d;
     let (r, bit_no_KBC, k, d) = kbc_subscribe_int env (kb p) d;
     let (r, bit_no_TIMER, t, d) = timer_subscribe_int env (tm p) d;
     let (r, bit_no_MOUSE, m, d) = mouse_subscribe_int env (ms p) d;
     (p, d) \<leftarrow> on_rtc env (p\<lparr>kb := k, tm := t, ms := m\<rparr>, d);
     let irq_set_kbc = BIT (unat bit_no_KBC);
     let irq_set_timer = BIT (unat bit_no_TIMER);
     let irq_set_mouse = BIT (unat bit_no_MOUSE);
     let (g, d) = game_initialize env (gm p) d;
     lb \<leftarrow> readSaveFile line (savefile env d) (LB g);
     Some ((irq_set_mouse, irq_set_kbc, irq_set_timer), p\<lparr>gm := g\<lparr>LB := lb\<rparr>\<rparr>, d)
   }"

definition game_finish :: "'d env \<Rightarrow> ('d \<Rightarrow> u8) \<Rightarrow> proj \<Rightarrow> 'd \<Rightarrow> (i32 \<times> proj \<times> 'd) option" where
  "game_finish env junk p d = do {
     let (opened, d) = savefile_create env d;
     out \<leftarrow> writeSaveFile opened (LB (gm p));
     let d = savefile_write env out d;
     let d = snd (timer_unsubscribe_int env (tm p) d);
     let d = snd (kbc_unsubscribe_int env (kb p) d);
     let d = snd (mouse_unsubscribe_int env (ms p) d);
     (r, d) \<leftarrow> mouse_disable_data_reporting env junk 1 d;
     Some (0, p, d)
   }"

definition game_loop ::
  "'d env \<Rightarrow> (game \<Rightarrow> u8 option) \<Rightarrow> ('d \<Rightarrow> u8) \<Rightarrow> char list \<Rightarrow> proj \<Rightarrow> 'd \<Rightarrow> (i32 \<times> proj \<times> 'd) option" where
  "game_loop env past junk line p d = do {
     ((irq_set_mouse, irq_set_kbc, irq_set_timer), p, d) \<leftarrow> game_start env junk line p d;
     (p, d) \<leftarrow> recv_loop env (\<lambda>p. game_state (gm p) \<noteq> EXIT)
       (\<lambda>ints p d. game_dispatch env past irq_set_mouse irq_set_kbc irq_set_timer ints (p, d)) p d;
     game_finish env junk p d
   }"

definition main_finish :: "'d env \<Rightarrow> proj \<Rightarrow> 'd \<Rightarrow> (i32 \<times> proj \<times> 'd) option" where
  "main_finish env p d =
     (let (r, d) = vg_exit env d in
      if r \<noteq> OK then Some (1, p, d)
      else let (ok, v) = vg_free (vd p) in Some (if \<not> ok then 1 else 0, p\<lparr>vd := v\<rparr>, d))"

definition proj_main_loop ::
  "'d env \<Rightarrow> (string \<Rightarrow> sprite) \<Rightarrow> (game \<Rightarrow> u8 option) \<Rightarrow> ('d \<Rightarrow> u8) \<Rightarrow> char list \<Rightarrow> proj \<Rightarrow> 'd \<Rightarrow>
   (i32 \<times> proj \<times> 'd) option" where
  "proj_main_loop env xpm past junk line p d = do {
     (ok, v, d) \<leftarrow> vg_prepareGraphics env GAME_GRAPHICS_MODE (vd p) d;
     if \<not> ok then Some (1, p\<lparr>vd := v\<rparr>, d)
     else
       let (ok, g, v) = vg_load_sprites xpm (gm p) v; p = p\<lparr>gm := g, vd := v\<rparr> in
       if \<not> ok then Some (1, p, d)
       else
         let (ok, d) = vg_setGraphics env GAME_GRAPHICS_MODE d in
         if \<not> ok then Some (1, p, d)
         else do {
           (r, p, d) \<leftarrow> game_loop env past junk line p d;
           main_finish env p d
         }
   }"


section \<open>The invariant of the program\<close>

definition proj_inv :: "proj \<Rightarrow> bool" where
  "proj_inv p \<longleftrightarrow> mouse_safe (gm p) \<and> packet_ok (ms p) \<and> video_ok (vd p)"

text \<open>The score leaves room for the point that the next notification may add.\<close>

definition score_room :: "proj \<Rightarrow> bool" where
  "score_room p \<longleftrightarrow> unat (points (gm p)) < 999"

text \<open>The clock answers: an update of its time always comes to an end.\<close>

definition clock_answers :: "'d env \<Rightarrow> bool" where
  "clock_answers env \<longleftrightarrow> (\<forall>c d. wait_valid_rtc env c d \<noteq> None)"

lemma update_loop_names:
  "name (pure_game_update_alien_times_loop ps g) = name g \<and> LB (pure_game_update_alien_times_loop ps g) = LB g"
  by (induction ps arbitrary: g) (simp_all add: Let_def kill_other_aliens_eq put_alien_def)

lemma generate_names:
  "name (fst (pure_game_generate_new_alien env g d)) = name g" "LB (fst (pure_game_generate_new_alien env g d)) = LB g"
proof -
  let ?s = "pure_spawn_attempts env ALIEN_RANDOM_SPAWN_ATTEMPTS (respawn g) d"
  have "name (fst ?s) = name g \<and> LB (fst ?s) = LB g"
    using spawn_attempts_result [of env ALIEN_RANDOM_SPAWN_ATTEMPTS "respawn g" d "fst ?s" "snd ?s"]
    by (auto simp: respawn_def put_alien_def Let_def)
  then show "name (fst (pure_game_generate_new_alien env g d)) = name g"
    "LB (fst (pure_game_generate_new_alien env g d)) = LB g" by (simp_all add: generate_eq)
qed

lemma game_step_names:
  "name (fst (pure_game_step env g d)) = name g" "LB (fst (pure_game_step env g d)) = LB g"
  by (simp_all add: pure_game_step_def generate_names pure_game_update_alien_times_def update_loop_names)

lemma game_leaderboard_names:
  assumes "game_leaderboard g = Some g'" "length (name g) = 7"
  shows "name g' = lb_name []" "LB g' = LB g"
  using assms by (auto simp: game_leaderboard_def Let_def bind_eq_Some_conv lb_name_def c_memset0_def split: if_splits)

lemma game_ih_names:
  assumes "game_ih env g d = Some (g', d')" "length (name g) = 7"
  shows "LB g' = LB g" "name g' = name g \<or> name g' = lb_name []"
proof -
  note ih = game_ih_Some [OF assms(1)]
  have *: "LB g' = LB g \<and> (name g' = name g \<or> name g' = lb_name [])"
  proof (cases "game_state g")
    case PLAYING
    then show ?thesis using ih game_step_names [of env g d] by (simp add: pure_game_ih_def)
  next
    case GAME_OVER
    then show ?thesis
      using ih assms(2) game_leaderboard_names
      by (auto simp: pure_game_ih_def Let_def update_over split: if_splits)
  qed (use ih in \<open>simp_all add: pure_game_ih_def\<close>)
  then show "LB g' = LB g" "name g' = name g \<or> name g' = lb_name []" by simp_all
qed

lemma game_ih_safe:
  assumes "mouse_safe g" "score_fits (points g)"
  shows "\<exists>g' d'. game_ih env g d = Some (g', d') \<and> mouse_safe g' \<and> points g' = points g"
proof -
  obtain g' d' where ih: "game_ih env g d = Some (g', d')" "game_inv g'" "points g' = points g"
    using game_ih_inv [of g env d] assms by (auto simp: mouse_safe_def)
  have len: "length (name g) = 7" using assms(1) by (simp add: mouse_safe_def game_inv_def arrays_ok_def)
  have "name_ok g'"
    using game_ih_names(2) [OF ih(1) len] assms(1)
    by (auto simp: mouse_safe_def name_ok_def typed_def)
  moreover have "plain_names (LB g')"
    using game_ih_names(1) [OF ih(1) len] assms(1) by (simp add: mouse_safe_def)
  ultimately show ?thesis using ih by (auto simp: mouse_safe_def)
qed

lemma kill_points: "unat (points (pure_mouse_check_kill g)) \<le> unat (points g) + 1"
proof -
  have "unat (points g + 1) \<le> unat (points g) + 1" by (simp add: unat_word_ariths)
  then show ?thesis by (simp add: pure_mouse_check_kill_def Let_def)
qed

lemma mouse_event_points: "unat (points (snd (pure_mouse_event_handler ev m g))) \<le> unat (points g) + 1"
  using kill_points [of "mouse_move ev g"]
  by (auto simp: pure_mouse_event_handler_def Let_def mouse_check_play_button_def
      mouse_check_exit_button_def mouse_move_eq split: game_state.splits)

text \<open>
  A mouse interrupt leaves driver and game as they are, but for the packet, or it passes one event to
  the event handler.
\<close>

lemma mouse_ih_cases:
  assumes "mouse_ih env m g d = Some (m', g', d')"
  obtains "g' = g" "mouse_hook_id m' = mouse_hook_id m"
  | ev m1 where "mouse_hook_id m1 = mouse_hook_id m" "(m'\<lparr>nbytes := nbytes m1\<rparr>, g') = pure_mouse_event_handler ev m1 g"
proof -
  obtain b where t: "take_byte b m g = Some (m', g')"
    using assms by (auto simp: mouse_ih_eq split_beta)
  let ?m = "if nbytes m = 0 then m\<lparr>arr := replicate 3 0\<rparr> else m"
  show ?thesis
  proof (cases b)
    case None
    with t have "g' = g" "mouse_hook_id m' = mouse_hook_id m" by (auto simp: take_byte_def split: if_splits)
    then show ?thesis by (rule that(1))
  next
    case (Some byte)
    let ?m1 = "?m\<lparr>arr := (arr ?m)[nbytes m := byte], nbytes := nbytes m + 1\<rparr>"
    consider "g' = g" "mouse_hook_id m' = mouse_hook_id m"
      | m2 where "mouse_event_handler (decode_packet (arr ?m1)) ?m1 g = Some (m2, g')" "m' = m2\<lparr>nbytes := 0\<rparr>"
      using t Some by (auto simp: take_byte_def Let_def split: if_splits)
    then show ?thesis
    proof cases
      case 1
      then show ?thesis by (rule that(1))
    next
      case (2 m2)
      have e: "(m2, g') = pure_mouse_event_handler (decode_packet (arr ?m1)) ?m1 g" using event_Some [OF 2(1)] .
      then have "nbytes m2 = nbytes ?m1"
        using handler_packet(1) [of "decode_packet (arr ?m1)" ?m1 g] by (metis fst_conv)
      then have "m'\<lparr>nbytes := nbytes ?m1\<rparr> = m2" using 2(2) by simp
      then show ?thesis using e that(2) [of ?m1 "decode_packet (arr ?m1)"] by simp
    qed
  qed
qed

lemma mouse_ih_points:
  assumes "mouse_ih env m g d = Some (m', g', d')"
  shows "unat (points g') \<le> unat (points g) + 1"
  using assms
proof (cases rule: mouse_ih_cases)
  case (2 ev m1)
  then show ?thesis using mouse_event_points [of ev m1 g] by (metis snd_conv)
qed simp

lemma keyboard_event_points:
  assumes "keyboard_event_handler env past sc g d = Some (g', d')"
  shows "unat (points g') \<le> unat (points g)"
proof -
  have save: "points g2 = points g1" if "game_save_and_display_lb past g1 = Some g2" for g1 g2
    using that by (auto simp: game_save_and_display_lb_def bind_eq_Some_conv)
  have del: "points g2 = points g1" if "delete_last g1 = Some g2" for g1 g2
    using that by (auto simp: delete_last_def bind_eq_Some_conv)
  have "points g2 = points g" if "lb_input_key past sc g = Some g2" for g2
    using that save del
    by (auto simp: lb_input_key_def bind_eq_Some_conv split: if_splits option.splits)
  then show ?thesis
    using assms initialize_frame(3) [of env g d]
    by (cases "game_state g") (auto simp: keyboard_event_handler_def split: if_splits)
qed

lemma kbc_ih_points:
  "kbc_ih env past k g d = Some (k', g', d') \<Longrightarrow> unat (points g') \<le> unat (points g)"
  using keyboard_event_points by (auto simp: kbc_ih_def Let_def split_beta split: if_splits)

lemma mouse_safe_frame: "mouse_safe (g\<lparr>frame_counter := c\<rparr>) = mouse_safe g"
    "mouse_safe (g\<lparr>hours := a, minutes := b\<rparr>) = mouse_safe g"
  by (simp_all add: mouse_safe_def game_inv_defs grid_ok_def over_ok_def killer_pos_def name_ok_def)

lemma rtc_ih_safe:
  assumes "clock_answers env" "mouse_safe g"
  shows "\<exists>c' g' d'. rtc_ih env c g d = Some (c', g', d') \<and> mouse_safe g' \<and> points g' = points g"
proof -
  obtain c1 d1 where w: "wait_valid_rtc env c d = Some (c1, d1)"
    using assms(1) unfolding clock_answers_def by (metis not_Some_eq surj_pair)
  then obtain c' d' where "read_time env c d = Some (c', d')"
    by (simp add: read_time_def Let_def split_beta)
  then show ?thesis using assms(2) by (simp add: rtc_ih_def Let_def mouse_safe_frame)
qed


lemma on_mouse_safe:
  assumes "proj_inv p"
  shows "\<exists>p' d'. on_mouse env (p, d) = Some (p', d') \<and> proj_inv p' \<and>
    unat (points (gm p')) \<le> unat (points (gm p)) + 1"
proof -
  obtain m g d' where "mouse_ih env (ms p) (gm p) d = Some (m, g, d')" "mouse_safe g" "packet_ok m"
    using mouse_ih_safe [of "gm p" "ms p" env d] assms by (auto simp: proj_inv_def)
  with mouse_ih_points assms show ?thesis by (auto simp: on_mouse_def proj_inv_def)
qed

text \<open>No mouse interrupt touches a score that is being entered.\<close>

lemma event_input:
  assumes "game_state (snd (pure_mouse_event_handler ev m g)) = LB_INPUT"
  shows "game_state g = LB_INPUT" "points (snd (pure_mouse_event_handler ev m g)) = points g"
    "LB (snd (pure_mouse_event_handler ev m g)) = LB g"
  using assms
  by (auto simp: pure_mouse_event_handler_def Let_def mouse_move_eq mouse_check_play_button_def
      mouse_check_exit_button_def mouse_check_kill_frame split: game_state.splits if_splits)

lemma mouse_ih_input:
  assumes "mouse_ih env m g d = Some (m', g', d')" "game_state g' = LB_INPUT"
  shows "game_state g = LB_INPUT \<and> points g' = points g \<and> LB g' = LB g"
  using assms(1)
proof (cases rule: mouse_ih_cases)
  case (2 ev m1)
  then show ?thesis using event_input [of ev m1 g] assms(2) by (metis snd_conv)
qed (use assms(2) in simp)

text \<open>
  Reading the byte after the array of scores counts as a fault, and a name is being entered for a score
  above all entries of the table but the lowest: its insertion would make that read.
\<close>

definition reads_past_table :: "(game \<Rightarrow> u8 option) \<Rightarrow> proj \<Rightarrow> bool" where
  "reads_past_table past p \<longleftrightarrow> (\<exists>g. past g = None) \<and> game_state (gm p) = LB_INPUT \<and>
     (\<forall>e \<in> set (tl (entries (LB (gm p)))). int (fst e) < sint (points (gm p)))"

definition table_room :: "(game \<Rightarrow> u8 option) \<Rightarrow> proj \<Rightarrow> bool" where
  "table_room past p \<longleftrightarrow>
     (game_state (gm p) = LB_INPUT \<and> (\<exists>g. past g = None) \<longrightarrow> stops_inside (points (gm p)) (LB (gm p)))"

lemma no_room: "\<not> (score_room p \<and> table_room past p) \<Longrightarrow> 999 \<le> unat (points (gm p)) \<or> reads_past_table past p"
  by (auto simp: score_room_def table_room_def reads_past_table_def stops_inside_def)

lemma table_room_ok: "table_room past p \<Longrightarrow> table_ok (past (gm p)) (gm p)"
  unfolding table_room_def table_ok_def by auto

lemma table_room_Some [simp]: "table_room (\<lambda>g. Some (past g)) p"
  by (simp add: table_room_def)

lemma on_mouse_room:
  "on_mouse env (p, d) = Some (p', d') \<Longrightarrow> table_room past p \<Longrightarrow> table_room past p'"
  using mouse_ih_input by (fastforce simp: on_mouse_def table_room_def)

lemma on_kbc_safe:
  assumes "proj_inv p" "score_fits (points (gm p))" "table_room past p"
  shows "\<exists>p' d'. on_kbc env past (p, d) = Some (p', d') \<and> proj_inv p' \<and> score_fits (points (gm p')) \<and>
    unat (points (gm p')) \<le> unat (points (gm p))"
proof -
  obtain k g d' where "kbc_ih env (past (gm p)) (kb p) (gm p) d = Some (k, g, d')" "kbd_safe g"
    using kbc_ih_safe [OF _ table_room_ok [OF assms(3)], of env "kb p" d] assms(1,2)
    by (auto simp: proj_inv_def kbd_safe_eq)
  with assms(1) kbc_ih_points show ?thesis by (auto simp: on_kbc_def proj_inv_def kbd_safe_eq)
qed

lemma on_rtc_safe:
  assumes "clock_answers env" "proj_inv p"
  shows "\<exists>p' d'. on_rtc env (p, d) = Some (p', d') \<and> proj_inv p' \<and> points (gm p') = points (gm p)"
proof -
  obtain c g d' where "rtc_ih env (ck p) (gm p) d = Some (c, g, d')" "mouse_safe g" "points g = points (gm p)"
    using rtc_ih_safe [OF assms(1), of "gm p" "ck p" d] assms(2) by (auto simp: proj_inv_def)
  with assms(2) show ?thesis by (auto simp: on_rtc_def proj_inv_def)
qed

lemma on_timer_safe:
  assumes "clock_answers env" "proj_inv p" "score_fits (points (gm p))"
  shows "\<exists>p' d'. on_timer env (p, d) = Some (p', d') \<and> proj_inv p' \<and> points (gm p') = points (gm p)"
proof -
  let ?p = "p\<lparr>gm := (gm p)\<lparr>frame_counter := frame_counter (gm p) + 1\<rparr>\<rparr>"
  have inv: "proj_inv ?p" using assms(2) by (simp add: proj_inv_def mouse_safe_frame)
  obtain p1 d1 where p1: "(if game_state (gm ?p) = MENU then on_rtc env (?p, d) else Some (?p, d)) = Some (p1, d1)"
      "proj_inv p1" "points (gm p1) = points (gm p)"
    using on_rtc_safe [OF assms(1) inv, of d] inv by (cases "game_state (gm ?p) = MENU") auto
  obtain v where v: "vg_ih (gm p1) (vd p1) = Some v" "video_ok v"
    using vg_ih_returns [of "vd p1" "gm p1"] p1(2) by (auto simp: proj_inv_def mouse_safe_def)
  obtain g d2 where g: "game_ih env (gm p1) d1 = Some (g, d2)" "mouse_safe g" "points g = points (gm p)"
    using game_ih_safe [of "gm p1" env d1] p1(2,3) assms(3) by (auto simp: proj_inv_def)
  have "proj_inv (p1\<lparr>vd := v, gm := g\<rparr>)" using p1(2) v(2) g(2) by (simp add: proj_inv_def)
  with p1(1) v(1) g(1,3) inv show ?thesis by (simp add: on_timer_def Let_def)
qed

lemma game_dispatch_safe:
  assumes "clock_answers env" "proj_inv p" "score_room p" "table_room past p"
  shows "\<exists>p' d'. game_dispatch env past im ik it ints (p, d) = Some (p', d') \<and> proj_inv p' \<and>
    unat (points (gm p')) \<le> unat (points (gm p)) + 1"
proof -
  obtain p1 d1 where 1: "(if ints AND im \<noteq> 0 then on_mouse env (p, d) else Some (p, d)) = Some (p1, d1)"
      "proj_inv p1" "score_fits (points (gm p1))" "unat (points (gm p1)) \<le> unat (points (gm p)) + 1"
    using on_mouse_safe [OF assms(2), of env d] assms(2,3)
    by (cases "ints AND im \<noteq> 0") (auto simp: score_room_def score_fits_def)
  have room: "table_room past p1" using 1(1) on_mouse_room assms(4) by (auto split: if_splits)
  obtain p2 d2 where 2: "(if ints AND ik \<noteq> 0 then on_kbc env past (p1, d1) else Some (p1, d1)) = Some (p2, d2)"
      "proj_inv p2" "score_fits (points (gm p2))" "unat (points (gm p2)) \<le> unat (points (gm p1))"
    using on_kbc_safe [OF 1(2,3) room, of env d1] 1(2,3) by (cases "ints AND ik \<noteq> 0") auto
  show ?thesis
    using 1(1,4) 2 on_timer_safe [OF assms(1) 2(2,3), of d2] by (auto simp: game_dispatch_def)
qed


interpretation game_events: guarded_handler "game_dispatch env past im ik it"
    "\<lambda>(p, d). clock_answers env \<and> proj_inv p" "\<lambda>(p, d). score_room p \<and> table_room past p"
  by unfold_locales (use game_dispatch_safe in fastforce)

section \<open>The diagram of the game states\<close>

text \<open>Which interrupt may take the game from a state to another.\<close>

datatype irq = MOUSE_INT | KBD_INT | TIMER_INT

inductive gs_step :: "irq \<Rightarrow> game_state \<Rightarrow> game_state \<Rightarrow> bool" where
  play_clicked: "gs_step MOUSE_INT MENU PLAYING"
| exit_clicked: "gs_step MOUSE_INT MENU EXIT"
| escaped: "s \<noteq> EXIT \<Longrightarrow> gs_step KBD_INT s EXIT"
| paused: "gs_step KBD_INT PLAYING PAUSE"
| resumed: "gs_step KBD_INT PAUSE PLAYING"
| saved: "gs_step KBD_INT LB_INPUT LEADERBOARD"
| restarted: "gs_step KBD_INT LEADERBOARD MENU"
| player_dies: "gs_step TIMER_INT PLAYING GAME_OVER"
| new_record: "gs_step TIMER_INT GAME_OVER LB_INPUT"
| no_record: "gs_step TIMER_INT GAME_OVER LEADERBOARD"

inductive_cases gs_step_EXIT: "gs_step i EXIT s"

text \<open>At most one step, and none when the interrupt was not raised.\<close>

definition gs_move :: "bool \<Rightarrow> irq \<Rightarrow> game_state \<Rightarrow> game_state \<Rightarrow> bool" where
  "gs_move raised i s s' \<longleftrightarrow> s' = s \<or> raised \<and> gs_step i s s'"

lemma gs_move_refl [simp]: "gs_move b i s s"
  by (simp add: gs_move_def)

lemma gs_move_step: "gs_step i s s' \<Longrightarrow> gs_move True i s s'"
  by (simp add: gs_move_def)

lemmas gs_moves = gs_step.intros [THEN gs_move_step]

lemma gs_move_escaped: "gs_move True KBD_INT s EXIT"
  by (cases "s = EXIT") (simp_all add: gs_moves)

lemma gs_move_EXIT: "gs_move b i EXIT s \<Longrightarrow> s = EXIT"
  by (auto simp: gs_move_def elim: gs_step_EXIT)

lemma update_loop_state:
  "game_state g = S \<Longrightarrow> S \<noteq> GAME_OVER \<Longrightarrow>
   game_state (pure_game_update_alien_times_loop ps g) = S \<or> game_state (pure_game_update_alien_times_loop ps g) = GAME_OVER"
proof (induction ps arbitrary: g)
  case (Cons p ps)
  have put: "game_state (pure_game_update_alien_times_loop ps (put_alien p a g)) = S \<or>
      game_state (pure_game_update_alien_times_loop ps (put_alien p a g)) = GAME_OVER" for a
    using Cons.prems by (intro Cons.IH) simp_all
  show ?case
    using put Cons.IH [OF Cons.prems] Cons.prems by (simp add: Let_def kill_other_aliens_eq)
qed simp

lemma game_leaderboard_state: "game_leaderboard g = Some g' \<Longrightarrow> game_state g' \<in> {LB_INPUT, LEADERBOARD}"
  by (auto simp: game_leaderboard_def Let_def bind_eq_Some_conv split: if_splits)

lemma game_ih_diagram:
  assumes "game_ih env g d = Some (g', d')"
  shows "gs_move True TIMER_INT (game_state g) (game_state g')"
proof (cases "game_state g")
  case PLAYING
  then have "game_state g' \<in> {PLAYING, GAME_OVER}"
    using game_ih_Some [OF assms] update_loop_state [OF PLAYING, of positions]
      generate_frame(1) [of env "pure_game_update_alien_times g" d]
    by (simp add: pure_game_ih_def pure_game_step_def pure_game_update_alien_times_def)
  with PLAYING show ?thesis by (auto simp: gs_moves)
next
  case GAME_OVER
  then have "game_state g' \<in> {GAME_OVER, LB_INPUT, LEADERBOARD}"
    using game_ih_Some [OF assms] game_leaderboard_state
    by (auto simp: pure_game_ih_def Let_def update_over split: if_splits)
  with GAME_OVER show ?thesis by (auto simp: gs_moves)
qed (use assms in \<open>simp_all add: game_ih_def\<close>)

lemma save_state: "game_save_and_display_lb past g = Some g' \<Longrightarrow> game_state g' = LEADERBOARD"
  by (auto simp: game_save_and_display_lb_def bind_eq_Some_conv)

lemma delete_state: "delete_last g = Some g' \<Longrightarrow> game_state g' = game_state g"
  by (auto simp: delete_last_def bind_eq_Some_conv)

lemma lb_input_key_state:
  assumes "lb_input_key past sc g = Some g'"
  shows "game_state g' = game_state g \<or> game_state g' = LEADERBOARD"
proof (cases "name g ! 5 = NUL")
  case True
  then show ?thesis
    using assms save_state delete_state
    by (cases "map_of letter_keys sc") (auto simp: lb_input_key_def bind_eq_Some_conv split: if_splits)
next
  case False
  then have "(if sc = DEL_MAKE \<and> name g1 ! 0 \<noteq> NUL then delete_last g1 else Some g1) = Some g'"
    if "(if sc = ENTER_MAKE \<and> name g ! 0 \<noteq> NUL then game_save_and_display_lb past g else Some g) = Some g1" for g1
    using assms that by (simp add: lb_input_key_def)
  then show ?thesis
    using assms False save_state delete_state
    by (cases "sc = ENTER_MAKE \<and> name g ! 0 \<noteq> NUL"; cases "game_save_and_display_lb past g")
      (auto simp: lb_input_key_def split: if_splits)
qed

lemma keyboard_diagram:
  assumes "keyboard_event_handler env past sc g d = Some (g', d')"
  shows "gs_move True KBD_INT (game_state g) (game_state g')"
proof -
  have init: "game_state (fst (game_initialize env g d)) = MENU"
    by (simp add: game_initialize_def game_reset_def Let_def)
  show ?thesis
    using assms lb_input_key_state [of past sc g] init
    by (cases "game_state g") (auto simp: keyboard_event_handler_def gs_move_escaped gs_moves split: if_splits)
qed

lemma kbc_ih_diagram:
  assumes "kbc_ih env past k g d = Some (k', g', d')"
  shows "gs_move True KBD_INT (game_state g) (game_state g')"
  using assms keyboard_diagram
  by (auto simp: kbc_ih_def Let_def split_beta split: if_splits)

lemma mouse_event_diagram:
  "gs_move True MOUSE_INT (game_state g) (game_state (snd (pure_mouse_event_handler ev m g)))"
proof -
  have mv: "game_state (mouse_move ev g) = game_state g" by (simp add: mouse_move_eq)
  show ?thesis
    by (cases "game_state g") (auto simp: pure_mouse_event_handler_def Let_def mv mouse_check_kill_frame
        mouse_check_play_button_def mouse_check_exit_button_def gs_move_escaped gs_moves)
qed

lemma mouse_ih_diagram:
  assumes "mouse_ih env m g d = Some (m', g', d')"
  shows "gs_move True MOUSE_INT (game_state g) (game_state g')"
  using assms
proof (cases rule: mouse_ih_cases)
  case (2 ev m1)
  then show ?thesis using mouse_event_diagram [of g ev m1] by (metis snd_conv)
qed simp

lemma rtc_ih_diagram: "rtc_ih env c g d = Some (c', g', d') \<Longrightarrow> game_state g' = game_state g"
  by (auto simp: rtc_ih_def Let_def bind_eq_Some_conv)

lemma on_timer_diagram:
  assumes "on_timer env (p, d) = Some (p', d')"
  shows "gs_move True TIMER_INT (game_state (gm p)) (game_state (gm p'))"
proof -
  let ?p = "p\<lparr>gm := (gm p)\<lparr>frame_counter := frame_counter (gm p) + 1\<rparr>\<rparr>"
  have rtc: "game_state (gm p1) = game_state (gm p)" if "on_rtc env (?p, d) = Some (p1, d1)" for p1 d1
    using that by (auto simp: on_rtc_def dest!: rtc_ih_diagram)
  show ?thesis
  proof (cases "frame_counter (gm ?p) mod frame_number = 0")
    case True
    then obtain p1 d1 v g where
      1: "(if game_state (gm ?p) = MENU then on_rtc env (?p, d) else Some (?p, d)) = Some (p1, d1)"
      and 2: "game_ih env (gm p1) d1 = Some (g, d')" and 3: "p' = p1\<lparr>vd := v, gm := g\<rparr>"
      using assms by (auto simp: on_timer_def Let_def bind_eq_Some_conv)
    have "game_state (gm p1) = game_state (gm p)" using 1 rtc by (auto split: if_splits)
    with game_ih_diagram [OF 2] 3 show ?thesis by simp
  next
    case False
    then show ?thesis using assms by (auto simp: on_timer_def Let_def)
  qed
qed

lemma on_mouse_diagram:
  "on_mouse env (p, d) = Some (p', d') \<Longrightarrow> gs_move True MOUSE_INT (game_state (gm p)) (game_state (gm p'))"
  using mouse_ih_diagram by (auto simp: on_mouse_def)

lemma on_kbc_diagram:
  "on_kbc env past (p, d) = Some (p', d') \<Longrightarrow> gs_move True KBD_INT (game_state (gm p)) (game_state (gm p'))"
  using kbc_ih_diagram by (auto simp: on_kbc_def)

lemma game_dispatch_parts:
  assumes "game_dispatch env past im ik it ints (p, d) = Some (p', d')"
  obtains p1 d1 p2 d2 where
    "(if ints AND im \<noteq> 0 then on_mouse env (p, d) else Some (p, d)) = Some (p1, d1)"
    "(if ints AND ik \<noteq> 0 then on_kbc env past (p1, d1) else Some (p1, d1)) = Some (p2, d2)"
    "(if ints AND it \<noteq> 0 then on_timer env (p2, d2) else Some (p2, d2)) = Some (p', d')"
  using assms by (auto simp: game_dispatch_def bind_eq_Some_conv)

text \<open>The identifiers that the kernel gave for the subscriptions; no handler changes them.\<close>

definition hooks :: "proj \<Rightarrow> i32 \<times> i32 \<times> i32" where
  "hooks p = (kbc_hook_id (kb p), timer_hook_id (tm p), mouse_hook_id (ms p))"

lemma mouse_ih_hook:
  assumes "mouse_ih env m g d = Some (m', g', d')"
  shows "mouse_hook_id m' = mouse_hook_id m"
  using assms
proof (cases rule: mouse_ih_cases)
  case (2 ev m1)
  have "mouse_hook_id (fst (pure_mouse_event_handler ev m1 g)) = mouse_hook_id m1"
    by (cases "game_state (mouse_move ev g)") (simp_all add: pure_mouse_event_handler_def Let_def)
  then have "mouse_hook_id (m'\<lparr>nbytes := nbytes m1\<rparr>) = mouse_hook_id m1" by (metis 2(2) fst_conv)
  with 2(1) show ?thesis by simp
qed

lemma game_dispatch_hooks:
  assumes "game_dispatch env past im ik it ints (p, d) = Some (p', d')"
  shows "hooks p' = hooks p"
proof -
  from assms obtain p1 d1 p2 d2 where
    1: "(if ints AND im \<noteq> 0 then on_mouse env (p, d) else Some (p, d)) = Some (p1, d1)"
    and 2: "(if ints AND ik \<noteq> 0 then on_kbc env past (p1, d1) else Some (p1, d1)) = Some (p2, d2)"
    and 3: "(if ints AND it \<noteq> 0 then on_timer env (p2, d2) else Some (p2, d2)) = Some (p', d')"
    by (rule game_dispatch_parts)
  have "hooks p1 = hooks p"
    using 1 mouse_ih_hook by (auto simp: on_mouse_def hooks_def split: if_splits)
  moreover have "hooks p2 = hooks p1"
    using 2 by (auto simp: on_kbc_def hooks_def kbc_ih_def Let_def split_beta split: if_splits)
  moreover have "hooks p' = hooks p2"
    using 3 by (auto simp: on_timer_def on_rtc_def hooks_def Let_def bind_eq_Some_conv split: if_splits)
  ultimately show ?thesis by simp
qed

interpretation game_loop: interrupt_loop env "\<lambda>p. game_state (gm p) \<noteq> EXIT"
    "\<lambda>ints p d. game_dispatch env past im ik it ints (p, d)" "\<lambda>p. hooks p = H"
  by unfold_locales (simp add: game_dispatch_hooks)


section \<open>Properties\<close>

definition start_proj :: proj where
  "start_proj = \<lparr>kb = \<lparr>kbc_hook_id = 1, flagESC = False, flag2Bytes = False\<rparr>, ms = idle_mouse,
     ck = zero_clock, tm = \<lparr>timer_global_counter = 0, timer_hook_id = 0\<rparr>, gm = play_game, vd = tiny_video\<rparr>"

lemma start_proj_inv: "proj_inv start_proj"
  by (simp add: start_proj_def proj_inv_def play_game_mouse_safe tiny_video_ok packet_ok_def idle_mouse_def)

lemma fixed_clock_answers: "clock_answers (fixed_env (\<lambda>_. 0))"
  unfolding clock_answers_def
proof (intro allI)
  fix c d
  show "wait_valid_rtc (fixed_env (\<lambda>_. 0)) c d \<noteq> None"
    by (subst wait_valid_rtc.simps)
      (simp add: Let_def split_beta disable_interrupts_rtc_def enable_interrupts_rtc_def read_reg_B_def
        write_reg_B_def util_sys_inb_def port_consts)
qed

text \<open>C1. The running game never goes wrong as long as the clock answers, the score stays below 999 and
  no score is entered that would be read past the table: for every sequence of interrupts of mouse,
  keyboard and timer, in every combination and order, either all of it is handled, with no access
  outside the matrix of aliens, the screen buffers, the sprites, the strings, the table and the packet,
  and the invariant of game, mouse packet and video intact at the end; or the player has 999 points or
  more at some moment; or, when reading the byte after the array of scores counts as a fault, at some
  moment a name is being entered for a score above all entries of the table but the lowest.
\<close>

theorem game_runs_safely:
  assumes "clock_answers env" "proj_inv p"
  shows "(\<exists>p' d'. run_events (game_dispatch env past im ik it) ints (p, d) = Some (p', d') \<and> proj_inv p') \<or>
    (\<exists>before rest p1 d1. ints = before @ rest \<and>
       run_events (game_dispatch env past im ik it) before (p, d) = Some (p1, d1) \<and>
       (999 \<le> unat (points (gm p1)) \<or> reads_past_table past p1))"
proof -
  have "(\<exists>s'. run_events (game_dispatch env past im ik it) ints (p, d) = Some s' \<and>
        (case s' of (p, d) \<Rightarrow> clock_answers env \<and> proj_inv p)) \<or>
    (\<exists>before rest s1. ints = before @ rest \<and>
        run_events (game_dispatch env past im ik it) before (p, d) = Some s1 \<and>
        (case s1 of (p, d) \<Rightarrow> clock_answers env \<and> proj_inv p) \<and>
        \<not> (case s1 of (p, d) \<Rightarrow> score_room p \<and> table_room past p))"
    using assms by (intro game_events.run_guarded) simp
  then show ?thesis
  proof (elim disjE exE conjE)
    fix s' assume "run_events (game_dispatch env past im ik it) ints (p, d) = Some s'"
      "case s' of (p, d) \<Rightarrow> clock_answers env \<and> proj_inv p"
    then show ?thesis by (cases s') auto
  next
    fix before rest s1
    assume "ints = before @ rest" "run_events (game_dispatch env past im ik it) before (p, d) = Some s1"
      "\<not> (case s1 of (p, d) \<Rightarrow> score_room p \<and> table_room past p)"
    then show ?thesis using no_room [of "fst s1" past] by (cases s1) (simp, blast)
  qed
qed

theorem game_runs_safely_witness:
  "(\<exists>p' d'. run_events (game_dispatch (fixed_env (\<lambda>_. 0)) (\<lambda>_. None) 0x1000 2 1) [1, 1, 0x1003] (start_proj, [])
      = Some (p', d') \<and> proj_inv p') \<or>
    (\<exists>before rest p1 d1. [1, 1, 0x1003] = before @ rest \<and>
       run_events (game_dispatch (fixed_env (\<lambda>_. 0)) (\<lambda>_. None) 0x1000 2 1) before (start_proj, []) = Some (p1, d1) \<and>
       (999 \<le> unat (points (gm p1)) \<or> reads_past_table (\<lambda>_. None) p1))"
  by (rule game_runs_safely [OF fixed_clock_answers start_proj_inv])

text \<open>C4. Whatever interrupts arrive together, the handlers move the state of the game only along the
  diagram, at most one step for each interrupt that was raised, in the order mouse, keyboard, timer:
  a click takes the menu to the game or to the exit; a key pauses and resumes, takes the input of a
  name to the table and the table to the menu, and leaves from everywhere; a frame takes the game to
  its end, and the end to the input of a name or to the table. Nothing leaves the exit.
\<close>

theorem states_follow_diagram:
  assumes "game_dispatch env past im ik it ints (p, d) = Some (p', d')"
  shows "\<exists>s1 s2. gs_move (ints AND im \<noteq> 0) MOUSE_INT (game_state (gm p)) s1 \<and>
    gs_move (ints AND ik \<noteq> 0) KBD_INT s1 s2 \<and>
    gs_move (ints AND it \<noteq> 0) TIMER_INT s2 (game_state (gm p'))"
proof -
  from assms obtain p1 d1 p2 d2 where
    1: "(if ints AND im \<noteq> 0 then on_mouse env (p, d) else Some (p, d)) = Some (p1, d1)"
    and 2: "(if ints AND ik \<noteq> 0 then on_kbc env past (p1, d1) else Some (p1, d1)) = Some (p2, d2)"
    and 3: "(if ints AND it \<noteq> 0 then on_timer env (p2, d2) else Some (p2, d2)) = Some (p', d')"
    by (rule game_dispatch_parts)
  have "gs_move (ints AND im \<noteq> 0) MOUSE_INT (game_state (gm p)) (game_state (gm p1))"
    using 1 on_mouse_diagram by (auto split: if_splits)
  moreover have "gs_move (ints AND ik \<noteq> 0) KBD_INT (game_state (gm p1)) (game_state (gm p2))"
    using 2 on_kbc_diagram by (auto split: if_splits)
  moreover have "gs_move (ints AND it \<noteq> 0) TIMER_INT (game_state (gm p2)) (game_state (gm p'))"
    using 3 on_timer_diagram by (auto split: if_splits)
  ultimately show ?thesis by blast
qed

theorem states_follow_diagram_witness:
  "\<exists>p' d' s1 s2. game_dispatch (fixed_env (\<lambda>_. 0)) (\<lambda>_. None) 0x1000 2 1 0x1003 (start_proj, []) = Some (p', d') \<and>
    gs_move True MOUSE_INT PLAYING s1 \<and> gs_move True KBD_INT s1 s2 \<and> gs_move True TIMER_INT s2 (game_state (gm p'))"
proof -
  have "score_room start_proj" "table_room (\<lambda>_. None) start_proj"
    by (simp_all add: score_room_def table_room_def start_proj_def play_game_facts)
  then obtain p' d' where
    "game_dispatch (fixed_env (\<lambda>_. 0)) (\<lambda>_. None) 0x1000 2 1 0x1003 (start_proj, []) = Some (p', d')"
    using game_dispatch_safe [OF fixed_clock_answers start_proj_inv] by blast
  moreover have "game_state (gm start_proj) = PLAYING" by (simp add: start_proj_def play_game_facts)
  moreover have "(0x1003 :: u32) AND 0x1000 = 0x1000" "(0x1003 :: u32) AND 2 = 2" "(0x1003 :: u32) AND 1 = 1"
    by simp_all
  ultimately show ?thesis using states_follow_diagram by fastforce
qed

text \<open>
  The keyboard holds a scan code: the status port announces a byte of the keyboard, the output
  buffer gives that byte, and the status shows no error after it was read.
\<close>

definition key_waits :: "'d env \<Rightarrow> u8 \<Rightarrow> 'd \<Rightarrow> bool" where
  "key_waits env sc d \<longleftrightarrow>
     (\<forall>v. sys_inb env 0x64 v d = (OK, 1, d)) \<and>
     (\<exists>d'. \<forall>v. sys_inb env 0x60 v d = (OK, ucast sc, d') \<and>
        fst (sys_inb env 0x64 v d') = OK \<and> fst (snd (sys_inb env 0x64 v d')) \<in> {0, 1})"

lemma flag2Bytes_clear: "\<not> flag2Bytes k \<Longrightarrow> k\<lparr>flag2Bytes := False\<rparr> = k"
  by (cases k) simp

lemma kbc_ih_key:
  assumes "key_waits env sc d" "sc \<noteq> KBC_SCANCODE_2B"
  shows "\<exists>d'. kbc_ih env past k g d =
    map_option (\<lambda>(g, d). (k\<lparr>flag2Bytes := False, flagESC := if sc = ESC_BREAK then False else flagESC k\<rparr>, g, d))
      (keyboard_event_handler env past sc g d')"
proof -
  obtain d' where st: "\<And>v. sys_inb env 0x64 v d = (OK, 1, d)" "\<And>v. sys_inb env 0x60 v d = (OK, ucast sc, d')"
    "fst (sys_inb env 0x64 0 d') = OK" "fst (snd (sys_inb env 0x64 0 d')) \<in> {0, 1}"
    using assms(1) unfolding key_waits_def by blast
  obtain r x d2 where st2: "sys_inb env 0x64 0 d' = (r, x, d2)" by (metis surj_pair)
  show ?thesis
    using assms(2) st(3,4)
    by (auto simp: st(1,2) st2 kbc_ih_def kbc_output_buf_full_def keyboard_check_def kbc_read_output_buffer_def
        kbc_communication_error_def util_sys_inb_def Let_def BIT_def port_consts flag2Bytes_clear)
qed

lemma esc_dispatch:
  assumes "ints AND im = 0" "ints AND ik \<noteq> 0" "ints AND it = 0" "key_waits env ESC_BREAK d"
  shows "\<exists>d'. game_dispatch env past im ik it ints (p, d) =
    Some (p\<lparr>kb := (kb p)\<lparr>flag2Bytes := False, flagESC := False\<rparr>, gm := (gm p)\<lparr>game_state := EXIT\<rparr>\<rparr>, d')"
  using assms(1-3) kbc_ih_key [OF assms(4), of "past (gm p)" "kb p" "gm p"]
  by (auto simp: keyboard_event_handler_def port_consts game_dispatch_def on_kbc_def)

lemma esc_ends_loop:
  assumes "driver_receive env d = (OK, msg, d1)" "ipc_notify msg" "from_hardware msg"
    and "interrupts msg AND im = 0" "interrupts msg AND ik \<noteq> 0" "interrupts msg AND it = 0"
    and "key_waits env ESC_BREAK d1" "game_state (gm p) \<noteq> EXIT"
  shows "\<exists>d'. recv_loop env (\<lambda>p. game_state (gm p) \<noteq> EXIT)
      (\<lambda>ints p d. game_dispatch env past im ik it ints (p, d)) p d =
    Some (p\<lparr>kb := (kb p)\<lparr>flag2Bytes := False, flagESC := False\<rparr>, gm := (gm p)\<lparr>game_state := EXIT\<rparr>\<rparr>, d')"
  using assms esc_dispatch [OF assms(4-7), of past p]
  by (auto simp: recv_loop_interrupt recv_loop_stop)

text \<open>The escape key always leaves the game: when the next notification is an interrupt of the
  keyboard alone and the controller holds the break code of that key, the interrupt loop returns
  after it, in the exit state, with nothing else of the game, its video state and its mouse changed.
\<close>

theorem esc_leaves_game:
  assumes "driver_receive env d = (OK, msg, d1)" "ipc_notify msg" "from_hardware msg"
    and "interrupts msg AND im = 0" "interrupts msg AND ik \<noteq> 0" "interrupts msg AND it = 0"
    and "key_waits env ESC_BREAK d1" "game_state (gm p) \<noteq> EXIT"
  shows "\<exists>p' d'. recv_loop env (\<lambda>p. game_state (gm p) \<noteq> EXIT)
      (\<lambda>ints p d. game_dispatch env past im ik it ints (p, d)) p d = Some (p', d') \<and>
    gm p' = (gm p)\<lparr>game_state := EXIT\<rparr> \<and> vd p' = vd p \<and> ms p' = ms p"
  using esc_ends_loop [OF assms] by fastforce

text \<open>
  A device whose mouse acknowledges what is written and whose notifications are the break code
  of the escape key.
\<close>

definition esc_env :: "bool env" where
  "esc_env = (port_env (\<lambda>p v d. (OK, False))
     (\<lambda>p v d. (OK, if p = 0x64 then 1 else if p = 0x60 then if d then 0x81 else 0xFA else 0, d)))
       \<lparr>driver_receive := (\<lambda>d. (OK, \<lparr>ipc_notify = True, from_hardware = True, interrupts = 2\<rparr>, True)),
        vbe_get_mode_info := (\<lambda>m d. (OK, sim_mode\<lparr>XResolution := 800, YResolution := 600\<rparr>, d)),
        vm_map_phys := (\<lambda>b n d. (Some (replicate (unat n) 0), d)), malloc_bytes := (\<lambda>n d. (replicate (unat n) 0, d))\<rparr>"

lemma esc_env_simps [simp]:
  "sys_outb esc_env p v d = (OK, False)"
  "sys_inb esc_env p v d = (OK, if p = 0x64 then 1 else if p = 0x60 then if d then 0x81 else 0xFA else 0, d)"
  "sys_irqsetpolicy esc_env irq pol hook d = (OK, hook, d)" "sys_irqrmpolicy esc_env hook d = (OK, d)"
  "driver_receive esc_env d = (OK, \<lparr>ipc_notify = True, from_hardware = True, interrupts = 2\<rparr>, True)"
  "savefile esc_env d = None" "savefile_create esc_env d = (True, d)" "savefile_write esc_env s d = d" "srand_time esc_env d = d"
  "vbe_get_mode_info esc_env m d = (OK, sim_mode\<lparr>XResolution := 800, YResolution := 600\<rparr>, d)" "sys_int86 esc_env reg d = (OK, d)"
  "vm_map_phys esc_env b n d = (Some (replicate (unat n) 0), d)" "malloc_bytes esc_env n d = (replicate (unat n) 0, d)"
  "sys_privctl_add_mem esc_env b l d = (OK, d)"
  by (simp_all add: esc_env_def port_env_def)

lemma esc_env_key: "key_waits esc_env ESC_BREAK True"
  by (auto simp: key_waits_def port_consts)

lemma esc_env_ack: "mouse_command_loop esc_env junk cmd d = Some (0, False)"
proof -
  have "read_ACK_loop esc_env b False = Some (0, False)" for b
    by (subst read_ACK_loop.simps) (simp add: util_sys_inb_def port_consts BIT_def)
  then show ?thesis by (subst mouse_command_loop.simps) (simp add: read_ACK_byte_def Let_def)
qed

lemma esc_env_wait: "\<exists>c'. wait_valid_rtc esc_env c d = Some (c', False)"
  by (subst wait_valid_rtc.simps)
    (simp add: Let_def disable_interrupts_rtc_def enable_interrupts_rtc_def read_reg_B_def
      write_reg_B_def util_sys_inb_def port_consts)

lemma esc_env_clock_answers: "clock_answers esc_env"
  using esc_env_wait by (metis clock_answers_def option.distinct(1))

lemma esc_env_clock: "\<exists>c' d'. rtc_ih esc_env c g d = Some (c', g\<lparr>hours := 0, minutes := 0\<rparr>, d')"
  using esc_env_wait [of c d]
  by (auto simp: rtc_ih_def read_time_def read_rtc_reg_def util_sys_inb_def port_consts to_BCD_def
      get_rtc_hours_def get_rtc_minutes_def Let_def)

theorem esc_leaves_game_witness:
  "\<exists>p' d'. recv_loop esc_env (\<lambda>p. game_state (gm p) \<noteq> EXIT)
      (\<lambda>ints p d. game_dispatch esc_env (\<lambda>_. None) 0x1000 2 1 ints (p, d)) start_proj False = Some (p', d') \<and>
    gm p' = (gm start_proj)\<lparr>game_state := EXIT\<rparr> \<and> vd p' = vd start_proj \<and> ms p' = ms start_proj"
  by (rule esc_leaves_game [OF _ _ _ _ _ _ esc_env_key,
      where msg = "\<lparr>ipc_notify = True, from_hardware = True, interrupts = 2\<rparr>"])
    (simp_all add: start_proj_def play_game_facts)

lemma game_loop_parts:
  assumes "game_loop env past junk line p d = Some (r, p', d')"
  obtains r1 d1 k hk d2 t ht d3 m hm d4 im ik it q dq d5 where
    "mouse_enable_data_reporting env junk d = Some (r1, d1)"
    "sys_irqsetpolicy env KBC_IRQ (IRQ_REENABLE OR IRQ_EXCLUSIVE) KBC_IRQ d1 = (k, hk, d2)"
    "sys_irqsetpolicy env TIMER0_IRQ IRQ_REENABLE TIMER0_IRQ d2 = (t, ht, d3)"
    "sys_irqsetpolicy env MOUSE_IRQ (IRQ_REENABLE OR IRQ_EXCLUSIVE) MOUSE_IRQ d3 = (m, hm, d4)"
    "recv_loop env (\<lambda>p. game_state (gm p) \<noteq> EXIT)
      (\<lambda>ints p d. game_dispatch env past im ik it ints (p, d)) q dq = Some (p', d5)"
    "hooks q = (hk, ht, hm)" "game_finish env junk p' d5 = Some (r, p', d')"
proof -
  obtain r1 d1 where 1: "mouse_enable_data_reporting env junk d = Some (r1, d1)"
    using assms by (auto simp: game_loop_def game_start_def bind_eq_Some_conv)
  obtain k hk d2 where 2: "sys_irqsetpolicy env KBC_IRQ (IRQ_REENABLE OR IRQ_EXCLUSIVE) KBC_IRQ d1 = (k, hk, d2)"
    by (metis surj_pair)
  obtain t ht d3 where 3: "sys_irqsetpolicy env TIMER0_IRQ IRQ_REENABLE TIMER0_IRQ d2 = (t, ht, d3)"
    by (metis surj_pair)
  obtain m hm d4 where 4: "sys_irqsetpolicy env MOUSE_IRQ (IRQ_REENABLE OR IRQ_EXCLUSIVE) MOUSE_IRQ d3 = (m, hm, d4)"
    by (metis surj_pair)
  have fin: "q = p'" if "game_finish env junk q e = Some (r, p', d')" for q e
    using that by (auto simp: game_finish_def bind_eq_Some_conv split_beta)
  obtain p1 e1 g' q d5 dq where
    5: "on_rtc env (p\<lparr>kb := (kb p)\<lparr>kbc_hook_id := hk\<rparr>, tm := (tm p)\<lparr>timer_hook_id := ht\<rparr>,
        ms := (ms p)\<lparr>mouse_hook_id := hm\<rparr>\<rparr>, d4) = Some (p1, e1)"
    and 6: "recv_loop env (\<lambda>p. game_state (gm p) \<noteq> EXIT)
      (\<lambda>ints p d. game_dispatch env past (BIT (unat (ucast MOUSE_IRQ :: u8))) (BIT (unat (ucast KBC_IRQ :: u8)))
         (BIT (unat (ucast TIMER0_IRQ :: u8))) ints (p, d)) (p1\<lparr>gm := g'\<rparr>) dq = Some (q, d5)"
      "game_finish env junk q d5 = Some (r, p', d')"
    using assms
    by (auto simp: game_loop_def game_start_def bind_eq_Some_conv 1 2 3 4 Let_def split_beta kbc_subscribe_int_def
        timer_subscribe_int_def mouse_subscribe_int_def)
  have "hooks (p1\<lparr>gm := g'\<rparr>) = (hk, ht, hm)" using 5 by (auto simp: on_rtc_def hooks_def)
  with that [OF 1 2 3 4, of _ _ _ "p1\<lparr>gm := g'\<rparr>" dq d5] 6 fin [OF 6(2)] show thesis by simp
qed

lemma writeSaveFile_empty: "writeSaveFile True L = Some []"
  by (simp add: writeSaveFile_def while_option_unfold c_fclose_def)

lemma writeSaveFile_opened: "writeSaveFile opened L = Some out \<Longrightarrow> opened"
  by (auto simp: writeSaveFile_def c_fclose_def bind_eq_Some_conv split: if_splits)



end
