(* ===== verification/Display.thy ===== *)
theory Display
  imports Texts Proj
begin

text \<open>
  The screen of the running program: what the handlers of \<open>Proj\<close> keep of the hypotheses under
  which a frame shows the game (\<open>Texts\<close>), so that every frame of every run does.
\<close>

section \<open>What the handlers leave alone\<close>

text \<open>The places of the buttons, which only \<^verbatim>\<open>vg_load_sprites\<close> sets, and the message.\<close>

definition buttons :: "game \<Rightarrow> u16 \<times> u16 \<times> u16 \<times> u16" where
  "buttons g = (play_button_xi g, play_button_yi g, exit_button_xi g, exit_button_yi g)"

definition kept :: "game \<Rightarrow> game \<Rightarrow> bool" where
  "kept g g' \<longleftrightarrow> buttons g' = buttons g \<and> input_message g' = input_message g"

lemmas kept_defs = kept_def buttons_def

lemma kept_refl [simp]: "kept g g"
  by (simp add: kept_def)

lemma kept_trans: "kept g g' \<Longrightarrow> kept g' g'' \<Longrightarrow> kept g g''"
  by (simp add: kept_def)

lemma kept_put: "kept g (put_alien p a g)"
  by (simp add: kept_defs put_alien_def)

lemma kept_update_loop: "kept g (pure_game_update_alien_times_loop ps g)"
proof (induction ps arbitrary: g)
  case (Cons p ps)
  have put: "kept g (pure_game_update_alien_times_loop ps (put_alien p a g))" for a
    using Cons.IH kept_put by (rule kept_trans [rotated])
  show ?case
    using put Cons.IH [of g] by (simp add: Let_def) (simp add: kept_defs kill_other_aliens_eq)
qed simp

lemma kept_update: "kept g (pure_game_update_alien_times g)"
  unfolding pure_game_update_alien_times_def by (rule kept_update_loop)

lemma kept_generate: "kept g (fst (pure_game_generate_new_alien env g d))"
proof -
  let ?s = "pure_spawn_attempts env ALIEN_RANDOM_SPAWN_ATTEMPTS (respawn g) d"
  have "kept g (respawn g)" by (simp add: kept_defs respawn_def Let_def)
  then have "kept g (fst ?s)"
    using spawn_attempts_result [of env ALIEN_RANDOM_SPAWN_ATTEMPTS "respawn g" d "fst ?s" "snd ?s"]
    by (auto intro: kept_trans [OF _ kept_put])
  moreover have "kept g (g\<lparr>random_alien_counter := c\<rparr>)" for c by (simp add: kept_defs)
  ultimately show ?thesis by (simp add: generate_eq)
qed

lemma kept_step: "kept g (fst (pure_game_step env g d))"
  unfolding pure_game_step_def by (rule kept_trans [OF kept_update kept_generate])

lemma leaderboard_buttons: "game_leaderboard g = Some g' \<Longrightarrow> buttons g' = buttons g"
  by (auto simp: game_leaderboard_def Let_def bind_eq_Some_conv buttons_def split: if_splits)

lemma kept_kill: "kept g (pure_mouse_check_kill g)"
  by (simp add: kept_defs pure_mouse_check_kill_def Let_def put_alien_def)

lemma kept_mouse_event: "kept g (snd (pure_mouse_event_handler ev m g))"
proof -
  have move: "kept g (mouse_move ev g)" by (simp add: kept_defs mouse_move_eq)
  moreover have "kept (mouse_move ev g) (pure_mouse_check_kill (mouse_move ev g))" by (rule kept_kill)
  ultimately show ?thesis
    by (auto simp: pure_mouse_event_handler_def Let_def kept_defs mouse_check_play_button_def mouse_check_exit_button_def
        split: game_state.splits)
qed

lemma kept_mouse_ih:
  assumes "mouse_ih env m g d = Some (m', g', d')"
  shows "kept g g'"
  using assms
proof (cases rule: mouse_ih_cases)
  case (2 ev m1)
  then show ?thesis using kept_mouse_event [of g ev m1] by (metis snd_conv)
qed simp

lemma kept_keyboard:
  assumes "keyboard_event_handler env past sc g d = Some (g', d')"
  shows "kept g g'"
proof -
  have save: "kept g1 g2" if "game_save_and_display_lb past g1 = Some g2" for g1 g2
    using that by (auto simp: game_save_and_display_lb_def bind_eq_Some_conv kept_defs)
  have del: "kept g1 g2" if "delete_last g1 = Some g2" for g1 g2
    using that by (auto simp: delete_last_def bind_eq_Some_conv kept_defs)
  have "kept g (g\<lparr>name := n\<rparr>)" for n by (simp add: kept_defs)
  then have "kept g g2" if "lb_input_key past sc g = Some g2" for g2
    using that save del letter_keys_special(3)
    by (auto simp: lb_input_key_def bind_eq_Some_conv intro: kept_trans split: if_splits option.splits)
  moreover have "kept g (fst (game_initialize env g d))" "kept g (g\<lparr>game_state := S\<rparr>)" for S
    by (simp_all add: kept_defs game_initialize_def game_reset_def Let_def)
  ultimately show ?thesis
    using assms by (cases "game_state g") (auto simp: keyboard_event_handler_def split: if_splits)
qed

lemma kept_kbc_ih: "kbc_ih env past k g d = Some (k', g', d') \<Longrightarrow> kept g g'"
  using kept_keyboard by (auto simp: kbc_ih_def Let_def split_beta split: if_splits)

lemma rtc_ih_kept:
  "rtc_ih env c g d = Some (c', g', d') \<Longrightarrow> kept g g' \<and> game_state g' = game_state g"
  by (auto simp: rtc_ih_def Let_def bind_eq_Some_conv kept_defs)

section \<open>The invariant of the display\<close>

lemma sized_kept: "buttons g' = buttons g \<Longrightarrow> sized g' v = sized g v"
  by (simp add: sized_def buttons_def)

lemma no_way_to_input: "gs_move b MOUSE_INT s LB_INPUT \<Longrightarrow> s = LB_INPUT" "gs_move b KBD_INT s LB_INPUT \<Longrightarrow> s = LB_INPUT"
  by (auto simp: gs_move_def elim: gs_step.cases)

lemma message_kept: "kept g g' \<Longrightarrow> (game_state g' = LB_INPUT \<Longrightarrow> game_state g = LB_INPUT) \<Longrightarrow> message_ok g \<Longrightarrow> message_ok g'"
  by (auto simp: message_ok_def kept_def)

definition display_inv :: "proj \<Rightarrow> bool" where
  "display_inv p \<longleftrightarrow> proj_inv p \<and> sized (gm p) (vd p) \<and> message_ok (gm p)"

text \<open>At the end of the game the message is written anew.\<close>

lemma game_ih_display:
  assumes ih: "game_ih env g d = Some (g', d')" and g: "arrays_ok g" "score_fits (points g)" "message_ok g"
  shows "buttons g' = buttons g \<and> message_ok g'"
proof (cases "game_state g = GAME_OVER")
  case True
  define g1 where "g1 = pure_game_update_alien_times g"
  define g2 where "g2 = g1\<lparr>game_over_counter := game_over_counter g1 - 1,
    killer := (killer g1)\<lparr>kstate := ((game_over_counter g1 - 1) div 5) mod 4\<rparr>\<rparr>"
  have 1: "g1 = g\<lparr>game_matrix := grid_map (over_cell g) positions (game_matrix g)\<rparr>"
    unfolding g1_def using True by (rule update_over)
  have 2: "buttons g2 = buttons g" "arrays_ok g2" "points g2 = points g" "game_state g2 = GAME_OVER"
    using g(1) True by (simp_all add: g2_def 1 buttons_def arrays_ok_def u32_mod4_less)
  have eq: "pure_game_ih env g d =
      (if game_over_counter g2 = 0 then map_option (\<lambda>g. (g, d)) (game_leaderboard g2) else Some (g2, d))"
    using True by (simp add: pure_game_ih_def Let_def g2_def g1_def)
  show ?thesis
  proof (cases "game_over_counter g2 = 0")
    case True
    then have lb: "game_leaderboard g2 = Some g'" using game_ih_Some [OF ih] eq by simp
    obtain msg where "g' = g2\<lparr>name := c_memset0 (name g2), input_message := msg,
        game_state := (if unat (scores (LB g2) ! 0) < unat (points g2) then LB_INPUT else LEADERBOARD)\<rparr>"
      "c_holds msg (score_message (unat (points g2)) (unat (scores (LB g2) ! 0) < unat (points g2))) 100"
      using game_leaderboard_fits [OF 2(2)] g(2) lb by (auto simp: 2(3))
    then have "message_ok g'" using g(2) by (auto simp: message_ok_def c_holds_def score_fits_def 2(3) split: if_splits)
    with leaderboard_buttons [OF lb] 2(1) show ?thesis by simp
  next
    case False
    then have "g' = g2" using game_ih_Some [OF ih] eq by simp
    with 2 show ?thesis by (simp add: message_ok_def)
  qed
next
  case False
  then have "g' = g \<or> game_state g = PLAYING \<and> kept g g'"
    using game_ih_Some [OF ih] kept_step [of g env d] by (cases "game_state g") (auto simp: pure_game_ih_def)
  moreover have "gs_move True TIMER_INT (game_state g) (game_state g')" using ih by (rule game_ih_diagram)
  ultimately show ?thesis using False g(3)
    by (auto simp: message_ok_def kept_def gs_move_def elim: gs_step.cases)
qed

text \<open>A frame leaves the images and their places alone.\<close>

lemma frame_keeps_sized:
  assumes "sized g v" "video_ok v" "mouse_safe g" "message_ok g"
  shows "\<exists>v'. vg_ih g v = Some v' \<and> video_ok v' \<and> sized g v'"
proof -
  obtain v' where v': "vg_ih g v = Some v'" "video_ok v'"
    using vg_ih_returns [OF assms(2)] assms(3) by (auto simp: mouse_safe_def)
  obtain mem t where "v' = v\<lparr>buffer := mem, str := t, video_mem := mem\<rparr>"
    using frame_shown [OF assms(1,3,4)] v'(1) by auto
  with v' assms(1) have "sized g v'"
    by (simp add: sized_def video_ok_def tables_ok_def game_over_layer_def game_name_layer_def paused_layer_def)
  with v' show ?thesis by blast
qed

section \<open>The handlers keep the display\<close>

lemma display_game:
  assumes "display_inv p" "proj_inv p'" "vd p' = vd p" "kept (gm p) (gm p')"
    and "game_state (gm p') = LB_INPUT \<Longrightarrow> game_state (gm p) = LB_INPUT"
  shows "display_inv p'"
  using assms message_kept [OF assms(4)] sized_kept [of "gm p'" "gm p"] by (simp add: display_inv_def kept_def)

lemma on_mouse_display:
  assumes "display_inv p"
  shows "\<exists>p' d'. on_mouse env (p, d) = Some (p', d') \<and> display_inv p' \<and>
    unat (points (gm p')) \<le> unat (points (gm p)) + 1"
proof -
  obtain p' d' where p': "on_mouse env (p, d) = Some (p', d')" "proj_inv p'"
      "unat (points (gm p')) \<le> unat (points (gm p)) + 1"
    using on_mouse_safe [of p env d] assms by (auto simp: display_inv_def)
  moreover have "vd p' = vd p" "kept (gm p) (gm p')" using p'(1) kept_mouse_ih by (auto simp: on_mouse_def)
  ultimately show ?thesis
    using display_game [OF assms] on_mouse_diagram [OF p'(1)] no_way_to_input(1) by metis
qed

lemma on_kbc_display:
  assumes "display_inv p" "score_fits (points (gm p))" "table_room past p"
  shows "\<exists>p' d'. on_kbc env past (p, d) = Some (p', d') \<and> display_inv p' \<and> score_fits (points (gm p'))"
proof -
  obtain p' d' where p': "on_kbc env past (p, d) = Some (p', d')" "proj_inv p'" "score_fits (points (gm p'))"
    using on_kbc_safe [of p past env d] assms by (auto simp: display_inv_def)
  moreover have "vd p' = vd p" "kept (gm p) (gm p')" using p'(1) kept_kbc_ih by (auto simp: on_kbc_def)
  ultimately show ?thesis
    using display_game [OF assms(1)] on_kbc_diagram [OF p'(1)] no_way_to_input(2) by metis
qed

lemma on_rtc_display:
  assumes "clock_answers env" "display_inv p"
  shows "\<exists>p' d'. on_rtc env (p, d) = Some (p', d') \<and> display_inv p' \<and> points (gm p') = points (gm p)"
proof -
  obtain p' d' where p': "on_rtc env (p, d) = Some (p', d')" "proj_inv p'" "points (gm p') = points (gm p)"
    using on_rtc_safe [OF assms(1), of p d] assms(2) by (auto simp: display_inv_def)
  moreover have "vd p' = vd p" "kept (gm p) (gm p')" "game_state (gm p') = game_state (gm p)"
    using p'(1) by (auto simp: on_rtc_def dest: rtc_ih_kept)
  ultimately show ?thesis using display_game [OF assms(2)] by metis
qed

lemma on_timer_display:
  assumes "clock_answers env" "display_inv p" "score_fits (points (gm p))"
  shows "\<exists>p' d'. on_timer env (p, d) = Some (p', d') \<and> display_inv p'"
proof -
  let ?p = "p\<lparr>gm := (gm p)\<lparr>frame_counter := frame_counter (gm p) + 1\<rparr>\<rparr>"
  have inv: "display_inv ?p"
    by (rule display_game [OF assms(2)])
      (use assms(2) in \<open>simp_all add: display_inv_def proj_inv_def mouse_safe_frame kept_defs\<close>)
  obtain p1 d1 where p1: "(if game_state (gm ?p) = MENU then on_rtc env (?p, d) else Some (?p, d)) = Some (p1, d1)"
      "display_inv p1" "points (gm p1) = points (gm p)"
    using on_rtc_display [OF assms(1) inv, of d] inv by (cases "game_state (gm ?p) = MENU") auto
  have g1: "mouse_safe (gm p1)" "score_fits (points (gm p1))" "message_ok (gm p1)" "arrays_ok (gm p1)"
    using p1(2,3) assms(3) by (simp_all add: display_inv_def proj_inv_def mouse_safe_def game_inv_def)
  obtain v where v: "vg_ih (gm p1) (vd p1) = Some v" "video_ok v" "sized (gm p1) v"
    using frame_keeps_sized [of "gm p1" "vd p1"] p1(2) by (auto simp: display_inv_def proj_inv_def)
  obtain g d2 where g: "game_ih env (gm p1) d1 = Some (g, d2)" "mouse_safe g"
    using game_ih_safe [OF g1(1,2), of env d1] by blast
  have "buttons g = buttons (gm p1)" "message_ok g" using game_ih_display [OF g(1) g1(4,2,3)] by simp_all
  then have "display_inv (p1\<lparr>vd := v, gm := g\<rparr>)"
    using p1(2) v g(2) sized_kept [of g "gm p1"] by (simp add: display_inv_def proj_inv_def)
  with p1(1) v(1) g(1) inv show ?thesis by (simp add: on_timer_def Let_def)
qed

lemma game_dispatch_display:
  assumes "clock_answers env" "display_inv p" "score_room p" "table_room past p"
  shows "\<exists>p' d'. game_dispatch env past im ik it ints (p, d) = Some (p', d') \<and> display_inv p'"
proof -
  obtain p1 d1 where 1: "(if ints AND im \<noteq> 0 then on_mouse env (p, d) else Some (p, d)) = Some (p1, d1)"
      "display_inv p1" "score_fits (points (gm p1))"
    using on_mouse_display [OF assms(2), of env d] assms(2,3)
    by (cases "ints AND im \<noteq> 0") (auto simp: score_room_def score_fits_def)
  have room: "table_room past p1" using 1(1) on_mouse_room assms(4) by (auto split: if_splits)
  obtain p2 d2 where 2: "(if ints AND ik \<noteq> 0 then on_kbc env past (p1, d1) else Some (p1, d1)) = Some (p2, d2)"
      "display_inv p2" "score_fits (points (gm p2))"
    using on_kbc_display [OF 1(2,3) room, of env d1] 1(2,3) by (cases "ints AND ik \<noteq> 0") auto
  show ?thesis using 1(1) 2 on_timer_display [OF assms(1) 2(2,3), of d2] by (auto simp: game_dispatch_def)
qed

interpretation display_events: guarded_handler "game_dispatch env past im ik it"
    "\<lambda>(p, d). clock_answers env \<and> display_inv p" "\<lambda>(p, d). score_room p \<and> table_room past p"
  by unfold_locales (use game_dispatch_display in fastforce)

lemma display_shows:
  assumes "display_inv p"
  shows "\<exists>v. vg_ih (gm p) (vd p) = Some v \<and> (\<forall>r c b. r < 600 \<longrightarrow> c < 800 \<longrightarrow> b < 3 \<longrightarrow>
    video_mem v ! pixel_at (vd p) r c b = fold paint (frame_layers (gm p) (vd p)) (\<lambda>r c b. 0) r c b)"
proof -
  obtain mem t where "vg_ih (gm p) (vd p) = Some ((vd p)\<lparr>buffer := mem, str := t, video_mem := mem\<rparr>)"
    and "\<forall>r c b. r < 600 \<longrightarrow> c < 800 \<longrightarrow> b < 3 \<longrightarrow>
      mem ! pixel_at (vd p) r c b = fold paint (frame_layers (gm p) (vd p)) (\<lambda>r c b. 0) r c b"
    using frame_shown [of "gm p" "vd p"] assms by (auto simp: display_inv_def proj_inv_def)
  then show ?thesis by (intro exI [of _ "(vd p)\<lparr>buffer := mem, str := t, video_mem := mem\<rparr>"]) simp
qed

section \<open>Properties\<close>

text \<open>C5. Every frame of every run shows the game, as long as the clock answers. After any sequence of
  interrupts of mouse, keyboard and timer, in any order and combination, unless the player has reached
  999 points on the way (or, when the read of the byte after the array of scores counts as a fault, has
  entered a name for a score that makes it), all of them have been handled, and the next frame is drawn
  without a fault and puts exactly the layers of the state that the game is in then on the screen,
  pixel by pixel.
\<close>

theorem runs_show_game:
  assumes "clock_answers env" "display_inv p"
  shows "(\<exists>p' d'. run_events (game_dispatch env past im ik it) ints (p, d) = Some (p', d') \<and>
      (\<exists>v. vg_ih (gm p') (vd p') = Some v \<and> (\<forall>r c b. r < 600 \<longrightarrow> c < 800 \<longrightarrow> b < 3 \<longrightarrow>
        video_mem v ! pixel_at (vd p') r c b = fold paint (frame_layers (gm p') (vd p')) (\<lambda>r c b. 0) r c b))) \<or>
    (\<exists>before rest p1 d1. ints = before @ rest \<and>
       run_events (game_dispatch env past im ik it) before (p, d) = Some (p1, d1) \<and>
       (999 \<le> unat (points (gm p1)) \<or> reads_past_table past p1))"
proof -
  have "(\<exists>s. run_events (game_dispatch env past im ik it) ints (p, d) = Some s \<and> display_inv (fst s)) \<or>
    (\<exists>before rest s. ints = before @ rest \<and>
       run_events (game_dispatch env past im ik it) before (p, d) = Some s \<and>
       \<not> (score_room (fst s) \<and> table_room past (fst s)))"
    using display_events.run_guarded [of env "(p, d)" past im ik it ints] assms
    by (auto simp: split_beta)
  then have "(\<exists>s. run_events (game_dispatch env past im ik it) ints (p, d) = Some s \<and> display_inv (fst s)) \<or>
    (\<exists>before rest s. ints = before @ rest \<and>
       run_events (game_dispatch env past im ik it) before (p, d) = Some s \<and>
       (999 \<le> unat (points (gm (fst s))) \<or> reads_past_table past (fst s)))"
  proof (elim disjE exE conjE)
    fix before rest s
    assume "ints = before @ rest" "run_events (game_dispatch env past im ik it) before (p, d) = Some s"
      "\<not> (score_room (fst s) \<and> table_room past (fst s))"
    then show ?thesis using no_room [of "fst s" past] by blast
  qed blast
  then show ?thesis using display_shows by (metis prod.collapse)
qed

theorem runs_show_game_witness:
  "(\<exists>p' d'. run_events (game_dispatch (fixed_env (\<lambda>_. 0)) (\<lambda>_. None) 0x1000 2 1) [1, 1, 0x1003]
        (start_proj\<lparr>gm := shown_game, vd := shown_video\<rparr>, []) = Some (p', d') \<and>
      (\<exists>v. vg_ih (gm p') (vd p') = Some v \<and> (\<forall>r c b. r < 600 \<longrightarrow> c < 800 \<longrightarrow> b < 3 \<longrightarrow>
        video_mem v ! pixel_at (vd p') r c b = fold paint (frame_layers (gm p') (vd p')) (\<lambda>r c b. 0) r c b))) \<or>
    (\<exists>before rest p1 d1. [1, 1, 0x1003] = before @ rest \<and>
       run_events (game_dispatch (fixed_env (\<lambda>_. 0)) (\<lambda>_. None) 0x1000 2 1) before
         (start_proj\<lparr>gm := shown_game, vd := shown_video\<rparr>, []) = Some (p1, d1) \<and>
       (999 \<le> unat (points (gm p1)) \<or> reads_past_table (\<lambda>_. None) p1))"
proof (rule runs_show_game [OF fixed_clock_answers])
  have "video_ok shown_video"
    unfolding shown_video_def by (rule loaded_video_ok [OF black_load_loads]) (simp_all add: full_video_ok)
  then show "display_inv (start_proj\<lparr>gm := shown_game, vd := shown_video\<rparr>)"
    using start_proj_inv shown_sized shown_game_safe
    by (simp add: display_inv_def proj_inv_def message_ok_def)
qed

end
