(* ===== verification/Program.thy ===== *)
theory Program
  imports Display
begin

text \<open>
  The program from its start to its end: what it needs of graphics, devices and globals to reach its
  loop with the invariant, what the handlers leave alone of the device, and that the loop ends when
  the key that leaves the game comes.
\<close>

section \<open>From the start of the program to its loop\<close>

text \<open>
  What the program is told about its graphics mode: 24 bits for each pixel, a screen of at least 768
  columns, the width of the widest title, whose size fits in 32 bits, and kernel calls that succeed
  with as much memory as was asked.
\<close>

definition graphics_answers :: "'d env \<Rightarrow> vbe_mode_info \<Rightarrow> bool" where
  "graphics_answers env info \<longleftrightarrow>
     (\<forall>d. fst (vbe_get_mode_info env GAME_GRAPHICS_MODE d) = OK \<and>
          fst (snd (vbe_get_mode_info env GAME_GRAPHICS_MODE d)) = info) \<and>
     BitsPerPixel info = 24 \<and> 768 \<le> unat (XResolution info) \<and>
     unat (XResolution info) * unat (YResolution info) * 3 < 2 ^ 32 \<and>
     (\<forall>n d. length (fst (malloc_bytes env n d)) = unat n) \<and>
     (\<forall>b l d. fst (sys_privctl_add_mem env b l d) = OK) \<and>
     (\<forall>b n d. \<exists>mem. fst (vm_map_phys env b n d) = Some mem \<and> length mem = unat n) \<and>
     (\<forall>r d. fst (sys_int86 env r d) = OK) \<and> (\<forall>d. fst (vg_exit env d) = OK)"

text \<open>
  The mouse answers the commands, the clock its reads, the save file is missing or empty, and it can
  be created.
\<close>

definition devices_answer :: "'d env \<Rightarrow> ('d \<Rightarrow> u8) \<Rightarrow> bool" where
  "devices_answer env junk \<longleftrightarrow>
     (\<forall>cmd d. mouse_command_loop env junk cmd d \<noteq> None) \<and> clock_answers env \<and>
     (\<forall>d. savefile env d \<in> {None, Some []}) \<and> (\<forall>d. fst (savefile_create env d))"

text \<open>The globals before the start, zeroed or not: only the sizes of the arrays matter.\<close>

definition globals_ok :: "proj \<Rightarrow> bool" where
  "globals_ok p \<longleftrightarrow> arrays_ok (gm p) \<and> name_ok (gm p) \<and> packet_ok (ms p) \<and> length (str (vd p)) = 256"

lemma unat_screen_size:
  fixes x y :: u16
  assumes "unat x * unat y * 3 < 2 ^ 32"
  shows "unat ((ucast x :: u32) * ucast y * 3) = unat x * unat y * 3"
proof -
  have "unat x * unat y < 2 ^ 32" using assms by simp
  then show ?thesis using assms by (simp add: unat_word_ariths)
qed

lemma prepare_ready:
  fixes v :: video
  assumes "graphics_answers env info"
  shows "\<exists>v' d'. vg_prepareGraphics env GAME_GRAPHICS_MODE v d = Some (True, v', d') \<and> screen_ok v' \<and>
    h_res v' = ucast (XResolution info) \<and> v_res v' = ucast (YResolution info) \<and> str v' = str v"
proof -
  note env = assms [unfolded graphics_answers_def]
  let ?n = "(ucast (XResolution info) :: u32) * ucast (YResolution info) * 3"
  have n: "unat ?n = unat (XResolution info) * unat (YResolution info) * 3"
    using env by (intro unat_screen_size) blast
  obtain d1 where 1: "vbe_get_mode_info env GAME_GRAPHICS_MODE d = (OK, info, d1)"
    using env by (metis surj_pair fst_conv snd_conv)
  obtain buf d2 where 2: "malloc_bytes env ?n d1 = (buf, d2)" "length buf = unat ?n"
    using env by (metis surj_pair fst_conv)
  obtain d3 where 3: "sys_privctl_add_mem env (PhysBasePtr info) (PhysBasePtr info + ?n) d2 = (OK, d3)"
    using env by (metis surj_pair fst_conv)
  obtain mem d4 where 4: "vm_map_phys env (PhysBasePtr info) ?n d3 = (Some mem, d4)" "length mem = unat ?n"
    using env by (metis surj_pair fst_conv)
  have bpp: "((ucast (BitsPerPixel info) :: u32) + 7) div 8 = 3" using env by simp
  have lt: "unat (XResolution info) < 65536" "unat (YResolution info) < 65536" by (rule u16_bound)+
  from 1 2 3 4 bpp lt n env show ?thesis
    by (simp add: vg_prepareGraphics_def screen_ok_def)
qed

lemma clock_read:
  assumes "clock_answers env"
  shows "\<exists>c' h m d'. rtc_ih env c g d = Some (c', g\<lparr>hours := h, minutes := m\<rparr>, d')"
proof -
  obtain c1 d1 where "wait_valid_rtc env c d = Some (c1, d1)"
    using assms unfolding clock_answers_def by (metis not_Some_eq surj_pair)
  then obtain c' d' where "read_time env c d = Some (c', d')"
    by (simp add: read_time_def Let_def split_beta)
  then show ?thesis by (auto simp: rtc_ih_def Let_def)
qed

lemma fresh_board:
  assumes "lb_wf L" "file \<in> {None, Some []}"
  shows "\<exists>L'. readSaveFile line file L = Some L' \<and> lb_wf L' \<and> plain_names L'"
  using assms
  by (auto simp: readSaveFile_def eval_nat_numeral c_fgets_def lb_wf_def plain_names_def c_memset0_def
      c_terminated_def c_str_def)

lemma commands_return:
  assumes "devices_answer env junk"
  obtains r d' where "mouse_command_loop env junk cmd d = Some (r, d')"
  using assms by (metis devices_answer_def not_Some_eq surj_pair)

lemma mouse_enable_returns:
  assumes "devices_answer env junk"
  shows "\<exists>r d'. mouse_enable_data_reporting env junk d = Some (r, d')"
proof -
  obtain r d1 where 1: "mouse_command_loop env junk STREAM_MODE d = Some (r, d1)"
    by (rule commands_return [OF assms])
  obtain r2 d2 where "mouse_command_loop env junk DATA_REPORT d1 = Some (r2, d2)"
    by (rule commands_return [OF assms])
  with 1 show ?thesis by (simp add: mouse_enable_data_reporting_def)
qed

lemma game_start_safe:
  assumes "devices_answer env junk" "arrays_ok (gm p)" "name_ok (gm p)" "packet_ok (ms p)" "video_ok (vd p)"
  shows "\<exists>q d'. game_start env junk line p d = Some ((0x1000, 2, 1), q, d') \<and> proj_inv q \<and>
    game_state (gm q) = MENU \<and> points (gm q) = 0 \<and> vd q = vd p \<and> buttons (gm q) = buttons (gm p)"
proof -
  obtain r1 d1 where 1: "mouse_enable_data_reporting env junk d = Some (r1, d1)"
    using mouse_enable_returns [OF assms(1)] by blast
  obtain r2 ik k d2 where 2: "kbc_subscribe_int env (kb p) d1 = (r2, ik, k, d2)" by (metis surj_pair)
  obtain r3 it t d3 where 3: "timer_subscribe_int env (tm p) d2 = (r3, it, t, d3)" by (metis surj_pair)
  obtain r4 im m d4 where 4: "mouse_subscribe_int env (ms p) d3 = (r4, im, m, d4)" by (metis surj_pair)
  have masks: "BIT (unat im) = 0x1000" "BIT (unat ik) = 2" "BIT (unat it) = 1"
    using 2 3 4 by (auto simp: kbc_subscribe_int_def timer_subscribe_int_def mouse_subscribe_int_def Let_def
        split_beta port_consts BIT_def)
  have m: "packet_ok m"
    using 4 assms(4) by (auto simp: mouse_subscribe_int_def packet_ok_def Let_def split_beta)
  have "clock_answers env" using assms(1) by (simp add: devices_answer_def)
  from clock_read [OF this] obtain c h mi d5 where
    5: "rtc_ih env (ck p) (gm p) d4 = Some (c, (gm p)\<lparr>hours := h, minutes := mi\<rparr>, d5)" by blast
  define g where "g = (gm p)\<lparr>hours := h, minutes := mi\<rparr>"
  obtain g1 d6 where 6: "game_initialize env g d5 = (g1, d6)" by (metis surj_pair)
  have g: "arrays_ok g" "name_ok g" using assms(2,3) by (simp_all add: g_def arrays_ok_def name_ok_def)
  then have g1: "game_inv g1" "name_ok g1" "points g1 = 0" "game_state g1 = MENU" "buttons g1 = buttons (gm p)"
    using initialize_inv(1) [OF g(1), of env d5] initialize_frame [of env g d5] 6
    by (auto simp: name_ok_def game_initialize_def game_reset_def Let_def buttons_def g_def)
  have "savefile env d6 \<in> {None, Some []}" using assms(1) by (simp add: devices_answer_def)
  from fresh_board [OF _ this, of "LB g1" line] g1(1) obtain L where
    7: "readSaveFile line (savefile env d6) (LB g1) = Some L" "lb_wf L" "plain_names L"
    by (auto simp: game_inv_def arrays_ok_def)
  have "mouse_safe (g1\<lparr>LB := L\<rparr>)"
    using g1(1,2,4) 7(2,3) by (simp add: mouse_safe_def name_ok_def game_inv_defs grid_ok_def)
  with m g1 assms(5) 1 2 3 4 5 6 7(1) show ?thesis
    by (simp add: game_start_def on_rtc_def proj_inv_def masks buttons_def flip: g_def)
qed

lemma program_reaches_loop:
  assumes "graphics_answers env info" "devices_answer env junk" "globals_ok p" "loads_xpm load"
  shows "\<exists>q dq. proj_inv q \<and> game_state (gm q) = MENU \<and> points (gm q) = 0 \<and>
    (XResolution info = 800 \<and> YResolution info = 600 \<longrightarrow> display_inv q) \<and>
    proj_main_loop env (loaded load) past junk line p d = do {
      (p', d') \<leftarrow> recv_loop env (\<lambda>p. game_state (gm p) \<noteq> EXIT)
        (\<lambda>ints p d. game_dispatch env past 0x1000 2 1 ints (p, d)) q dq;
      (r, p', d') \<leftarrow> game_finish env junk p' d';
      main_finish env p' d'
    }"
proof -
  obtain v d1 where 1: "vg_prepareGraphics env GAME_GRAPHICS_MODE (vd p) d = Some (True, v, d1)"
    and v: "screen_ok v" "h_res v = ucast (XResolution info)" "v_res v = ucast (YResolution info)" "str v = str (vd p)"
    using prepare_ready [OF assms(1)] by blast
  obtain g' v' where 2: "vg_load_sprites (loaded load) (gm p) v = (True, g', v')"
    by (simp add: vg_load_sprites_def)
  obtain d2 where 3: "vg_setGraphics env GAME_GRAPHICS_MODE d1 = (True, d2)"
    using assms(1) by (auto simp: vg_setGraphics_def graphics_answers_def Let_def split_beta)
  have "video_ok v'"
    using loaded_video_ok [OF assms(4) v(1), of "gm p"] assms(1,3) v 2
    by (simp add: graphics_answers_def globals_ok_def)
  moreover have "arrays_ok g'" "name_ok g'"
    using 2 assms(3) by (auto simp: vg_load_sprites_def place_buttons_def Let_def globals_ok_def arrays_ok_def name_ok_def)
  ultimately obtain q dq where
    4: "game_start env junk line (p\<lparr>gm := g', vd := v'\<rparr>) d2 = Some ((0x1000, 2, 1), q, dq)"
      "proj_inv q" "game_state (gm q) = MENU" "points (gm q) = 0" "vd q = v'" "buttons (gm q) = buttons g'"
    using game_start_safe [OF assms(2), of "p\<lparr>gm := g', vd := v'\<rparr>" line d2] assms(3) by (auto simp: globals_ok_def)
  have "sized g' v'" if "XResolution info = 800" "YResolution info = 600"
    using loaded_sized [OF assms(4) v(1) _ _ _ 2] v(2-4) assms(3) that by (simp add: globals_ok_def)
  then have disp: "display_inv q" if "XResolution info = 800" "YResolution info = 600"
    using 4 that sized_kept [of "gm q" g'] by (simp add: display_inv_def message_ok_def)
  have "proj_main_loop env (loaded load) past junk line p d = do {
      (p', d') \<leftarrow> recv_loop env (\<lambda>p. game_state (gm p) \<noteq> EXIT)
        (\<lambda>ints p d. game_dispatch env past 0x1000 2 1 ints (p, d)) q dq;
      (r, p', d') \<leftarrow> game_finish env junk p' d';
      main_finish env p' d'
    }"
    by (cases "recv_loop env (\<lambda>p. game_state (gm p) \<noteq> EXIT)
        (\<lambda>ints p d. game_dispatch env past 0x1000 2 1 ints (p, d)) q dq")
      (auto simp: proj_main_loop_def game_loop_def 1 2 3 4(1))
  with 4(2-4) disp show ?thesis by blast
qed

text \<open>The device on which ESC waits, for the witnesses.\<close>

lemma esc_env_answers:
  "graphics_answers esc_env (sim_mode\<lparr>XResolution := 800, YResolution := 600\<rparr>)" "devices_answer esc_env (\<lambda>_. 0)" "globals_ok start_proj"
proof -
  show "graphics_answers esc_env (sim_mode\<lparr>XResolution := 800, YResolution := 600\<rparr>)"
    by (simp add: graphics_answers_def sim_mode_def) (simp add: esc_env_def port_env_def)
  show "devices_answer esc_env (\<lambda>_. 0)"
    using esc_env_clock_answers by (simp add: devices_answer_def mouse_enable_data_reporting_def esc_env_ack)
  show "globals_ok start_proj"
    using start_proj_inv by (simp add: globals_ok_def proj_inv_def mouse_safe_def game_inv_def video_ok_def)
qed

section \<open>What the handlers leave alone\<close>

lemma inb_keeps: "io_keeps env f \<Longrightarrow> f (snd (snd (util_sys_inb env p d))) = f d"
  by (simp add: util_sys_inb_def Let_def split_beta io_keepsD)

lemma status_keeps:
  assumes "io_keeps env f"
  shows "f (snd (keyboard_check env d)) = f d" "f (snd (kbc_output_buf_full env d)) = f d"
    "f (snd (kbc_communication_error env d)) = f d" "f (snd (kbc_read_output_buffer env d)) = f d"
  using inb_keeps [OF assms]
  by (simp_all add: keyboard_check_def kbc_output_buf_full_def kbc_communication_error_def
      kbc_read_output_buffer_def Let_def split_beta)

lemma mouse_ih_keeps:
  assumes "io_keeps env f" "mouse_ih env m g d = Some (m', g', d')"
  shows "f d' = f d"
proof -
  have "f (snd (next_byte env d)) = f d"
    by (simp add: next_byte_def Let_def split_beta status_keeps [OF assms(1)])
  then show ?thesis using assms(2) by (auto simp: mouse_ih_eq split_beta)
qed

lemma initialize_keeps: "io_keeps env f \<Longrightarrow> f (snd (game_initialize env g d)) = f d"
  by (simp add: game_initialize_def Let_def io_keepsD)

lemma keyboard_event_keeps:
  assumes "io_keeps env f" "keyboard_event_handler env past sc g d = Some (g', d')"
  shows "f d' = f d"
  using assms(2) initialize_keeps [OF assms(1), of g d]
  by (cases "game_state g") (auto simp: keyboard_event_handler_def split: if_splits)

lemma kbc_ih_keeps:
  assumes "io_keeps env f" "kbc_ih env past k g d = Some (k', g', d')"
  shows "f d' = f d"
  using assms(2) keyboard_event_keeps [OF assms(1)]
  by (auto simp: kbc_ih_def Let_def split_beta status_keeps [OF assms(1)] split: if_splits)

lemma reg_B_keeps:
  assumes "io_keeps env f"
  shows "f (snd (disable_interrupts_rtc env c d)) = f d" "f (snd (enable_interrupts_rtc env c d)) = f d"
  by (simp_all add: disable_interrupts_rtc_def enable_interrupts_rtc_def read_reg_B_def write_reg_B_def Let_def
      split_beta io_keepsD [OF assms] inb_keeps [OF assms])

lemma wait_valid_keeps:
  assumes "io_keeps env f" "wait_valid_rtc env c d = Some r"
  shows "f (snd r) = f d"
proof -
  have "e = env \<longrightarrow> f (snd r) = f d" if "wait_valid_rtc e c d = Some r" for e c d r
  proof (rule wait_valid_rtc.raw_induct [of "\<lambda>e c d r. e = env \<longrightarrow> f (snd r) = f d", OF _ that], goal_cases)
    case (1 wait e c d r)
    show ?case
    proof
      assume e: "e = env"
      have IH: "f (snd r) = f d'" if "wait env c' d' = Some r" for c' d'
        using 1(1) [of env c' d' r] that by blast
      show "f (snd r) = f d"
        using 1(2) IH unfolding e
        by (auto simp: Let_def split_beta reg_B_keeps [OF assms(1)] io_keepsD [OF assms(1)] inb_keeps [OF assms(1)]
            split: if_splits)
    qed
  qed
  with assms(2) show ?thesis by blast
qed

lemma read_rtc_reg_keeps: "io_keeps env f \<Longrightarrow> f (snd (read_rtc_reg env r d)) = f d"
  by (simp add: read_rtc_reg_def Let_def split_beta io_keepsD inb_keeps)

lemma rtc_ih_keeps:
  assumes "io_keeps env f" "rtc_ih env c g d = Some (c', g', d')"
  shows "f d' = f d"
proof -
  obtain c1 where "read_time env c d = Some (c1, d')"
    using assms(2) by (auto simp: rtc_ih_def bind_eq_Some_conv Let_def)
  then obtain c2 d2 where "wait_valid_rtc env c d = Some (c2, d2)" "f d' = f d2"
    by (auto simp: read_time_def bind_eq_Some_conv Let_def split_beta read_rtc_reg_keeps [OF assms(1)])
  with wait_valid_keeps [OF assms(1), of c d] show ?thesis by fastforce
qed

lemma spawn_keeps:
  assumes "io_keeps env f"
  shows "f (snd (pure_spawn_attempts env n g d)) = f d"
  by (induction n arbitrary: d) (simp_all add: Let_def split_beta io_keepsD [OF assms])

lemma game_ih_keeps:
  assumes "io_keeps env f" "game_ih env g d = Some (g', d')"
  shows "f d' = f d"
proof -
  have "f (snd (pure_game_step env g d)) = f d"
    by (simp add: pure_game_step_def pure_game_generate_new_alien_def Let_def spawn_keeps [OF assms(1)])
  then show ?thesis
    using game_ih_Some [OF assms(2)]
    by (cases "game_state g") (auto simp: pure_game_ih_def Let_def split: if_splits)
qed

lemma game_dispatch_keeps:
  assumes "io_keeps env f" "game_dispatch env past im ik it ints (p, d) = Some (p', d')"
  shows "f d' = f d"
proof -
  from assms(2) obtain p1 d1 p2 d2 where
    1: "(if ints AND im \<noteq> 0 then on_mouse env (p, d) else Some (p, d)) = Some (p1, d1)"
    and 2: "(if ints AND ik \<noteq> 0 then on_kbc env past (p1, d1) else Some (p1, d1)) = Some (p2, d2)"
    and 3: "(if ints AND it \<noteq> 0 then on_timer env (p2, d2) else Some (p2, d2)) = Some (p', d')"
    by (rule game_dispatch_parts)
  have "f d1 = f d"
    using 1 mouse_ih_keeps [OF assms(1)] by (auto simp: on_mouse_def split: if_splits)
  moreover have "f d2 = f d1"
    using 2 kbc_ih_keeps [OF assms(1)] by (auto simp: on_kbc_def split: if_splits)
  moreover have "f d' = f d2"
    using 3 rtc_ih_keeps [OF assms(1)] game_ih_keeps [OF assms(1)]
    by (fastforce simp: on_timer_def on_rtc_def Let_def bind_eq_Some_conv split: if_splits)
  ultimately show ?thesis by simp
qed

section \<open>The end of the loop\<close>

text \<open>
  The user leaves the game at last: the device announces \<open>left d\<close> messages at most, fewer than 999, before
  the interrupt of the keyboard with the code of the released ESC key. What is announced before is
  arbitrary: ticks, keys, mouse packets, all in any combination, messages of other processes and failures.
\<close>

definition esc_comes :: "'d env \<Rightarrow> ('d \<Rightarrow> nat) \<Rightarrow> bool" where
  "esc_comes env left \<longleftrightarrow> io_keeps env left \<and> (\<forall>d. left d < 999) \<and>
     (\<forall>d. 0 < left d \<longrightarrow> left (snd (snd (driver_receive env d))) < left d) \<and>
     (\<forall>d. left d = 0 \<longrightarrow> (\<exists>msg d'. driver_receive env d = (OK, msg, d') \<and> ipc_notify msg \<and> from_hardware msg \<and>
        interrupts msg = 2 \<and> key_waits env ESC_BREAK d'))"

lemma esc_comesD:
  assumes "esc_comes env left"
  shows "io_keeps env left" "left d < 999"
    "0 < left d \<Longrightarrow> driver_receive env d = (r, msg, d1) \<Longrightarrow> left d1 < left d"
    "left d = 0 \<Longrightarrow> driver_receive env d = (r, msg, d1) \<Longrightarrow>
       r = OK \<and> ipc_notify msg \<and> from_hardware msg \<and> interrupts msg = 2 \<and> key_waits env ESC_BREAK d1"
  using assms unfolding esc_comes_def by (simp_all, metis snd_conv, metis Pair_inject)

text \<open>One message: the invariant is kept, the score grows by one at most, and the end comes closer.\<close>

lemma message_handled:
  fixes left :: "'d \<Rightarrow> nat"
  assumes "clock_answers env" "esc_comes env left" "proj_inv p" "unat (points (gm p)) + left d < 999"
    and "driver_receive env d = (r, msg, d1)"
  shows "if r = OK \<and> ipc_notify msg \<and> from_hardware msg
    then \<exists>p' d'. game_dispatch env (\<lambda>g. Some (past g)) 0x1000 2 1 (interrupts msg) (p, d1) = Some (p', d') \<and> proj_inv p' \<and>
      (game_state (gm p') = EXIT \<or> unat (points (gm p')) + left d' < 999 \<and> left d' < left d)
    else left d1 < left d"
proof -
  have "score_room p" using assms(4) by (simp add: score_room_def)
  then obtain p' d' where p': "game_dispatch env (\<lambda>g. Some (past g)) 0x1000 2 1 (interrupts msg) (p, d1) = Some (p', d')"
      "proj_inv p'" "unat (points (gm p')) \<le> unat (points (gm p)) + 1"
    using game_dispatch_safe [OF assms(1,3) _ table_room_Some, of past "0x1000" 2 1 "interrupts msg" d1] by blast
  have keeps: "left d' = left d1" using esc_comesD(1) [OF assms(2)] p'(1) by (rule game_dispatch_keeps)
  show ?thesis
  proof (cases "left d = 0")
    case True
    then have msg: "r = OK \<and> ipc_notify msg \<and> from_hardware msg \<and> interrupts msg = 2 \<and> key_waits env ESC_BREAK d1"
      using esc_comesD(4) [OF assms(2) _ assms(5)] by blast
    then have "game_state (gm p') = EXIT"
      using esc_dispatch [of "interrupts msg" "0x1000" 2 1 env d1 "\<lambda>g. Some (past g)" p] p'(1) by auto
    with msg p' show ?thesis by auto
  next
    case False
    then have "left d1 < left d" using esc_comesD(3) [OF assms(2) _ assms(5)] by simp
    with p' keeps assms(4) show ?thesis by auto
  qed
qed

lemma game_loop_ends:
  fixes left :: "'d \<Rightarrow> nat"
  assumes "clock_answers env" "esc_comes env left" "proj_inv q" "unat (points (gm q)) + left d < 999"
  shows "\<exists>p' d'. recv_loop env (\<lambda>p. game_state (gm p) \<noteq> EXIT)
      (\<lambda>ints p d. game_dispatch env (\<lambda>g. Some (past g)) 0x1000 2 1 ints (p, d)) q d = Some (p', d') \<and>
    proj_inv p' \<and> game_state (gm p') = EXIT"
proof -
  let ?P = "\<lambda>p d. proj_inv p \<and> (game_state (gm p) = EXIT \<or> unat (points (gm p)) + left d < 999)"
  let ?m = "\<lambda>p d. if game_state (gm p) = EXIT then 0 else Suc (left d)"
  have "\<exists>p' d'. recv_loop env (\<lambda>p. game_state (gm p) \<noteq> EXIT)
      (\<lambda>ints p d. game_dispatch env (\<lambda>g. Some (past g)) 0x1000 2 1 ints (p, d)) q d = Some (p', d') \<and>
    ?P p' d' \<and> \<not> game_state (gm p') \<noteq> EXIT"
  proof (rule recv_loop_ends [where P = ?P and m = ?m])
    fix p d r msg d1
    assume "?P p d" "game_state (gm p) \<noteq> EXIT" "driver_receive env d = (r, msg, d1)"
    then show "if r = OK \<and> ipc_notify msg \<and> from_hardware msg
      then \<exists>p' d'. game_dispatch env (\<lambda>g. Some (past g)) 0x1000 2 1 (interrupts msg) (p, d1) = Some (p', d') \<and> ?P p' d' \<and>
        ?m p' d' < ?m p d
      else ?P p d1 \<and> ?m p d1 < ?m p d"
      using message_handled [OF assms(1,2), of p d r msg d1 past] by (auto split: if_splits)
  qed (use assms(3,4) in simp)
  then show ?thesis by blast
qed

lemma program_ends:
  assumes "graphics_answers env info" "devices_answer env junk"
  shows "\<exists>d1 d2. game_finish env junk p d = Some (0, p, d1) \<and> main_finish env p d1 = Some (0, p\<lparr>vd := snd (vg_free (vd p))\<rparr>, d2)"
proof -
  let ?d = "snd (mouse_unsubscribe_int env (ms p) (snd (kbc_unsubscribe_int env (kb p)
      (snd (timer_unsubscribe_int env (tm p) (savefile_write env [] (snd (savefile_create env d))))))))"
  obtain r d1 where "mouse_command_loop env junk DISABLE ?d = Some (r, d1)"
    by (rule commands_return [OF assms(2)])
  moreover have "fst (savefile_create env d)" using assms(2) by (simp add: devices_answer_def)
  ultimately have "game_finish env junk p d = Some (0, p, d1)"
    by (simp add: game_finish_def writeSaveFile_empty mouse_disable_data_reporting_def split_beta)
  moreover have "\<exists>d2. main_finish env p d1 = Some (0, p\<lparr>vd := snd (vg_free (vd p))\<rparr>, d2)"
    using assms(1) by (auto simp: main_finish_def graphics_answers_def Let_def split_beta vg_free_def)
  ultimately show ?thesis by blast
qed

section \<open>Layout\<close>

text \<open>The points that a sprite covers when it is drawn at a place, column first.\<close>

definition covers :: "u16 \<Rightarrow> u16 \<Rightarrow> sprite \<Rightarrow> (nat \<times> nat) set" where
  "covers x y s = {unat x ..< unat x + unat (width s)} \<times> {unat y ..< unat y + unat (height s)}"

end
