(* ===== verification/Lab2.thy ===== *)
theory Lab2
  imports Timer
begin

text \<open>
  \<^verbatim>\<open>lab2/lab2.c\<close>: the three tests of the timer driver. \<^verbatim>\<open>lab2/timer.c\<close>,
  \<^verbatim>\<open>lab2/utils.c\<close> and \<^verbatim>\<open>lab2/i8254.h\<close> have the text of the files of the project
  that theories \<open>Timer\<close> and \<open>Utils\<close> model (comments aside), so the tests call the definitions of
  those theories. The loop of \<^verbatim>\<open>timer_test_int\<close> counts seconds in an \<^verbatim>\<open>int\<close>, the
  one of \<^verbatim>\<open>delay_seconds\<close> in a \<^verbatim>\<open>uint8_t\<close>; the two loops are shown to agree.
\<close>

definition timer_test_read_config :: "'d env \<Rightarrow> u8 \<Rightarrow> timer_status_field \<Rightarrow> 'd \<Rightarrow> (i32 \<times> 'd) option" where
  "timer_test_read_config env t field d = do {
     (r, status, d) \<leftarrow> timer_get_conf env t 0 d;
     if r \<noteq> OK then Some (1, d)
     else
       let (r, d) = timer_display_conf env t status field d
       in if r \<noteq> OK then Some (1, d) else Some (0, d)
   }"

definition timer_test_time_base :: "'d env \<Rightarrow> u8 \<Rightarrow> u32 \<Rightarrow> 'd \<Rightarrow> (i32 \<times> 'd) option" where
  "timer_test_time_base env t freq d = timer_set_frequency env t freq d"

text \<open>The state of the loop: the timer and \<^verbatim>\<open>counter_seconds\<close>, an \<^verbatim>\<open>int\<close>.\<close>

definition test_int_handle :: "'d env \<Rightarrow> u32 \<Rightarrow> u32 \<Rightarrow> timer \<times> i32 \<Rightarrow> 'd \<Rightarrow> ((timer \<times> i32) \<times> 'd) option" where
  "test_int_handle env irq_set ints s d =
     (let (t, counter_seconds) = s in
      if ints AND irq_set \<noteq> 0 then
        let t = timer_int_handler t in
        if sint (timer_global_counter t) mod 60 = 0
        then Some ((t, counter_seconds + 1), timer_print_elapsed_time env d)
        else Some ((t, counter_seconds), d)
      else Some (s, d))"

definition timer_test_int :: "'d env \<Rightarrow> u8 \<Rightarrow> timer \<Rightarrow> 'd \<Rightarrow> (i32 \<times> timer \<times> 'd) option" where
  "timer_test_int env secs t d =
     (let (r, bit_no, t, d) = timer_subscribe_int env t d;
          t = t\<lparr>timer_global_counter := 0\<rparr>;
          irq_set = BIT (unat bit_no)
      in do {
        ((t, counter_seconds), d) \<leftarrow>
          recv_loop env (\<lambda>(t, counter_seconds). sint counter_seconds < uint secs)
            (test_int_handle env irq_set) (t, 0) d;
        Some (0, t, snd (timer_unsubscribe_int env t d))
      })"


section \<open>The two counters agree\<close>

lemma sint_small_unat: "unat (c :: i32) \<le> 255 \<Longrightarrow> sint c = int (unat c)"
  by (rule sint_of_nat_u32) simp

lemma counter_below: "unat (c :: i32) \<le> unat (n :: u8) \<Longrightarrow> sint c < uint n \<longleftrightarrow> unat c < unat n"
proof -
  assume "unat c \<le> unat n"
  then have "sint c = int (unat c)" using u8_bound [of n] sint_small_unat [of c] by linarith
  moreover have "uint n = int (unat n)" by (rule uint_nat)
  ultimately show ?thesis by linarith
qed

lemma counter_down: "unat (c :: i32) \<le> unat (n :: u8) \<Longrightarrow> unat (ucast c :: u8) = unat c"
  using u8_bound [of n] by (simp add: unsigned_ucast_eq take_bit_eq_mod)

lemma counter_step:
  assumes "unat (c :: i32) < unat (n :: u8)"
  shows "unat (c + 1) = unat c + 1" "(ucast (c + 1) :: u8) = ucast c + 1"
proof -
  show inc: "unat (c + 1) = unat c + 1" using assms u8_bound [of n] by (simp add: unat_word_ariths)
  have "unat (ucast c + 1 :: u8) = unat (ucast (c + 1) :: u8)"
    using assms u8_bound [of n] counter_down [of c n] counter_down [of "c + 1" n]
    by (simp add: inc unat_word_ariths)
  then show "(ucast (c + 1) :: u8) = ucast c + 1" by (simp add: word_unat_eq_iff)
qed

interpretation test_int: loop_simulation env
    "\<lambda>(t :: timer, c :: i32). sint c < uint (n :: u8)" "test_int_handle env irq_set"
    "\<lambda>(t, c). unat c \<le> unat n"
    "\<lambda>(t :: timer, c :: u8). c < n" "delay_handle env irq_set" "\<lambda>(t, c). (t, ucast c)"
proof (unfold_locales, goal_cases)
  case (1 s ints d s' d')
  then show ?case
    using counter_step(1) [of "snd s" n] counter_below [of "snd s" n]
    by (auto simp: test_int_handle_def Let_def split: if_splits)
next
  case (2 s)
  then show ?case
    using counter_below [of "snd s" n] counter_down [of "snd s" n]
    by (auto simp: word_less_nat_alt)
next
  case (3 s ints d)
  then show ?case
    using counter_step(2) [of "snd s" n] counter_below [of "snd s" n]
    by (auto simp: test_int_handle_def delay_handle_def Let_def)
qed

section \<open>Properties\<close>

text \<open>C30. The test of the timer interrupts is the delay of the project with a result of zero: although
  one counts seconds in an \<^verbatim>\<open>int\<close> and the other in a \<^verbatim>\<open>uint8_t\<close>, on every device
  they return together, after the same calls and with the same timer, or neither returns.
\<close>

theorem timer_test_int_is_delay:
  "timer_test_int env secs t d = map_option (\<lambda>(t, d). (0, t, d)) (delay_seconds env secs t d)"
proof -
  obtain r hook d1 where sub: "sys_irqsetpolicy env TIMER0_IRQ IRQ_REENABLE TIMER0_IRQ d = (r, hook, d1)"
    by (metis surj_pair)
  let ?t = "t\<lparr>timer_hook_id := hook, timer_global_counter := 0\<rparr>" and ?irq = "BIT (unat (ucast TIMER0_IRQ :: u8))"
  have "recv_loop env (\<lambda>(t, c). c < secs) (delay_handle env ?irq) (?t, 0) d1 =
      map_option (\<lambda>(s, d). ((\<lambda>(t, c). (t, ucast c)) s, d))
        (recv_loop env (\<lambda>(t, c). sint c < uint secs) (test_int_handle env ?irq) (?t, 0) d1)"
    using test_int.loops_agree [where s = "(?t, 0)" and n = secs and env = env and irq_set = ?irq and d = d1] by simp
  then show ?thesis
    by (simp add: timer_test_int_def delay_seconds_def timer_subscribe_int_def sub)
      (cases "recv_loop env (\<lambda>(t, c). sint c < uint secs) (test_int_handle env ?irq) (?t, 0) d1"; auto)
qed

end
