(* ===== verification/Lab3.thy ===== *)
theory Lab3
  imports Keyboard Lab2
begin

text \<open>
  \<^verbatim>\<open>lab3/keyboard.c\<close>, \<^verbatim>\<open>lab3/lab3.c\<close> and \<^verbatim>\<open>lab5/keyboard2.c\<close>: the keyboard
  driver of the laboratories, which counts its calls of \<^verbatim>\<open>sys_inb\<close>, and the three tests of it.
  The constants of \<^verbatim>\<open>lab3/i8042.h\<close> have the values of those of the project. The globals of
  the driver are those of the driver of the project and the counter, so its state extends theirs.
\<close>

declare split_paired_All [simp del] split_paired_Ex [simp del]

section \<open>The driver\<close>

record kbd_lab3 = kbd +
  counter_sys_in :: i32

definition count_inb :: "kbd_lab3 \<Rightarrow> kbd_lab3" where
  "count_inb k = k\<lparr>counter_sys_in := counter_sys_in k + 1\<rparr>"

definition kbc_communication_error_lab3 :: "'d env \<Rightarrow> kbd_lab3 \<Rightarrow> 'd \<Rightarrow> bool \<times> kbd_lab3 \<times> 'd" where
  "kbc_communication_error_lab3 env k d =
     (let k = count_inb k; (r, st, d) = util_sys_inb env KBC_STAT_REG d in
      if r \<noteq> OK then (True, k, d)
      else if ucast st AND KBC_STAT_CHECK = 0 then (False, k, d) else (True, k, d))"

definition kbc_output_buf_full_lab3 :: "'d env \<Rightarrow> kbd_lab3 \<Rightarrow> 'd \<Rightarrow> bool \<times> kbd_lab3 \<times> 'd" where
  "kbc_output_buf_full_lab3 env k d =
     (let k = count_inb k; (r, st, d) = util_sys_inb env KBC_STAT_REG d in
      if r \<noteq> OK then (True, k, d)
      else if ucast st AND KBC_OUT_BUF_FULL \<noteq> 0 then (True, k, d) else (False, k, d))"

definition kbc_intput_buf_full :: "'d env \<Rightarrow> kbd_lab3 \<Rightarrow> 'd \<Rightarrow> bool \<times> kbd_lab3 \<times> 'd" where
  "kbc_intput_buf_full env k d =
     (let (r, status_reg, d) = util_sys_inb env KBC_STAT_REG d; k = count_inb k in
      if ucast status_reg AND KBC_IN_BUF_FULL \<noteq> 0 then (True, k, d) else (False, k, d))"

definition kbc_read_output_buffer_lab3 :: "'d env \<Rightarrow> kbd_lab3 \<Rightarrow> 'd \<Rightarrow> u8 \<times> kbd_lab3 \<times> 'd" where
  "kbc_read_output_buffer_lab3 env k d =
     (let (r, scan_code, d) = util_sys_inb env KBC_OUT_BUF d; k = count_inb k in (scan_code, k, d))"

text \<open>The loop only counts a cycle on the way out, as in the project.\<close>

partial_function (option) read_command_loop_lab3 ::
  "'d env \<Rightarrow> nat \<Rightarrow> kbd_lab3 \<Rightarrow> 'd \<Rightarrow> (kbd_lab3 \<times> 'd) option" where
  "read_command_loop_lab3 env counterCycles k d =
     (if counterCycles < 100000 then
        let (full, k, d) = kbc_intput_buf_full env k d in
        if \<not> full then Some (k, snd (sys_outb env KBC_STAT_REG KBC_READ_CMD_BYTE d))
        else read_command_loop_lab3 env counterCycles k d
      else Some (k, d))"

definition read_command_byte_lab3 :: "'d env \<Rightarrow> kbd_lab3 \<Rightarrow> 'd \<Rightarrow> (u8 \<times> kbd_lab3 \<times> 'd) option" where
  "read_command_byte_lab3 env k d = do {
     (k, d) \<leftarrow> read_command_loop_lab3 env 0 k d;
     let (r, comm, d) = util_sys_inb env KBC_OUT_BUF d;
     Some (comm, count_inb k, d)
   }"

function write_command_loop_lab3 :: "'d env \<Rightarrow> nat \<Rightarrow> kbd_lab3 \<Rightarrow> 'd \<Rightarrow> kbd_lab3 \<times> 'd" where
  "write_command_loop_lab3 env counterCycles k d =
     (if counterCycles < 100000 then
        let (full, k, d) = kbc_intput_buf_full env k d in
        if \<not> full then (k, snd (sys_outb env KBC_STAT_REG KBC_WRITE_CMD_BYTE d))
        else write_command_loop_lab3 env (Suc counterCycles) k d
      else (k, d))"
  by pat_completeness auto
termination
  by (relation "measure (\<lambda>(env, n, k, d). 100000 - n)") auto

declare write_command_loop_lab3.simps [simp del]

definition write_command_byte_lab3 :: "'d env \<Rightarrow> u8 \<Rightarrow> kbd_lab3 \<Rightarrow> 'd \<Rightarrow> kbd_lab3 \<times> 'd" where
  "write_command_byte_lab3 env command_byte k d =
     (let (k, d) = write_command_loop_lab3 env 0 k d
      in (k, snd (sys_outb env KBC_OUT_BUF (ucast command_byte) d)))"

definition enable_interrupts_lab3 :: "'d env \<Rightarrow> kbd_lab3 \<Rightarrow> 'd \<Rightarrow> (kbd_lab3 \<times> 'd) option" where
  "enable_interrupts_lab3 env k d = do {
     (command_byte, k, d) \<leftarrow> read_command_byte_lab3 env k d;
     Some (write_command_byte_lab3 env (ucast (ucast command_byte OR KBC_COMMAND_ENABLE_INTERRUPTS)) k d)
   }"

text \<open>
  \<^verbatim>\<open>kbc_ih\<close> prints the bytes of the scan code, the last one first; the element of the array
  that is not set is not among those it prints.
\<close>

definition kbc_ih_lab3 :: "'d env \<Rightarrow> kbd_lab3 \<Rightarrow> 'd \<Rightarrow> kbd_lab3 \<times> 'd" where
  "kbc_ih_lab3 env k d =
     (let (full, k, d) = kbc_output_buf_full_lab3 env k d in
      if \<not> full then (k, d) else
      let (scanCode, k, d) = kbc_read_output_buffer_lab3 env k d;
          (err, k, d) = kbc_communication_error_lab3 env k d
      in if err then (k, d)
         else if scanCode = KBC_SCANCODE_2B then (k\<lparr>flag2Bytes := True\<rparr>, d)
         else
           let (arr, size, k) =
                 (if flag2Bytes k then ([scanCode, KBC_SCANCODE_2B], 2, k\<lparr>flag2Bytes := False\<rparr>)
                  else ([scanCode], 1, k));
               k = (if scanCode = ESC_BREAK then k\<lparr>flagESC := False\<rparr> else k)
           in (k, kbd_print_scancode env (ucast scanCode AND BIT 7 = 0) size arr d))"

definition kbc_subscribe_int_lab3 :: "'d env \<Rightarrow> kbd_lab3 \<Rightarrow> 'd \<Rightarrow> i32 \<times> u8 \<times> kbd_lab3 \<times> 'd" where
  "kbc_subscribe_int_lab3 env k d =
     (let bit_no = ucast KBC_IRQ;
          (r, hook, d) = sys_irqsetpolicy env KBC_IRQ (IRQ_REENABLE OR IRQ_EXCLUSIVE) (kbc_hook_id k) d
      in (r, bit_no, k\<lparr>kbc_hook_id := hook\<rparr>, d))"

definition kbc_unsubscribe_int_lab3 :: "'d env \<Rightarrow> kbd_lab3 \<Rightarrow> 'd \<Rightarrow> i32 \<times> 'd" where
  "kbc_unsubscribe_int_lab3 env k d = sys_irqrmpolicy env (kbc_hook_id k) d"

definition kbc_ih_no_print :: "'d env \<Rightarrow> kbd_lab3 \<Rightarrow> 'd \<Rightarrow> kbd_lab3 \<times> 'd" where
  "kbc_ih_no_print env k d =
     (let (full, k, d) = kbc_output_buf_full_lab3 env k d in
      if \<not> full then (k, d) else
      let (scanCode, k, d) = kbc_read_output_buffer_lab3 env k d;
          (err, k, d) = kbc_communication_error_lab3 env k d
      in if err then (k, d)
         else if scanCode = KBC_SCANCODE_2B then (k\<lparr>flag2Bytes := True\<rparr>, d)
         else
           let k = (if flag2Bytes k then k\<lparr>flag2Bytes := False\<rparr> else k);
               k = (if scanCode = ESC_BREAK then k\<lparr>flagESC := False\<rparr> else k)
           in (k, d))"

text \<open>\<^verbatim>\<open>kbc_ih\<close> and \<^verbatim>\<open>kbc_subscribe_int\<close> of \<^verbatim>\<open>lab5/keyboard2.c\<close>, where they differ.\<close>

definition kbc_ih_lab5 :: "'d env \<Rightarrow> kbd_lab3 \<Rightarrow> 'd \<Rightarrow> kbd_lab3 \<times> 'd" where
  "kbc_ih_lab5 env k d =
     (let (full, k, d) = kbc_output_buf_full_lab3 env k d in
      if \<not> full then (k, d) else
      let (scanCode, k, d) = kbc_read_output_buffer_lab3 env k d;
          (err, k, d) = kbc_communication_error_lab3 env k d
      in if err then (k, d)
         else if scanCode = KBC_SCANCODE_2B then (k\<lparr>flag2Bytes := True\<rparr>, d)
         else
           let k = (if flag2Bytes k then k\<lparr>flag2Bytes := False\<rparr> else k);
               k = (if scanCode = ESC_BREAK then k\<lparr>flagESC := False\<rparr> else k)
           in (k, d))"

definition kbc_subscribe_int_lab5 :: "'d env \<Rightarrow> kbd_lab3 \<Rightarrow> 'd \<Rightarrow> i32 \<times> u8 \<times> kbd_lab3 \<times> 'd" where
  "kbc_subscribe_int_lab5 env k d =
     (let k = k\<lparr>kbc_hook_id := KBC_IRQ\<rparr>;
          bit_no = ucast (kbc_hook_id k);
          (r, hook, d) = sys_irqsetpolicy env KBC_IRQ (IRQ_REENABLE OR IRQ_EXCLUSIVE) (kbc_hook_id k) d
      in (r, bit_no, k\<lparr>kbc_hook_id := hook\<rparr>, d))"


section \<open>The tests\<close>

definition scan_handle :: "'d env \<Rightarrow> u32 \<Rightarrow> u32 \<Rightarrow> kbd_lab3 \<Rightarrow> 'd \<Rightarrow> (kbd_lab3 \<times> 'd) option" where
  "scan_handle env irq_set ints k d = Some (if ints AND irq_set \<noteq> 0 then kbc_ih_lab3 env k d else (k, d))"

definition kbd_test_scan :: "'d env \<Rightarrow> kbd_lab3 \<Rightarrow> 'd \<Rightarrow> (i32 \<times> kbd_lab3 \<times> 'd) option" where
  "kbd_test_scan env k d =
     (let (r, bit_no, k, d) = kbc_subscribe_int_lab3 env k d;
          irq_set = BIT (unat bit_no);
          k = k\<lparr>flagESC := True, flag2Bytes := False, counter_sys_in := 0\<rparr>
      in do {
        (k, d) \<leftarrow> recv_loop env flagESC (scan_handle env irq_set) k d;
        let d = snd (kbc_unsubscribe_int_lab3 env k d);
        let (r, d) = kbd_print_no_sysinb env (counter_sys_in k) d;
        Some (r, k, d)
      })"

partial_function (option) poll_loop :: "'d env \<Rightarrow> kbd_lab3 \<Rightarrow> 'd \<Rightarrow> (kbd_lab3 \<times> 'd) option" where
  "poll_loop env k d =
     (if flagESC k then let (k, d) = kbc_ih_lab3 env k d in poll_loop env k d else Some (k, d))"

definition kbd_test_poll :: "'d env \<Rightarrow> kbd_lab3 \<Rightarrow> 'd \<Rightarrow> (i32 \<times> kbd_lab3 \<times> 'd) option" where
  "kbd_test_poll env k d = do {
     let k = k\<lparr>counter_sys_in := 0\<rparr>;
     (k, d) \<leftarrow> poll_loop env (k\<lparr>flagESC := True\<rparr>) d;
     (k, d) \<leftarrow> enable_interrupts_lab3 env k d;
     let (r, d) = kbd_print_no_sysinb env (counter_sys_in k) d;
     Some (r, k, d)
   }"

text \<open>The state of the third loop: the driver and the idle interrupts counted so far.\<close>

definition timed_handle ::
  "'d env \<Rightarrow> u32 \<Rightarrow> u32 \<Rightarrow> u32 \<Rightarrow> kbd_lab3 \<times> i32 \<Rightarrow> 'd \<Rightarrow> ((kbd_lab3 \<times> i32) \<times> 'd) option" where
  "timed_handle env irq_set timer0_int_bit ints s d =
     (let (k, counter) = s;
          (k, counter, d) =
            (if ints AND irq_set \<noteq> 0 then let (k, d) = kbc_ih_lab3 env k d in (k, 0, d) else (k, counter, d));
          counter = (if ints AND timer0_int_bit \<noteq> 0 then counter + 1 else counter)
      in Some ((k, counter), d))"

definition kbd_test_timed_scan ::
  "'d env \<Rightarrow> u8 \<Rightarrow> kbd_lab3 \<Rightarrow> timer \<Rightarrow> 'd \<Rightarrow> (i32 \<times> kbd_lab3 \<times> timer \<times> 'd) option" where
  "kbd_test_timed_scan env n k t d =
     (let (r, bit_no_KBC, k, d) = kbc_subscribe_int_lab3 env k d;
          (r, bit_no_TIMER, t, d) = timer_subscribe_int env t d;
          irq_set = BIT (unat bit_no_KBC);
          timer0_int_bit = BIT (unat bit_no_TIMER);
          k = k\<lparr>flagESC := True, flag2Bytes := False, counter_sys_in := 0\<rparr>
      in do {
        ((k, counter), d) \<leftarrow>
          recv_loop env (\<lambda>(k, counter). flagESC k \<and> sdiv_int (sint counter) 60 < uint n)
            (timed_handle env irq_set timer0_int_bit) (k, 0) d;
        let d = snd (timer_unsubscribe_int env t d);
        let d = snd (kbc_unsubscribe_int_lab3 env k d);
        let (r, d) = kbd_print_no_sysinb env (counter_sys_in k) d;
        Some (r, k, t, d)
      })"


section \<open>The counter\<close>

text \<open>
  A device that knows how often its ports were read: \<^verbatim>\<open>sys_inb\<close> adds one, the other calls the
  driver makes do not read a port.
\<close>

definition inb_counted :: "'d env \<Rightarrow> ('d \<Rightarrow> nat) \<Rightarrow> bool" where
  "inb_counted env calls \<longleftrightarrow>
     (\<forall>p v d. calls (snd (snd (sys_inb env p v d))) = Suc (calls d)) \<and>
     (\<forall>p v d. calls (snd (sys_outb env p v d)) = calls d) \<and>
     (\<forall>m n b d. calls (kbd_print_scancode env m n b d) = calls d) \<and>
     (\<forall>d. calls (snd (snd (driver_receive env d))) = calls d) \<and>
     (\<forall>irq pol hook d. calls (snd (snd (sys_irqsetpolicy env irq pol hook d))) = calls d) \<and>
     (\<forall>hook d. calls (snd (sys_irqrmpolicy env hook d)) = calls d)"

text \<open>What the counter of the driver is ahead of the true number of calls; it never changes.\<close>

definition balance :: "('d \<Rightarrow> nat) \<Rightarrow> kbd_lab3 \<Rightarrow> 'd \<Rightarrow> i32" where
  "balance calls k d = of_nat (calls d) - counter_sys_in k"

lemma count_inb_balance:
  assumes "inb_counted env calls"
  shows "balance calls (count_inb k) (snd (snd (util_sys_inb env p d))) = balance calls k d"
  using assms by (simp add: inb_counted_def util_sys_inb_def balance_def count_inb_def split_beta)

lemma balance_same:
  assumes "inb_counted env calls"
  shows "balance calls k (snd (sys_outb env p v d)) = balance calls k d"
    "balance calls k (kbd_print_scancode env m n b d) = balance calls k d"
    "balance calls k (snd (snd (driver_receive env d))) = balance calls k d"
    "balance calls k (snd (sys_irqrmpolicy env hook d)) = balance calls k d"
  using assms by (simp_all add: inb_counted_def balance_def)

lemma balance_flags [simp]:
  "balance calls (k\<lparr>flagESC := b\<rparr>) d = balance calls k d"
  "balance calls (k\<lparr>flag2Bytes := b\<rparr>) d = balance calls k d"
  by (simp_all add: balance_def)

lemma controller_balance:
  assumes "inb_counted env calls"
  shows "balance calls (fst (snd (kbc_communication_error_lab3 env k d)))
      (snd (snd (kbc_communication_error_lab3 env k d))) = balance calls k d"
    "balance calls (fst (snd (kbc_output_buf_full_lab3 env k d)))
      (snd (snd (kbc_output_buf_full_lab3 env k d))) = balance calls k d"
    "balance calls (fst (snd (kbc_intput_buf_full env k d)))
      (snd (snd (kbc_intput_buf_full env k d))) = balance calls k d"
    "balance calls (fst (snd (kbc_read_output_buffer_lab3 env k d)))
      (snd (snd (kbc_read_output_buffer_lab3 env k d))) = balance calls k d"
  using count_inb_balance [OF assms]
  by (simp_all add: kbc_communication_error_lab3_def kbc_output_buf_full_lab3_def kbc_intput_buf_full_def
      kbc_read_output_buffer_lab3_def Let_def split_beta)

lemma kbc_ih_balance:
  assumes "inb_counted env calls"
  shows "balance calls (fst (kbc_ih_lab3 env k d)) (snd (kbc_ih_lab3 env k d)) = balance calls k d"
  by (simp add: kbc_ih_lab3_def Let_def split_beta controller_balance [OF assms] balance_same [OF assms])

lemma read_loop_balance:
  assumes "inb_counted env calls" "read_command_loop_lab3 env n k d = Some (k', d')"
  shows "balance calls k' d' = balance calls k d"
proof -
  have "e = env \<longrightarrow> balance calls (fst r) (snd r) = balance calls k d"
    if "read_command_loop_lab3 e n k d = Some r" for e n k d r
  proof (rule read_command_loop_lab3.raw_induct
      [of "\<lambda>e n k d r. e = env \<longrightarrow> balance calls (fst r) (snd r) = balance calls k d", OF _ that], goal_cases)
    case (1 f e n k d r)
    let ?s = "kbc_intput_buf_full env k d"
    show ?case
      using 1(1) [of env n "fst (snd ?s)" "snd (snd ?s)" r] 1(2) controller_balance(3) [OF assms(1), of k d]
      by (auto simp: split_beta balance_same [OF assms(1)] split: if_splits)
  qed
  from this [OF assms(2)] show ?thesis by simp
qed

lemma write_loop_balance:
  assumes "inb_counted env calls"
  shows "balance calls (fst (write_command_loop_lab3 env n k d)) (snd (write_command_loop_lab3 env n k d)) =
    balance calls k d"
proof (induction "100000 - n" arbitrary: n k d)
  case 0
  then show ?case by (simp add: write_command_loop_lab3.simps)
next
  case (Suc m)
  let ?s = "kbc_intput_buf_full env k d"
  show ?case
    using Suc.hyps(1) [of "Suc n" "fst (snd ?s)" "snd (snd ?s)"] Suc.hyps(2) controller_balance(3) [OF assms, of k d]
    by (subst (1 2) write_command_loop_lab3.simps) (simp add: split_beta balance_same [OF assms])
qed

lemma enable_interrupts_balance:
  assumes "inb_counted env calls" "enable_interrupts_lab3 env k d = Some (k', d')"
  shows "balance calls k' d' = balance calls k d"
  using assms(2) read_loop_balance [OF assms(1)]
  by (auto simp: enable_interrupts_lab3_def read_command_byte_lab3_def write_command_byte_lab3_def Let_def
      split_beta bind_eq_Some_conv balance_same [OF assms(1)] write_loop_balance [OF assms(1)]
      count_inb_balance [OF assms(1)])

lemma poll_loop_balance:
  assumes "inb_counted env calls" "poll_loop env k d = Some (k', d')"
  shows "balance calls k' d' = balance calls k d"
proof -
  have "e = env \<longrightarrow> balance calls (fst r) (snd r) = balance calls k d"
    if "poll_loop e k d = Some r" for e k d r
  proof (rule poll_loop.raw_induct
      [of "\<lambda>e k d r. e = env \<longrightarrow> balance calls (fst r) (snd r) = balance calls k d", OF _ that], goal_cases)
    case (1 f e k d r)
    then show ?case
      using kbc_ih_balance [OF assms(1), of k d] by (fastforce simp: split_beta split: if_splits)
  qed
  from this [OF assms(2)] show ?thesis by simp
qed

text \<open>The loop of the scan keeps the balance on every counting device.\<close>

interpretation scan: device_loop env flagESC "scan_handle env irq_set"
    "\<lambda>k d. inb_counted env calls \<longrightarrow> balance calls k d = b"
proof (unfold_locales, goal_cases)
  case (1 k d)
  then show ?case by (auto simp: balance_same(3))
next
  case (2 k d ints k' d')
  then show ?case using kbc_ih_balance [of env calls k d] by (auto simp: scan_handle_def split: if_splits)
qed

lemma balance_start:
  assumes "balance calls k' d1 = balance calls (k\<lparr>counter_sys_in := 0\<rparr>) d"
  shows "counter_sys_in k' = of_nat (calls d1) - of_nat (calls d)"
  using assms by (simp add: balance_def algebra_simps)

section \<open>Properties\<close>

text \<open>C31. The number that the tests of the keyboard report is exact: whenever the scan by interrupts or
  the scan by polling returns, the last thing it does is to print the number of calls of
  \<^verbatim>\<open>sys_inb\<close> that were really made since it started, modulo \<open>2^32\<close>.
\<close>

theorem reported_sysinb_exact:
  assumes "inb_counted env calls"
    and "kbd_test_scan env k d = Some (r, k', d') \<or> kbd_test_poll env k d = Some (r, k', d')"
  shows "\<exists>d1. (r, d') = kbd_print_no_sysinb env (of_nat (calls d1) - of_nat (calls d)) d1"
proof -
  note same = balance_same [OF assms(1)]
  from assms(2) show ?thesis
  proof
    assume run: "kbd_test_scan env k d = Some (r, k', d')"
    obtain r1 hook d1 where sub: "sys_irqsetpolicy env KBC_IRQ (IRQ_REENABLE OR IRQ_EXCLUSIVE) (kbc_hook_id k) d
        = (r1, hook, d1)" by (metis surj_pair)
    have d1: "calls d1 = calls d" using assms(1) sub unfolding inb_counted_def by (metis snd_conv)
    let ?k = "k\<lparr>kbc_hook_id := hook, flagESC := True, flag2Bytes := False, counter_sys_in := 0\<rparr>"
    obtain irq d2 where loop: "recv_loop env flagESC (scan_handle env irq) ?k d1 = Some (k', d2)"
      and fin: "(r, d') = kbd_print_no_sysinb env (counter_sys_in k') (snd (sys_irqrmpolicy env (kbc_hook_id k') d2))"
      using run by (auto simp: kbd_test_scan_def kbc_subscribe_int_lab3_def kbc_unsubscribe_int_lab3_def sub
          Let_def split_beta bind_eq_Some_conv)
    have "balance calls k' d2 = balance calls ?k d1"
      using scan.loop_inv [OF loop, of calls "balance calls ?k d1"] assms(1) by simp
    then have "balance calls k' (snd (sys_irqrmpolicy env (kbc_hook_id k') d2)) =
        balance calls (k\<lparr>counter_sys_in := 0\<rparr>) d"
      by (simp add: same) (simp add: balance_def d1)
    from balance_start [OF this] fin show ?thesis by metis
  next
    assume run: "kbd_test_poll env k d = Some (r, k', d')"
    let ?k = "k\<lparr>counter_sys_in := 0\<rparr>"
    obtain k1 d1 d2 where "poll_loop env (?k\<lparr>flagESC := True\<rparr>) d = Some (k1, d1)"
        "enable_interrupts_lab3 env k1 d1 = Some (k', d2)"
      and fin: "(r, d') = kbd_print_no_sysinb env (counter_sys_in k') d2"
      using run by (auto simp: kbd_test_poll_def Let_def split_beta bind_eq_Some_conv)
    then have "balance calls k' d2 = balance calls ?k d"
      using poll_loop_balance [OF assms(1)] enable_interrupts_balance [OF assms(1)] by fastforce
    from balance_start [OF this] fin show ?thesis by metis
  qed
qed

text \<open>A keyboard that holds the break code of the escape key, on a device that counts the reads.\<close>

definition count_env :: "nat env" where
  "count_env = (port_env (\<lambda>p v d. (OK, d)) (\<lambda>p v d. (OK, if p = 0x64 then 1 else 0x81, Suc d)))
     \<lparr>driver_receive := (\<lambda>d. (OK, \<lparr>ipc_notify = True, from_hardware = True, interrupts = 2\<rparr>, d)),
      kbd_print_no_sysinb := (\<lambda>n d. (n, d))\<rparr>"

lemma count_env_simps [simp]:
  "sys_outb count_env p v d = (OK, d)"
  "sys_inb count_env p v d = (OK, if p = 0x64 then 1 else 0x81, Suc d)"
  "kbd_print_scancode count_env m n b d = d" "kbd_print_no_sysinb count_env = Pair"
  by (simp_all add: count_env_def port_env_def fun_eq_iff)

lemma count_env_counted: "inb_counted count_env (\<lambda>d. d)"
  by (simp add: inb_counted_def) (simp add: count_env_def port_env_def)

definition start_kbd :: kbd_lab3 where
  "start_kbd = \<lparr>kbc_hook_id = 1, flagESC = False, flag2Bytes = False, counter_sys_in = 77\<rparr>"

theorem reported_sysinb_exact_witness:
  "\<exists>k'. kbd_test_poll count_env start_kbd 0 = Some (6, k', 6)"
proof -
  let ?k = "start_kbd\<lparr>counter_sys_in := 0, flagESC := True\<rparr>"
  have ih: "kbc_ih_lab3 count_env ?k 0 = (?k\<lparr>flagESC := False, counter_sys_in := 3\<rparr>, 3)"
    by (simp add: kbc_ih_lab3_def kbc_output_buf_full_lab3_def kbc_read_output_buffer_lab3_def count_inb_def
        kbc_communication_error_lab3_def util_sys_inb_def port_consts BIT_def start_kbd_def)
  have "poll_loop count_env ?k 0 = Some (?k\<lparr>flagESC := False, counter_sys_in := 3\<rparr>, 3)"
    by (subst poll_loop.simps) (simp add: ih poll_loop.simps)
  then have "\<exists>r k'. kbd_test_poll count_env start_kbd 0 = Some (r, k', 6)"
    by (simp add: kbd_test_poll_def enable_interrupts_lab3_def read_command_byte_lab3_def read_command_loop_lab3.simps
        write_command_byte_lab3_def write_command_loop_lab3.simps kbc_intput_buf_full_def util_sys_inb_def port_consts
        BIT_def)
  then obtain r k' where run: "kbd_test_poll count_env start_kbd 0 = Some (r, k', 6)" by blast
  from reported_sysinb_exact [OF count_env_counted disjI2 [OF run]] run show ?thesis by simp
qed

text \<open>Only the timer interrupts.\<close>

definition idle_keyboard :: "'d env \<Rightarrow> bool" where
  "idle_keyboard env \<longleftrightarrow>
     (\<forall>d. \<exists>msg d'. driver_receive env d = (OK, msg, d') \<and> ipc_notify msg \<and> from_hardware msg \<and>
        interrupts msg AND 1 \<noteq> 0 \<and> interrupts msg AND 2 = 0)"

lemma idle_seconds:
  assumes "unat (c :: i32) \<le> 60 * unat (n :: u8)"
  shows "sdiv_int (sint c) 60 < uint n \<longleftrightarrow> unat c < 60 * unat n"
proof -
  have "unat c < 2 ^ 31" using assms u8_bound [of n] by simp
  then have c: "sint c = int (unat c)" by (rule sint_of_nat_u32)
  have "sdiv_int (int m) 60 = int (m div 60)" for m by (cases "m = 0") (simp_all add: sdiv_int_def zdiv_int)
  then have "sdiv_int (int (unat c)) 60 = int (unat c div 60)" .
  moreover have "uint n = int (unat n)" by (rule uint_nat)
  ultimately have "sdiv_int (sint c) 60 < uint n \<longleftrightarrow> unat c div 60 < unat n" unfolding c by linarith
  then show ?thesis by (simp add: div_less_iff_less_mult mult.commute)
qed

lemma idle_loop_returns:
  fixes n :: u8
  assumes "idle_keyboard env" "counts_messages env ticks" "flagESC k"
  shows "\<exists>c' d'. recv_loop env (\<lambda>(k, c). flagESC k \<and> sdiv_int (sint c) 60 < uint n)
    (timed_handle env 2 1) (k, 0) d = Some ((k, c'), d') \<and> ticks d' = ticks d + 60 * unat n"
proof -
  let ?inv = "\<lambda>(k', c :: i32) d'. k' = k \<and> unat c \<le> 60 * unat n \<and> ticks d' = ticks d + unat c"
  have "\<exists>s' d'. recv_loop env (\<lambda>(k, c). flagESC k \<and> sdiv_int (sint c) 60 < uint n)
      (timed_handle env 2 1) (k, 0) d = Some (s', d') \<and> ?inv s' d' \<and>
      \<not> (\<lambda>(k, c). flagESC k \<and> sdiv_int (sint c) 60 < uint n) s'"
  proof (rule recv_loop_returns [where P = ?inv and m = "\<lambda>(k, c) d. 60 * unat n - unat c"], goal_cases)
    case (1 s d')
    obtain c where s: "s = (k, c)" "unat c < 60 * unat n" "ticks d' = ticks d + unat c"
      using 1 idle_seconds [of _ n] by (cases s) auto
    obtain msg d1 where msg: "driver_receive env d' = (OK, msg, d1)" "ipc_notify msg" "from_hardware msg"
        "interrupts msg AND 1 \<noteq> 0" "interrupts msg AND 2 = 0"
      using assms(1) unfolding idle_keyboard_def by blast
    have "unat (c + 1) = unat c + 1" using s(2) u8_bound [of n] by (simp add: unat_word_ariths)
    then show ?case
      using msg s counts_messagesD(1) [OF assms(2) msg(1)] by (simp add: timed_handle_def)
  qed simp
  then show ?thesis using assms(3) idle_seconds [of _ n] by (auto simp: not_less intro: antisym)
qed

text \<open>C32. The timed scan ends when nobody types: on a device where only the timer interrupts, it returns
  when the device has delivered exactly \<open>60\<close> interrupts for each of the \<open>n\<close> idle seconds, without having
  been left by the escape key, and reports that no port was read.
\<close>

theorem idle_scan_returns:
  assumes "idle_keyboard env" "counts_messages env ticks"
  shows "\<exists>r k' t' d' d1. kbd_test_timed_scan env n k t d = Some (r, k', t', d') \<and> flagESC k' \<and>
    (r, d') = kbd_print_no_sysinb env 0 d1 \<and> ticks d' = ticks d + 60 * unat n"
proof -
  obtain r1 hook d1 where sub: "sys_irqsetpolicy env KBC_IRQ (IRQ_REENABLE OR IRQ_EXCLUSIVE) (kbc_hook_id k) d
      = (r1, hook, d1)" by (metis surj_pair)
  obtain r2 hook2 d2 where sub2: "sys_irqsetpolicy env TIMER0_IRQ IRQ_REENABLE TIMER0_IRQ d1 = (r2, hook2, d2)"
    by (metis surj_pair)
  let ?k = "k\<lparr>kbc_hook_id := hook, flagESC := True, flag2Bytes := False, counter_sys_in := 0\<rparr>"
  have bits: "BIT (unat (ucast KBC_IRQ :: u8)) = (2 :: u32)" "BIT (unat (ucast TIMER0_IRQ :: u8)) = (1 :: u32)"
    by (simp_all add: port_consts BIT_def)
  obtain c' d3 where loop: "recv_loop env (\<lambda>(k, c). flagESC k \<and> sdiv_int (sint c) 60 < uint n)
    (timed_handle env 2 1) (?k, 0) d2 = Some ((?k, c'), d3)" and d3: "ticks d3 = ticks d2 + 60 * unat n"
    using idle_loop_returns [OF assms, of ?k n d2] by auto
  let ?d4 = "snd (kbc_unsubscribe_int_lab3 env ?k
    (snd (timer_unsubscribe_int env (t\<lparr>timer_hook_id := hook2\<rparr>) d3)))"
  have "ticks ?d4 = ticks d + 60 * unat n"
    using counts_messagesD(3) [OF assms(2) sub] counts_messagesD(3) [OF assms(2) sub2] d3
    by (simp add: kbc_unsubscribe_int_lab3_def timer_unsubscribe_int_def counts_messagesD(4) [OF assms(2)])
  then have "ticks (snd (kbd_print_no_sysinb env 0 ?d4)) = ticks d + 60 * unat n"
    by (simp add: counts_messagesD(5) [OF assms(2)])
  moreover have "kbd_test_timed_scan env n k t d = Some (fst (kbd_print_no_sysinb env 0 ?d4), ?k,
      t\<lparr>timer_hook_id := hook2\<rparr>, snd (kbd_print_no_sysinb env 0 ?d4))"
    using loop by (simp add: kbd_test_timed_scan_def kbc_subscribe_int_lab3_def timer_subscribe_int_def sub sub2
        bits Let_def split_beta)
  moreover have "flagESC ?k" by simp
  ultimately show ?thesis by (metis prod.collapse)
qed

theorem idle_scan_returns_witness:
  "\<exists>r k' t' d' d1. kbd_test_timed_scan tick_env 3 start_kbd \<lparr>timer_global_counter = 0, timer_hook_id = 0\<rparr> 0
     = Some (r, k', t', d') \<and> flagESC k' \<and> (r, d') = kbd_print_no_sysinb tick_env 0 d1 \<and>
     d' = 0 + 60 * unat (3 :: u8)"
  by (rule idle_scan_returns [OF _ tick_env_counts(1)])
    (simp add: idle_keyboard_def tick_env_def)

end
