(* ===== verification/Lab5.thy ===== *)
theory Lab5
  imports Lab3 Video
begin

text \<open>
  \<^verbatim>\<open>lab5/video_card.c\<close> and \<^verbatim>\<open>lab5/lab5.c\<close>: rectangles, patterns, sprites and the moving
  sprite of the graphics laboratory, and its tests. The state of the graphics mode is the one of the
  project without the sprites; the keyboard is the driver of \<^verbatim>\<open>lab5/keyboard2.c\<close> in theory
  \<open>Lab3\<close>, the timer that of the project.

  A shift of a signed number into or beyond its sign, a shift by the width or more, a division by
  zero and an access outside a buffer are undefined in C and are \<^const>\<open>None\<close> here.
\<close>

section \<open>Graphics mode\<close>

definition prepareGraphics :: "'d env \<Rightarrow> u16 \<Rightarrow> card \<Rightarrow> 'd \<Rightarrow> (bool \<times> card \<times> 'd) option" where
  "prepareGraphics env mode v d =
     (let (r, mode_info, d) = vbe_get_mode_info env mode d in
      if r \<noteq> OK then Some (True, v, d)
      else
        let v = v\<lparr>h_res := ucast (XResolution mode_info), v_res := ucast (YResolution mode_info),
                  bytes_per_pixel := (ucast (BitsPerPixel mode_info) + 7) div 8,
                  red_mask_size := RedMaskSize mode_info,
                  green_mask_size := GreenMaskSize mode_info,
                  blue_mask_size := BlueMaskSize mode_info,
                  red_field_position := RedFieldPosition mode_info,
                  green_field_position := GreenFieldPosition mode_info,
                  blue_field_position := BlueFieldPosition mode_info\<rparr>;
            vram_base = PhysBasePtr mode_info;
            vram_size = h_res v * v_res v * bytes_per_pixel v;
            (r, d) = sys_privctl_add_mem env vram_base (vram_base + vram_size) d
        in if r \<noteq> OK then None
           else
             let (mapped, d) = vm_map_phys env vram_base vram_size d
             in case mapped of
                  None \<Rightarrow> None
                | Some mem \<Rightarrow> Some (True, v\<lparr>video_mem := mem\<rparr>, d))"

definition setGraphics :: "'d env \<Rightarrow> u16 \<Rightarrow> 'd \<Rightarrow> bool \<times> 'd" where
  "setGraphics env mode d =
     (let r86 = \<lparr>ax = push_bit 8 VBE_MODE_AH OR VBE_SET_MODE_AL, bx = ucast (BIT 14) OR mode,
                 intno = BIOS_SERVICE_VIDEO_CARD\<rparr>;
          (r, d) = sys_int86 env r86 d
      in if r \<noteq> OK then (False, d) else (True, d))"


section \<open>Lines and rectangles\<close>

text \<open>The bytes of a colour, lowest first.\<close>

fun put_color :: "u8 list \<Rightarrow> nat \<Rightarrow> u32 \<Rightarrow> nat \<Rightarrow> nat \<Rightarrow> u8 list option" where
  "put_color mem off color j 0 = Some mem"
| "put_color mem off color j (Suc n) =
     (if off + j < length mem \<and> j * 8 < 32
      then put_color (mem[off + j := ucast (drop_bit (j * 8) color AND 0xFF)]) off color (Suc j) n
      else None)"

function hline_loop :: "nat \<Rightarrow> nat \<Rightarrow> nat \<Rightarrow> u32 \<Rightarrow> nat \<Rightarrow> u8 list \<Rightarrow> u32 \<Rightarrow> u8 list option" where
  "hline_loop hres lim bpp color i mem off =
     (if i < hres \<and> i < lim then do {
        mem \<leftarrow> put_color mem (unat off) color 0 bpp;
        hline_loop hres lim bpp color (Suc i) mem (off + of_nat bpp)
      } else Some mem)"
  by pat_completeness auto
termination
  by (relation "measure (\<lambda>(hres, lim, bpp, color, i, mem, off). lim - i)") auto

declare hline_loop.simps [simp del]

definition vg_draw_hline :: "u16 \<Rightarrow> u16 \<Rightarrow> u16 \<Rightarrow> u32 \<Rightarrow> card \<Rightarrow> (i32 \<times> card) option" where
  "vg_draw_hline x y len color v =
     (if ucast x > h_res v \<or> ucast y > v_res v then Some (1, v)
      else
        let off = (ucast y * h_res v + ucast x) * bytes_per_pixel v in
        map_option (\<lambda>mem. (0, v\<lparr>video_mem := mem\<rparr>))
          (hline_loop (unat (h_res v)) (unat x + unat len) (unat (bytes_per_pixel v)) color (unat x)
             (video_mem v) off))"

function rectangle_loop :: "nat \<Rightarrow> u16 \<Rightarrow> u16 \<Rightarrow> u32 \<Rightarrow> nat \<Rightarrow> u8 \<Rightarrow> card \<Rightarrow> (u8 \<times> card) option" where
  "rectangle_loop lim x w color i ret v =
     (if i < unat (v_res v) \<and> i < lim then do {
        (r, v) \<leftarrow> vg_draw_hline x (of_nat i) w color v;
        rectangle_loop lim x w color (Suc i) (ret OR ucast r) v
      } else Some (ret, v))"
  by pat_completeness auto
termination
  by (relation "measure (\<lambda>(lim, x, w, color, i, ret, v). lim - i)") auto

declare rectangle_loop.simps [simp del]

definition vg_draw_rectangle :: "u16 \<Rightarrow> u16 \<Rightarrow> u16 \<Rightarrow> u16 \<Rightarrow> u32 \<Rightarrow> card \<Rightarrow> (i32 \<times> card) option" where
  "vg_draw_rectangle x y w h color v = do {
     (ret, v) \<leftarrow> rectangle_loop (unat y + unat h) x w color (unat y) 0 v;
     Some (ucast ret, v)
   }"


section \<open>Patterns\<close>

text \<open>\<^verbatim>\<open>1 << n\<close> as an \<^verbatim>\<open>int\<close>.\<close>

definition one_shl :: "nat \<Rightarrow> u32 option" where
  "one_shl n = (if n < 31 then Some (push_bit n 1) else None)"

definition calculateColorPatternIndexed :: "card \<Rightarrow> u8 \<Rightarrow> u32 \<Rightarrow> u32 \<Rightarrow> u32 \<Rightarrow> u8 \<Rightarrow> u32 option" where
  "calculateColorPatternIndexed v no_rectangles x y first step = do {
     m \<leftarrow> one_shl (unat (bytes_per_pixel v * 8));
     Some ((first + (y * ucast no_rectangles + x) * ucast step) mod m)
   }"

definition bits_first :: "u8 \<Rightarrow> u8 \<Rightarrow> u32 \<Rightarrow> u32 option" where
  "bits_first mask_size field_position first = do {
     m \<leftarrow> one_shl (unat mask_size);
     if unat field_position < 32 then Some ((m - 1) AND drop_bit (unat field_position) first) else None
   }"

definition getBlueBitsFirst :: "card \<Rightarrow> u32 \<Rightarrow> u32 option" where
  "getBlueBitsFirst v first = bits_first (blue_mask_size v) (blue_field_position v) first"

definition getGreenBitsFirst :: "card \<Rightarrow> u32 \<Rightarrow> u32 option" where
  "getGreenBitsFirst v first = bits_first (green_mask_size v) (green_field_position v) first"

definition getRedBitsFirst :: "card \<Rightarrow> u32 \<Rightarrow> u32 option" where
  "getRedBitsFirst v first = bits_first (red_mask_size v) (red_field_position v) first"

text \<open>The blue component is the only one that is not shifted to its position.\<close>

definition calculateColorPatternDirect :: "card \<Rightarrow> u8 \<Rightarrow> u32 \<Rightarrow> u32 \<Rightarrow> u32 \<Rightarrow> u8 \<Rightarrow> u32 option" where
  "calculateColorPatternDirect v no_rectangles x y first step = do {
     b \<leftarrow> getBlueBitsFirst v first;
     mb \<leftarrow> one_shl (unat (blue_mask_size v));
     let blue_bits = (b + (x + y) * ucast step) mod mb;
     g \<leftarrow> getGreenBitsFirst v first;
     mg \<leftarrow> one_shl (unat (green_mask_size v));
     let green_bits = push_bit (unat (green_field_position v)) ((g + y * ucast step) mod mg);
     r \<leftarrow> getRedBitsFirst v first;
     mr \<leftarrow> one_shl (unat (red_mask_size v));
     let red_bits = push_bit (unat (red_field_position v)) ((r + x * ucast step) mod mr);
     Some (red_bits OR green_bits OR blue_bits)
   }"

text \<open>The rectangles row by row; both branches of the code differ only in the colour.\<close>

fun pattern_loop ::
  "(u32 \<Rightarrow> u32 \<Rightarrow> u32 option) \<Rightarrow> u32 \<Rightarrow> u32 \<Rightarrow> (u32 \<times> u32) list \<Rightarrow> card \<Rightarrow> card option" where
  "pattern_loop col xpp ypp [] v = Some v"
| "pattern_loop col xpp ypp ((y, x) # ps) v =
     (if (x + 1) * xpp > h_res v \<or> (y + 1) * ypp > v_res v then pattern_loop col xpp ypp ps v
      else do {
        color \<leftarrow> col x y;
        (r, v) \<leftarrow> vg_draw_rectangle (ucast (x * xpp)) (ucast (y * ypp)) (ucast xpp) (ucast ypp) color v;
        pattern_loop col xpp ypp ps v
      })"

definition vg_draw_pattern :: "u16 \<Rightarrow> u8 \<Rightarrow> u32 \<Rightarrow> u8 \<Rightarrow> card \<Rightarrow> (i32 \<times> card) option" where
  "vg_draw_pattern mode no_rectangles first step v =
     (if no_rectangles = 0 then None else
      let xpp = h_res v div ucast no_rectangles;
          ypp = v_res v div ucast no_rectangles;
          ns = map of_nat [0..<unat no_rectangles];
          col = (if mode = 0x105 then (\<lambda>x y. calculateColorPatternIndexed v no_rectangles x y first step)
                 else (\<lambda>x y. calculateColorPatternDirect v no_rectangles x y first step))
      in map_option (\<lambda>v. (0, v)) (pattern_loop col xpp ypp (List.product ns ns) v))"


section \<open>Sprites\<close>

text \<open>The place of a pixel is computed from its row and column, unlike in the project.\<close>

function sprite_row_lab5 ::
  "card \<Rightarrow> u8 list \<Rightarrow> nat \<Rightarrow> nat \<Rightarrow> nat \<Rightarrow> u8 list \<Rightarrow> nat \<Rightarrow> (u8 list \<times> nat) option" where
  "sprite_row_lab5 v sp lim i j mem k =
     (if j < unat (h_res v) \<and> j < lim then do {
        (mem, k) \<leftarrow> copy_bytes mem (unat ((of_nat i * h_res v + of_nat j) * bytes_per_pixel v)) sp k
                    (unat (bytes_per_pixel v));
        sprite_row_lab5 v sp lim i (Suc j) mem k
      } else Some (mem, k))"
  by pat_completeness auto
termination
  by (relation "measure (\<lambda>(v, sp, lim, i, j, mem, k). lim - j)") auto

declare sprite_row_lab5.simps [simp del]

function sprite_rows_lab5 ::
  "card \<Rightarrow> u8 list \<Rightarrow> nat \<Rightarrow> nat \<Rightarrow> nat \<Rightarrow> nat \<Rightarrow> u8 list \<Rightarrow> nat \<Rightarrow> u8 list option" where
  "sprite_rows_lab5 v sp x xlim ylim i mem k =
     (if i < unat (v_res v) \<and> i < ylim then do {
        (mem, k) \<leftarrow> sprite_row_lab5 v sp xlim i x mem k;
        sprite_rows_lab5 v sp x xlim ylim (Suc i) mem k
      } else Some mem)"
  by pat_completeness auto
termination
  by (relation "measure (\<lambda>(v, sp, x, xlim, ylim, i, mem, k). ylim - i)") auto

declare sprite_rows_lab5.simps [simp del]

definition vg_draw_sprite_lab5 :: "sprite \<Rightarrow> u16 \<Rightarrow> u16 \<Rightarrow> u8 \<Rightarrow> card \<Rightarrow> (i32 \<times> card) option" where
  "vg_draw_sprite_lab5 s x y buffer_no v =
     (let draw = sprite_rows_lab5 v (ptr s) (unat x) (unat x + unat (width s)) (unat y + unat (height s)) (unat y)
      in if buffer_no = 0 then map_option (\<lambda>mem. (0, v\<lparr>video_mem := mem\<rparr>)) (draw (video_mem v) 0)
         else if buffer_no = 1 then map_option (\<lambda>mem. (0, v\<lparr>buffer := mem\<rparr>)) (draw (buffer v) 0)
         else Some (1, v))"

text \<open>The state of the animation.\<close>

record move =
  mv_x :: u16
  mv_y :: u16
  speed_x :: i16
  speed_y :: i16
  counter_interrupts :: int
  neg_speed_frame_counter :: int

definition start_move :: "u16 \<Rightarrow> u16 \<Rightarrow> u16 \<Rightarrow> i16 \<Rightarrow> move" where
  "start_move xi yi xf speed =
     \<lparr>mv_x = xi, mv_y = yi,
      speed_x = (if xf = xi then 0 else word_of_int \<bar>sint speed\<bar>),
      speed_y = (if xf = xi then word_of_int \<bar>sint speed\<bar> else 0),
      counter_interrupts = 0, neg_speed_frame_counter = 0\<rparr>"

text \<open>The new position, after the drawing of a frame.\<close>

definition advance :: "u16 \<Rightarrow> u16 \<Rightarrow> i16 \<Rightarrow> sprite \<Rightarrow> card \<Rightarrow> move \<Rightarrow> move" where
  "advance xf yf speed img v m =
     (if mv_x m = xf \<and> mv_y m = yf then m else
      let m = (if 0 < sint speed then m\<lparr>mv_x := mv_x m + speed_x m, mv_y := mv_y m + speed_y m\<rparr>
               else if neg_speed_frame_counter m = \<bar>sint speed\<bar> then
                 (if speed_x m = 0 then m\<lparr>mv_y := mv_y m + 1\<rparr> else m\<lparr>mv_x := mv_x m + 1\<rparr>)
                   \<lparr>neg_speed_frame_counter := 0\<rparr>
               else m\<lparr>neg_speed_frame_counter := neg_speed_frame_counter m + 1\<rparr>)
      in if unat (mv_x m) + unat (width img) > unat (h_res v) \<or> unat (mv_y m) + unat (height img) > unat (v_res v)
         then m\<lparr>mv_x := mv_x m - speed_x m, mv_y := mv_y m - speed_y m, speed_x := 0, speed_y := 0\<rparr>
         else m)"

definition draw_frame :: "sprite \<Rightarrow> u16 \<Rightarrow> u16 \<Rightarrow> card \<Rightarrow> card option" where
  "draw_frame img x y v =
     (let n = unat (h_res v * v_res v * bytes_per_pixel v) in
      if length (buffer v) < n then None else do {
        let v = v\<lparr>buffer := replicate n 0 @ drop n (buffer v)\<rparr>;
        (r, v) \<leftarrow> vg_draw_sprite_lab5 img x y 1 v;
        if length (video_mem v) < n \<or> length (buffer v) < n then None
        else Some (v\<lparr>video_mem := take n (buffer v) @ drop n (video_mem v)\<rparr>)
      })"

definition move_handle ::
  "'d env \<Rightarrow> u16 \<Rightarrow> u16 \<Rightarrow> i16 \<Rightarrow> int \<Rightarrow> sprite \<Rightarrow> u32 \<Rightarrow> u32 \<Rightarrow> u32 \<Rightarrow> kbd_lab3 \<times> move \<times> card \<Rightarrow> 'd \<Rightarrow>
   ((kbd_lab3 \<times> move \<times> card) \<times> 'd) option" where
  "move_handle env xf yf speed no_interrupts img irq_set_kbc irq_set_timer ints s d =
     (let (k, m, v) = s;
          (k, d) = (if ints AND irq_set_kbc \<noteq> 0 then kbc_ih_lab5 env k d else (k, d))
      in if ints AND irq_set_timer = 0 then Some ((k, m, v), d)
         else if counter_interrupts m < no_interrupts
         then Some ((k, m\<lparr>counter_interrupts := counter_interrupts m + 1\<rparr>, v), d)
         else do {
           let m = m\<lparr>counter_interrupts := 0\<rparr>;
           v \<leftarrow> draw_frame img (mv_x m) (mv_y m) v;
           Some ((k, advance xf yf speed img v m, v), d)
         })"

definition vg_draw_moving_sprite ::
  "'d env \<Rightarrow> sprite \<Rightarrow> u16 \<Rightarrow> u16 \<Rightarrow> u16 \<Rightarrow> u16 \<Rightarrow> i16 \<Rightarrow> u8 \<Rightarrow> kbd_lab3 \<Rightarrow> timer \<Rightarrow> card \<Rightarrow> 'd \<Rightarrow>
   (i32 \<times> kbd_lab3 \<times> timer \<times> card \<times> 'd) option" where
  "vg_draw_moving_sprite env img xi yi xf yf speed fr_rate k t v d =
     (let m = start_move xi yi xf speed;
          (buf, d) = malloc_bytes env (h_res v * v_res v * bytes_per_pixel v) d;
          v = v\<lparr>buffer := buf\<rparr>
      in if fr_rate = 0 then None else
      let no_interrupts = 60 div uint fr_rate;
          (r, bit_no_KBC, k, d) = kbc_subscribe_int_lab5 env k d;
          (r, bit_no_TIMER, t, d) = timer_subscribe_int env t d;
          irq_set_kbc = BIT (unat bit_no_KBC);
          irq_set_timer = BIT (unat bit_no_TIMER);
          k = k\<lparr>flagESC := True, flag2Bytes := False, counter_sys_in := 0\<rparr>
      in do {
        ((k, m, v), d) \<leftarrow>
          recv_loop env (\<lambda>(k, m, v). flagESC k)
            (move_handle env xf yf speed no_interrupts img irq_set_kbc irq_set_timer) (k, m, v) d;
        let d = snd (timer_unsubscribe_int env t d);
        let d = snd (kbc_unsubscribe_int_lab3 env k d);
        Some (0, k, t, v\<lparr>buffer := []\<rparr>, d)
      })"

definition scan_handle_lab5 :: "'d env \<Rightarrow> u32 \<Rightarrow> u32 \<Rightarrow> kbd_lab3 \<Rightarrow> 'd \<Rightarrow> (kbd_lab3 \<times> 'd) option" where
  "scan_handle_lab5 env irq_set ints k d = Some (if ints AND irq_set \<noteq> 0 then kbc_ih_lab5 env k d else (k, d))"

definition kbd_scan :: "'d env \<Rightarrow> kbd_lab3 \<Rightarrow> 'd \<Rightarrow> (i32 \<times> kbd_lab3 \<times> 'd) option" where
  "kbd_scan env k d =
     (let (r, bit_no, k, d) = kbc_subscribe_int_lab5 env k d;
          irq_set = BIT (unat bit_no);
          k = k\<lparr>flagESC := True, flag2Bytes := False, counter_sys_in := 0\<rparr>
      in do {
        (k, d) \<leftarrow> recv_loop env flagESC (scan_handle_lab5 env irq_set) k d;
        let d = snd (kbc_unsubscribe_int_lab3 env k d);
        Some (0, k, d)
      })"


section \<open>The tests\<close>

definition video_test_init :: "'d env \<Rightarrow> u16 \<Rightarrow> u8 \<Rightarrow> 'd \<Rightarrow> i32 \<times> 'd" where
  "video_test_init env mode delay d =
     (let (ok, d) = setGraphics env mode d in
      if \<not> ok then (1, d)
      else
        let d = sleep env delay d; (r, d) = vg_exit env d in (if r \<noteq> OK then 1 else 0, d))"

text \<open>The end that the other tests share: wait for the escape key and go back to text mode.\<close>

definition finish_test :: "'d env \<Rightarrow> kbd_lab3 \<Rightarrow> card \<Rightarrow> 'd \<Rightarrow> (i32 \<times> kbd_lab3 \<times> card \<times> 'd) option" where
  "finish_test env k v d = do {
     (r, k, d) \<leftarrow> kbd_scan env k d;
     let (r, d) = vg_exit env d;
     Some (if r \<noteq> OK then 1 else 0, k, v, d)
   }"

definition video_test_rectangle ::
  "'d env \<Rightarrow> u16 \<Rightarrow> u16 \<Rightarrow> u16 \<Rightarrow> u16 \<Rightarrow> u16 \<Rightarrow> u32 \<Rightarrow> kbd_lab3 \<Rightarrow> card \<Rightarrow> 'd \<Rightarrow>
   (i32 \<times> kbd_lab3 \<times> card \<times> 'd) option" where
  "video_test_rectangle env mode x y w h color k v d = do {
     (ok, v, d) \<leftarrow> prepareGraphics env mode v d;
     if \<not> ok then Some (1, k, v, d)
     else
       let (ok, d) = setGraphics env mode d in
       if \<not> ok then Some (1, k, v, d)
       else do {
         (r, v) \<leftarrow> vg_draw_rectangle x y w h color v;
         if r \<noteq> OK then Some (1, k, v, d) else finish_test env k v d
       }
   }"

definition video_test_pattern ::
  "'d env \<Rightarrow> u16 \<Rightarrow> u8 \<Rightarrow> u32 \<Rightarrow> u8 \<Rightarrow> kbd_lab3 \<Rightarrow> card \<Rightarrow> 'd \<Rightarrow> (i32 \<times> kbd_lab3 \<times> card \<times> 'd) option" where
  "video_test_pattern env mode no_rectangles first step k v d = do {
     (ok, v, d) \<leftarrow> prepareGraphics env mode v d;
     if \<not> ok then Some (1, k, v, d)
     else
       let (ok, d) = setGraphics env mode d in
       if \<not> ok then Some (1, k, v, d)
       else do {
         (r, v) \<leftarrow> vg_draw_pattern mode no_rectangles first step v;
         if r \<noteq> OK then Some (1, k, v, d) else finish_test env k v d
       }
   }"

text \<open>\<open>load\<close> is \<^verbatim>\<open>xpm_load\<close> of the LCF library for images with indexed colours.\<close>

definition video_test_xpm ::
  "'d env \<Rightarrow> ('x \<Rightarrow> sprite) \<Rightarrow> 'x \<Rightarrow> u16 \<Rightarrow> u16 \<Rightarrow> kbd_lab3 \<Rightarrow> card \<Rightarrow> 'd \<Rightarrow>
   (i32 \<times> kbd_lab3 \<times> card \<times> 'd) option" where
  "video_test_xpm env load xpm x y k v d =
     (let mode = 0x105 in do {
        (ok, v, d) \<leftarrow> prepareGraphics env mode v d;
        if \<not> ok then Some (1, k, v, d)
        else
          let (ok, d) = setGraphics env mode d in
          if \<not> ok then Some (1, k, v, d)
          else do {
            (r, v) \<leftarrow> vg_draw_sprite_lab5 (load xpm) x y 0 v;
            if r \<noteq> OK then Some (1, k, v, d) else finish_test env k v d
          }
      })"

definition video_test_move ::
  "'d env \<Rightarrow> ('x \<Rightarrow> sprite) \<Rightarrow> 'x \<Rightarrow> u16 \<Rightarrow> u16 \<Rightarrow> u16 \<Rightarrow> u16 \<Rightarrow> i16 \<Rightarrow> u8 \<Rightarrow> kbd_lab3 \<Rightarrow> timer \<Rightarrow> card \<Rightarrow> 'd \<Rightarrow>
   (i32 \<times> kbd_lab3 \<times> timer \<times> card \<times> 'd) option" where
  "video_test_move env load xpm xi yi xf yf speed fr_rate k t v d =
     (let mode = 0x105 in do {
        (ok, v, d) \<leftarrow> prepareGraphics env mode v d;
        if \<not> ok then Some (1, k, t, v, d)
        else
          let (ok, d) = setGraphics env mode d in
          if \<not> ok then Some (1, k, t, v, d)
          else do {
            (r, k, t, v, d) \<leftarrow> vg_draw_moving_sprite env (load xpm) xi yi xf yf speed fr_rate k t v d;
            if r \<noteq> OK then Some (1, k, t, v, d)
            else let (r, d) = vg_exit env d in Some (if r \<noteq> OK then 1 else 0, k, t, v, d)
          }
      })"

definition video_test_controller :: i32 where
  "video_test_controller = 1"


section \<open>Painted pixels\<close>

text \<open>The place of byte \<open>b\<close> of the pixel in row \<open>r\<close> and column \<open>c\<close>.\<close>

definition pos :: "nat \<Rightarrow> nat \<Rightarrow> nat \<Rightarrow> nat \<Rightarrow> nat \<Rightarrow> nat" where
  "pos H B r c b = (H * r + c) * B + b"

text \<open>
  The relation between a memory before and after drawing: the pixels of \<open>P\<close> have the bytes \<open>f\<close>, the
  others are as before.
\<close>

definition painted ::
  "nat \<times> nat \<times> nat \<Rightarrow> u8 list \<Rightarrow> u8 list \<Rightarrow> (nat \<Rightarrow> nat \<Rightarrow> bool) \<Rightarrow> (nat \<Rightarrow> nat \<Rightarrow> nat \<Rightarrow> u8) \<Rightarrow> bool" where
  "painted S mem mem' P f \<longleftrightarrow> (case S of (H, V, B) \<Rightarrow> length mem' = length mem \<and>
     (\<forall>r c b. r < V \<longrightarrow> c < H \<longrightarrow> b < B \<longrightarrow>
        mem' ! pos H B r c b = (if P r c then f r c b else mem ! pos H B r c b)))"

lemma painted_none: "(\<And>r c. \<not> P r c) \<Longrightarrow> painted S mem mem P f"
  by (cases S) (simp add: painted_def)

lemma painted_trans:
  assumes "painted S mem mem1 P f" "painted S mem1 mem2 Q g"
    and "\<And>r c. R r c \<longleftrightarrow> P r c \<or> Q r c"
    and "\<And>r c b. Q r c \<Longrightarrow> h r c b = g r c b" "\<And>r c b. P r c \<Longrightarrow> \<not> Q r c \<Longrightarrow> h r c b = f r c b"
  shows "painted S mem mem2 R h"
  using assms by (cases S) (simp add: painted_def)

lemma block_unique:
  fixes B :: nat
  assumes "b < B"
  shows "s * B \<le> q * B + b \<and> q * B + b < s * B + B \<longleftrightarrow> q = s"
proof -
  have div: "(q * B + b) div B = q" using assms by simp
  have B: "0 < B" using assms by simp
  have "s * B \<le> q * B + b \<longleftrightarrow> s \<le> q" using less_eq_div_iff_mult_less_eq [OF B, of s "q * B + b"] div by simp
  moreover have "q * B + b < s * B + B \<longleftrightarrow> q < Suc s"
    using div_less_iff_less_mult [OF B, of "q * B + b" "Suc s"] div by (simp add: add.commute)
  ultimately show ?thesis by auto
qed

lemma pixel_unique:
  fixes H :: nat
  assumes "c < H" "j < H"
  shows "H * r + c = H * i + j \<longleftrightarrow> r = i \<and> c = j"
proof -
  have "(H * r + c) div H = r" "(H * r + c) mod H = c" "(H * i + j) div H = i" "(H * i + j) mod H = j"
    using assms by simp_all
  then show ?thesis by metis
qed

lemma pixel_fits:
  fixes H :: nat
  assumes "i < V" "j < H"
  shows "(H * i + j) * B + B \<le> H * V * B"
proof -
  have "H * i + j + 1 \<le> H * (i + 1)" using assms(2) by simp
  also have "\<dots> \<le> H * V" using assms(1) by (intro mult_le_mono2) simp
  finally have "(H * i + j + 1) * B \<le> H * V * B" by (rule mult_le_mono1)
  then show ?thesis by (simp add: algebra_simps)
qed

lemma painted_pixel:
  assumes "i < V" "j < H" "length mem = H * V * B" "length mem' = length mem"
    and "\<And>q. q < length mem \<Longrightarrow> mem' ! q =
      (if (H * i + j) * B \<le> q \<and> q < (H * i + j) * B + B then h (q - (H * i + j) * B) else mem ! q)"
  shows "painted (H, V, B) mem mem' (\<lambda>r c. r = i \<and> c = j) (\<lambda>r c b. h b)"
proof -
  have "mem' ! pos H B r c b = (if r = i \<and> c = j then h b else mem ! pos H B r c b)"
    if rcb: "r < V" "c < H" "b < B" for r c b
  proof -
    have "pos H B r c b < length mem"
      using pixel_fits [OF rcb(1,2), of B] rcb(3) unfolding pos_def assms(3) by linarith
    from assms(5) [OF this] show ?thesis
      unfolding pos_def block_unique [OF rcb(3)] pixel_unique [OF rcb(2) assms(2)] by auto
  qed
  then show ?thesis using assms(4) by (simp add: painted_def)
qed

definition color_byte :: "u32 \<Rightarrow> nat \<Rightarrow> u8" where
  "color_byte color b = ucast (drop_bit (b * 8) color AND 0xFF)"

lemma put_color_spec:
  assumes "off + j + n \<le> length mem" "j + n \<le> 4"
  shows "\<exists>mem'. put_color mem off color j n = Some mem' \<and> length mem' = length mem \<and>
    (\<forall>q < length mem. mem' ! q = (if off + j \<le> q \<and> q < off + j + n then color_byte color (q - off) else mem ! q))"
  using assms
proof (induction n arbitrary: mem j)
  case (Suc n)
  let ?m = "mem[off + j := color_byte color j]"
  obtain mem' where mem': "put_color ?m off color (Suc j) n = Some mem'" "length mem' = length mem"
    "\<forall>q < length mem. mem' ! q = (if off + Suc j \<le> q \<and> q < off + Suc j + n then color_byte color (q - off) else ?m ! q)"
    using Suc.IH [of "Suc j" ?m] Suc.prems by auto
  have "mem' ! q = (if off + j \<le> q \<and> q < off + j + Suc n then color_byte color (q - off) else mem ! q)"
    if "q < length mem" for q
    using mem'(3) that by (cases "q = off + j") auto
  with mem'(1,2) Suc.prems show ?case by (simp add: color_byte_def)
qed auto

lemma color_pixel:
  assumes "i < V" "j < H" "length mem = H * V * B" "B \<le> 4"
  shows "\<exists>mem'. put_color mem ((H * i + j) * B) color 0 B = Some mem' \<and>
    painted (H, V, B) mem mem' (\<lambda>r c. r = i \<and> c = j) (\<lambda>r c b. color_byte color b)"
proof -
  obtain mem' where mem': "put_color mem ((H * i + j) * B) color 0 B = Some mem'" "length mem' = length mem"
    "\<And>q. q < length mem \<Longrightarrow> mem' ! q = (if (H * i + j) * B \<le> q \<and> q < (H * i + j) * B + B
       then color_byte color (q - (H * i + j) * B) else mem ! q)"
    using put_color_spec [of "(H * i + j) * B" 0 B mem color] pixel_fits [OF assms(1,2), of B] assms(3,4) by auto
  from painted_pixel [OF assms(1-3) this(2,3)] this(1) show ?thesis by blast
qed

lemma sprite_pixel:
  assumes "i < V" "j < H" "length mem = H * V * B" "k + B \<le> length sp"
  shows "\<exists>mem'. copy_bytes mem ((H * i + j) * B) sp k B = Some (mem', k + B) \<and>
    painted (H, V, B) mem mem' (\<lambda>r c. r = i \<and> c = j) (\<lambda>r c b. sp ! (k + b))"
proof -
  obtain mem' where mem': "copy_bytes mem ((H * i + j) * B) sp k B = Some (mem', k + B)" "length mem' = length mem"
    "\<And>q. q < length mem \<Longrightarrow> mem' ! q = (if (H * i + j) * B \<le> q \<and> q < (H * i + j) * B + B
       then sp ! (k + (q - (H * i + j) * B)) else mem ! q)"
    using copy_bytes_spec [OF assms(4), of "(H * i + j) * B" mem] pixel_fits [OF assms(1,2), of B] assms(3) by auto
  from painted_pixel [OF assms(1-3) this(2,3)] this(1) show ?thesis by blast
qed


section \<open>What the drawing routines paint\<close>

lemma unat_of_nat_u32: "n < 2 ^ 32 \<Longrightarrow> unat (of_nat n :: u32) = n"
  by (simp add: unat_of_nat)

lemma unat_of_nat_u16: "n < 65536 \<Longrightarrow> unat (of_nat n :: u16) = n"
  by (simp add: unat_of_nat)

lemma painted_length: "painted (H, V, B) mem mem' P f \<Longrightarrow> length mem' = length mem"
  by (simp add: painted_def)

lemma hline_paints:
  assumes "y < V" "B \<le> 4" "H * V * B < 2 ^ 32"
    and "n = min H lim - i" "length mem = H * V * B"
  shows "\<exists>mem'. hline_loop H lim B color i mem (of_nat ((H * y + i) * B)) = Some mem' \<and>
    painted (H, V, B) mem mem' (\<lambda>r c. r = y \<and> i \<le> c \<and> c < min H lim) (\<lambda>r c b. color_byte color b)"
  using assms(4,5)
proof (induction n arbitrary: i mem)
  case 0
  then have "\<not> (i < H \<and> i < lim)" by auto
  then show ?case using 0 by (subst hline_loop.simps) (auto intro!: painted_none)
next
  case (Suc n)
  have i: "i < H" "i < lim" using Suc.prems(1) by auto
  have "(H * y + i) * B < 2 ^ 32" using pixel_fits [OF assms(1) i(1), of B] assms(3) by linarith
  then have off: "unat (of_nat ((H * y + i) * B) :: u32) = (H * y + i) * B"
    by (rule unat_of_nat_u32)
  obtain m1 where m1: "put_color mem ((H * y + i) * B) color 0 B = Some m1"
    "painted (H, V, B) mem m1 (\<lambda>r c. r = y \<and> c = i) (\<lambda>r c b. color_byte color b)"
    using color_pixel [OF assms(1) i(1) Suc.prems(2) assms(2)] by blast
  obtain m2 where m2: "hline_loop H lim B color (Suc i) m1 (of_nat ((H * y + Suc i) * B)) = Some m2"
    "painted (H, V, B) m1 m2 (\<lambda>r c. r = y \<and> Suc i \<le> c \<and> c < min H lim) (\<lambda>r c b. color_byte color b)"
    using Suc.IH [of "Suc i" m1, OF _ painted_length [OF m1(2), unfolded Suc.prems(2)]] Suc.prems(1) by force
  have "of_nat ((H * y + i) * B) + of_nat B = (of_nat ((H * y + Suc i) * B) :: u32)"
    by (simp add: algebra_simps)
  then have "hline_loop H lim B color i mem (of_nat ((H * y + i) * B)) = Some m2"
    using i m1(1) m2(1) by (subst hline_loop.simps) (simp only: off simp_thms if_True bind.simps)
  moreover have "painted (H, V, B) mem m2 (\<lambda>r c. r = y \<and> i \<le> c \<and> c < min H lim) (\<lambda>r c b. color_byte color b)"
    using m1(2) m2(2) by (rule painted_trans) (use i in auto)
  ultimately show ?case by blast
qed

definition card_ok :: "card \<Rightarrow> bool" where
  "card_ok v \<longleftrightarrow> unat (h_res v) < 65536 \<and> unat (v_res v) < 65536 \<and> unat (bytes_per_pixel v) \<le> 4 \<and>
     unat (h_res v) * unat (v_res v) * unat (bytes_per_pixel v) < 2 ^ 32 \<and>
     length (video_mem v) = unat (h_res v) * unat (v_res v) * unat (bytes_per_pixel v)"

abbreviation screen :: "card \<Rightarrow> nat \<times> nat \<times> nat" where
  "screen v \<equiv> (unat (h_res v), unat (v_res v), unat (bytes_per_pixel v))"

lemma draw_hline_paints:
  assumes "card_ok v" "unat x \<le> unat (h_res v)" "unat y < unat (v_res v)"
  shows "\<exists>mem. vg_draw_hline x y len color v = Some (0, v\<lparr>video_mem := mem\<rparr>) \<and>
    painted (screen v) (video_mem v) mem
      (\<lambda>r c. r = unat y \<and> unat x \<le> c \<and> c < min (unat (h_res v)) (unat x + unat len))
      (\<lambda>r c b. color_byte color b)"
proof -
  let ?H = "unat (h_res v)" and ?B = "unat (bytes_per_pixel v)"
  have "(ucast y * h_res v + ucast x) * bytes_per_pixel v = (of_nat ((?H * unat y + unat x) * ?B) :: u32)"
    by (simp add: algebra_simps)
  moreover have "\<not> (ucast x > h_res v \<or> ucast y > v_res v)"
    using assms(2,3) by (simp add: word_less_nat_alt)
  moreover note hline_paints [OF assms(3), of ?B ?H "min ?H (unat x + unat len) - unat x" "unat x + unat len" "unat x"
      "video_mem v" color]
  ultimately show ?thesis using assms(1) by (auto simp: vg_draw_hline_def card_ok_def simp del: of_nat_mult of_nat_add)
qed

lemma rectangle_paints:
  assumes "card_ok v" "unat x \<le> unat (h_res v)"
  shows "n = min (unat (v_res v)) lim - i \<Longrightarrow> length mem = length (video_mem v) \<Longrightarrow>
    \<exists>mem'. rectangle_loop lim x w color i ret (v\<lparr>video_mem := mem\<rparr>) = Some (ret, v\<lparr>video_mem := mem'\<rparr>) \<and>
      painted (screen v) mem mem'
        (\<lambda>r c. i \<le> r \<and> r < min (unat (v_res v)) lim \<and> unat x \<le> c \<and> c < min (unat (h_res v)) (unat x + unat w))
        (\<lambda>r c b. color_byte color b)"
proof (induction n arbitrary: i mem)
  case 0
  then have "\<not> (i < unat (v_res v) \<and> i < lim)" by auto
  then show ?case by (subst rectangle_loop.simps) (auto intro!: painted_none exI [of _ mem])
next
  case (Suc n)
  let ?v = "v\<lparr>video_mem := mem\<rparr>"
  have i: "i < unat (v_res v)" "i < lim" using Suc.prems(1) by auto
  have u: "unat (of_nat i :: u16) = i" using i(1) assms(1) by (intro unat_of_nat_u16) (simp add: card_ok_def)
  obtain m1 where m1: "vg_draw_hline x (of_nat i) w color ?v = Some (0, v\<lparr>video_mem := m1\<rparr>)"
    "painted (screen v) mem m1 (\<lambda>r c. r = i \<and> unat x \<le> c \<and> c < min (unat (h_res v)) (unat x + unat w))
      (\<lambda>r c b. color_byte color b)"
    using draw_hline_paints [of ?v x "of_nat i" w color] assms i(1) Suc.prems(2)
    by (auto simp: u card_ok_def)
  obtain m2 where m2: "rectangle_loop lim x w color (Suc i) ret (v\<lparr>video_mem := m1\<rparr>) = Some (ret, v\<lparr>video_mem := m2\<rparr>)"
    "painted (screen v) m1 m2
        (\<lambda>r c. Suc i \<le> r \<and> r < min (unat (v_res v)) lim \<and> unat x \<le> c \<and> c < min (unat (h_res v)) (unat x + unat w))
        (\<lambda>r c b. color_byte color b)"
    using Suc.IH [of "Suc i" m1, OF _ painted_length [OF m1(2), unfolded Suc.prems(2)]] Suc.prems(1) by force
  have "rectangle_loop lim x w color i ret ?v = Some (ret, v\<lparr>video_mem := m2\<rparr>)"
    using i m1(1) m2(1) by (subst rectangle_loop.simps) simp
  moreover have "painted (screen v) mem m2
        (\<lambda>r c. i \<le> r \<and> r < min (unat (v_res v)) lim \<and> unat x \<le> c \<and> c < min (unat (h_res v)) (unat x + unat w))
        (\<lambda>r c b. color_byte color b)"
    using m1(2) m2(2) by (rule painted_trans) (use i in auto)
  ultimately show ?case by blast
qed

lemma draw_rectangle_paints:
  assumes "card_ok v" "unat x \<le> unat (h_res v)"
  shows "\<exists>mem. vg_draw_rectangle x y w h color v = Some (0, v\<lparr>video_mem := mem\<rparr>) \<and>
    painted (screen v) (video_mem v) mem
      (\<lambda>r c. unat y \<le> r \<and> r < min (unat (v_res v)) (unat y + unat h) \<and>
         unat x \<le> c \<and> c < min (unat (h_res v)) (unat x + unat w))
      (\<lambda>r c b. color_byte color b)"
  using rectangle_paints [OF assms refl refl, of "unat y + unat h" w color "unat y" 0]
  by (auto simp: vg_draw_rectangle_def)

lemma sprite_row_paints:
  assumes "i < unat (v_res v)" "unat (h_res v) * unat (v_res v) * unat (bytes_per_pixel v) < 2 ^ 32"
  defines "B \<equiv> unat (bytes_per_pixel v)"
  shows "n = min (unat (h_res v)) lim - j \<Longrightarrow> k + n * B \<le> length sp \<Longrightarrow>
    length mem = unat (h_res v) * unat (v_res v) * B \<Longrightarrow>
    \<exists>mem'. sprite_row_lab5 v sp lim i j mem k = Some (mem', k + n * B) \<and>
      painted (screen v) mem mem' (\<lambda>r c. r = i \<and> j \<le> c \<and> c < min (unat (h_res v)) lim)
        (\<lambda>r c b. sp ! (k + (c - j) * B + b))"
proof (induction n arbitrary: j mem k)
  case 0
  then have "\<not> (j < unat (h_res v) \<and> j < lim)" by auto
  then show ?case by (subst sprite_row_lab5.simps) (auto intro!: painted_none)
next
  case (Suc n)
  let ?H = "unat (h_res v)" and ?V = "unat (v_res v)"
  have j: "j < ?H" "j < lim" using Suc.prems(1) by auto
  have "(?H * i + j) * B < 2 ^ 32" using pixel_fits [OF assms(1) j(1), of B] assms(2) unfolding B_def by linarith
  then have "unat (of_nat ((?H * i + j) * B) :: u32) = (?H * i + j) * B" by (rule unat_of_nat_u32)
  moreover have "(of_nat i * h_res v + of_nat j) * bytes_per_pixel v = (of_nat ((?H * i + j) * B) :: u32)"
    by (simp add: B_def algebra_simps)
  ultimately have off: "unat ((of_nat i * h_res v + of_nat j) * bytes_per_pixel v) = (?H * i + j) * B" by simp
  obtain m1 where m1: "copy_bytes mem ((?H * i + j) * B) sp k B = Some (m1, k + B)"
    "painted (?H, ?V, B) mem m1 (\<lambda>r c. r = i \<and> c = j) (\<lambda>r c b. sp ! (k + b))"
    using sprite_pixel [OF assms(1) j(1) Suc.prems(3), of k sp] Suc.prems(2) by auto
  have n: "n = min ?H lim - Suc j" using Suc.prems(1) by linarith
  have sp: "k + B + n * B \<le> length sp" using Suc.prems(2) by simp
  obtain m2 where m2: "sprite_row_lab5 v sp lim i (Suc j) m1 (k + B) = Some (m2, k + B + n * B)"
    "painted (?H, ?V, B) m1 m2 (\<lambda>r c. r = i \<and> Suc j \<le> c \<and> c < min ?H lim)
      (\<lambda>r c b. sp ! (k + B + (c - Suc j) * B + b))"
    using Suc.IH [OF n sp painted_length [OF m1(2), unfolded Suc.prems(3)]] unfolding B_def by blast
  have "sprite_row_lab5 v sp lim i j mem k = Some (m2, k + Suc n * B)"
    using j m1(1) m2(1) by (subst sprite_row_lab5.simps) (simp add: off B_def [symmetric] add.assoc)
  moreover have "painted (?H, ?V, B) mem m2 (\<lambda>r c. r = i \<and> j \<le> c \<and> c < min ?H lim)
      (\<lambda>r c b. sp ! (k + (c - j) * B + b))"
    using m1(2) m2(2)
  proof (rule painted_trans)
    fix r c b
    assume "r = i \<and> Suc j \<le> c \<and> c < min ?H lim"
    then have "c - j = Suc (c - Suc j)" by auto
    then show "sp ! (k + (c - j) * B + b) = sp ! (k + B + (c - Suc j) * B + b)" by (simp add: add.assoc)
  qed (use j in auto)
  ultimately show ?case unfolding B_def by blast
qed

lemma sprite_rows_paint:
  fixes x xlim :: nat
  assumes "unat (h_res v) * unat (v_res v) * unat (bytes_per_pixel v) < 2 ^ 32"
  defines "B \<equiv> unat (bytes_per_pixel v)"
  defines "n \<equiv> min (unat (h_res v)) xlim - x"
  shows "R = min (unat (v_res v)) ylim - i \<Longrightarrow> k + R * (n * B) \<le> length sp \<Longrightarrow>
    length mem = unat (h_res v) * unat (v_res v) * B \<Longrightarrow>
    \<exists>mem'. sprite_rows_lab5 v sp x xlim ylim i mem k = Some mem' \<and>
      painted (screen v) mem mem'
        (\<lambda>r c. i \<le> r \<and> r < min (unat (v_res v)) ylim \<and> x \<le> c \<and> c < min (unat (h_res v)) xlim)
        (\<lambda>r c b. sp ! (k + ((r - i) * n + (c - x)) * B + b))"
proof (induction R arbitrary: i mem k)
  case 0
  then have "\<not> (i < unat (v_res v) \<and> i < ylim)" by auto
  then show ?case by (subst sprite_rows_lab5.simps) (auto intro!: painted_none)
next
  case (Suc R)
  let ?H = "unat (h_res v)" and ?V = "unat (v_res v)"
  have i: "i < ?V" "i < ylim" using Suc.prems(1) by auto
  have row: "k + n * B \<le> length sp" using Suc.prems(2) by simp
  obtain m1 where m1: "sprite_row_lab5 v sp xlim i x mem k = Some (m1, k + n * B)"
    "painted (?H, ?V, B) mem m1 (\<lambda>r c. r = i \<and> x \<le> c \<and> c < min ?H xlim) (\<lambda>r c b. sp ! (k + (c - x) * B + b))"
    using sprite_row_paints [OF i(1) assms(1) n_def [THEN meta_eq_to_obj_eq] row [unfolded B_def] Suc.prems(3) [unfolded B_def]]
    unfolding B_def by blast
  have pre: "R = min ?V ylim - Suc i" "k + n * B + R * (n * B) \<le> length sp"
    using Suc.prems(1) apply linarith using Suc.prems(2) by (simp add: add.assoc)
  obtain m2 where m2: "sprite_rows_lab5 v sp x xlim ylim (Suc i) m1 (k + n * B) = Some m2"
    "painted (?H, ?V, B) m1 m2
      (\<lambda>r c. Suc i \<le> r \<and> r < min ?V ylim \<and> x \<le> c \<and> c < min ?H xlim)
      (\<lambda>r c b. sp ! (k + n * B + ((r - Suc i) * n + (c - x)) * B + b))"
    using Suc.IH [OF pre painted_length [OF m1(2), unfolded Suc.prems(3)]] unfolding B_def by blast
  have "sprite_rows_lab5 v sp x xlim ylim i mem k = Some m2"
    using i m1(1) m2(1) by (subst sprite_rows_lab5.simps) simp
  moreover have "painted (?H, ?V, B) mem m2
      (\<lambda>r c. i \<le> r \<and> r < min ?V ylim \<and> x \<le> c \<and> c < min ?H xlim)
      (\<lambda>r c b. sp ! (k + ((r - i) * n + (c - x)) * B + b))"
    using m1(2) m2(2)
  proof (rule painted_trans)
    fix r c b
    assume "Suc i \<le> r \<and> r < min ?V ylim \<and> x \<le> c \<and> c < min ?H xlim"
    then have "r - i = Suc (r - Suc i)" by auto
    then show "sp ! (k + ((r - i) * n + (c - x)) * B + b) = sp ! (k + n * B + ((r - Suc i) * n + (c - x)) * B + b)"
      by (simp add: algebra_simps)
  qed (use i in auto)
  ultimately show ?case unfolding B_def by blast
qed

text \<open>Every index of the memory is the byte of a pixel.\<close>

lemma pixel_ext:
  assumes "length m = H * V * B" "length m' = H * V * B"
    and "\<And>r c b. r < V \<Longrightarrow> c < H \<Longrightarrow> b < B \<Longrightarrow> m ! pos H B r c b = m' ! pos H B r c b"
  shows "m = m'"
proof (rule nth_equalityI)
  fix q
  assume q: "q < length m"
  then have pos: "0 < B" "0 < H" "0 < V" using assms(1) by (auto intro: gr0I)
  have "q div B < H * V" using q assms(1) by (simp add: less_mult_imp_div_less)
  then have "q div B div H < V" by (simp add: less_mult_imp_div_less mult.commute)
  moreover have "pos H B (q div B div H) (q div B mod H) (q mod B) = q" by (simp add: pos_def)
  ultimately show "m ! q = m' ! q"
    using assms(3) [of "q div B div H" "q div B mod H" "q mod B"] pos by simp
qed (simp add: assms)

lemma draw_sprite_lab5_paints:
  fixes x y :: u16
  assumes "unat (h_res v) * unat (v_res v) * unat (bytes_per_pixel v) < 2 ^ 32"
    and "length (buffer v) = unat (h_res v) * unat (v_res v) * unat (bytes_per_pixel v)"
    and "unat (height s) * unat (width s) * unat (bytes_per_pixel v) \<le> length (ptr s)"
  defines "n \<equiv> min (unat (h_res v)) (unat x + unat (width s)) - unat x"
  shows "\<exists>mem. vg_draw_sprite_lab5 s x y 1 v = Some (0, v\<lparr>buffer := mem\<rparr>) \<and>
    painted (screen v) (buffer v) mem
      (\<lambda>r c. unat y \<le> r \<and> r < min (unat (v_res v)) (unat y + unat (height s)) \<and>
         unat x \<le> c \<and> c < min (unat (h_res v)) (unat x + unat (width s)))
      (\<lambda>r c b. ptr s ! (((r - unat y) * n + (c - unat x)) * unat (bytes_per_pixel v) + b))"
proof -
  let ?R = "min (unat (v_res v)) (unat y + unat (height s)) - unat y"
  have "n \<le> unat (width s)" "?R \<le> unat (height s)" by (auto simp: n_def)
  then have "?R * (n * unat (bytes_per_pixel v)) \<le> unat (height s) * (unat (width s) * unat (bytes_per_pixel v))"
    by (intro mult_le_mono) auto
  also have "\<dots> \<le> length (ptr s)" using assms(3) by (simp only: mult.assoc)
  finally have "0 + ?R * (n * unat (bytes_per_pixel v)) \<le> length (ptr s)" by simp
  from sprite_rows_paint [OF assms(1) refl this [unfolded n_def] assms(2)]
  show ?thesis by (auto simp: vg_draw_sprite_lab5_def n_def)
qed

section \<open>Properties\<close>

text \<open>A rectangle that starts on the screen is drawn exactly, for one to four bytes per pixel:
  \<^verbatim>\<open>vg_draw_rectangle\<close> returns zero, every pixel of the part of the rectangle that is on the screen
  has the bytes of the colour, lowest first, and every other pixel is as it was.
\<close>

theorem vg_draw_rectangle_pixels:
  assumes "card_ok v" "unat x \<le> unat (h_res v)"
  defines "H \<equiv> unat (h_res v)" and "V \<equiv> unat (v_res v)" and "B \<equiv> unat (bytes_per_pixel v)"
  shows "\<exists>mem. vg_draw_rectangle x y w h color v = Some (0, v\<lparr>video_mem := mem\<rparr>) \<and>
    length mem = length (video_mem v) \<and>
    (\<forall>r c b. r < V \<longrightarrow> c < H \<longrightarrow> b < B \<longrightarrow>
      mem ! pos H B r c b =
        (if unat y \<le> r \<and> r < unat y + unat h \<and> unat x \<le> c \<and> c < unat x + unat w
         then color_byte color b else video_mem v ! pos H B r c b))"
  using draw_rectangle_paints [OF assms(1,2), of y w h color] unfolding H_def V_def B_def
  by (auto simp: painted_def)

text \<open>C29. The two drawing routines for sprites agree where nothing is cut off: on a sprite that lies inside
  the screen, the routine of the laboratory, which computes the place of every pixel, leaves the same
  buffer as the one of the project, which moves a pointer along the rows.
\<close>

theorem sprite_routines_agree:
  assumes "screen_ok v" "sprite_ok v s"
    and "unat x + unat (width s) \<le> unat (h_res v)" "unat y + unat (height s) \<le> unat (v_res v)"
  shows "map_option (\<lambda>(r, v). (r, buffer v)) (vg_draw_sprite s x y 1 v) =
    map_option (\<lambda>(r, c). (r, buffer c)) (vg_draw_sprite_lab5 s x y 1 (card.truncate v))"
proof -
  let ?c = "card.truncate v"
  have c: "h_res ?c = h_res v" "v_res ?c = v_res v" "bytes_per_pixel ?c = 3" "buffer ?c = buffer v"
    using assms(1) by (simp_all add: card.truncate_def screen_ok_def)
  have len: "length (buffer v) = unat (h_res v) * unat (v_res v) * 3" using assms(1) by (simp add: screen_ok_def)
  have vis: "visible False sp k = True" for sp k by (simp add: visible_def)
  obtain m1 where m1: "draw_image False v s (ucast x) (ucast y) (buffer v) = Some m1" "length m1 = length (buffer v)"
    and px1: "\<forall>r c b. r < unat (v_res v) \<longrightarrow> c < unat (h_res v) \<longrightarrow> b < 3 \<longrightarrow>
      m1 ! pixel_at v r c b =
        (if unat y \<le> r \<and> r < unat y + unat (height s) \<and> unat x \<le> c \<and> c < unat x + unat (width s)
         then ptr s ! (((r - unat y) * unat (width s) + (c - unat x)) * 3 + b) else buffer v ! pixel_at v r c b)"
    using draw_image_pixels [OF assms(1,2) len, of "ucast x" "ucast y" False,
        unfolded Let_def vis unat_ucast_u16 simp_thms, OF assms(3,4)] by blast
  obtain m2 where m2: "vg_draw_sprite_lab5 s x y 1 ?c = Some (0, ?c\<lparr>buffer := m2\<rparr>)"
    and px2: "painted (screen ?c) (buffer ?c) m2
      (\<lambda>r c. unat y \<le> r \<and> r < unat y + unat (height s) \<and> unat x \<le> c \<and> c < unat x + unat (width s))
      (\<lambda>r c b. ptr s ! (((r - unat y) * unat (width s) + (c - unat x)) * 3 + b))"
    using draw_sprite_lab5_paints [of ?c s x y] assms len
    by (auto simp: c screen_ok_def sprite_ok_def min_absorb2 mult.commute)
  have "m1 = m2"
  proof (rule pixel_ext)
    show "m1 ! pos (unat (h_res v)) 3 r c' b = m2 ! pos (unat (h_res v)) 3 r c' b"
      if "r < unat (v_res v)" "c' < unat (h_res v)" "b < 3" for r c' b
    proof -
      have "pixel_at v r c' b = pos (unat (h_res v)) 3 r c' b" by (simp add: pixel_at_def pos_def)
      then show ?thesis
        using px1 [rule_format, OF that] px2 [unfolded painted_def c prod.case] that by simp
    qed
  qed (use m1(2) px2 len in \<open>simp_all add: c painted_def\<close>)
  then show ?thesis using m1(1) m2 by (simp add: vg_draw_sprite_def draw_to_def)
qed

text \<open>The screen of six by four pixels without its sprites.\<close>

definition tiny_card :: card where
  "tiny_card = card.truncate tiny_video"

lemma tiny_card_fields:
  "h_res tiny_card = 6" "v_res tiny_card = 4" "bytes_per_pixel tiny_card = 3"
  "video_mem tiny_card = replicate 72 0" "buffer tiny_card = replicate 72 9"
  by (simp_all add: tiny_card_def tiny_video_def card.truncate_def)

theorem vg_draw_rectangle_pixels_witness:
  "\<exists>mem. vg_draw_rectangle 4 1 5 2 0x00AABBCC tiny_card = Some (0, tiny_card\<lparr>video_mem := mem\<rparr>) \<and>
    mem ! pos 6 3 2 5 1 = 0xBB \<and> mem ! pos 6 3 2 3 1 = 0"
proof -
  have ok: "card_ok tiny_card" by (simp add: card_ok_def tiny_card_fields)
  have x: "unat (4 :: u16) \<le> unat (h_res tiny_card)" by (simp add: tiny_card_fields)
  obtain mem where mem: "vg_draw_rectangle 4 1 5 2 0x00AABBCC tiny_card = Some (0, tiny_card\<lparr>video_mem := mem\<rparr>)"
    and px: "\<And>r c b. r < unat (v_res tiny_card) \<Longrightarrow> c < unat (h_res tiny_card) \<Longrightarrow> b < unat (bytes_per_pixel tiny_card) \<Longrightarrow>
      mem ! pos (unat (h_res tiny_card)) (unat (bytes_per_pixel tiny_card)) r c b =
        (if unat (1 :: u16) \<le> r \<and> r < unat (1 :: u16) + unat (2 :: u16) \<and> unat (4 :: u16) \<le> c \<and>
          c < unat (4 :: u16) + unat (5 :: u16)
         then color_byte 0x00AABBCC b
         else video_mem tiny_card ! pos (unat (h_res tiny_card)) (unat (bytes_per_pixel tiny_card)) r c b)"
    using vg_draw_rectangle_pixels [OF ok x, of 1 5 2 "0x00AABBCC"] by blast
  have "mem ! pos 6 3 2 5 1 = 0xBB" "mem ! pos 6 3 2 3 1 = 0"
    using px [of 2 5 1] px [of 2 3 1]
    by (simp_all add: color_byte_def tiny_card_fields pos_def)
  with mem show ?thesis by blast
qed

theorem sprite_routines_agree_witness:
  "map_option (\<lambda>(r, v). (r, buffer v)) (vg_draw_sprite dot 2 1 1 tiny_video) =
    map_option (\<lambda>(r, c). (r, buffer c)) (vg_draw_sprite_lab5 dot 2 1 1 (card.truncate tiny_video))"
  by (rule sprite_routines_agree)
    (use tiny_video_ok in \<open>auto simp: video_ok_def all_sprites_def tiny_video_def dot_def\<close>)

text \<open>What the animation relies on: the memories of the mode, and a complete image.\<close>

definition move_ok :: "sprite \<Rightarrow> card \<Rightarrow> bool" where
  "move_ok img v \<longleftrightarrow> card_ok v \<and>
     length (buffer v) = unat (h_res v) * unat (v_res v) * unat (bytes_per_pixel v) \<and>
     unat (height img) * unat (width img) * unat (bytes_per_pixel v) \<le> length (ptr img)"

lemma draw_frame_safe:
  assumes "move_ok img v"
  shows "\<exists>v'. draw_frame img x y v = Some v' \<and> move_ok img v' \<and> video_mem v' = buffer v'"
proof -
  let ?n = "unat (h_res v) * unat (v_res v) * unat (bytes_per_pixel v)"
  have small: "?n < 2 ^ 32" and len: "length (buffer v) = ?n" "length (video_mem v) = ?n"
    using assms by (auto simp: move_ok_def card_ok_def)
  then have n: "unat (h_res v * v_res v * bytes_per_pixel v) = ?n"
    by (simp add: unat_word_ariths mod_mult_left_eq)
  let ?v = "v\<lparr>buffer := replicate ?n 0\<rparr>"
  obtain mem where mem: "vg_draw_sprite_lab5 img x y 1 ?v = Some (0, ?v\<lparr>buffer := mem\<rparr>)"
    "painted (screen v) (buffer ?v) mem
      (\<lambda>r c. unat y \<le> r \<and> r < min (unat (v_res v)) (unat y + unat (height img)) \<and>
         unat x \<le> c \<and> c < min (unat (h_res v)) (unat x + unat (width img)))
      (\<lambda>r c b. ptr img ! (((r - unat y) * (min (unat (h_res v)) (unat x + unat (width img)) - unat x) +
         (c - unat x)) * unat (bytes_per_pixel v) + b))"
    using draw_sprite_lab5_paints [of ?v img x y] assms by (auto simp: move_ok_def card_ok_def)
  have "length mem = ?n" using painted_length [OF mem(2)] by simp
  then have "draw_frame img x y v = Some (v\<lparr>buffer := mem, video_mem := mem\<rparr>)"
    using mem(1) len by (simp add: draw_frame_def n)
  then show ?thesis using assms \<open>length mem = ?n\<close> by (simp add: move_ok_def card_ok_def)
qed

interpretation move_events: safe_handler
  "\<lambda>ints (s, d). move_handle env xf yf speed no_interrupts img ik it ints s d" "\<lambda>((k, m, v), d). move_ok img v"
proof (unfold_locales, goal_cases)
  case (1 s ints)
  obtain k m v d where s: "s = ((k, m, v), d)" by (metis surj_pair)
  with 1 draw_frame_safe [of img v "mv_x m" "mv_y m"] show ?case
    by (auto simp: move_handle_def Let_def split_beta)
qed

text \<open>C24. The animation is memory safe: for every speed, start and target, wherever the sprite is, any
  sequence of notifications of keyboard and timer is handled without an access outside the two
  buffers or the image.
\<close>

theorem moving_sprite_safe:
  assumes "move_ok img v"
  shows "\<exists>k' m' v' d'. run_events (\<lambda>ints (s, d). move_handle env xf yf speed no_interrupts img ik it ints s d) ints
      ((k, m, v), d) = Some ((k', m', v'), d') \<and> move_ok img v'"
  using move_events.run_safe [of img "((k, m, v), d)" env xf yf speed no_interrupts ik it ints] assms
  by (auto simp: split_paired_Ex)

theorem moving_sprite_safe_witness:
  "\<exists>k' m' v' d'. run_events (\<lambda>ints (s, d). move_handle sim_env 5 3 (- 7) 0 dot 2 1 ints s d) [1, 3, 1, 1]
      ((start_kbd, start_move 0 0 5 (- 7), tiny_card), sim0) = Some ((k', m', v'), d') \<and> move_ok dot v'"
  by (rule moving_sprite_safe) (simp add: move_ok_def card_ok_def tiny_card_fields dot_def)

lemma advance_run:
  fixes speed :: i16
  defines "s \<equiv> nat (sint speed)"
  assumes "0 < sint speed" "xi \<noteq> xf" "unat xi + q * s = unat xf"
    and "unat xf + unat (width img) \<le> unat (h_res v)" "unat yi + unat (height img) \<le> unat (v_res v)"
  shows "\<exists>x. (advance xf yi speed img v ^^ j) (start_move xi yi xf speed) = (start_move xi yi xf speed)\<lparr>mv_x := x\<rparr> \<and>
    unat x = unat xi + min j q * s"
proof (induction j)
  case 0
  show ?case by (auto simp: start_move_def)
next
  case (Suc j)
  then obtain x where x: "(advance xf yi speed img v ^^ j) (start_move xi yi xf speed) =
      (start_move xi yi xf speed)\<lparr>mv_x := x\<rparr>" "unat x = unat xi + min j q * s" by blast
  have "word_of_int (sint speed) = speed" by simp
  then have m: "start_move xi yi xf speed = \<lparr>mv_x = xi, mv_y = yi, speed_x = speed, speed_y = 0,
      counter_interrupts = 0, neg_speed_frame_counter = 0\<rparr>"
    using assms(2,3) by (simp add: start_move_def)
  have sp: "unat speed = s"
  proof -
    have "uint speed = take_bit 16 (sint speed)" using uint_sint [of speed] by simp
    also have "\<dots> = sint speed" using assms(2) sint_lt [of speed] by (simp add: take_bit_int_eq_self)
    finally show ?thesis by (metis nat_uint_eq s_def)
  qed
  show ?case
  proof (cases "q \<le> j")
    case True
    then have "x = xf" using x(2) assms(4) by (simp add: word_unat_eq_iff)
    then have "advance xf yi speed img v ((start_move xi yi xf speed)\<lparr>mv_x := x\<rparr>) =
        (start_move xi yi xf speed)\<lparr>mv_x := x\<rparr>" by (simp add: m advance_def)
    then show ?thesis using x True by (intro exI [of _ x]) simp
  next
    case False
    have "Suc j * s \<le> q * s" using False by (intro mult_le_mono1) simp
    then have le: "unat x + s \<le> unat xf" using x(2) assms(4) False by simp
    have "x \<noteq> xf" using le assms(2) by (auto simp: s_def)
    have inc: "unat (x + speed) = unat x + s"
      using le u16_bound [of xf] by (simp add: unat_word_ariths sp)
    then have "advance xf yi speed img v ((start_move xi yi xf speed)\<lparr>mv_x := x\<rparr>) =
        (start_move xi yi xf speed)\<lparr>mv_x := x + speed\<rparr>"
      using \<open>x \<noteq> xf\<close> le assms(2,5,6) by (simp add: m advance_def Let_def)
    moreover have "unat (x + speed) = unat xi + min (Suc j) q * s" using inc x(2) False by simp
    ultimately show ?thesis using x(1) by (intro exI [of _ "x + speed"]) simp
  qed
qed

text \<open>C25. The moving sprite arrives: when the speed is positive and divides the distance to a target to
  the right on the screen, the sprite moves by the speed with every frame, is at the target after
  the exact number of frames, and stays there.
\<close>

theorem moving_sprite_arrives:
  assumes "0 < sint speed" "xi \<noteq> xf" "unat xi + q * nat (sint speed) = unat xf"
    and "unat xf + unat (width img) \<le> unat (h_res v)" "unat yi + unat (height img) \<le> unat (v_res v)"
  shows "unat (mv_x ((advance xf yi speed img v ^^ j) (start_move xi yi xf speed))) =
      unat xi + min j q * nat (sint speed) \<and>
    mv_y ((advance xf yi speed img v ^^ j) (start_move xi yi xf speed)) = yi"
  using advance_run [OF assms, of j] by (auto simp: start_move_def)

theorem moving_sprite_arrives_witness:
  "unat (mv_x ((advance 5 2 2 dot tiny_card ^^ 9) (start_move 1 2 5 2))) = unat (1 :: u16) + min 9 2 * nat (sint (2 :: i16)) \<and>
    mv_y ((advance 5 2 2 dot tiny_card ^^ 9) (start_move 1 2 5 2)) = 2"
  by (rule moving_sprite_arrives) (simp_all add: tiny_card_fields dot_def)

text \<open>
  A speed that does not divide the distance misses the target: at speed 2 the sprite goes from column
  0 past its target in column 3 to column 4, where the border stops it.
\<close>

lemma moving_sprite_misses:
  defines "step \<equiv> advance 3 2 2 dot tiny_card"
  shows "mv_x (step (start_move 0 2 3 2)) = 2" "mv_x (step (step (start_move 0 2 3 2))) = 4"
    "mv_x (step (step (step (start_move 0 2 3 2)))) = 4"
  by (simp_all add: step_def start_move_def advance_def tiny_card_fields dot_def)

end
