(* ===== verification/Patterns.thy ===== *)
theory Patterns
  imports Lab5
begin

text \<open>
  What \<^verbatim>\<open>vg_draw_pattern\<close> of \<^verbatim>\<open>lab5/video_card.c\<close> paints: a square of rectangles of equal size, each
  in the colour that the exercise asks for, in the indexed mode and in a mode of 24 bits.
\<close>

section \<open>The loop over the rectangles\<close>

lemma card_ok_paint: "card_ok v \<Longrightarrow> length mem = length (video_mem v) \<Longrightarrow> card_ok (v\<lparr>video_mem := mem\<rparr>)"
  by (simp add: card_ok_def)

text \<open>The pixels of the rectangle in column \<open>x\<close> and row \<open>y\<close> of the pattern.\<close>

definition in_rectangle :: "nat \<Rightarrow> nat \<Rightarrow> nat \<Rightarrow> nat \<Rightarrow> nat \<Rightarrow> nat \<Rightarrow> bool" where
  "in_rectangle X Y x y r c \<longleftrightarrow> y * Y \<le> r \<and> r < y * Y + Y \<and> x * X \<le> c \<and> c < x * X + X"

lemma div_block: "0 < n \<Longrightarrow> k * n \<le> m \<and> m < k * n + n \<longleftrightarrow> m div n = (k :: nat)"
  using less_eq_div_iff_mult_less_eq [of n k m] div_less_iff_less_mult [of n m "Suc k"] by auto

lemma in_rectangle_iff: "in_rectangle X Y x y r c \<longleftrightarrow> 0 < X \<and> 0 < Y \<and> r div Y = y \<and> c div X = x"
proof (cases "0 < X \<and> 0 < Y")
  case True
  then show ?thesis using div_block [of Y y r] div_block [of X x c] unfolding in_rectangle_def by blast
qed (auto simp: in_rectangle_def)

lemma pattern_step:
  assumes v: "card_ok v" and n: "i < n" "j < n" "n * X \<le> unat (h_res v)" "n * Y \<le> unat (v_res v)"
    and col: "col (of_nat i) (of_nat j) = Some color"
  shows "\<exists>mem. pattern_loop col (of_nat X) (of_nat Y) ((of_nat j, of_nat i) # ps) v =
      pattern_loop col (of_nat X) (of_nat Y) ps (v\<lparr>video_mem := mem\<rparr>) \<and>
    painted (screen v) (video_mem v) mem (in_rectangle X Y i j) (\<lambda>r c b. color_byte color b)"
proof -
  have "Suc i * X \<le> n * X" "Suc j * Y \<le> n * Y" using n(1,2) by (intro mult_le_mono1; simp)+
  then have le: "(i + 1) * X \<le> unat (h_res v)" "(j + 1) * Y \<le> unat (v_res v)" using n(3,4) by simp_all
  have small: "unat (h_res v) < 65536" "unat (v_res v) < 65536" using v by (simp_all add: card_ok_def)
  have word: "unat (of_nat m :: u32) = m" "unat (ucast (of_nat m :: u32) :: u16) = m" if "m < 65536" for m
    using that by (simp_all add: unat_of_nat_u32 ucast_u16_small)
  have guard: "\<not> ((of_nat i + 1) * of_nat X > h_res v \<or> (of_nat j + 1) * of_nat Y > v_res v)"
    using le small word(1) [of "(i + 1) * X"] word(1) [of "(j + 1) * Y"]
    by (simp add: word_less_nat_alt algebra_simps)
  have at: "unat (ucast (of_nat i * of_nat X :: u32) :: u16) = i * X" "unat (ucast (of_nat j * of_nat Y :: u32) :: u16) = j * Y"
      "unat (ucast (of_nat X :: u32) :: u16) = X" "unat (ucast (of_nat Y :: u32) :: u16) = Y"
    using le small word(2) [of "i * X"] word(2) [of "j * Y"] word(2) [of X] word(2) [of Y] by simp_all
  have rect: "j * Y \<le> r \<and> r < min (unat (v_res v)) (j * Y + Y) \<and> i * X \<le> c \<and> c < min (unat (h_res v)) (i * X + X)
      \<longleftrightarrow> in_rectangle X Y i j r c" for r c
    using le by (auto simp: in_rectangle_def)
  obtain mem where "vg_draw_rectangle (ucast (of_nat i * of_nat X :: u32)) (ucast (of_nat j * of_nat Y :: u32))
      (ucast (of_nat X :: u32)) (ucast (of_nat Y :: u32)) color v = Some (0, v\<lparr>video_mem := mem\<rparr>)"
    "painted (screen v) (video_mem v) mem (in_rectangle X Y i j) (\<lambda>r c b. color_byte color b)"
    using draw_rectangle_paints [OF v, of "ucast (of_nat i * of_nat X :: u32)" "ucast (of_nat j * of_nat Y :: u32)"
        "ucast (of_nat X :: u32)" "ucast (of_nat Y :: u32)" color, unfolded at rect] le by auto
  then show ?thesis using guard col by auto
qed

text \<open>All rectangles of a list: each pixel takes the colour of the rectangle it lies in.\<close>

lemma pattern_loop_paints:
  assumes "card_ok v" "n * X \<le> unat (h_res v)" "n * Y \<le> unat (v_res v)"
    and col: "\<And>i j. i < n \<Longrightarrow> j < n \<Longrightarrow> col (of_nat i) (of_nat j) = Some (C i j)"
    and "set ps \<subseteq> {..<n} \<times> {..<n}"
  shows "\<exists>mem. pattern_loop col (of_nat X) (of_nat Y) (map (\<lambda>(j, i). (of_nat j, of_nat i)) ps) v =
      Some (v\<lparr>video_mem := mem\<rparr>) \<and>
    painted (screen v) (video_mem v) mem (\<lambda>r c. 0 < X \<and> 0 < Y \<and> (r div Y, c div X) \<in> set ps)
      (\<lambda>r c b. color_byte (C (c div X) (r div Y)) b)"
  using assms(1-3,5)
proof (induction ps arbitrary: v)
  case Nil
  have "v\<lparr>video_mem := video_mem v\<rparr> = v" by simp
  then show ?case by (auto intro!: exI [of _ "video_mem v"] painted_none)
next
  case (Cons p ps)
  obtain j i where p: "p = (j, i)" "i < n" "j < n" using Cons.prems(4) by (cases p) auto
  obtain m1 where m1: "pattern_loop col (of_nat X) (of_nat Y) (map (\<lambda>(j, i). (of_nat j, of_nat i)) (p # ps)) v =
      pattern_loop col (of_nat X) (of_nat Y) (map (\<lambda>(j, i). (of_nat j, of_nat i)) ps) (v\<lparr>video_mem := m1\<rparr>)"
    "painted (screen v) (video_mem v) m1 (in_rectangle X Y i j) (\<lambda>r c b. color_byte (C i j) b)"
    using pattern_step [where col = col, OF Cons.prems(1) p(2,3) Cons.prems(2,3) col [OF p(2,3)]] p(1) by fastforce
  have "card_ok (v\<lparr>video_mem := m1\<rparr>)" using Cons.prems(1) painted_length [OF m1(2)] by (rule card_ok_paint)
  from Cons.IH [OF this] Cons.prems(2-4) obtain m2 where
    m2: "pattern_loop col (of_nat X) (of_nat Y) (map (\<lambda>(j, i). (of_nat j, of_nat i)) ps) (v\<lparr>video_mem := m1\<rparr>) =
      Some (v\<lparr>video_mem := m2\<rparr>)"
    "painted (screen v) m1 m2 (\<lambda>r c. 0 < X \<and> 0 < Y \<and> (r div Y, c div X) \<in> set ps)
      (\<lambda>r c b. color_byte (C (c div X) (r div Y)) b)"
    by auto
  have "painted (screen v) (video_mem v) m2 (\<lambda>r c. 0 < X \<and> 0 < Y \<and> (r div Y, c div X) \<in> set (p # ps))
      (\<lambda>r c b. color_byte (C (c div X) (r div Y)) b)"
    using m1(2) m2(2) by (rule painted_trans) (auto simp: in_rectangle_iff p(1))
  with m1(1) m2(1) show ?case by auto
qed

section \<open>The colours\<close>

text \<open>
  The byte \<open>b\<close> of the colour of the rectangle in column \<open>i\<close> and row \<open>j\<close>, as the exercise states it: in
  the indexed mode the index grows along the rows; otherwise red grows with the column, green with
  the row and blue with both.
\<close>

definition pattern_byte :: "bool \<Rightarrow> nat \<Rightarrow> nat \<Rightarrow> nat \<Rightarrow> nat \<Rightarrow> nat \<Rightarrow> nat \<Rightarrow> nat" where
  "pattern_byte indexed n first step i j b =
     (if indexed then first + (j * n + i) * step
      else if b = 0 then first + (i + j) * step
      else if b = 1 then first div 256 + j * step
      else first div 65536 + i * step) mod 256"

definition bits_888 :: "card \<Rightarrow> bool" where
  "bits_888 v \<longleftrightarrow> bytes_per_pixel v = 3 \<and> red_mask_size v = 8 \<and> green_mask_size v = 8 \<and> blue_mask_size v = 8 \<and>
     red_field_position v = 16 \<and> green_field_position v = 8 \<and> blue_field_position v = 0"

lemma one_shl_8: "one_shl 8 = Some 256"
  by (simp add: one_shl_def push_bit_eq_mult)

lemma u32_FF: "(0xFF :: u32) = mask 8"
  by (simp add: mask_eq_exp_minus_1)

lemma mask_8: "0xFF AND w = take_bit 8 (w :: u32)"
  by (simp add: u32_FF take_bit_eq_mask and.commute)

lemma u32_mod_256: "unat (of_nat m mod 256 :: u32) = m mod 256"
  by (simp add: unat_mod unat_of_nat mod_mod_cancel)

lemma color_byte_low: "color_byte w 0 = ucast w"
  unfolding color_byte_def u32_FF by (rule bit_word_eqI) (simp add: bit_simps)

lemma bytes_joined:
  fixes r g b :: u32
  assumes "take_bit 8 r = r" "take_bit 8 g = g" "take_bit 8 b = b"
  defines "w \<equiv> push_bit 16 r OR push_bit 8 g OR b"
  shows "color_byte w 0 = ucast b" "color_byte w 1 = ucast g" "color_byte w 2 = ucast r"
proof -
  have high: "\<not> bit r m" "\<not> bit g m" "\<not> bit b m" if "8 \<le> m" for m
    using assms(1-3) that by (metis bit_take_bit_iff not_le)+
  show "color_byte w 0 = ucast b" "color_byte w 1 = ucast g" "color_byte w 2 = ucast r"
    unfolding color_byte_def u32_FF w_def
    by (rule bit_word_eqI; auto simp: bit_simps high)+
qed

lemma u32_add_mod_256: "unat ((a + k) mod (256 :: u32)) = (unat a + unat k) mod 256"
  by (simp add: unat_mod unat_word_ariths mod_mod_cancel)

lemma field_add: "(take_bit 8 (drop_bit p w) + of_nat m) mod (256 :: u32) = of_nat (unat w div 2 ^ p + m) mod 256"
proof (rule unsigned_word_eqI)
  have "unat (take_bit 8 (drop_bit p w)) = unat w div 2 ^ p mod 256"
    unfolding unsigned_take_bit_eq unsigned_drop_bit_eq
    using unsigned_less [of w, where ?'a = nat] by (simp add: take_bit_eq_mod drop_bit_eq_div)
  then show "unat ((take_bit 8 (drop_bit p w) + of_nat m) mod (256 :: u32)) = unat (of_nat (unat w div 2 ^ p + m) mod (256 :: u32))"
    unfolding u32_add_mod_256 u32_mod_256
    using mod_add_right_eq [of "unat w div 2 ^ p" "m mod 2 ^ 32" 256] by (simp add: unat_of_nat mod_simps mod_mod_cancel)
qed

lemma indexed_color:
  assumes "bytes_per_pixel v = 1"
  shows "calculateColorPatternIndexed v nr (of_nat i) (of_nat j) first step =
    Some (of_nat (unat first + (j * unat nr + i) * unat step) mod 256)"
  using assms one_shl_8 by (simp add: calculateColorPatternIndexed_def)

lemma direct_color:
  assumes "bits_888 v"
  shows "calculateColorPatternDirect v nr (of_nat i) (of_nat j) first step =
    Some (push_bit 16 (of_nat (unat first div 65536 + i * unat step) mod 256) OR
      push_bit 8 (of_nat (unat first div 256 + j * unat step) mod 256) OR
      of_nat (unat first + (i + j) * unat step) mod 256)"
  using assms one_shl_8 field_add [of 16 first "i * unat step"] field_add [of 8 first "j * unat step"]
    field_add [of 0 first "(i + j) * unat step"]
  by (simp add: bits_888_def calculateColorPatternDirect_def getRedBitsFirst_def getGreenBitsFirst_def
      getBlueBitsFirst_def bits_first_def mask_8)

lemma u8_of_u32_mod: "unat (ucast (of_nat m mod 256 :: u32) :: u8) = m mod 256"
proof -
  have "unat (of_nat m mod 256 :: u32) < 256" by (simp add: u32_mod_256)
  then have "unat (ucast (of_nat m mod 256 :: u32) :: u8) = unat (of_nat m mod 256 :: u32)"
    by (simp add: unsigned_ucast_eq take_bit_nat_eq_self)
  then show ?thesis by (simp only: u32_mod_256)
qed

lemma direct_bytes:
  fixes r g b :: nat
  defines "w \<equiv> push_bit 16 (of_nat r mod 256 :: u32) OR push_bit 8 (of_nat g mod 256) OR of_nat b mod 256"
  shows "unat (color_byte w 0) = b mod 256" "unat (color_byte w 1) = g mod 256" "unat (color_byte w 2) = r mod 256"
proof -
  have "of_nat m mod 256 = (take_bit 8 (of_nat m) :: u32)" for m by (simp add: take_bit_eq_mod)
  then have "take_bit 8 (of_nat m mod 256 :: u32) = of_nat m mod 256" for m by simp
  from bytes_joined [OF this this this]
  show "unat (color_byte w 0) = b mod 256" "unat (color_byte w 1) = g mod 256" "unat (color_byte w 2) = r mod 256"
    unfolding w_def by (simp_all only: u8_of_u32_mod)
qed

lemma u32_div_u8: "(w :: u32) div ucast (k :: u8) = of_nat (unat w div unat k)"
proof -
  have "unat (ucast k :: u32) = unat k"
    using unsigned_less [of k, where ?'a = nat] by (simp add: unsigned_ucast_eq take_bit_nat_eq_self)
  then have "unat w div unat k = unat (w div ucast k)" by (simp add: unat_div)
  then show ?thesis by (simp only: of_nat_unat ucast_id)
qed

section \<open>Properties\<close>

text \<open>C28. The pattern is the one that the exercise asks for: in the indexed mode with one
  byte for each pixel, and in the modes of 24 bits with red, green and blue in eight bits each from bit
  16, 8 and 0 on, \<^verbatim>\<open>vg_draw_pattern\<close> succeeds and divides the screen into rectangles of
  equal size, as many in a row as in a column; a pixel in the rectangle of column \<open>i\<close> and row \<open>j\<close> has
  the colour computed without overflow from the first colour and the step, and the pixels that the
  division leaves over at the right and at the bottom keep theirs.
\<close>

theorem vg_draw_pattern_pixels:
  assumes "card_ok v" "no_rectangles \<noteq> 0"
    and "if mode = 0x105 then bytes_per_pixel v = 1 else bits_888 v"
  defines "H \<equiv> unat (h_res v)" and "V \<equiv> unat (v_res v)" and "B \<equiv> unat (bytes_per_pixel v)"
    and "n \<equiv> unat no_rectangles"
  defines "X \<equiv> H div n" and "Y \<equiv> V div n"
  shows "\<exists>mem. vg_draw_pattern mode no_rectangles first step v = Some (0, v\<lparr>video_mem := mem\<rparr>) \<and>
    length mem = length (video_mem v) \<and>
    (\<forall>r c b. r < V \<longrightarrow> c < H \<longrightarrow> b < B \<longrightarrow>
      (if r < n * Y \<and> c < n * X
       then unat (mem ! pos H B r c b) =
         pattern_byte (mode = 0x105) n (unat first) (unat step) (c div X) (r div Y) b
       else mem ! pos H B r c b = video_mem v ! pos H B r c b))"
proof -
  let ?col = "if mode = 0x105 then (\<lambda>x y. calculateColorPatternIndexed v no_rectangles x y first step)
    else (\<lambda>x y. calculateColorPatternDirect v no_rectangles x y first step)"
  define C where "C = (\<lambda>i j. the (?col (of_nat i) (of_nat j)))"
  have col: "?col (of_nat i) (of_nat j) = Some (C i j)" for i j
    using assms(3) by (simp add: C_def indexed_color direct_color split: if_splits)
  have byte: "unat (color_byte (C i j) b) = pattern_byte (mode = 0x105) n (unat first) (unat step) i j b"
    if "b < B" for i j b
  proof (cases "mode = 0x105")
    case True
    then have "b = 0" using assms(3) that by (simp add: B_def)
    with True assms(3) show ?thesis
      by (simp add: C_def indexed_color color_byte_low u8_of_u32_mod pattern_byte_def n_def del: of_nat_add of_nat_mult)
  next
    case False
    then have "b = 0 \<or> b = 1 \<or> b = 2" using assms(3) that by (auto simp: B_def bits_888_def)
    with False assms(3) show ?thesis
      by (auto simp: C_def direct_color direct_bytes pattern_byte_def simp del: of_nat_add of_nat_mult One_nat_def)
  qed
  have n0: "0 < n" using assms(2) by (simp add: n_def unat_gt_0)
  have div: "h_res v div ucast no_rectangles = of_nat X" "v_res v div ucast no_rectangles = of_nat Y"
    by (simp_all add: X_def Y_def H_def V_def n_def u32_div_u8)
  let ?ps = "List.product [0..<n] [0..<n]"
  have ps: "List.product (map of_nat [0..<n]) (map of_nat [0..<n]) = map (\<lambda>(j, i). (of_nat j :: u32, of_nat i :: u32)) ?ps"
    by (simp add: product_concat_map map_concat comp_def)
  obtain mem where mem: "pattern_loop ?col (of_nat X) (of_nat Y) (map (\<lambda>(j, i). (of_nat j, of_nat i)) ?ps) v =
      Some (v\<lparr>video_mem := mem\<rparr>)"
    "painted (H, V, B) (video_mem v) mem (\<lambda>r c. 0 < X \<and> 0 < Y \<and> (r div Y, c div X) \<in> set ?ps)
      (\<lambda>r c b. color_byte (C (c div X) (r div Y)) b)"
    using pattern_loop_paints [where col = ?col and C = C and n = n and X = X and Y = Y and ps = ?ps, OF assms(1) _ _ col]
    unfolding H_def V_def B_def X_def Y_def by (force simp: atLeast0LessThan)
  have grid: "0 < X \<and> 0 < Y \<and> (r div Y, c div X) \<in> set ?ps \<longleftrightarrow> r < n * Y \<and> c < n * X" for r c
    by (cases "X = 0 \<or> Y = 0") (auto simp: div_less_iff_less_mult)
  have "vg_draw_pattern mode no_rectangles first step v = Some (0, v\<lparr>video_mem := mem\<rparr>)"
    using mem(1) assms(2) ps unfolding vg_draw_pattern_def Let_def div n_def by simp
  moreover have "length mem = length (video_mem v)" using painted_length [OF mem(2)] .
  ultimately show ?thesis
    using mem(2) byte unfolding painted_def grid by (auto simp: case_prod_beta)
qed

text \<open>A screen of six by four pixels in the indexed mode, for the witness: four rectangles.\<close>

definition indexed_card :: card where
  "indexed_card = tiny_card\<lparr>bytes_per_pixel := 1, video_mem := replicate 24 0\<rparr>"

theorem vg_draw_pattern_pixels_witness:
  "\<exists>mem. vg_draw_pattern 0x105 2 250 3 indexed_card = Some (0, indexed_card\<lparr>video_mem := mem\<rparr>) \<and>
    unat (mem ! pos 6 1 3 5 0) = 3"
proof -
  have "card_ok indexed_card" "(2 :: u8) \<noteq> 0" "if (0x105 :: u16) = 0x105 then bytes_per_pixel indexed_card = 1 else bits_888 indexed_card"
    by (simp_all add: indexed_card_def card_ok_def tiny_card_fields)
  from vg_draw_pattern_pixels [OF this, of 250 3] obtain mem where
    mem: "vg_draw_pattern 0x105 2 250 3 indexed_card = Some (0, indexed_card\<lparr>video_mem := mem\<rparr>)"
    and px: "\<And>r c b. r < 4 \<Longrightarrow> c < 6 \<Longrightarrow> b < 1 \<Longrightarrow> r < 2 * 2 \<and> c < 2 * 3 \<Longrightarrow>
      unat (mem ! pos 6 1 r c b) = pattern_byte True 2 250 3 (c div 3) (r div 2) b"
    by (auto simp: indexed_card_def tiny_card_fields)
  from mem px [of 3 5 0] show ?thesis by (auto simp: pattern_byte_def)
qed

end
