(* ===== verification/Lab4.thy ===== *)
theory Lab4
  imports Mouse Lab3
begin

text \<open>
  \<^verbatim>\<open>lab4/mouse.c\<close> and \<^verbatim>\<open>lab4/lab4.c\<close>: the mouse driver of the laboratory, which
  assembles packets and leaves them to the tests, and the two tests of it. The controller routines,
  the loop for the acknowledgement and the commands to the mouse have the text of those of the
  project, so the definitions of theories \<open>Keyboard\<close> and \<open>Mouse\<close> are used for them; the functions
  inside comments (the gesture test) are not part of the program. \<^verbatim>\<open>endCycle\<close> is only used
  there.
\<close>

section \<open>The driver\<close>

definition RB_MOUSE :: u32 where [port_consts]: "RB_MOUSE = BIT 1"
definition MB_MOUSE :: u32 where [port_consts]: "MB_MOUSE = BIT 2"

record mouse_lab4 =
  hook_id_lab4 :: i32
  arr_lab4 :: "u8 list"
  nbytes_lab4 :: nat
  p_lab4 :: mouse_packet

definition mouse_check :: "'d env \<Rightarrow> 'd \<Rightarrow> bool \<times> 'd" where
  "mouse_check env d =
     (let (r, st, d) = util_sys_inb env KBC_STAT_REG d in
      if r \<noteq> OK then (True, d)
      else if ucast st AND MOUSE_CHECK = 0 then (False, d) else (True, d))"

text \<open>The packet that the third byte completes.\<close>

definition make_packet :: "u8 list \<Rightarrow> mouse_packet" where
  "make_packet pk =
     (let x = ucast (pk ! 1) :: i16; y = ucast (pk ! 2) :: i16
      in \<lparr>p_bytes = [pk ! 0, pk ! 1, pk ! 2],
          p_rb = (drop_bit 1 (ucast (pk ! 0) AND RB_MOUSE) \<noteq> 0),
          p_mb = (drop_bit 2 (ucast (pk ! 0) AND MB_MOUSE) \<noteq> 0),
          p_lb = (ucast (pk ! 0) AND LB_MOUSE \<noteq> 0),
          p_delta_x = (if ucast (pk ! 0) AND BIT 4 \<noteq> 0 then x OR 0xFF00 else x),
          p_delta_y = (if ucast (pk ! 0) AND BIT 5 \<noteq> 0 then y OR 0xFF00 else y),
          p_x_ov = (drop_bit 6 (ucast (pk ! 0) AND X_OV_MOUSE) \<noteq> 0),
          p_y_ov = (drop_bit 7 (ucast (pk ! 0) AND Y_OV_MOUSE) \<noteq> 0)\<rparr>)"

definition mouse_ih_lab4 :: "'d env \<Rightarrow> mouse_lab4 \<Rightarrow> 'd \<Rightarrow> (mouse_lab4 \<times> 'd) option" where
  "mouse_ih_lab4 env m d =
     (let m = (if nbytes_lab4 m = 0 then m\<lparr>arr_lab4 := replicate 3 0\<rparr> else m);
          (mouse_data, d) = mouse_check env d
      in if \<not> mouse_data then Some (m, d) else
      let (full, d) = kbc_output_buf_full env d in
      if \<not> full then Some (m, d) else
      let (byte, d) = kbc_read_output_buffer env d;
          (err, d) = kbc_communication_error env d
      in if err then Some (m, d)
         else if (ucast byte AND BIT 3 = 0) \<and> nbytes_lab4 m = 0 then Some (m, d)
         else if \<not> nbytes_lab4 m < length (arr_lab4 m) then None
         else
           let m = m\<lparr>arr_lab4 := (arr_lab4 m)[nbytes_lab4 m := byte]\<rparr>;
               m = m\<lparr>nbytes_lab4 := nbytes_lab4 m + 1\<rparr>
           in Some (if nbytes_lab4 m = 3 then m\<lparr>p_lab4 := make_packet (arr_lab4 m)\<rparr> else m, d))"

definition mouse_subscribe_int_lab4 :: "'d env \<Rightarrow> mouse_lab4 \<Rightarrow> 'd \<Rightarrow> i32 \<times> u8 \<times> mouse_lab4 \<times> 'd" where
  "mouse_subscribe_int_lab4 env m d =
     (let m = m\<lparr>hook_id_lab4 := MOUSE_IRQ\<rparr>;
          bit_no = ucast (hook_id_lab4 m);
          (r, hook, d) = sys_irqsetpolicy env MOUSE_IRQ (IRQ_REENABLE OR IRQ_EXCLUSIVE) (hook_id_lab4 m) d
      in (r, bit_no, m\<lparr>hook_id_lab4 := hook\<rparr>, d))"

definition mouse_unsubscribe_int_lab4 :: "'d env \<Rightarrow> mouse_lab4 \<Rightarrow> 'd \<Rightarrow> i32 \<times> 'd" where
  "mouse_unsubscribe_int_lab4 env m d = sys_irqrmpolicy env (hook_id_lab4 m) d"


section \<open>The tests\<close>

text \<open>The state of the first loop: the driver and the number of packets printed.\<close>

definition packet_handle :: "'d env \<Rightarrow> u32 \<Rightarrow> u32 \<Rightarrow> mouse_lab4 \<times> i32 \<Rightarrow> 'd \<Rightarrow> ((mouse_lab4 \<times> i32) \<times> 'd) option" where
  "packet_handle env irq_set ints s d =
     (let (m, counter) = s in
      if ints AND irq_set \<noteq> 0 then do {
        (m, d) \<leftarrow> mouse_ih_lab4 env m d;
        if nbytes_lab4 m = 3
        then let counter = counter + 1; m = m\<lparr>nbytes_lab4 := 0\<rparr>
             in Some ((m, counter), mouse_print_packet env (p_lab4 m) d)
        else Some ((m, counter), d)
      } else Some (s, d))"

definition mouse_test_packet ::
  "'d env \<Rightarrow> ('d \<Rightarrow> u8) \<Rightarrow> u32 \<Rightarrow> mouse_lab4 \<Rightarrow> 'd \<Rightarrow> (i32 \<times> mouse_lab4 \<times> 'd) option" where
  "mouse_test_packet env junk cnt m d = do {
     let (r, bit_no_MOUSE, m, d) = mouse_subscribe_int_lab4 env m d;
     (r, d) \<leftarrow> mouse_enable_data_reporting env junk d;
     let irq_set = BIT (unat bit_no_MOUSE);
     ((m, counter), d) \<leftarrow>
       recv_loop env (\<lambda>(m, counter). sint counter < sint cnt) (packet_handle env irq_set) (m, 0) d;
     (r, d) \<leftarrow> mouse_disable_data_reporting env junk 1 d;
     let (r, d) = mouse_unsubscribe_int_lab4 env m d;
     Some (0, m, d)
   }"

definition async_handle ::
  "'d env \<Rightarrow> u32 \<Rightarrow> u32 \<Rightarrow> u32 \<Rightarrow> mouse_lab4 \<times> timer \<Rightarrow> 'd \<Rightarrow> ((mouse_lab4 \<times> timer) \<times> 'd) option" where
  "async_handle env irq_set timer0_int_bit ints s d = do {
     let (m, t) = s;
     (m, t, d) \<leftarrow>
       (if ints AND irq_set \<noteq> 0 then do {
          let t = t\<lparr>timer_global_counter := 0\<rparr>;
          (m, d) \<leftarrow> mouse_ih_lab4 env m d;
          if nbytes_lab4 m = 3
          then let m = m\<lparr>nbytes_lab4 := 0\<rparr> in Some (m, t, mouse_print_packet env (p_lab4 m) d)
          else Some (m, t, d)
        } else Some (m, t, d));
     Some ((m, if ints AND timer0_int_bit \<noteq> 0 then timer_int_handler t else t), d)
   }"

text \<open>
  \<^verbatim>\<open>mouse_test_async\<close> enables data reporting with the routine of the LCF library, not with the one
  of the driver.
\<close>

definition mouse_test_async ::
  "'d env \<Rightarrow> ('d \<Rightarrow> u8) \<Rightarrow> u8 \<Rightarrow> mouse_lab4 \<Rightarrow> timer \<Rightarrow> 'd \<Rightarrow> (i32 \<times> mouse_lab4 \<times> timer \<times> 'd) option" where
  "mouse_test_async env junk idle_time m t d = do {
     let (r, bit_no_MOUSE, m, d) = mouse_subscribe_int_lab4 env m d;
     let d = lcf_mouse_enable_data_reporting env d;
     let (r, bit_no_TIMER, t, d) = timer_subscribe_int env t d;
     let irq_set = BIT (unat bit_no_MOUSE);
     let timer0_int_bit = BIT (unat bit_no_TIMER);
     let t = t\<lparr>timer_global_counter := 0\<rparr>;
     ((m, t), d) \<leftarrow>
       recv_loop env (\<lambda>(m, t). sdiv_int (sint (timer_global_counter t)) 60 < uint idle_time)
         (async_handle env irq_set timer0_int_bit) (m, t) d;
     let d = snd (timer_unsubscribe_int env t d);
     (r, d) \<leftarrow> mouse_disable_data_reporting env junk 1 d;
     let (r, d) = mouse_unsubscribe_int_lab4 env m d;
     Some (1, m, t, d)
   }"


section \<open>One byte\<close>

text \<open>What an interrupt reads from the controller, and what the driver does with it.\<close>

definition next_byte_lab4 :: "'d env \<Rightarrow> 'd \<Rightarrow> u8 option \<times> 'd" where
  "next_byte_lab4 env d =
     (let (mouse_data, d) = mouse_check env d in
      if \<not> mouse_data then (None, d) else
      let (full, d) = kbc_output_buf_full env d in
      if \<not> full then (None, d) else
      let (byte, d) = kbc_read_output_buffer env d; (err, d) = kbc_communication_error env d
      in (if err then None else Some byte, d))"

definition take_byte_lab4 :: "u8 option \<Rightarrow> mouse_lab4 \<Rightarrow> mouse_lab4 option" where
  "take_byte_lab4 b m =
     (let m = (if nbytes_lab4 m = 0 then m\<lparr>arr_lab4 := replicate 3 0\<rparr> else m) in
      case b of
        None \<Rightarrow> Some m
      | Some byte \<Rightarrow>
          if \<not> bit byte 3 \<and> nbytes_lab4 m = 0 then Some m
          else if \<not> nbytes_lab4 m < length (arr_lab4 m) then None
          else
            let m = m\<lparr>arr_lab4 := (arr_lab4 m)[nbytes_lab4 m := byte], nbytes_lab4 := nbytes_lab4 m + 1\<rparr>
            in Some (if nbytes_lab4 m = 3 then m\<lparr>p_lab4 := make_packet (arr_lab4 m)\<rparr> else m))"

lemma mouse_ih_lab4_eq:
  "mouse_ih_lab4 env m d =
     (let (b, d) = next_byte_lab4 env d in map_option (\<lambda>m. (m, d)) (take_byte_lab4 b m))"
proof -
  obtain md d1 where 1: "mouse_check env d = (md, d1)" by (metis surj_pair)
  obtain full d2 where 2: "kbc_output_buf_full env d1 = (full, d2)" by (metis surj_pair)
  obtain byte d3 where 3: "kbc_read_output_buffer env d2 = (byte, d3)" by (metis surj_pair)
  obtain err d4 where 4: "kbc_communication_error env d3 = (err, d4)" by (metis surj_pair)
  show ?thesis
    unfolding mouse_ih_lab4_def next_byte_lab4_def take_byte_lab4_def
    by (simp add: 1 2 3 4 Let_def u8_and_BIT split_beta)
qed

text \<open>The driver holds the bytes \<open>rest\<close> of a packet so far, and has room for the others.\<close>

definition assembling :: "mouse_lab4 \<Rightarrow> u8 list \<Rightarrow> bool" where
  "assembling m rest \<longleftrightarrow> nbytes_lab4 m = length rest \<and> length rest < 3 \<and>
     (rest \<noteq> [] \<longrightarrow> length (arr_lab4 m) = 3 \<and> take (length rest) (arr_lab4 m) = rest)"

lemma take_byte_lab4_step:
  assumes "assembling m rest" "rest = [] \<Longrightarrow> bit b 3"
  shows "\<exists>m'. take_byte_lab4 (Some b) m = Some m' \<and>
    (if length rest = 2 then nbytes_lab4 m' = 3 \<and> p_bytes (p_lab4 m') = rest @ [b] else assembling m' (rest @ [b]))"
proof -
  let ?a = "if rest = [] then replicate 3 0 else arr_lab4 m"
  let ?m = "m\<lparr>arr_lab4 := ?a[length rest := b], nbytes_lab4 := length rest + 1\<rparr>"
  have a: "length ?a = 3" "take (length rest) ?a = rest"
    using assms(1) by (auto simp: assembling_def)
  have n: "nbytes_lab4 m = length rest" "length rest < 3" using assms(1) by (simp_all add: assembling_def)
  have step: "take_byte_lab4 (Some b) m =
      Some (if length rest = 2 then ?m\<lparr>p_lab4 := make_packet (?a[length rest := b])\<rparr> else ?m)"
    using n a(1) assms(2) by (cases "rest = []") (auto simp: take_byte_lab4_def Let_def)
  have t: "take (length rest + 1) (?a[length rest := b]) = rest @ [b]"
    using a n(2) take_Suc_conv_app_nth [of "length rest" "?a[length rest := b]"] by simp
  have "p_bytes (make_packet (?a[length rest := b])) = rest @ [b]" if two: "length rest = 2"
  proof -
    obtain x y where r: "rest = [x, y]" using two by (cases rest; cases "tl rest") auto
    have "?a[length rest := b] = rest @ [b]" using t a(1) two by simp
    then show ?thesis by (simp add: make_packet_def Let_def r)
  qed
  with step t a(1) n(2) show ?thesis by (auto simp: assembling_def)
qed


section \<open>Properties\<close>

text \<open>C33. The driver of the laboratory and the one of the project read the same packets: when three bytes
  arrive, the first with bit 3 set, the packet has the displacements, the left button and the
  overflow that the project decodes from them, and the other two buttons are bits 1 and 2.
\<close>

theorem packet_agrees_with_project:
  assumes "nbytes_lab4 m = 0" "bit b0 3" "next_byte_lab4 env d = (Some b0, da)"
    and "next_byte_lab4 env da = (Some b1, db)" "next_byte_lab4 env db = (Some b2, dc)"
  defines "ev \<equiv> decode_packet [b0, b1, b2]"
  shows "\<exists>m' q. run_events (\<lambda>_ (m, d). mouse_ih_lab4 env m d) [(), (), ()] (m, d) = Some (m', dc) \<and>
    nbytes_lab4 m' = 3 \<and> q = p_lab4 m' \<and> p_bytes q = [b0, b1, b2] \<and>
    p_delta_x q = moveX ev \<and> p_delta_y q = moveY ev \<and> p_lb q = lbdown ev \<and>
    (p_x_ov q \<or> p_y_ov q) = overflow ev \<and> p_rb q = bit b0 1 \<and> p_mb q = bit b0 2"
proof -
  have run: "run_events (\<lambda>_ (m, d). mouse_ih_lab4 env m d) [(), (), ()] (m, d) =
      Some (m\<lparr>arr_lab4 := [b0, b1, b2], nbytes_lab4 := 3, p_lab4 := make_packet [b0, b1, b2]\<rparr>, dc)"
    using assms(1-5) by (simp add: mouse_ih_lab4_eq take_byte_lab4_def Let_def numeral_3_eq_3 numeral_2_eq_2)
  have rb: "drop_bit 1 (ucast b0 AND BIT 1 :: u32) \<noteq> 0 \<longleftrightarrow> bit b0 1"
    "drop_bit 2 (ucast b0 AND BIT 2 :: u32) \<noteq> 0 \<longleftrightarrow> bit b0 2"
    by (simp_all only: u8_and_BIT_drop not_not)
  show ?thesis
    unfolding run ev_def
    by (simp add: make_packet_def decode_packet_def Let_def port_consts rb rb(1) [unfolded One_nat_def] del: drop_bit_and)
qed

text \<open>
  A mouse in stream mode, on a device that remembers the bytes it sent and the packets that were
  printed: with every notification comes a byte; bit 3 is set in the first byte of each packet of
  three, while the other two are arbitrary; and commands are acknowledged.
\<close>

definition packet_stream :: "'d env \<Rightarrow> ('d \<Rightarrow> u8) \<Rightarrow> ('d \<Rightarrow> u8 list) \<Rightarrow> ('d \<Rightarrow> u8 list list) \<Rightarrow> bool" where
  "packet_stream env junk sent printed \<longleftrightarrow>
     (\<forall>d. \<exists>msg d1 b d2. driver_receive env d = (OK, msg, d1) \<and> ipc_notify msg \<and> from_hardware msg \<and>
        interrupts msg AND 0x1000 \<noteq> 0 \<and> next_byte_lab4 env d1 = (Some b, d2) \<and>
        (3 dvd length (sent d) \<longrightarrow> bit b 3) \<and> sent d2 = sent d @ [b] \<and> printed d2 = printed d) \<and>
     (\<forall>q d. printed (mouse_print_packet env q d) = printed d @ [p_bytes q] \<and>
        sent (mouse_print_packet env q d) = sent d) \<and>
     (\<forall>cmd d. \<exists>r d'. mouse_command_loop env junk cmd d = Some (r, d') \<and> printed d' = printed d \<and> sent d' = sent d) \<and>
     (\<forall>irq pol hook d. printed (snd (snd (sys_irqsetpolicy env irq pol hook d))) = printed d \<and>
        sent (snd (snd (sys_irqsetpolicy env irq pol hook d))) = sent d) \<and>
     (\<forall>hook d. printed (snd (sys_irqrmpolicy env hook d)) = printed d \<and>
        sent (snd (sys_irqrmpolicy env hook d)) = sent d)"

lemma packet_streamD:
  assumes "packet_stream env junk sent printed"
  shows "printed (mouse_print_packet env q d) = printed d @ [p_bytes q]" "sent (mouse_print_packet env q d) = sent d"
    "\<exists>r d'. mouse_command_loop env junk cmd d = Some (r, d') \<and> printed d' = printed d \<and> sent d' = sent d"
    "printed (snd (snd (sys_irqsetpolicy env irq pol hook d))) = printed d"
    "sent (snd (snd (sys_irqsetpolicy env irq pol hook d))) = sent d"
    "printed (snd (sys_irqrmpolicy env hook d)) = printed d" "sent (snd (sys_irqrmpolicy env hook d)) = sent d"
  using assms by (simp_all add: packet_stream_def)

text \<open>
  Since the device was in state \<open>d\<close> the packets \<open>ps\<close> were printed and the bytes \<open>rest\<close> of the next
  one were sent.
\<close>

definition streamed :: "('d \<Rightarrow> u8 list) \<Rightarrow> ('d \<Rightarrow> u8 list list) \<Rightarrow> 'd \<Rightarrow> u8 list list \<Rightarrow> u8 list \<Rightarrow> 'd \<Rightarrow> bool" where
  "streamed sent printed d ps rest e \<longleftrightarrow> list_all (\<lambda>p. length p = 3) ps \<and>
     printed e = printed d @ ps \<and> sent e = sent d @ concat ps @ rest"

lemma packets_length: "list_all (\<lambda>p. length p = 3) ps \<Longrightarrow> 3 dvd length (concat ps)"
  by (induction ps) auto

lemma packet_step:
  assumes "packet_stream env junk sent printed" "3 dvd length (sent d)"
    and "assembling m rest" "streamed sent printed d ps rest e"
  shows "\<exists>msg e1 m2 e2. driver_receive env e = (OK, msg, e1) \<and> ipc_notify msg \<and> from_hardware msg \<and>
    packet_handle env 0x1000 (interrupts msg) (m, c) e1 =
      Some ((m2, if length rest = 2 then c + 1 else c), e2) \<and>
    (\<exists>b. if length rest = 2 then assembling m2 [] \<and> streamed sent printed d (ps @ [rest @ [b]]) [] e2
         else assembling m2 (rest @ [b]) \<and> streamed sent printed d ps (rest @ [b]) e2)"
proof -
  obtain msg e1 b e2 where msg: "driver_receive env e = (OK, msg, e1)" "ipc_notify msg" "from_hardware msg"
      "interrupts msg AND 0x1000 \<noteq> 0" "next_byte_lab4 env e1 = (Some b, e2)"
    and b: "3 dvd length (sent e) \<longrightarrow> bit b 3" "sent e2 = sent e @ [b]" "printed e2 = printed e"
    using assms(1) unfolding packet_stream_def by blast
  have "bit b 3" if "rest = []"
    using that b(1) assms(2,4) packets_length [of ps] by (auto simp: streamed_def)
  then obtain m2 where m2: "take_byte_lab4 (Some b) m = Some m2"
      "if length rest = 2 then nbytes_lab4 m2 = 3 \<and> p_bytes (p_lab4 m2) = rest @ [b] else assembling m2 (rest @ [b])"
    using take_byte_lab4_step [OF assms(3)] by blast
  show ?thesis
  proof (cases "length rest = 2")
    case True
    then have "packet_handle env 0x1000 (interrupts msg) (m, c) e1 =
        Some ((m2\<lparr>nbytes_lab4 := 0\<rparr>, c + 1), mouse_print_packet env (p_lab4 m2) e2)"
      using msg(4,5) m2 by (simp add: packet_handle_def mouse_ih_lab4_eq)
    moreover have "streamed sent printed d (ps @ [rest @ [b]]) [] (mouse_print_packet env (p_lab4 m2) e2)"
      using assms(4) b m2(2) True by (simp add: streamed_def packet_streamD [OF assms(1)])
    moreover have "assembling (m2\<lparr>nbytes_lab4 := 0\<rparr>) []" by (simp add: assembling_def)
    ultimately show ?thesis using msg(1-3) True by auto
  next
    case False
    then have a: "assembling m2 (rest @ [b])" using m2(2) by simp
    then have "packet_handle env 0x1000 (interrupts msg) (m, c) e1 = Some ((m2, c), e2)"
      using msg(4,5) m2(1) by (auto simp: packet_handle_def mouse_ih_lab4_eq assembling_def)
    moreover have "streamed sent printed d ps (rest @ [b]) e2" using assms(4) b by (simp add: streamed_def)
    ultimately show ?thesis using msg(1-3) False a by auto
  qed
qed

lemma packet_loop_returns:
  fixes cnt :: u32
  assumes "packet_stream env junk sent printed" "unat cnt < 2 ^ 31" "assembling m []" "3 dvd length (sent d)"
  shows "\<exists>m' c' d' ps. recv_loop env (\<lambda>(m, c). sint c < sint cnt) (packet_handle env 0x1000) (m, 0) d =
    Some ((m', c'), d') \<and> length ps = unat cnt \<and> streamed sent printed d ps [] d'"
proof -
  have cnt: "sint cnt = int (unat cnt)" using assms(2) by (rule sint_of_nat_u32)
  have below: "sint c < sint cnt \<longleftrightarrow> unat c < unat cnt" if "unat c \<le> unat cnt" for c :: i32
  proof -
    have "sint c = int (unat c)" using that assms(2) by (intro sint_of_nat_u32) linarith
    then show ?thesis unfolding cnt by linarith
  qed
  let ?inv = "\<lambda>(m', c :: i32) e. \<exists>ps rest. assembling m' rest \<and> streamed sent printed d ps rest e \<and>
    length ps = unat c \<and> unat c \<le> unat cnt \<and> (unat c = unat cnt \<longrightarrow> rest = [])"
  have "\<exists>s' d'. recv_loop env (\<lambda>(m, c). sint c < sint cnt) (packet_handle env 0x1000) (m, 0) d = Some (s', d') \<and>
      ?inv s' d' \<and> \<not> (\<lambda>(m, c). sint c < sint cnt) s'"
  proof (rule recv_loop_returns [where P = ?inv and m = "\<lambda>(m, c) d. 3 * (unat cnt - unat c) - nbytes_lab4 m"],
      goal_cases)
    case (1 s e)
    then obtain m1 c ps rest where s: "s = (m1, c)" "assembling m1 rest" "streamed sent printed d ps rest e"
        "length ps = unat c" "unat c < unat cnt"
      using below by (cases s) auto
    have n: "nbytes_lab4 m1 = length rest" "length rest < 3" using s(2) by (simp_all add: assembling_def)
    have c1: "unat (c + 1) = unat c + 1" using s(5) assms(2) by (simp add: unat_word_ariths)
    obtain msg e1 m2 e2 b where msg: "driver_receive env e = (OK, msg, e1)" "ipc_notify msg" "from_hardware msg"
        "packet_handle env 0x1000 (interrupts msg) (m1, c) e1 =
          Some ((m2, if length rest = 2 then c + 1 else c), e2)"
      and b: "if length rest = 2 then assembling m2 [] \<and> streamed sent printed d (ps @ [rest @ [b]]) [] e2
         else assembling m2 (rest @ [b]) \<and> streamed sent printed d ps (rest @ [b]) e2"
      using packet_step [OF assms(1,4) s(2,3), of c] by blast
    have "?inv (m2, if length rest = 2 then c + 1 else c) e2 \<and>
        3 * (unat cnt - unat (if length rest = 2 then c + 1 else c)) - nbytes_lab4 m2 <
        3 * (unat cnt - unat c) - nbytes_lab4 m1"
    proof (cases "length rest = 2")
      case True
      then have "assembling m2 []" "streamed sent printed d (ps @ [rest @ [b]]) [] e2" using b by simp_all
      moreover have "length (ps @ [rest @ [b]]) = unat (c + 1)" "nbytes_lab4 m2 = 0"
        using s(4) c1 \<open>assembling m2 []\<close> by (simp_all add: assembling_def)
      ultimately show ?thesis
        using True c1 s(5) n unfolding prod.case
        by (intro conjI exI [of _ "ps @ [rest @ [b]]"] exI [of _ "[]"]) simp_all
    next
      case False
      then have "assembling m2 (rest @ [b])" "streamed sent printed d ps (rest @ [b]) e2" using b by simp_all
      moreover have "nbytes_lab4 m2 = length rest + 1"
        using \<open>assembling m2 (rest @ [b])\<close> by (simp add: assembling_def)
      ultimately show ?thesis
        using False s(4,5) n unfolding prod.case
        by (intro conjI exI [of _ ps] exI [of _ "rest @ [b]"]) simp_all
    qed
    with msg s(1) show ?case by simp
  next
    case 2
    show ?case using assms(3) unfolding prod.case by (intro exI [of _ "[]"]) (simp add: streamed_def)
  qed
  then show ?thesis using below by (fastforce simp: not_less)
qed

text \<open>C34. The packet test prints what the mouse sends. With a mouse in stream mode that starts a new
  packet, sets bit 3 in the first byte of each packet of three bytes, sends any bytes as the second and
  third, and acknowledges its commands, \<^verbatim>\<open>mouse_test_packet\<close> returns zero after exactly \<open>cnt\<close>
  printed packets, for every \<open>cnt\<close> below \<open>2^31\<close>; their bytes, one packet after the other, are all the
  bytes that were sent in the meantime, none lost and none taken twice.
\<close>

theorem mouse_test_packet_prints:
  assumes "packet_stream env junk sent printed" "unat cnt < 2 ^ 31"
    and "nbytes_lab4 m = 0" "3 dvd length (sent d)"
  shows "\<exists>m' d' ps. mouse_test_packet env junk cnt m d = Some (0, m', d') \<and> length ps = unat cnt \<and>
    list_all (\<lambda>p. length p = 3) ps \<and> printed d' = printed d @ ps \<and> sent d' = sent d @ concat ps"
proof -
  note D = packet_streamD [OF assms(1)]
  obtain r hook d1 where sub: "sys_irqsetpolicy env MOUSE_IRQ (IRQ_REENABLE OR IRQ_EXCLUSIVE) MOUSE_IRQ d
      = (r, hook, d1)" by (metis surj_pair)
  have d1: "printed d1 = printed d" "sent d1 = sent d" using D(4,5) sub by (metis snd_conv)+
  obtain ra da where a: "mouse_command_loop env junk STREAM_MODE d1 = Some (ra, da)"
      "printed da = printed d1" "sent da = sent d1" using D(3) by blast
  obtain rb db where b: "mouse_command_loop env junk DATA_REPORT da = Some (rb, db)"
      "printed db = printed da" "sent db = sent da" using D(3) by blast
  obtain r2 d2 where en: "mouse_enable_data_reporting env junk d1 = Some (r2, d2)"
      "printed d2 = printed d1" "sent d2 = sent d1"
    using a b by (cases "ra = -1") (simp_all add: mouse_enable_data_reporting_def)
  let ?m = "m\<lparr>hook_id_lab4 := hook\<rparr>"
  have "assembling ?m []" "3 dvd length (sent d2)" using assms(3,4) en d1 by (simp_all add: assembling_def)
  then obtain m' c' d3 ps where loop: "recv_loop env (\<lambda>(m, c). sint c < sint cnt) (packet_handle env 0x1000) (?m, 0) d2 =
      Some ((m', c'), d3)" "length ps = unat cnt" "streamed sent printed d2 ps [] d3"
    using packet_loop_returns [OF assms(1,2)] by blast
  obtain r4 d4 where dis: "mouse_command_loop env junk DISABLE d3 = Some (r4, d4)"
      "printed d4 = printed d3" "sent d4 = sent d3"
    using D(3) by blast
  have irq: "BIT (unat (ucast MOUSE_IRQ :: u8)) = (0x1000 :: u32)" by (simp add: port_consts BIT_def)
  let ?d5 = "snd (sys_irqrmpolicy env (hook_id_lab4 m') d4)"
  have "mouse_test_packet env junk cnt m d = Some (0, m', ?d5)"
    using en loop(1) dis(1)
    by (simp add: mouse_test_packet_def mouse_subscribe_int_lab4_def sub irq mouse_disable_data_reporting_def
        mouse_unsubscribe_int_lab4_def split_beta)
  moreover have "list_all (\<lambda>p. length p = 3) ps" "printed ?d5 = printed d @ ps" "sent ?d5 = sent d @ concat ps"
    using loop(3) en d1 dis D(6,7) by (simp_all add: streamed_def)
  ultimately show ?thesis using loop(2) by blast
qed

text \<open>
  A mouse that sends the bytes \<open>0x08\<close>, \<open>0x00\<close>, \<open>0x05\<close> over and over, and \<open>0xFA\<close> after a command; the
  device remembers whether a command waits for its acknowledgement, what it sent and what was printed.
\<close>

definition stream_byte :: "u8 list \<Rightarrow> u8" where
  "stream_byte s = [0x08, 0x00, 0x05] ! (length s mod 3)"

definition stream_env :: "(bool \<times> u8 list \<times> u8 list list) env" where
  "stream_env = (port_env (\<lambda>p v (w, s, q). (OK, (True, s, q)))
     (\<lambda>p v (w, s, q). if p = 0x64 then (OK, 0x21, (w, s, q)) else if w then (OK, 0xFA, (w, s, q))
       else (OK, ucast (stream_byte s), (w, s @ [stream_byte s], q))))
     \<lparr>driver_receive := (\<lambda>(w, s, q). (OK, \<lparr>ipc_notify = True, from_hardware = True, interrupts = 0x1000\<rparr>, (False, s, q))),
      mouse_print_packet := (\<lambda>p (w, s, q). (w, s, q @ [p_bytes p]))\<rparr>"

lemma stream_env_simps [simp]:
  "sys_outb stream_env p v (w, s, q) = (OK, (True, s, q))"
  "sys_inb stream_env p v (w, s, q) = (if p = 0x64 then (OK, 0x21, (w, s, q)) else if w then (OK, 0xFA, (w, s, q))
     else (OK, ucast (stream_byte s), (w, s @ [stream_byte s], q)))"
  "driver_receive stream_env (w, s, q) =
     (OK, \<lparr>ipc_notify = True, from_hardware = True, interrupts = 0x1000\<rparr>, (False, s, q))"
  "mouse_print_packet stream_env pk (w, s, q) = (w, s, q @ [p_bytes pk])"
  "sys_irqsetpolicy stream_env irq pol hook d = (OK, hook, d)" "sys_irqrmpolicy stream_env hook d = (OK, d)"
  by (simp_all add: stream_env_def port_env_def)

definition idle_lab4 :: mouse_lab4 where
  "idle_lab4 = \<lparr>hook_id_lab4 = 12, arr_lab4 = replicate 3 0, nbytes_lab4 = 0, p_lab4 = make_packet [0, 0, 0]\<rparr>"

lemma stream_env_command: "mouse_command_loop stream_env (\<lambda>_. 0) cmd (w, s, q) = Some (0, (True, s, q))"
proof -
  have "wr_mouse_loop stream_env (Suc n) (w, s, q) = (True, s, q)" for n
    by (simp add: kbc_input_buf_full_def util_sys_inb_def port_consts BIT_def)
  from this [of 9] have "wr_mouse_loop stream_env 10 (w, s, q) = (True, s, q)" by (simp del: wr_mouse_loop.simps)
  moreover have "read_ACK_loop stream_env b (True, s, q) = Some (0, (True, s, q))" for b
    by (subst read_ACK_loop.simps) (simp add: util_sys_inb_def port_consts BIT_def)
  ultimately show ?thesis
    by (subst mouse_command_loop.simps) (simp add: read_ACK_byte_def)
qed

lemma stream_env_stream: "packet_stream stream_env (\<lambda>_. 0) (\<lambda>(w, s, q). s) (\<lambda>(w, s, q). q)"
proof -
  have next_byte: "next_byte_lab4 stream_env (False, s, q) = (Some (stream_byte s), (False, s @ [stream_byte s], q))" for s q
    by (simp add: next_byte_lab4_def mouse_check_def kbc_status_defs port_consts BIT_def)
  have first: "3 dvd length s \<longrightarrow> bit (stream_byte s) 3" for s
    by (auto simp: stream_byte_def dvd_eq_mod_eq_0)
  show ?thesis
    unfolding packet_stream_def using next_byte first stream_env_command by (auto simp: split_paired_all)
qed

theorem mouse_test_packet_prints_witness:
  "\<exists>m' d' ps. mouse_test_packet stream_env (\<lambda>_. 0) 5 idle_lab4 (False, [], []) = Some (0, m', d') \<and>
    length ps = unat (5 :: u32) \<and> list_all (\<lambda>p. length p = 3) ps \<and>
    (\<lambda>(w, s, q). q) d' = (\<lambda>(w, s, q). q) (False, [] :: u8 list, []) @ ps \<and>
    (\<lambda>(w, s, q). s) d' = (\<lambda>(w, s, q). s) (False, [], [] :: u8 list list) @ concat ps"
  by (rule mouse_test_packet_prints [OF stream_env_stream]) (simp_all add: idle_lab4_def)

theorem packet_agrees_with_project_witness:
  "\<exists>m' q. run_events (\<lambda>_ (m, d). mouse_ih_lab4 sim_env m d) [(), (), ()] (idle_lab4, packet_sim) = Some (m', sim0) \<and>
    nbytes_lab4 m' = 3 \<and> q = p_lab4 m' \<and> p_bytes q = [0x19, 0xF0, 0x05] \<and>
    p_delta_x q = moveX (decode_packet [0x19, 0xF0, 0x05]) \<and> p_delta_y q = moveY (decode_packet [0x19, 0xF0, 0x05]) \<and>
    p_lb q = lbdown (decode_packet [0x19, 0xF0, 0x05]) \<and>
    (p_x_ov q \<or> p_y_ov q) = overflow (decode_packet [0x19, 0xF0, 0x05]) \<and>
    p_rb q = bit (0x19 :: u8) 1 \<and> p_mb q = bit (0x19 :: u8) 2"
  by (rule packet_agrees_with_project
      [where da = "sim0\<lparr>sim_in := [0x21, 0x21, 0xF0, 0x21, 0x21, 0x21, 0x05, 0x21]\<rparr>"
         and db = "sim0\<lparr>sim_in := [0x21, 0x21, 0x05, 0x21]\<rparr>"])
    (simp_all add: idle_lab4_def next_byte_lab4_def mouse_check_def kbc_status_defs packet_sim_def sim0_def
      port_consts BIT_def)

text \<open>The timer interrupts, the mouse does not.\<close>

definition still_mouse :: "'d env \<Rightarrow> bool" where
  "still_mouse env \<longleftrightarrow>
     (\<forall>d. \<exists>msg d'. driver_receive env d = (OK, msg, d') \<and> ipc_notify msg \<and> from_hardware msg \<and>
        interrupts msg AND 1 \<noteq> 0 \<and> interrupts msg AND 0x1000 = 0)"

lemma async_loop_returns:
  fixes n :: u8
  assumes "still_mouse env" "timer_global_counter t = 0"
  shows "\<exists>t' d'. recv_loop env (\<lambda>(m, t). sdiv_int (sint (timer_global_counter t)) 60 < uint n)
    (async_handle env 0x1000 1) (m, t) d = Some ((m, t'), d') \<and> unat (timer_global_counter t') = 60 * unat n"
proof -
  let ?inv = "\<lambda>(m', t :: timer) (d :: 'a). m' = m \<and> unat (timer_global_counter t) \<le> 60 * unat n"
  have "\<exists>s' d'. recv_loop env (\<lambda>(m, t). sdiv_int (sint (timer_global_counter t)) 60 < uint n)
      (async_handle env 0x1000 1) (m, t) d = Some (s', d') \<and> ?inv s' d' \<and>
      \<not> (\<lambda>(m, t). sdiv_int (sint (timer_global_counter t)) 60 < uint n) s'"
  proof (rule recv_loop_returns [where P = ?inv and
        m = "\<lambda>(m, t) d. 60 * unat n - unat (timer_global_counter t)"], goal_cases)
    case (1 s d)
    obtain t1 where s: "s = (m, t1)" "unat (timer_global_counter t1) < 60 * unat n"
      using 1 idle_seconds [of _ n] by (cases s) auto
    obtain msg d1 where msg: "driver_receive env d = (OK, msg, d1)" "ipc_notify msg" "from_hardware msg"
        "interrupts msg AND 1 \<noteq> 0" "interrupts msg AND 0x1000 = 0"
      using assms(1) unfolding still_mouse_def by blast
    have "unat (timer_global_counter t1 + 1) = unat (timer_global_counter t1) + 1"
      using s(2) u8_bound [of n] by (simp add: unat_word_ariths)
    then show ?case using msg s by (simp add: async_handle_def timer_int_handler_def)
  qed (use assms(2) in simp)
  then show ?thesis using idle_seconds [of _ n] by (auto simp: not_less intro: antisym)
qed

text \<open>
  The asynchronous test always reports a failure: when the mouse is still and every call
  succeeds, \<^verbatim>\<open>mouse_test_async\<close> ends after the idle time, and returns one.
\<close>

theorem mouse_test_async_returns_one:
  assumes "still_mouse env" "\<forall>d. \<exists>d'. mouse_command_loop env junk DISABLE d = Some (0, d')"
  shows "\<exists>m' t' d'. mouse_test_async env junk idle m t d = Some (1, m', t', d') \<and>
    unat (timer_global_counter t') = 60 * unat idle"
proof -
  obtain r hook d1 where sub: "sys_irqsetpolicy env MOUSE_IRQ (IRQ_REENABLE OR IRQ_EXCLUSIVE) MOUSE_IRQ d
      = (r, hook, d1)" by (metis surj_pair)
  obtain r2 hook2 d2 where sub2: "sys_irqsetpolicy env TIMER0_IRQ IRQ_REENABLE TIMER0_IRQ
      (lcf_mouse_enable_data_reporting env d1) = (r2, hook2, d2)" by (metis surj_pair)
  have bits: "BIT (unat (ucast MOUSE_IRQ :: u8)) = (0x1000 :: u32)" "BIT (unat (ucast TIMER0_IRQ :: u8)) = (1 :: u32)"
    by (simp_all add: port_consts BIT_def)
  let ?m = "m\<lparr>hook_id_lab4 := hook\<rparr>" and ?t = "t\<lparr>timer_hook_id := hook2, timer_global_counter := 0\<rparr>"
  obtain t' d3 where loop: "recv_loop env (\<lambda>(m, t). sdiv_int (sint (timer_global_counter t)) 60 < uint idle)
      (async_handle env 0x1000 1) (?m, ?t) d2 = Some ((?m, t'), d3)" "unat (timer_global_counter t') = 60 * unat idle"
    using async_loop_returns [OF assms(1), of ?t idle ?m d2] by auto
  obtain d4 where "mouse_command_loop env junk DISABLE (snd (timer_unsubscribe_int env t' d3)) = Some (0, d4)"
    using assms(2) by blast
  with loop show ?thesis
    by (simp add: mouse_test_async_def mouse_subscribe_int_lab4_def timer_subscribe_int_def sub sub2 bits
        mouse_disable_data_reporting_def split_beta)
qed

lemma fixed_env_disable:
  "\<exists>d'. mouse_command_loop (fixed_env (\<lambda>p. if p = 0x64 then 1 else 0xFA)) (\<lambda>_. 0) DISABLE d = Some (0, d')"
  by (subst mouse_command_loop.simps)
    (simp add: read_ACK_byte_def, subst read_ACK_loop.simps, simp add: util_sys_inb_def port_consts BIT_def)

theorem mouse_test_async_returns_one_witness:
  "\<exists>m' t' d'. mouse_test_async (fixed_env (\<lambda>p. if p = 0x64 then 1 else 0xFA)) (\<lambda>_. 0) 2 idle_lab4
     \<lparr>timer_global_counter = 0, timer_hook_id = 0\<rparr> [] = Some (1, m', t', d') \<and>
    unat (timer_global_counter t') = 60 * unat (2 :: u8)"
  by (rule mouse_test_async_returns_one)
    (simp_all add: still_mouse_def fixed_env_disable, simp add: fixed_env_def)

end
