(* ===== verification/Spec2Isabelle.thy ===== *)
theory Spec2Isabelle
  imports Program Patterns Lab2 Lab4
begin

text \<open>
  A verification of the programs of this repository, written in C for Minix 3: the alien-shooting
  game under \<^verbatim>\<open>proj/src/\<close> and the four laboratories that led to it, under
  \<^verbatim>\<open>lab2/\<close> to \<^verbatim>\<open>lab5/\<close>.

  \<^bold>\<open>The program.\<close> \<^verbatim>\<open>proj_main_loop\<close> (\<^verbatim>\<open>proj.c\<close>) prepares the graphics mode, loads the images,
  switches the mode and runs \<^verbatim>\<open>game_loop\<close> (\<^verbatim>\<open>game.c\<close>), which subscribes the interrupts of keyboard,
  timer and mouse and hands each notification to their handlers until the state of the game is
  \<^verbatim>\<open>EXIT\<close>. A mouse packet moves the crosshair and shoots; a key pauses, edits the name of the player or
  leaves; every second tick of the timer draws a screen (\<^verbatim>\<open>video_card.c\<close>) and advances the aliens
  (\<^verbatim>\<open>game_ih\<close>); in the menu the clock is read (\<^verbatim>\<open>rtc.c\<close>). The ten best scores are kept in
  \<^verbatim>\<open>leaderboard.c\<close>. The parts share their state through globals; here each has a record, and
  \<open>proj\<close> in theory \<open>Proj\<close> holds them all.

  \<^bold>\<open>Theories.\<close>
  \<^item> \<open>Prelude\<close>: C integers as words, C strings and their library routines, lists of events, and the
    contracts \<open>guarded_handler\<close> and \<open>safe_handler\<close> of an interrupt handler that keeps an invariant.
  \<^item> \<open>Minix\<close>: the kernel calls, the LCF library, the random generator and the save file as a record of
    operations \<open>env\<close> on a device of any type. Nothing is assumed of them but what a theorem names.
  \<^item> \<open>Utils\<close>, \<open>Timer\<close>: \<^verbatim>\<open>util/utils.c\<close>, \<^verbatim>\<open>timer/timer.c\<close> and the loop around \<^verbatim>\<open>driver_receive\<close>,
    \<open>recv_loop\<close>, with its contracts \<open>device_loop\<close>, \<open>interrupt_loop\<close> and \<open>loop_simulation\<close>.
  \<^item> \<open>Leaderboard\<close>: \<^verbatim>\<open>leaderboard/leaderboard.c\<close>. The contract \<open>score_table\<close> is a table ranked by score, with
    the insertion of \<^verbatim>\<open>addScore\<close> as its instance: an insertion is the one of the specification on lists.
  \<^item> \<open>Game\<close>: \<^verbatim>\<open>game.h\<close>, and \<^verbatim>\<open>game.c\<close> without its loop. The matrix of aliens is an instance of
    \<open>cell_store\<close>; \<open>game_inv\<close> is the invariant of the state.
  \<^item> \<open>Keyboard\<close>, \<open>Mouse\<close>, \<open>Rtc\<close>: the drivers under \<^verbatim>\<open>keyboard/\<close>, \<^verbatim>\<open>mouse/\<close> and \<^verbatim>\<open>rtc/\<close>, with the event
    handlers that change the game.
  \<^item> \<open>Video\<close>: \<^verbatim>\<open>video_card/video_card.c\<close>, both frame buffers, the drawing loops and all screens.
  \<^item> \<open>Xpm\<close>, \<open>Glyphs\<close>, \<open>Pictures\<close>, \<open>Titles\<close>, \<open>Sprites\<close>: the images of \<^verbatim>\<open>sprites/letters.h\<close>, \<^verbatim>\<open>numbers.h\<close>,
    \<^verbatim>\<open>alien.h\<close>, \<^verbatim>\<open>crosshair.h\<close>, \<^verbatim>\<open>buttons.h\<close> and \<^verbatim>\<open>titles.h\<close>, row by row, those of the last two as runs of equal
    characters, and the tables of sprites made of them.
  \<^item> \<open>Screens\<close>, \<open>Texts\<close>: the specification of the screens as layers painted one over the other, and of a text as
    lines of characters, which the drawing routines of \<open>Video\<close> refine.
  \<^item> \<open>Proj\<close>: \<^verbatim>\<open>game_loop\<close> and \<^verbatim>\<open>proj_main_loop\<close>, in the three parts before, in and after the loop.
  \<^item> \<open>Display\<close>: the handlers of \<open>Proj\<close> keep what a frame needs to show the game, the invariant \<open>display_inv\<close>.
  \<^item> \<open>Program\<close>: the program from its start to its end, which joins \<open>Proj\<close>, \<open>Display\<close> and \<open>Sprites\<close>, under the
    hypotheses \<open>graphics_answers\<close>, \<open>devices_answer\<close> and \<open>esc_comes\<close> on the environment.
  \<^item> \<open>Lab2\<close>, \<open>Lab3\<close>, \<open>Lab4\<close>, \<open>Lab5\<close>: the tests of the laboratories and the drivers in which they differ
    from the project. Files with the text of the project's are modelled by the project's theories.
  \<^item> \<open>Patterns\<close>: which colour the pattern test of lab 5 gives to each pixel.
  \<^item> This theory: the properties of the program as a whole.

  \<^bold>\<open>Conventions.\<close> Numbers keep their C width, so sums and shifts wrap. A result \<^const>\<open>None\<close> is
  undefined behaviour (an access outside an array, a division by zero, a shift too far), a call of
  \<^verbatim>\<open>panic\<close>, or a loop that never ends: a theorem that gives \<^const>\<open>Some\<close> excludes all of them. Loops
  bounded by a counter are total functions; \<^verbatim>\<open>driver_receive\<close> loops and waits for a device, which may
  run for ever, are partial functions into \<^typ>\<open>'a option\<close>, so no fuel is chosen anywhere, and that
  they return is a theorem under a named hypothesis on the device. The cells of the matrix are read and
  written by \<open>cell_read\<close>, \<open>cell_write\<close> and \<open>write_alien\<close>, which give \<^const>\<open>None\<close> outside the matrix; a routine
  that uses them has a counterpart \<open>pure_\<close> without the tests, for the proofs only, and a lemma that the
  two agree on a matrix of the declared size. Uninitialised memory (\<open>junk\<close>, \<open>line\<close>) is an argument, and
  so is \<open>past\<close>, what the read of \<^verbatim>\<open>scores[10]\<close> in \<^verbatim>\<open>addScore\<close> gives: \<^const>\<open>None\<close> when it is a fault, as the
  standard has it, or the byte behind the array. Theorem \<open>addScore_overread\<close> says when the read takes
  place; properties that hold for a given byte only say so. The file is created by \<open>savefile_create\<close>,
  which may fail; \<^verbatim>\<open>fclose\<close> of a file that was not opened is a fault. Where a property counts interrupts
  or packets, the number is one of the device (\<open>counts_messages\<close>, \<open>packet_stream\<close>), not the counter of the
  program.

  \<^bold>\<open>What is shown.\<close>
  \<^item> Safety: every sequence of interrupts keeps the invariants of game, mouse packet, name, table and
    screen, up to 999 points and up to the insertion of a score that reads past the array
    (\<open>Proj\<close>, from \<open>Mouse\<close>, \<open>Keyboard\<close>, \<open>Game\<close>, \<open>Video\<close>), and the program reaches its loop with them
    (\<open>Program\<close>, \<open>Sprites\<close>). Both bounds are real: four characters hold the printed score
    (\<open>end_of_game_overrun\<close>), and the first score in an empty table makes the read (\<open>addScore_overread\<close>).
  \<^item> Progress: the program returns when ESC is pressed at last (here), the game ends when nobody shoots
    (\<open>Game\<close>), the delays and the tests of the labs return.
  \<^item> Behaviour: when the player dies, what a frame makes of each alien, how long the end of the game
    lasts, when aliens appear, what a click kills, where the buttons are, which pixels a sprite sets and
    that in every frame of every run up to 999 points each pixel of the screen is the one of the specification (\<open>Texts\<close>,
    \<open>Display\<close>), what the editor of the name does, the text of the table, the time that is shown,
    the bytes that reach timer and mouse, the pattern of lab 5.
  \<^item> The diagram of the game states.
  \<^item> Agreement: the interrupt test of lab 2 with \<^verbatim>\<open>delay_seconds\<close>, the packets of lab 4 with the
    project's, the sprites of lab 5 with the project's.
  \<^item> Faults, as theorems: the save file that is never written, the score stored modulo 256, the wait
    for the keyboard controller that does not count, the click above the field that shoots, the read
    past the scores, the file that is closed without having been opened; others
    are lemmas of their theories.

  \<^bold>\<open>Not modelled.\<close> \<^verbatim>\<open>main\<close> of each program only starts the LCF framework. Text printed for debugging has no effect
  on the state. The gesture test of lab 4 is commented out in the source. The headers of Minix under
  \<^verbatim>\<open>.minix-src/\<close> are third-party; the calls that are used are fields of \<open>env\<close>. An interrupt never preempts a
  handler, since notifications are received one at a time.
\<close>

section \<open>Properties\<close>

text \<open>C2. The program starts safely. The hypotheses: a graphics mode of 24 bits for each pixel and at least
  768 columns whose size in bytes fits 32 bits; kernel calls that succeed and give as much memory as
  was asked for; a mouse that answers its commands and a clock that answers its reads; a save file that
  is missing or empty (the program writes no other) and can be created; globals whose arrays have their
  declared sizes; and a loader that returns the images of the program. Then \<^verbatim>\<open>proj_main_loop\<close> prepares
  the screen, loads the images, subscribes the interrupts and reads the file without a fault, and
  enters its loop in the menu, with no points and with the invariant of all parts, and on the screen
  of 800 by 600 with the invariant under which every frame shows the game; what it returns is what the
  loop and the two orderly endings after it return.
\<close>

theorem program_starts_safely:
  assumes "graphics_answers env info" "devices_answer env junk" "globals_ok p" "loads_xpm load"
  shows "\<exists>q dq. proj_inv q \<and> game_state (gm q) = MENU \<and> points (gm q) = 0 \<and>
    (XResolution info = 800 \<and> YResolution info = 600 \<longrightarrow> display_inv q) \<and>
    proj_main_loop env (loaded load) past junk line p d = do {
      (p', d') \<leftarrow> recv_loop env (\<lambda>p. game_state (gm p) \<noteq> EXIT)
        (\<lambda>ints p d. game_dispatch env past 0x1000 2 1 ints (p, d)) q dq;
      (r, p', d') \<leftarrow> game_finish env junk p' d';
      main_finish env p' d'
    }"
  using assms by (rule program_reaches_loop)

theorem program_starts_safely_witness:
  "\<exists>q dq. proj_inv q \<and> display_inv q \<and>
    proj_main_loop esc_env (loaded black_load) (\<lambda>_. None) (\<lambda>_. 0) (replicate 48 NUL) start_proj False = do {
      (p', d') \<leftarrow> recv_loop esc_env (\<lambda>p. game_state (gm p) \<noteq> EXIT)
        (\<lambda>ints p d. game_dispatch esc_env (\<lambda>_. None) 0x1000 2 1 ints (p, d)) q dq;
      (r, p', d') \<leftarrow> game_finish esc_env (\<lambda>_. 0) p' d';
      main_finish esc_env p' d'
    }"
  using program_starts_safely [OF esc_env_answers black_load_loads, of "\<lambda>_. None" "replicate 48 NUL" False]
  by (auto simp: sim_mode_def)

text \<open>C3. The program returns. With a graphics mode of 24 bits and at least 768 columns, kernel calls that
  succeed, a mouse and a clock that answer, a missing or empty save file that can be created, globals
  with their declared sizes and the images of the program, and where the byte after the array of scores
  can be read, whatever it is, since inserting a new best score reads it: if the user leaves the game
  with the ESC key after fewer than 999 messages, whatever these are, then \<^verbatim>\<open>proj_main_loop\<close> runs from
  its first to its last line, every access of its own but that one inside its array, with the game left,
  and returns the value of success.
\<close>

theorem program_returns:
  assumes "graphics_answers env info" "devices_answer env junk" "globals_ok p" "loads_xpm load" "esc_comes env left"
  shows "\<exists>p' d'. proj_main_loop env (loaded load) (\<lambda>g. Some (past g)) junk line p d = Some (0, p', d') \<and>
    game_state (gm p') = EXIT \<and> mouse_safe (gm p')"
proof -
  let ?past = "\<lambda>g. Some (past g)"
  obtain q dq where q: "proj_inv q" "points (gm q) = 0"
    and main: "proj_main_loop env (loaded load) ?past junk line p d = do {
      (p', d') \<leftarrow> recv_loop env (\<lambda>p. game_state (gm p) \<noteq> EXIT)
        (\<lambda>ints p d. game_dispatch env ?past 0x1000 2 1 ints (p, d)) q dq;
      (r, p', d') \<leftarrow> game_finish env junk p' d';
      main_finish env p' d'
    }"
    using program_reaches_loop [OF assms(1-4)] by blast
  have "clock_answers env" using assms(2) by (simp add: devices_answer_def)
  then obtain p1 d1 where "recv_loop env (\<lambda>p. game_state (gm p) \<noteq> EXIT)
        (\<lambda>ints p d. game_dispatch env ?past 0x1000 2 1 ints (p, d)) q dq = Some (p1, d1)"
      "proj_inv p1" "game_state (gm p1) = EXIT"
    using game_loop_ends [OF _ assms(5) q(1), of dq past] q(2) esc_comesD(2) [OF assms(5), of dq] by auto
  with main program_ends [OF assms(1,2), of p1 d1] show ?thesis by (auto simp: proj_inv_def)
qed

theorem program_returns_witness:
  "\<exists>p' d'. proj_main_loop esc_env (loaded black_load) (\<lambda>_. Some 0) (\<lambda>_. 0) (replicate 48 NUL) start_proj False =
      Some (0, p', d') \<and> game_state (gm p') = EXIT \<and> mouse_safe (gm p')"
proof -
  have "esc_comes esc_env (\<lambda>_. 0)" using esc_env_key by (auto simp: esc_comes_def io_keeps_def intro: exI [of _ True])
  then show ?thesis by (rule program_returns [OF esc_env_answers black_load_loads])
qed

text \<open>C27. The screens are laid out as intended, with the sizes of the images of the program: in the menu the
  name of the game, the play button and the exit button lie one below the other inside the screen of
  800 by 600, both images of a button at the same place; the titles of the paused and of the finished
  game are centred on it; and a click in the menu starts the game exactly on the play button and
  leaves it exactly on the exit button, their right and lower border line included.
\<close>

theorem menu_layout:
  fixes g0 :: game and v0 :: video and x y :: i16
  assumes "loads_xpm load" "vg_load_sprites (loaded load) g0 v0 = (r, g, v)"
  defines "h \<equiv> g\<lparr>mouse_x := x, mouse_y := y, game_state := MENU\<rparr>"
  shows "covers (game_name_x v) (game_name_y v) (game_name v) = {16..<784} \<times> {150..<278} \<and>
    (\<forall>s \<in> set (play_button v). covers (play_button_xi g) (play_button_yi g) s = {272..<528} \<times> {368..<432}) \<and>
    (\<forall>s \<in> set (exit_button v). covers (exit_button_xi g) (exit_button_yi g) s = {272..<528} \<times> {468..<532}) \<and>
    covers (game_over_x v) (game_over_y v) (game_over v) = {144..<656} \<times> {172..<428} \<and>
    covers (paused_x v) (paused_y v) (paused v) = {16..<784} \<times> {236..<364} \<and>
    game_state (mouse_check_exit_button (mouse_check_play_button h)) =
      (if sint x \<in> {272..528} \<and> sint y \<in> {368..432} then PLAYING
       else if sint x \<in> {272..528} \<and> sint y \<in> {468..532} then EXIT else MENU)"
proof (intro conjI)
  note size = title_images_wf [THEN image_sizes(1) [OF assms(1)]] title_images_wf [THEN image_sizes(2) [OF assms(1)]]
    title_images_wf [THEN image_usizes(1) [OF assms(1)]] title_images_wf [THEN image_usizes(2) [OF assms(1)]]
  have g: "g = place_buttons (loaded load) g0" and v: "v = snd (snd (vg_load_sprites (loaded load) g0 v0))"
    using assms(2) by (simp_all add: vg_load_sprites_def)
  note loaded = g v load_sprites_defs loaded_titles place_buttons_def half_def covers_def game_consts BUTTON_MARGIN_TOP_def
    GAME_MARGIN_TOP_def Let_def size
  show "covers (game_name_x v) (game_name_y v) (game_name v) = {16..<784} \<times> {150..<278}"
    "covers (game_over_x v) (game_over_y v) (game_over v) = {144..<656} \<times> {172..<428}"
    "covers (paused_x v) (paused_y v) (paused v) = {16..<784} \<times> {236..<364}"
    "\<forall>s \<in> set (play_button v). covers (play_button_xi g) (play_button_yi g) s = {272..<528} \<times> {368..<432}"
    "\<forall>s \<in> set (exit_button v). covers (exit_button_xi g) (exit_button_yi g) s = {272..<528} \<times> {468..<532}"
    by (simp_all add: loaded)
  show "game_state (mouse_check_exit_button (mouse_check_play_button h)) =
      (if sint x \<in> {272..528} \<and> sint y \<in> {368..432} then PLAYING
       else if sint x \<in> {272..528} \<and> sint y \<in> {468..532} then EXIT else MENU)"
    by (simp add: mouse_check_exit_button_def mouse_check_play_button_def h_def loaded)
qed

theorem menu_layout_witness:
  "\<exists>g v r. vg_load_sprites (loaded black_load) zero_game wide_video = (r, g, v) \<and>
    covers (paused_x v) (paused_y v) (paused v) = {16..<784} \<times> {236..<364}"
proof -
  obtain r g v where "vg_load_sprites (loaded black_load) zero_game wide_video = (r, g, v)" by (metis surj_pair)
  with menu_layout [OF black_load_loads this] show ?thesis by blast
qed

end
